(* ===== verification/Prelude.thy ===== *)
theory Prelude
  imports Main "HOL-Library.Word" "HOL-Library.Monad_Syntax"
begin

unbundle bit_operations_syntax

text \<open>
  What every component of the development shares: the names of the machine types, the collections
  of simplification rules, the list helpers that stand for the iterator loops of the code
  (\<open>find_idx\<close> is the loop that stops at the first match, \<open>remove_at\<close> is \<open>Vector::erase\<close> at the
  level of lists), raw memory blocks with checked accesses, and the interface \<open>keyed_store\<close> that
  the three levels of the LWM2M object tree implement.
\<close>

type_synonym u8 = "8 word"
type_synonym u16 = "16 word"
type_synonym u32 = "32 word"
type_synonym i32 = "32 word"
type_synonym u64 = "64 word"
type_synonym i64 = "64 word"

named_theorems mem_simps "checked reads and writes of raw memory blocks"
named_theorems getset_simps "field access after an update of the object tree"

section \<open>Lists as the code walks them\<close>

fun find_idx :: "('a \<Rightarrow> bool) \<Rightarrow> 'a list \<Rightarrow> nat option" where
  "find_idx P [] = None"
| "find_idx P (x # xs) = (if P x then Some 0 else map_option Suc (find_idx P xs))"

definition remove_at :: "nat \<Rightarrow> 'a list \<Rightarrow> 'a list" where
  "remove_at i xs = take i xs @ drop (Suc i) xs"

definition update_at :: "nat \<Rightarrow> ('a \<Rightarrow> 'a) \<Rightarrow> 'a list \<Rightarrow> 'a list" where
  "update_at i f xs = (if i < length xs then xs[i := f (xs ! i)] else xs)"

lemma find_idx_None: "find_idx P xs = None \<longleftrightarrow> (\<forall>x\<in>set xs. \<not> P x)"
  by (induction xs) auto

lemma find_idx_Some:
  "find_idx P xs = Some i \<longleftrightarrow> i < length xs \<and> P (xs ! i) \<and> (\<forall>j<i. \<not> P (xs ! j))"
proof (induction xs arbitrary: i)
  case Nil
  then show ?case by simp
next
  case (Cons x xs)
  then show ?case
    by (cases i) (auto simp: less_Suc_eq_0_disj)
qed

lemma find_idx_SomeD: "find_idx P xs = Some i \<Longrightarrow> i < length xs \<and> P (xs ! i)"
  by (simp add: find_idx_Some)

lemma find_idx_append:
  "find_idx P (xs @ ys) =
     (case find_idx P xs of Some i \<Rightarrow> Some i | None \<Rightarrow> map_option ((+) (length xs)) (find_idx P ys))"
proof (induction xs)
  case Nil
  then show ?case by (cases "find_idx P ys") simp_all
next
  case (Cons a xs)
  then show ?case by (cases "find_idx P ys") (auto split: option.splits)
qed

lemma find_idx_map: "find_idx P (map f xs) = find_idx (\<lambda>x. P (f x)) xs"
  by (induction xs) auto

lemma find_idx_cong: "(\<And>x. x \<in> set xs \<Longrightarrow> P x = Q x) \<Longrightarrow> find_idx P xs = find_idx Q xs"
  by (induction xs) auto

lemma find_idx_map_keys: "map k ys = map k xs \<Longrightarrow> find_idx (\<lambda>x. P (k x)) ys = find_idx (\<lambda>x. P (k x)) xs"
  by (metis find_idx_map)

lemma length_remove_at [simp]: "i < length xs \<Longrightarrow> length (remove_at i xs) = length xs - 1"
  by (simp add: remove_at_def)

lemma set_remove_at_subset: "set (remove_at i xs) \<subseteq> set xs"
  unfolding remove_at_def using set_take_subset set_drop_subset by fastforce

lemma map_remove_at: "map f (remove_at i xs) = remove_at i (map f xs)"
  by (simp add: remove_at_def take_map drop_map)

lemma split_at: "i < length xs \<Longrightarrow> xs = take i xs @ xs ! i # drop (Suc i) xs"
  by (rule id_take_nth_drop)

lemma set_split_at: "i < length xs \<Longrightarrow> set xs = set (take i xs) \<union> {xs ! i} \<union> set (drop (Suc i) xs)"
  by (subst split_at [of i xs]) (auto simp del: append_take_drop_id take_append drop_append)

lemma distinct_remove_at: "distinct xs \<Longrightarrow> distinct (remove_at i xs)"
  unfolding remove_at_def by (simp add: set_take_disj_set_drop_if_distinct)

lemma remove_at_distinct_notin:
  assumes "distinct xs" and i: "i < length xs"
  shows "xs ! i \<notin> set (remove_at i xs)"
proof -
  have "distinct (take i xs @ xs ! i # drop (Suc i) xs)"
    using assms split_at [OF i] by simp
  then show ?thesis by (auto simp: remove_at_def)
qed

lemma set_remove_at_distinct:
  assumes "distinct xs" and "i < length xs"
  shows "set (remove_at i xs) = set xs - {xs ! i}"
  using assms remove_at_distinct_notin [OF assms] set_split_at [OF assms(2)]
  by (auto simp: remove_at_def)

lemma length_update_at [simp]: "length (update_at i f xs) = length xs"
  by (simp add: update_at_def)

lemma nth_update_at:
  "j < length xs \<Longrightarrow> update_at i f xs ! j = (if i = j then f (xs ! j) else xs ! j)"
  by (auto simp: update_at_def)

lemma map_update_at_same: "(\<And>x. k (f x) = k x) \<Longrightarrow> map k (update_at i f xs) = map k xs"
  by (auto simp: update_at_def intro: nth_equalityI simp: nth_list_update)

lemma update_at_id: "update_at i (\<lambda>x. x) xs = xs"
  by (simp add: update_at_def)

lemma update_at_update_at: "update_at i f (update_at i g xs) = update_at i (\<lambda>x. f (g x)) xs"
  by (simp add: update_at_def)

lemma update_at_commute: "i \<noteq> j \<Longrightarrow> update_at i f (update_at j g xs) = update_at j g (update_at i f xs)"
  by (auto simp: update_at_def list_update_swap)

section \<open>Raw memory blocks\<close>

text \<open>
  A block returned by \<open>malloc\<close> or \<open>new[]\<close> is a list of cells; a cell that was never written is
  \<open>None\<close>. A read or a write outside the block, and a read of a cell that was never written, is the
  value \<open>None\<close> of the operation: the C++ has undefined behaviour there.
\<close>

type_synonym 'a block = "'a option list"

definition malloc :: "nat \<Rightarrow> 'a block" where
  "malloc n = replicate n None"

definition mem_write :: "nat \<Rightarrow> 'a block \<Rightarrow> 'a block \<Rightarrow> 'a block option" where
  "mem_write at src b =
     (if at + length src \<le> length b then Some (take at b @ src @ drop (at + length src) b) else None)"

definition mem_read :: "nat \<Rightarrow> nat \<Rightarrow> 'a block \<Rightarrow> 'a block option" where
  "mem_read at n b = (if at + n \<le> length b then Some (take n (drop at b)) else None)"

definition load :: "nat \<Rightarrow> 'a block \<Rightarrow> 'a option" where
  "load i b = (if i < length b then b ! i else None)"

definition realloc :: "nat \<Rightarrow> 'a block \<Rightarrow> 'a block" where
  "realloc n b = take n b @ replicate (n - length b) None"

lemma length_malloc [simp]: "length (malloc n) = n"
  by (simp add: malloc_def)

lemma length_realloc [simp]: "length (realloc n b) = n"
  by (simp add: realloc_def)

lemma mem_write_Some [mem_simps]:
  "mem_write at src b = Some b' \<longleftrightarrow>
     at + length src \<le> length b \<and> b' = take at b @ src @ drop (at + length src) b"
  by (auto simp: mem_write_def)

lemma mem_write_malloc: "length src = n \<Longrightarrow> mem_write 0 src (malloc n) = Some src"
  by (simp add: mem_write_def malloc_def)

lemma mem_write_length: "mem_write at src b = Some b' \<Longrightarrow> length b' = length b"
  by (auto simp: mem_simps)

lemma mem_read_Some [mem_simps]:
  "mem_read at n b = Some c \<longleftrightarrow> at + n \<le> length b \<and> c = take n (drop at b)"
  by (auto simp: mem_read_def)

lemma take_realloc [simp]: "k \<le> n \<Longrightarrow> k \<le> length b \<Longrightarrow> take k (realloc n b) = take k b"
  by (simp add: realloc_def)

section \<open>The keyed store interface\<close>

text \<open>
  An object keeps its instances, an instance its resources and a multiple resource its instances in
  a \<open>Vector\<close> of pointers, and each finds an element by walking the vector until the key matches,
  creates an element only when the walk finds none, and removes the first match. The locale states
  this contract once: \<open>items\<close> is the vector, \<open>key\<close> what the walk compares, \<open>ok\<close> the keys a create
  accepts in a state. Every client fact about uniqueness and lookup is proved here and reached by
  interpretation in the theory of the component.
\<close>

locale keyed_store =
  fixes items :: "'s \<Rightarrow> 'e list"
    and key :: "'e \<Rightarrow> 'k"
    and ok :: "'s \<Rightarrow> 'k \<Rightarrow> bool"
    and lookup :: "'s \<Rightarrow> 'k \<Rightarrow> nat option"
    and create :: "'s \<Rightarrow> 'k \<Rightarrow> 's"
    and remove :: "'s \<Rightarrow> 'k \<Rightarrow> 's \<times> bool"
  assumes lookup_items: "lookup s k = find_idx (\<lambda>e. key e = k) (items s)"
    and create_new: "ok s k \<Longrightarrow> lookup s k = None \<Longrightarrow> \<exists>e. key e = k \<and> items (create s k) = items s @ [e]"
    and create_old: "\<not> ok s k \<or> lookup s k \<noteq> None \<Longrightarrow> create s k = s"
    and remove_found: "lookup s k = Some i \<Longrightarrow> items (fst (remove s k)) = remove_at i (items s) \<and> snd (remove s k)"
    and remove_absent: "lookup s k = None \<Longrightarrow> remove s k = (s, False)"
begin

definition keys :: "'s \<Rightarrow> 'k list" where
  "keys s = map key (items s)"

lemma lookup_None: "lookup s k = None \<longleftrightarrow> k \<notin> set (keys s)"
  by (auto simp: lookup_items find_idx_None keys_def)

lemma lookup_nth: "lookup s k = Some i \<Longrightarrow> i < length (items s) \<and> key (items s ! i) = k"
  by (simp add: lookup_items find_idx_Some)

lemma keys_create: "ok s k \<Longrightarrow> lookup s k = None \<Longrightarrow> keys (create s k) = keys s @ [k]"
  using create_new [of s k] by (auto simp: keys_def)

lemma create_distinct: "distinct (keys s) \<Longrightarrow> distinct (keys (create s k))"
proof (cases "ok s k \<and> lookup s k = None")
  case True
  then show "distinct (keys s) \<Longrightarrow> ?thesis" by (simp add: keys_create lookup_None)
next
  case False
  then show "distinct (keys s) \<Longrightarrow> ?thesis" using create_old [of s k] by auto
qed

lemma lookup_create: "ok s k \<Longrightarrow> lookup s k = None \<Longrightarrow> lookup (create s k) k = Some (length (items s))"
  using create_new [of s k] by (auto simp: lookup_items find_idx_append split: option.splits)

lemma lookup_create_other: "k' \<noteq> k \<Longrightarrow> lookup (create s k) k' = lookup s k'"
proof (cases "ok s k \<and> lookup s k = None")
  case True
  then obtain e where "key e = k" "items (create s k) = items s @ [e]" using create_new by blast
  then show "k' \<noteq> k \<Longrightarrow> ?thesis" by (simp add: lookup_items find_idx_append split: option.splits)
next
  case False
  then show ?thesis using create_old [of s k] by auto
qed

lemma create_idem: "create (create s k) k = create s k"
proof (cases "ok s k \<and> lookup s k = None")
  case True
  then show ?thesis using lookup_create [of s k] create_old [of "create s k" k] by auto
next
  case False
  then show ?thesis using create_old [of s k] by auto
qed

lemma keys_remove: "lookup s k = Some i \<Longrightarrow> keys (fst (remove s k)) = remove_at i (keys s)"
  using remove_found [of s k i] by (simp add: keys_def map_remove_at)

lemma remove_distinct: "distinct (keys s) \<Longrightarrow> distinct (keys (fst (remove s k)))"
  by (cases "lookup s k") (auto simp: keys_remove remove_absent distinct_remove_at)

lemma set_keys_remove: "distinct (keys s) \<Longrightarrow> set (keys (fst (remove s k))) = set (keys s) - {k}"
proof (cases "lookup s k")
  case None
  then show ?thesis by (simp add: remove_absent lookup_None)
next
  case (Some i)
  then have "i < length (keys s)" "keys s ! i = k" using lookup_nth by (auto simp: keys_def)
  then show "distinct (keys s) \<Longrightarrow> ?thesis" by (simp add: keys_remove Some set_remove_at_distinct)
qed

lemma lookup_remove: "distinct (keys s) \<Longrightarrow> lookup (fst (remove s k)) k = None"
  by (simp add: lookup_None set_keys_remove)

lemma lookup_remove_other_None:
  "distinct (keys s) \<Longrightarrow> k' \<noteq> k \<Longrightarrow> lookup (fst (remove s k)) k' = None \<longleftrightarrow> lookup s k' = None"
  by (simp add: lookup_None set_keys_remove)

lemma remove_reports: "snd (remove s k) \<longleftrightarrow> lookup s k \<noteq> None"
  by (cases "lookup s k") (auto simp: remove_absent remove_found)

end

end
