(* ===== verification/Vector.thy ===== *)
theory Vector
  imports Prelude
begin

text \<open>
  \<open>m2m::Vector\<close> of \<open>mbed-client/m2mvector.h\<close>: a block of \<open>_capacity\<close> elements of which the first
  \<open>_size\<close> are in use. Sizes and positions are \<open>int\<close> as in the code (they stay far below the range of
  a 32-bit \<open>int\<close>); an element that was only default-constructed is \<open>None\<close>, and an access outside the
  block is the result \<open>None\<close>. The locale \<open>sequence\<close> states what the client code relies on, the
  interpretation at the end of the theory discharges it for this class.
\<close>

section \<open>The class\<close>

record 'a vector =
  vec_arr :: "'a block"
  vec_size :: int
  vec_capacity :: int

definition MIN_CAPACITY :: int where "MIN_CAPACITY = 1"

definition vec_new :: "int \<Rightarrow> 'a vector" where
  "vec_new init_size =
     (let cap = (if init_size \<ge> MIN_CAPACITY then init_size else MIN_CAPACITY)
      in \<lparr>vec_arr = malloc (nat cap), vec_size = 0, vec_capacity = cap\<rparr>)"

definition vec_assign :: "'a vector \<Rightarrow> 'a vector option" where
  "vec_assign rhs = do {
     c \<leftarrow> mem_read 0 (nat (vec_size rhs)) (vec_arr rhs);
     b \<leftarrow> mem_write 0 c (malloc (nat (vec_capacity rhs)));
     Some \<lparr>vec_arr = b, vec_size = vec_size rhs, vec_capacity = vec_capacity rhs\<rparr> }"

definition vec_reserve :: "int \<Rightarrow> 'a vector \<Rightarrow> 'a vector option" where
  "vec_reserve new_capacity v =
     (if new_capacity < vec_size v then Some v else do {
        c \<leftarrow> mem_read 0 (nat (vec_size v)) (vec_arr v);
        b \<leftarrow> mem_write 0 c (malloc (nat new_capacity));
        Some (v\<lparr>vec_arr := b, vec_capacity := new_capacity\<rparr>) })"

definition vec_resize :: "int \<Rightarrow> 'a vector \<Rightarrow> 'a vector option" where
  "vec_resize new_size v = do {
     v' \<leftarrow> (if new_size > vec_capacity v then vec_reserve (new_size * 2 + 1) v else Some v);
     Some (v'\<lparr>vec_size := new_size\<rparr>) }"

definition vec_get :: "int \<Rightarrow> 'a vector \<Rightarrow> 'a option" where
  "vec_get idx v = (if idx < 0 then None else load (nat idx) (vec_arr v))"

definition vec_empty :: "'a vector \<Rightarrow> bool" where
  "vec_empty v \<longleftrightarrow> vec_size v = 0"

definition vec_push_back :: "'a \<Rightarrow> 'a vector \<Rightarrow> 'a vector option" where
  "vec_push_back x v = do {
     v' \<leftarrow> (if vec_size v = vec_capacity v then vec_reserve (2 * vec_capacity v + 1) v else Some v);
     if vec_size v' < 0 then None else do {
       b \<leftarrow> mem_write (nat (vec_size v')) [Some x] (vec_arr v');
       Some (v'\<lparr>vec_arr := b, vec_size := vec_size v' + 1\<rparr>) } }"

definition vec_pop_back :: "'a vector \<Rightarrow> 'a vector" where
  "vec_pop_back v = v\<lparr>vec_size := vec_size v - 1\<rparr>"

definition vec_clear :: "'a vector \<Rightarrow> 'a vector" where
  "vec_clear v = v\<lparr>vec_size := 0\<rparr>"

definition vec_back :: "'a vector \<Rightarrow> 'a option" where
  "vec_back v = vec_get (vec_size v - 1) v"

text \<open>The loop of \<open>erase\<close>, which moves the tail one place down.\<close>

function shift_down :: "nat \<Rightarrow> int \<Rightarrow> 'a block \<Rightarrow> 'a block option" where
  "shift_down k sz b =
     (if int k + 1 < sz then
        (if k + 1 < length b then shift_down (k + 1) sz (b[k := b ! (k + 1)]) else None)
      else Some b)"
  by pat_completeness auto
termination
  by (relation "measure (\<lambda>(k, sz, b). nat (sz - int k))") auto

declare shift_down.simps [simp del]

definition vec_erase :: "int \<Rightarrow> 'a vector \<Rightarrow> 'a vector option" where
  "vec_erase position v =
     (if position < vec_size v then
        (if position < 0 then None else do {
           b \<leftarrow> shift_down (nat position) (vec_size v) (vec_arr v);
           Some (v\<lparr>vec_arr := b, vec_size := vec_size v - 1\<rparr>) })
      else Some v)"

section \<open>The interface\<close>

text \<open>
  The walk \<open>for (i = 0; i < v.size(); i++) if (P(v[i])) break;\<close> of the client code, over any
  sequence with a size and checked access; the inner \<open>None\<close> says that no element matches.
\<close>

function seq_scan :: "('v \<Rightarrow> int) \<Rightarrow> (int \<Rightarrow> 'v \<Rightarrow> 'a option) \<Rightarrow> ('a \<Rightarrow> bool) \<Rightarrow> 'v \<Rightarrow> int \<Rightarrow> int option option" where
  "seq_scan len get P v i =
     (if i < len v then
        (case get i v of None \<Rightarrow> None
         | Some x \<Rightarrow> if P x then Some (Some i) else seq_scan len get P v (i + 1))
      else Some None)"
  by pat_completeness auto
termination
  by (relation "measure (\<lambda>(len, get, P, v, i). nat (len v - i))") auto

declare seq_scan.simps [simp del]

locale sequence =
  fixes rep :: "'v \<Rightarrow> 'a list \<Rightarrow> bool"
    and len :: "'v \<Rightarrow> int"
    and get :: "int \<Rightarrow> 'v \<Rightarrow> 'a option"
    and push :: "'a \<Rightarrow> 'v \<Rightarrow> 'v option"
    and erase :: "int \<Rightarrow> 'v \<Rightarrow> 'v option"
  assumes rep_len: "rep v xs \<Longrightarrow> len v = int (length xs)"
    and rep_get: "rep v xs \<Longrightarrow> i < length xs \<Longrightarrow> get (int i) v = Some (xs ! i)"
    and rep_push: "rep v xs \<Longrightarrow> \<exists>v'. push x v = Some v' \<and> rep v' (xs @ [x])"
    and rep_erase: "rep v xs \<Longrightarrow> i < length xs \<Longrightarrow> \<exists>v'. erase (int i) v = Some v' \<and> rep v' (remove_at i xs)"
begin

lemma scan_from:
  assumes "rep v xs" and "i \<le> length xs"
  shows "seq_scan len get P v (int i) =
    Some (map_option (\<lambda>k. int (i + k)) (find_idx P (drop i xs)))"
  using assms(2)
proof (induction "length xs - i" arbitrary: i)
  case 0
  then show ?case using rep_len [OF assms(1)] by (simp add: seq_scan.simps [of len get P v "int i"])
next
  case (Suc n)
  then have i: "i < length xs" by simp
  have d: "drop i xs = xs ! i # drop (Suc i) xs" using i by (simp add: Cons_nth_drop_Suc)
  have "seq_scan len get P v (int (Suc i)) =
      Some (map_option (\<lambda>k. int (Suc i + k)) (find_idx P (drop (Suc i) xs)))"
    by (rule Suc.hyps(1)) (use Suc.hyps(2) i in auto)
  then show ?case
    using i rep_len [OF assms(1)] rep_get [OF assms(1) i]
    by (simp add: seq_scan.simps [of len get P v "int i"] d option.map_comp comp_def ac_simps)
qed

lemma scan_rep: "rep v xs \<Longrightarrow> seq_scan len get P v 0 = Some (map_option int (find_idx P xs))"
  using scan_from [of v xs 0 P] by simp

lemma push_scan:
  assumes "rep v xs" and "find_idx P xs = None" and "P x"
  shows "\<exists>v'. push x v = Some v' \<and> seq_scan len get P v' 0 = Some (Some (len v))"
proof -
  obtain v' where v': "push x v = Some v'" "rep v' (xs @ [x])" using rep_push [OF assms(1)] by blast
  then show ?thesis using assms rep_len [OF assms(1)] by (simp add: scan_rep find_idx_append)
qed

lemma erase_scan:
  assumes "rep v xs" and "find_idx P xs = Some i"
  shows "\<exists>v'. erase (int i) v = Some v' \<and> rep v' (remove_at i xs) \<and> len v' = len v - 1"
proof -
  have i: "i < length xs" using find_idx_SomeD [OF assms(2)] by simp
  then show ?thesis using rep_erase [OF assms(1) i] rep_len [OF assms(1)] rep_len by fastforce
qed

end

section \<open>The class implements the interface\<close>

definition vec_rep :: "'a vector \<Rightarrow> 'a list \<Rightarrow> bool" where
  "vec_rep v xs \<longleftrightarrow> vec_size v = int (length xs) \<and> vec_capacity v = int (length (vec_arr v)) \<and>
     (\<exists>junk. vec_arr v = map Some xs @ junk)"

lemma vec_new_rep: "vec_rep (vec_new n) []"
  by (simp add: vec_new_def vec_rep_def Let_def MIN_CAPACITY_def)

lemma vec_get_rep: "vec_rep v xs \<Longrightarrow> i < length xs \<Longrightarrow> vec_get (int i) v = Some (xs ! i)"
  by (auto simp: vec_rep_def vec_get_def load_def nth_append)

lemma vec_reserve_rep:
  assumes "vec_rep v xs"
  shows "\<exists>v'. vec_reserve n v = Some v' \<and> vec_rep v' xs \<and>
    (n \<ge> vec_size v \<longrightarrow> vec_capacity v' = n) \<and> (n < vec_size v \<longrightarrow> v' = v)"
proof (cases "n < vec_size v")
  case True
  then show ?thesis using assms by (simp add: vec_reserve_def)
next
  case False
  have n: "length xs \<le> nat n" "0 \<le> n" using False assms by (auto simp: vec_rep_def)
  have rd: "mem_read 0 (length xs) (vec_arr v) = Some (map Some xs)"
    using assms by (auto simp: vec_rep_def mem_simps)
  have wr: "mem_write 0 (map Some xs) (malloc (nat n)) = Some (map Some xs @ replicate (nat n - length xs) None)"
    using n by (simp add: mem_simps malloc_def)
  show ?thesis using False assms n by (simp add: vec_reserve_def rd wr vec_rep_def)
qed

lemma vec_assign_rep:
  assumes "vec_rep v xs"
  shows "\<exists>v'. vec_assign v = Some v' \<and> vec_rep v' xs \<and> vec_capacity v' = vec_capacity v"
proof -
  have le: "length xs \<le> nat (vec_capacity v)" "vec_size v = int (length xs)" "0 \<le> vec_capacity v"
    using assms by (auto simp: vec_rep_def)
  have rd: "mem_read 0 (length xs) (vec_arr v) = Some (map Some xs)"
    using assms by (auto simp: vec_rep_def mem_simps)
  have wr: "mem_write 0 (map Some xs) (malloc (nat (vec_capacity v))) =
      Some (map Some xs @ replicate (nat (vec_capacity v) - length xs) None)"
    using le by (simp add: mem_simps malloc_def)
  show ?thesis using le by (simp add: vec_assign_def rd wr vec_rep_def)
qed

lemma vec_push_back_rep:
  assumes "vec_rep v xs"
  shows "\<exists>v'. vec_push_back x v = Some v' \<and> vec_rep v' (xs @ [x])"
proof -
  have r0: "vec_size v = int (length xs)" "int (length xs) \<le> vec_capacity v" "0 \<le> vec_capacity v"
    using assms by (auto simp: vec_rep_def)
  obtain w where w: "(if vec_size v = vec_capacity v then vec_reserve (2 * vec_capacity v + 1) v else Some v) = Some w"
    "vec_rep w xs" "vec_size w < vec_capacity w"
  proof (cases "vec_size v = vec_capacity v")
    case True
    obtain w where "vec_reserve (2 * vec_capacity v + 1) v = Some w" "vec_rep w xs"
      "vec_capacity w = 2 * vec_capacity v + 1"
      using vec_reserve_rep [OF assms, of "2 * vec_capacity v + 1"] r0 by auto
    then show ?thesis using that True r0 by (auto simp: vec_rep_def)
  next
    case False
    then show ?thesis using that assms r0 by simp
  qed
  obtain junk where j: "vec_arr w = map Some xs @ junk" "vec_size w = int (length xs)"
    "vec_capacity w = int (length (vec_arr w))" using w(2) by (auto simp: vec_rep_def)
  then obtain y junk' where y: "junk = y # junk'" using w(3) by (cases junk) auto
  have wr: "mem_write (length xs) [Some x] (vec_arr w) = Some (map Some (xs @ [x]) @ junk')"
    using j y by (simp add: mem_simps)
  have "vec_push_back x v = Some (w\<lparr>vec_arr := map Some (xs @ [x]) @ junk', vec_size := vec_size w + 1\<rparr>)"
    unfolding vec_push_back_def w(1) using wr j(2) by simp
  then show ?thesis using j y by (simp add: vec_rep_def)
qed

lemma shift_down_spec:
  "k < length xs \<Longrightarrow> \<exists>junk'. shift_down k (int (length xs)) (map Some xs @ junk) =
     Some (map Some (remove_at k xs) @ junk')"
proof (induction "length xs - k" arbitrary: k xs rule: less_induct)
  case less
  show ?case
  proof (cases "Suc k < length xs")
    case True
    let ?ys = "xs[k := xs ! Suc k]"
    have "remove_at (Suc k) ?ys = remove_at k xs"
      using True by (simp add: remove_at_def take_Suc_conv_app_nth upd_conv_take_nth_drop nth_append
          Cons_nth_drop_Suc [symmetric])
    moreover have "(map Some xs @ junk)[k := (map Some xs @ junk) ! Suc k] = map Some ?ys @ junk"
      using True by (simp add: nth_append list_update_append map_update)
    ultimately show ?thesis
      using less.hyps [of ?ys "Suc k"] True by (auto simp: shift_down.simps [of k])
  next
    case False
    then have k: "Suc k = length xs" using less.prems by simp
    then have "xs = remove_at k xs @ [xs ! k]"
      using take_Suc_conv_app_nth [of k xs] by (simp add: remove_at_def)
    then have "map Some xs @ junk = map Some (remove_at k xs) @ Some (xs ! k) # junk"
      by (metis append.assoc append_Cons append_Nil list.simps(8,9) map_append)
    then show ?thesis using k by (auto simp: shift_down.simps [of k])
  qed
qed

lemma vec_erase_size: "vec_erase i v = Some v' \<Longrightarrow> vec_size v' = (if i < vec_size v then vec_size v - 1 else vec_size v)"
  by (auto simp: vec_erase_def bind_eq_Some_conv split: if_splits)

lemma length_shift_down: "shift_down k n b = Some b' \<Longrightarrow> length b' = length b"
proof (induction k n b rule: shift_down.induct)
  case (1 k n b)
  show ?case
  proof (cases "int k + 1 < n")
    case True
    then show ?thesis using 1 by (auto simp: shift_down.simps [of k n b] split: if_splits)
  next
    case False
    then show ?thesis using 1(2) by (simp add: shift_down.simps [of k n b])
  qed
qed

lemma vec_erase_rep:
  assumes "vec_rep v xs" and "i < length xs"
  shows "\<exists>v'. vec_erase (int i) v = Some v' \<and> vec_rep v' (remove_at i xs)"
proof -
  obtain junk where j: "vec_arr v = map Some xs @ junk" "vec_size v = int (length xs)"
    "vec_capacity v = int (length (vec_arr v))" using assms(1) by (auto simp: vec_rep_def)
  obtain junk' where s: "shift_down i (int (length xs)) (map Some xs @ junk) = Some (map Some (remove_at i xs) @ junk')"
    using shift_down_spec [OF assms(2)] by blast
  have "length (map Some (remove_at i xs) @ junk') = length (vec_arr v)"
    using length_shift_down [OF s] j(1) by simp
  then show ?thesis using assms(2) j s by (auto simp: vec_erase_def vec_rep_def)
qed

interpretation vec: sequence vec_rep vec_size vec_get vec_push_back vec_erase
proof unfold_locales
  show "vec_rep v xs \<Longrightarrow> vec_size v = int (length xs)" for v :: "'a vector" and xs
    by (simp add: vec_rep_def)
qed (simp_all add: vec_get_rep vec_push_back_rep vec_erase_rep)

lemma vec_clear_rep: "vec_rep v xs \<Longrightarrow> vec_rep (vec_clear v) []"
  by (auto simp: vec_rep_def vec_clear_def)

lemma vec_pop_back_rep: "vec_rep v (xs @ [x]) \<Longrightarrow> vec_rep (vec_pop_back v) xs \<and> vec_back v = Some x"
  using vec_get_rep [of v "xs @ [x]" "length xs"]
  by (auto simp: vec_rep_def vec_pop_back_def vec_back_def)

lemma vec_erase_beyond: "vec_size v \<le> i \<Longrightarrow> vec_erase i v = Some v"
  by (simp add: vec_erase_def)

section \<open>Properties\<close>

text \<open>C40: a vector that holds the list \<open>xs\<close> behaves like it: an element inside is read, a new
  element goes to the end whatever the capacity, \<open>erase\<close> removes one element and keeps the order of the
  others, a copy and a reservation hold the same list, \<open>clear\<close> the empty one; no access leaves the array.\<close>

theorem vector_refines_list:
  assumes "vec_rep v xs" and "i < length xs"
  shows "vec_get (int i) v = Some (xs ! i) \<and>
    (\<exists>v'. vec_push_back x v = Some v' \<and> vec_rep v' (xs @ [x])) \<and>
    (\<exists>v'. vec_erase (int i) v = Some v' \<and> vec_rep v' (remove_at i xs)) \<and>
    (\<exists>v'. vec_assign v = Some v' \<and> vec_rep v' xs) \<and>
    (\<exists>v'. vec_reserve n v = Some v' \<and> vec_rep v' xs) \<and>
    vec_rep (vec_clear v) []"
  using vec.rep_get [OF assms] vec.rep_push [OF assms(1)] vec.rep_erase [OF assms] vec_assign_rep [OF assms(1)]
    vec_reserve_rep [OF assms(1)] vec_clear_rep [OF assms(1)] by blast

theorem vector_refines_list_witness:
  "\<exists>v. vec_push_back (7 :: int) (vec_new 1) = Some v \<and> vec_get 0 v = Some 7 \<and>
     (\<exists>v'. vec_erase 0 v = Some v' \<and> vec_rep v' [])"
proof -
  obtain v where v: "vec_push_back (7 :: int) (vec_new 1) = Some v" "vec_rep v [7]"
    using vec_push_back_rep [OF vec_new_rep] by fastforce
  then show ?thesis using vector_refines_list [OF v(2), of 0] by (auto simp: remove_at_def)
qed

end
