(* ===== verification/CallbackStorage.thy ===== *)
theory CallbackStorage
  imports Vector
begin

text \<open>
  \<open>M2MCallbackStorage\<close> of \<open>source/m2mcallbackstorage.cpp\<close>: the associations of an object, a callback
  pointer and a callback type, kept in one shared \<open>Vector\<close>. Objects and callbacks are addresses, the
  null pointer is 0. The state is the static instance, absent before the first use. Every operation
  walks the vector of the theory Vector through its accessors; \<open>None\<close> would be an access outside it.
\<close>

datatype callback_type =
    M2MBaseValueUpdatedCallback
  | M2MBaseValueUpdatedCallback2
  | M2MResourceInstanceExecuteCallback
  | M2MResourceInstanceExecuteCallback2
  | M2MResourceInstanceIncomingBlockMessageCallback
  | M2MResourceInstanceOutgoingBlockMessageCallback
  | M2MResourceInstanceM2MResourceCallback
  | M2MResourceInstanceNotificationSentCallback
  | M2MResourceInstanceNotificationSentCallback2

record association =
  as_object :: nat
  as_callback :: nat
  as_type :: callback_type

type_synonym callbacks = "association vector"

definition callbacks_get_instance :: "callbacks option \<Rightarrow> callbacks" where
  "callbacks_get_instance inst = (case inst of None \<Rightarrow> vec_new MIN_CAPACITY | Some v \<Rightarrow> v)"

definition do_callback_exists :: "nat \<Rightarrow> nat \<Rightarrow> callback_type \<Rightarrow> callbacks \<Rightarrow> bool option" where
  "do_callback_exists obj cb ty v =
     (if \<not> vec_empty v then do {
        r \<leftarrow> seq_scan vec_size vec_get (\<lambda>a. as_object a = obj \<and> as_callback a = cb \<and> as_type a = ty) v 0;
        Some (r \<noteq> None) }
      else Some False)"

definition do_add_callback :: "nat \<Rightarrow> nat \<Rightarrow> callback_type \<Rightarrow> callbacks \<Rightarrow> (callbacks \<times> bool) option" where
  "do_add_callback obj cb ty v = do {
     ex \<leftarrow> do_callback_exists obj cb ty v;
     if \<not> ex then do {
       v' \<leftarrow> vec_push_back \<lparr>as_object = obj, as_callback = cb, as_type = ty\<rparr> v;
       Some (v', True) }
     else Some (v, False) }"

definition add_callback ::
  "nat \<Rightarrow> nat \<Rightarrow> callback_type \<Rightarrow> callbacks option \<Rightarrow> (callbacks option \<times> bool) option" where
  "add_callback obj cb ty inst = do {
     (v, r) \<leftarrow> do_add_callback obj cb ty (callbacks_get_instance inst);
     Some (Some v, r) }"

text \<open>The loop of \<open>do_remove_callbacks\<close>: the index stays where an element was erased.\<close>

function purge_loop :: "nat \<Rightarrow> callbacks \<Rightarrow> int \<Rightarrow> callbacks option" where
  "purge_loop obj v i =
     (if i < vec_size v then
        (case vec_get i v of None \<Rightarrow> None
         | Some a \<Rightarrow>
             if as_object a = obj
             then (case vec_erase i v of None \<Rightarrow> None | Some v' \<Rightarrow> purge_loop obj v' i)
             else purge_loop obj v (i + 1))
      else Some v)"
  by pat_completeness auto
termination
  by (relation "measure (\<lambda>(obj, v, i). nat (vec_size v - i))") (auto simp: vec_erase_size)

declare purge_loop.simps [simp del]

definition remove_callbacks :: "nat \<Rightarrow> callbacks option \<Rightarrow> callbacks option option" where
  "remove_callbacks obj inst =
     (case inst of None \<Rightarrow> Some None | Some v \<Rightarrow> map_option Some (purge_loop obj v 0))"

definition do_remove_callback :: "nat \<Rightarrow> callback_type \<Rightarrow> callbacks \<Rightarrow> (callbacks \<times> nat) option" where
  "do_remove_callback obj ty v = do {
     r \<leftarrow> seq_scan vec_size vec_get (\<lambda>a. as_object a = obj \<and> as_type a = ty) v 0;
     case r of None \<Rightarrow> Some (v, 0)
     | Some i \<Rightarrow> do {
         a \<leftarrow> vec_get i v;
         v' \<leftarrow> vec_erase i v;
         Some (v', as_callback a) } }"

definition remove_callback ::
  "nat \<Rightarrow> callback_type \<Rightarrow> callbacks option \<Rightarrow> (callbacks option \<times> nat) option" where
  "remove_callback obj ty inst =
     (case inst of None \<Rightarrow> Some (None, 0)
      | Some v \<Rightarrow> do { (v', r) \<leftarrow> do_remove_callback obj ty v; Some (Some v', r) })"

definition do_get_callback :: "nat \<Rightarrow> callback_type \<Rightarrow> callbacks \<Rightarrow> nat option" where
  "do_get_callback obj ty v =
     (if \<not> vec_empty v then do {
        r \<leftarrow> seq_scan vec_size vec_get (\<lambda>a. as_object a = obj \<and> as_type a = ty) v 0;
        case r of None \<Rightarrow> Some 0 | Some i \<Rightarrow> map_option as_callback (vec_get i v) }
      else Some 0)"

definition get_callback ::
  "nat \<Rightarrow> callback_type \<Rightarrow> callbacks option \<Rightarrow> (callbacks option \<times> nat) option" where
  "get_callback obj ty inst = do {
     let v = callbacks_get_instance inst;
     cb \<leftarrow> do_get_callback obj ty v;
     Some (Some v, cb) }"

definition does_callback_exist ::
  "nat \<Rightarrow> callback_type \<Rightarrow> callbacks option \<Rightarrow> (callbacks option \<times> bool) option" where
  "does_callback_exist obj ty inst = do {
     (inst', cb) \<leftarrow> get_callback obj ty inst;
     Some (inst', cb \<noteq> 0) }"

section \<open>The storage as a list of associations\<close>

definition cb_rep :: "callbacks option \<Rightarrow> association list \<Rightarrow> bool" where
  "cb_rep inst xs \<longleftrightarrow> (case inst of None \<Rightarrow> xs = [] | Some v \<Rightarrow> vec_rep v xs)"

definition cb_lookup :: "nat \<Rightarrow> callback_type \<Rightarrow> association list \<Rightarrow> nat" where
  "cb_lookup obj ty xs =
     (case find (\<lambda>a. as_object a = obj \<and> as_type a = ty) xs of None \<Rightarrow> 0 | Some a \<Rightarrow> as_callback a)"

lemma find_by_idx: "find P xs = map_option ((!) xs) (find_idx P xs)"
proof (induction xs)
  case (Cons x xs)
  then show ?case by (simp add: option.map_comp comp_def)
qed simp

lemma cb_rep_instance: "cb_rep inst xs \<Longrightarrow> vec_rep (callbacks_get_instance inst) xs"
  by (auto simp: cb_rep_def callbacks_get_instance_def vec_new_rep split: option.splits)

lemma vec_empty_rep: "vec_rep v xs \<Longrightarrow> vec_empty v \<longleftrightarrow> xs = []"
  by (auto simp: vec_empty_def vec_rep_def)

lemma do_callback_exists_rep:
  "vec_rep v xs \<Longrightarrow> do_callback_exists obj cb ty v =
     Some (\<lparr>as_object = obj, as_callback = cb, as_type = ty\<rparr> \<in> set xs)"
proof -
  assume r: "vec_rep v xs"
  let ?a = "\<lparr>as_object = obj, as_callback = cb, as_type = ty\<rparr>"
  have e: "as_object a = obj \<and> as_callback a = cb \<and> as_type a = ty \<longleftrightarrow> a = ?a" for a :: association
    by (cases a) simp
  have "find_idx (\<lambda>a. a = ?a) xs \<noteq> None \<longleftrightarrow> ?a \<in> set xs" by (auto simp: find_idx_None)
  then show ?thesis
    using r by (auto simp: do_callback_exists_def e vec_empty_rep vec.scan_rep)
qed

definition cb_insert :: "association \<Rightarrow> association list \<Rightarrow> association list" where
  "cb_insert a xs = (if a \<in> set xs then xs else xs @ [a])"

lemma add_callback_rep:
  assumes "cb_rep inst xs"
  shows "\<exists>inst'. add_callback obj cb ty inst =
      Some (inst', \<lparr>as_object = obj, as_callback = cb, as_type = ty\<rparr> \<notin> set xs) \<and>
    cb_rep inst' (cb_insert \<lparr>as_object = obj, as_callback = cb, as_type = ty\<rparr> xs)"
proof -
  let ?a = "\<lparr>as_object = obj, as_callback = cb, as_type = ty\<rparr>"
  note r = cb_rep_instance [OF assms]
  obtain v' where "vec_push_back ?a (callbacks_get_instance inst) = Some v'" "vec_rep v' (xs @ [?a])"
    using vec_push_back_rep [OF r] by blast
  then show ?thesis
    using r by (simp add: add_callback_def do_add_callback_def do_callback_exists_rep cb_rep_def cb_insert_def)
qed

lemma get_callback_rep:
  assumes "cb_rep inst xs"
  shows "\<exists>inst'. get_callback obj ty inst = Some (inst', cb_lookup obj ty xs) \<and> cb_rep inst' xs"
proof -
  note r = cb_rep_instance [OF assms]
  have "do_get_callback obj ty (callbacks_get_instance inst) = Some (cb_lookup obj ty xs)"
  proof (cases "find_idx (\<lambda>a. as_object a = obj \<and> as_type a = ty) xs")
    case None
    then show ?thesis using r by (simp add: do_get_callback_def vec_empty_rep vec.scan_rep cb_lookup_def find_by_idx)
  next
    case (Some i)
    then have "i < length xs" using find_idx_SomeD by blast
    then show ?thesis
      using r Some by (auto simp: do_get_callback_def vec_empty_rep vec.scan_rep cb_lookup_def find_by_idx vec_get_rep)
  qed
  then show ?thesis using r by (simp add: get_callback_def cb_rep_def)
qed

lemma remove_callback_rep:
  assumes "cb_rep inst xs"
  shows "\<exists>inst'. remove_callback obj ty inst = Some (inst', cb_lookup obj ty xs) \<and>
    cb_rep inst' (case find_idx (\<lambda>a. as_object a = obj \<and> as_type a = ty) xs of
                    None \<Rightarrow> xs | Some i \<Rightarrow> remove_at i xs)"
proof (cases inst)
  case None
  then show ?thesis using assms by (simp add: remove_callback_def cb_rep_def cb_lookup_def)
next
  case (Some v)
  then have r: "vec_rep v xs" using assms by (simp add: cb_rep_def)
  let ?P = "\<lambda>a. as_object a = obj \<and> as_type a = ty"
  show ?thesis
  proof (cases "find_idx ?P xs")
    case None
    then show ?thesis
      using r Some by (simp add: remove_callback_def do_remove_callback_def vec.scan_rep cb_rep_def cb_lookup_def find_by_idx)
  next
    case (Some i)
    then have i: "i < length xs" using find_idx_SomeD by blast
    obtain v' where "vec_erase (int i) v = Some v'" "vec_rep v' (remove_at i xs)"
      using vec_erase_rep [OF r i] by blast
    then show ?thesis
      using r Some \<open>inst = Some v\<close> i
      by (simp add: remove_callback_def do_remove_callback_def vec.scan_rep cb_rep_def cb_lookup_def
          find_by_idx vec_get_rep)
  qed
qed

lemma purge_loop_rep:
  "vec_rep v xs \<Longrightarrow> i \<le> length xs \<Longrightarrow> \<exists>v'. purge_loop obj v (int i) = Some v' \<and>
     vec_rep v' (take i xs @ List.filter (\<lambda>a. as_object a \<noteq> obj) (drop i xs))"
proof (induction "length xs - i" arbitrary: v xs i rule: less_induct)
  case less
  note sz = vec.rep_len [OF less.prems(1)]
  show ?case
  proof (cases "i < length xs")
    case False
    then show ?thesis using less.prems sz by (simp add: purge_loop.simps [of obj v])
  next
    case True
    have d: "drop i xs = xs ! i # drop (Suc i) xs" using True by (simp add: Cons_nth_drop_Suc)
    note g = vec_get_rep [OF less.prems(1) True]
    show ?thesis
    proof (cases "as_object (xs ! i) = obj")
      case hit: True
      obtain v' where v': "vec_erase (int i) v = Some v'" "vec_rep v' (remove_at i xs)"
        using vec_erase_rep [OF less.prems(1) True] by blast
      have eq: "take i (remove_at i xs) = take i xs" "drop i (remove_at i xs) = drop (Suc i) xs"
        using True by (simp_all add: remove_at_def)
      have "\<exists>w. purge_loop obj v' (int i) = Some w \<and>
          vec_rep w (take i xs @ List.filter (\<lambda>a. as_object a \<noteq> obj) (drop (Suc i) xs))"
        using less.hyps [OF _ v'(2), of i] True eq by simp
      then show ?thesis using True hit d g sz v'(1) by (simp add: purge_loop.simps [of obj v])
    next
      case miss: False
      have "\<exists>w. purge_loop obj v (int (Suc i)) = Some w \<and>
          vec_rep w (take (Suc i) xs @ List.filter (\<lambda>a. as_object a \<noteq> obj) (drop (Suc i) xs))"
        using less.hyps [OF _ less.prems(1), of "Suc i"] True by simp
      then show ?thesis using True miss d g sz
        by (simp add: purge_loop.simps [of obj v] take_Suc_conv_app_nth add.commute)
    qed
  qed
qed

lemma remove_callbacks_rep:
  assumes "cb_rep inst xs"
  shows "\<exists>inst'. remove_callbacks obj inst = Some inst' \<and>
    cb_rep inst' (List.filter (\<lambda>a. as_object a \<noteq> obj) xs)"
  using assms purge_loop_rep [of _ xs 0 obj]
  by (fastforce simp: cb_rep_def remove_callbacks_def split: option.splits)

section \<open>The storage as a map\<close>

text \<open>
  What the nodes rely on: as long as an association is only added where the object has none of that type, the
  storage is a map from objects and types to callbacks. The locale states it, the interpretation
  discharges it for the storage.
\<close>

locale callback_map =
  fixes rel :: "'s \<Rightarrow> (nat \<times> 't \<rightharpoonup> nat) \<Rightarrow> bool"
    and add :: "nat \<Rightarrow> nat \<Rightarrow> 't \<Rightarrow> 's \<Rightarrow> ('s \<times> bool) option"
    and del :: "nat \<Rightarrow> 't \<Rightarrow> 's \<Rightarrow> ('s \<times> nat) option"
    and get :: "nat \<Rightarrow> 't \<Rightarrow> 's \<Rightarrow> ('s \<times> nat) option"
  assumes rel_add: "rel s f \<Longrightarrow> f (obj, ty) = None \<Longrightarrow>
      \<exists>s'. add obj cb ty s = Some (s', True) \<and> rel s' (f((obj, ty) \<mapsto> cb))"
    and rel_del: "rel s f \<Longrightarrow>
      \<exists>s'. del obj ty s = Some (s', case f (obj, ty) of None \<Rightarrow> 0 | Some p \<Rightarrow> p) \<and> rel s' (f((obj, ty) := None))"
    and rel_get: "rel s f \<Longrightarrow>
      \<exists>s'. get obj ty s = Some (s', case f (obj, ty) of None \<Rightarrow> 0 | Some p \<Rightarrow> p) \<and> rel s' f"
begin

lemma replace:
  assumes "rel s f"
  shows "\<exists>s1 s2. del obj ty s = Some (s1, case f (obj, ty) of None \<Rightarrow> 0 | Some p \<Rightarrow> p) \<and>
    add obj cb ty s1 = Some (s2, True) \<and> rel s2 (f((obj, ty) \<mapsto> cb))"
proof -
  obtain s1 where s1: "del obj ty s = Some (s1, case f (obj, ty) of None \<Rightarrow> 0 | Some p \<Rightarrow> p)"
    "rel s1 (f((obj, ty) := None))" using rel_del [OF assms] by blast
  then show ?thesis using rel_add [OF s1(2), of obj ty cb] by auto
qed

end

definition as_key :: "association \<Rightarrow> nat \<times> callback_type" where
  "as_key a = (as_object a, as_type a)"

definition as_map :: "association list \<Rightarrow> (nat \<times> callback_type \<rightharpoonup> nat)" where
  "as_map xs = map_of (map (\<lambda>a. (as_key a, as_callback a)) xs)"

lemma as_map_simps [simp]:
  "as_map [] = Map.empty"
  "as_map (a # xs) = (as_map xs)(as_key a \<mapsto> as_callback a)"
  by (simp_all add: as_map_def)

lemma as_map_None: "as_map xs k = None \<longleftrightarrow> k \<notin> as_key ` set xs"
  by (induction xs) auto

lemma as_map_snoc: "as_map xs (as_key a) = None \<Longrightarrow> as_map (xs @ [a]) = (as_map xs)(as_key a \<mapsto> as_callback a)"
  by (induction xs) (auto simp: fun_upd_twist split: if_splits)

definition cb_map :: "callbacks option \<Rightarrow> (nat \<times> callback_type \<rightharpoonup> nat) \<Rightarrow> bool" where
  "cb_map inst f \<longleftrightarrow> (\<exists>xs. cb_rep inst xs \<and> distinct (map as_key xs) \<and>
     f = as_map xs)"

lemma cb_lookup_map: "cb_lookup obj ty xs = (case as_map xs (obj, ty) of None \<Rightarrow> 0 | Some p \<Rightarrow> p)"
  by (induction xs) (auto simp: cb_lookup_def as_key_def)

lemma as_map_remove:
  "distinct (map as_key xs) \<Longrightarrow>
   as_map (case find_idx (\<lambda>a. as_object a = obj \<and> as_type a = ty) xs of None \<Rightarrow> xs | Some i \<Rightarrow> remove_at i xs) k =
   (if k = (obj, ty) then None else as_map xs k)"
proof (induction xs)
  case (Cons x xs)
  let ?P = "\<lambda>a. as_object a = obj \<and> as_type a = ty"
  show ?case
  proof (cases "?P x")
    case True
    then have "as_map xs (obj, ty) = None" using Cons.prems by (auto simp: as_map_None as_key_def)
    then show ?thesis using True by (auto simp: remove_at_def as_key_def)
  next
    case False
    then have "as_key x \<noteq> (obj, ty)" by (auto simp: as_key_def)
    then show ?thesis
      using False Cons by (cases "find_idx ?P xs") (auto simp: remove_at_def)
  qed
qed simp

interpretation cbs: callback_map cb_map add_callback remove_callback get_callback
proof unfold_locales
  fix s f obj ty and cb :: nat
  assume "cb_map s f"
  then obtain xs where xs: "cb_rep s xs" "distinct (map as_key xs)"
    "f = as_map xs" by (auto simp: cb_map_def)
  show "\<exists>s'. get_callback obj ty s = Some (s', case f (obj, ty) of None \<Rightarrow> 0 | Some p \<Rightarrow> p) \<and> cb_map s' f"
    using get_callback_rep [OF xs(1), of obj ty] xs by (auto simp: cb_lookup_map cb_map_def)
  let ?P = "\<lambda>a. as_object a = obj \<and> as_type a = ty"
  let ?ys = "case find_idx ?P xs of None \<Rightarrow> xs | Some i \<Rightarrow> remove_at i xs"
  have "distinct (map as_key ?ys)"
    using xs(2) by (auto simp: map_remove_at distinct_remove_at split: option.splits)
  moreover have "as_map ?ys = f((obj, ty) := None)"
    using as_map_remove [OF xs(2), of obj ty] xs(3) by (simp add: fun_eq_iff)
  ultimately show "\<exists>s'. remove_callback obj ty s = Some (s', case f (obj, ty) of None \<Rightarrow> 0 | Some p \<Rightarrow> p) \<and>
      cb_map s' (f((obj, ty) := None))"
    using remove_callback_rep [OF xs(1), of obj ty] xs(3) unfolding cb_map_def cb_lookup_map by metis
  assume n: "f (obj, ty) = None"
  let ?a = "\<lparr>as_object = obj, as_callback = cb, as_type = ty\<rparr>"
  have k: "as_key ?a = (obj, ty)" "as_callback ?a = cb" by (simp_all add: as_key_def)
  have a: "(obj, ty) \<notin> as_key ` set xs" using n xs(3) by (simp add: as_map_None)
  then have "cb_insert ?a xs = xs @ [?a]" "?a \<notin> set xs" 
    using k imageI [of ?a "set xs" as_key] by (auto simp: cb_insert_def)
  moreover have "as_map (xs @ [?a]) = f((obj, ty) \<mapsto> cb)" using as_map_snoc [of xs ?a] n xs(3) k by simp
  moreover have "distinct (map as_key (xs @ [?a]))" using xs(2) a k by simp
  ultimately show "\<exists>s'. add_callback obj cb ty s = Some (s', True) \<and> cb_map s' (f((obj, ty) \<mapsto> cb))"
    using add_callback_rep [OF xs(1), of obj cb ty] unfolding cb_map_def by metis
qed

lemma cb_map_empty: "cb_map None Map.empty"
  by (auto simp: cb_map_def cb_rep_def)

section \<open>The operations together\<close>

text \<open>The storage is a list of associations in which no association occurs twice: adding
  one reports whether it is new, a lookup returns the callback of the first association of an object and a type
  or null, removing that association removes only it, and removing an object removes all its associations
  and no other; the storage that does not exist yet is the empty list.\<close>

lemma callback_storage_refines:
  assumes "cb_rep inst xs" and "distinct xs"
  shows "(let a = \<lparr>as_object = obj, as_callback = cb, as_type = ty\<rparr> in
      \<exists>inst'. add_callback obj cb ty inst = Some (inst', a \<notin> set xs) \<and>
        cb_rep inst' (cb_insert a xs) \<and> distinct (cb_insert a xs)) \<and>
    (\<exists>inst'. get_callback obj ty inst = Some (inst', cb_lookup obj ty xs) \<and> cb_rep inst' xs) \<and>
    (\<exists>inst' ys. remove_callback obj ty inst = Some (inst', cb_lookup obj ty xs) \<and> cb_rep inst' ys \<and>
        (case find_idx (\<lambda>a. as_object a = obj \<and> as_type a = ty) xs of
           None \<Rightarrow> ys = xs | Some i \<Rightarrow> distinct ys \<and> set ys = set xs - {xs ! i})) \<and>
    (\<exists>inst'. remove_callbacks obj inst = Some inst' \<and>
        cb_rep inst' (List.filter (\<lambda>a. as_object a \<noteq> obj) xs))"
proof (intro conjI)
  let ?P = "\<lambda>a. as_object a = obj \<and> as_type a = ty"
  show "\<exists>inst' ys. remove_callback obj ty inst = Some (inst', cb_lookup obj ty xs) \<and> cb_rep inst' ys \<and>
      (case find_idx ?P xs of None \<Rightarrow> ys = xs | Some i \<Rightarrow> distinct ys \<and> set ys = set xs - {xs ! i})"
    using remove_callback_rep [OF assms(1), of obj ty] find_idx_SomeD [of ?P xs] assms(2)
    by (fastforce simp: distinct_remove_at set_remove_at_distinct split: option.splits)
qed (use add_callback_rep [OF assms(1), of obj cb ty] get_callback_rep [OF assms(1), of obj ty]
    remove_callbacks_rep [OF assms(1), of obj] assms(2) in \<open>auto simp: cb_insert_def Let_def\<close>)

lemma callback_storage_refines_witness:
  "\<exists>inst'. add_callback 5 9 M2MBaseValueUpdatedCallback None = Some (inst', True) \<and>
     cb_rep inst' [\<lparr>as_object = 5, as_callback = 9, as_type = M2MBaseValueUpdatedCallback\<rparr>]"
  using callback_storage_refines [of None "[]" 5 9 M2MBaseValueUpdatedCallback]
  by (auto simp: cb_rep_def cb_insert_def Let_def)

end
