(* ===== verification/CLib.thy ===== *)
theory CLib
  imports Prelude "HOL-Library.Char_ord"
begin

text \<open>
  The part of the C standard library the sources use on strings: \<open>strlen\<close>, \<open>strcmp\<close>, \<open>strrchr\<close>,
  \<open>isdigit\<close>, \<open>strtol\<close> and the conversions built on it. A \<open>const char*\<close> argument is the list of the
  characters before its terminating NUL. The widths are those of the 32-bit targets the client is
  built for (\<open>long\<close> and \<open>size_t\<close> have 32 bits, \<open>long long\<close> has 64); the conversions saturate as
  \<open>strtol\<close> and \<open>strtoll\<close> do.
\<close>

abbreviation NUL :: char where "NUL \<equiv> CHR 0x00"

definition cstr :: "string \<Rightarrow> string" where
  "cstr s = takeWhile (\<lambda>c. c \<noteq> NUL) s"

definition no_nul :: "string \<Rightarrow> bool" where
  "no_nul s \<longleftrightarrow> NUL \<notin> set s"

lemma cstr_no_nul [simp]: "no_nul (cstr s)"
  unfolding no_nul_def cstr_def using set_takeWhileD by fastforce

lemma cstr_id [simp]: "no_nul s \<Longrightarrow> cstr s = s"
  unfolding no_nul_def cstr_def by (subst takeWhile_eq_all_conv) auto

lemma length_cstr_le: "length (cstr s) \<le> length s"
  by (simp add: cstr_def length_takeWhile_le)

lemma no_nul_append [simp]: "no_nul (s @ t) \<longleftrightarrow> no_nul s \<and> no_nul t"
  by (auto simp: no_nul_def)

lemma no_nul_Nil [simp]: "no_nul []"
  by (simp add: no_nul_def)

lemma no_nul_Cons [simp]: "no_nul (c # s) \<longleftrightarrow> c \<noteq> NUL \<and> no_nul s"
  by (auto simp: no_nul_def)

section \<open>Bytes and characters\<close>

definition byte_of_char :: "char \<Rightarrow> u8" where
  "byte_of_char c = word_of_nat (of_char c)"

definition char_of_byte :: "u8 \<Rightarrow> char" where
  "char_of_byte b = char_of (unat b)"

abbreviation bytes_of :: "string \<Rightarrow> u8 list" where "bytes_of \<equiv> map byte_of_char"
abbreviation chars_of :: "u8 list \<Rightarrow> string" where "chars_of \<equiv> map char_of_byte"

lemma of_char_less: "(of_char c :: nat) < 256"
  by (fact nat_of_char_less_256)

lemma char_of_byte_of_char [simp]: "char_of_byte (byte_of_char c) = c"
  using of_char_less [of c] by (simp add: char_of_byte_def byte_of_char_def unat_of_nat)

lemma byte_of_char_of_byte [simp]: "byte_of_char (char_of_byte b) = b"
proof -
  have "unat b < 256" using unsigned_less [of b, where ?'a=nat] by simp
  then show ?thesis by (simp add: char_of_byte_def byte_of_char_def)
qed

lemma chars_of_bytes_of [simp]: "chars_of (bytes_of s) = s"
  by (simp add: comp_def)

lemma bytes_of_chars_of [simp]: "bytes_of (chars_of s) = s"
  by (simp add: comp_def)

section \<open>Comparison and search\<close>

text \<open>\<open>strcmp\<close> as the sign of the first difference, characters compared as \<open>unsigned char\<close>.\<close>

fun strcmp :: "string \<Rightarrow> string \<Rightarrow> int" where
  "strcmp [] [] = 0"
| "strcmp [] (y # ys) = -1"
| "strcmp (x # xs) [] = 1"
| "strcmp (x # xs) (y # ys) = (if x = y then strcmp xs ys else if x < y then -1 else 1)"

definition strncmp :: "string \<Rightarrow> string \<Rightarrow> nat \<Rightarrow> int" where
  "strncmp s t n = strcmp (take n s) (take n t)"

lemma strcmp_eq_0 [simp]: "strcmp s t = 0 \<longleftrightarrow> s = t"
  by (induction s t rule: strcmp.induct) auto

text \<open>\<open>strrchr\<close>: the index of the last occurrence; the terminating NUL counts as part of the string.\<close>

fun last_index :: "'a \<Rightarrow> 'a list \<Rightarrow> nat option" where
  "last_index c [] = None"
| "last_index c (x # xs) =
     (case last_index c xs of Some i \<Rightarrow> Some (Suc i) | None \<Rightarrow> if x = c then Some 0 else None)"

definition strrchr :: "string \<Rightarrow> char \<Rightarrow> nat option" where
  "strrchr s c = last_index c (s @ [NUL])"

lemma last_index_None: "last_index c xs = None \<longleftrightarrow> c \<notin> set xs"
  by (induction xs) (auto split: option.splits)

lemma last_index_Some:
  "last_index c xs = Some i \<Longrightarrow> i < length xs \<and> xs ! i = c \<and> c \<notin> set (drop (Suc i) xs)"
  by (induction xs arbitrary: i) (auto split: option.splits if_splits simp: last_index_None)

lemma last_index_append_notin: "c \<notin> set ys \<Longrightarrow> last_index c (xs @ ys) = last_index c xs"
proof (induction xs)
  case Nil
  then show ?case by (simp add: last_index_None)
next
  case (Cons x xs)
  then show ?case by simp
qed

section \<open>Numbers\<close>

definition isdigit :: "char \<Rightarrow> bool" where
  "isdigit c \<longleftrightarrow> CHR ''0'' \<le> c \<and> c \<le> CHR ''9''"

definition isspace :: "char \<Rightarrow> bool" where
  "isspace c \<longleftrightarrow> c \<in> set [CHR '' '', CHR 0x09, CHR 0x0A, CHR 0x0B, CHR 0x0C, CHR 0x0D]"

definition digit_val :: "char \<Rightarrow> nat" where
  "digit_val c = of_char c - 48"

definition digit_char :: "nat \<Rightarrow> char" where
  "digit_char d = char_of (d + 48)"

lemma char_le_of_char: "c \<le> d \<longleftrightarrow> (of_char c :: nat) \<le> of_char d"
  by (simp add: less_eq_char_def)

lemma isdigit_iff: "isdigit c \<longleftrightarrow> 48 \<le> (of_char c :: nat) \<and> (of_char c :: nat) \<le> 57"
  by (simp add: isdigit_def char_le_of_char)

lemma of_char_digit_char: "d < 10 \<Longrightarrow> (of_char (digit_char d) :: nat) = d + 48"
  by (simp add: digit_char_def)

lemma digit_char_simps [simp]:
  "d < 10 \<Longrightarrow> isdigit (digit_char d)" "d < 10 \<Longrightarrow> digit_val (digit_char d) = d"
  by (simp_all add: isdigit_iff digit_val_def of_char_digit_char)

lemma digit_not: "isdigit c \<Longrightarrow> c \<noteq> CHR ''-'' \<and> c \<noteq> CHR ''+'' \<and> \<not> isspace c \<and> c \<noteq> NUL \<and> c \<noteq> CHR ''/''"
  by (auto simp: isdigit_iff isspace_def)

text \<open>The digits at the head of a string: their decimal value and what follows them.\<close>

fun dec_digits :: "nat \<Rightarrow> string \<Rightarrow> nat \<times> string" where
  "dec_digits acc [] = (acc, [])"
| "dec_digits acc (c # cs) = (if isdigit c then dec_digits (10 * acc + digit_val c) cs else (acc, c # cs))"

text \<open>\<open>strtol\<close> in base 10 before saturation: sign, magnitude, and the position \<open>*endptr\<close> points at.\<close>

definition strtol_parse :: "string \<Rightarrow> bool \<times> nat \<times> string" where
  "strtol_parse s =
     (let s1 = dropWhile isspace s;
          neg = (s1 \<noteq> [] \<and> hd s1 = CHR ''-'');
          s2 = (if s1 \<noteq> [] \<and> (hd s1 = CHR ''-'' \<or> hd s1 = CHR ''+'') then tl s1 else s1)
      in if s2 \<noteq> [] \<and> isdigit (hd s2)
         then (let (v, rest) = dec_digits 0 s2 in (neg, v, rest))
         else (False, 0, s))"

definition clamp :: "int \<Rightarrow> int \<Rightarrow> int \<Rightarrow> int" where
  "clamp lo hi v = max lo (min hi v)"

definition strto_signed :: "nat \<Rightarrow> string \<Rightarrow> int" where
  "strto_signed bits s =
     (case strtol_parse s of (neg, v, _) \<Rightarrow>
        clamp (- (2 ^ (bits - 1))) (2 ^ (bits - 1) - 1) (if neg then - int v else int v))"

definition atoi :: "string \<Rightarrow> int" where "atoi s = strto_signed 32 s"
definition atol :: "string \<Rightarrow> int" where "atol s = strto_signed 32 s"
definition atoll :: "string \<Rightarrow> int" where "atoll s = strto_signed 64 s"

definition strtoul :: "string \<Rightarrow> int" where
  "strtoul s =
     (case strtol_parse s of (neg, v, _) \<Rightarrow>
        if int v > 2 ^ 32 - 1 then 2 ^ 32 - 1 else if neg then (2 ^ 32 - int v) mod 2 ^ 32 else int v)"

lemma dec_digits_digits:
  "\<forall>c\<in>set ds. isdigit c \<Longrightarrow> rest = [] \<or> \<not> isdigit (hd rest) \<Longrightarrow>
     dec_digits acc (ds @ rest) = (foldl (\<lambda>a c. 10 * a + digit_val c) acc ds, rest)"
proof (induction ds arbitrary: acc)
  case Nil
  then show ?case by (cases rest) auto
next
  case (Cons d ds)
  then show ?case by simp
qed

lemma dec_digits_all:
  "\<forall>c\<in>set ds. isdigit c \<Longrightarrow> dec_digits acc ds = (foldl (\<lambda>a c. 10 * a + digit_val c) acc ds, [])"
  using dec_digits_digits [of ds "[]" acc] by simp

lemma strtol_parse_digits:
  assumes "ds \<noteq> []" and "\<forall>c\<in>set ds. isdigit c"
  shows "strtol_parse ds = (False, foldl (\<lambda>a c. 10 * a + digit_val c) 0 ds, [])"
    and "strtol_parse (CHR ''-'' # ds) = (True, foldl (\<lambda>a c. 10 * a + digit_val c) 0 ds, [])"
proof -
  obtain d ds' where ds: "ds = d # ds'" using assms(1) by (cases ds) auto
  have d: "isdigit d" using assms(2) ds by simp
  have nd: "\<not> isspace d" "d \<noteq> CHR ''-''" "d \<noteq> CHR ''+''" using digit_not [OF d] by auto
  show "strtol_parse ds = (False, foldl (\<lambda>a c. 10 * a + digit_val c) 0 ds, [])"
    using nd d dec_digits_all [OF assms(2), of 0] by (simp add: strtol_parse_def ds)
  show "strtol_parse (CHR ''-'' # ds) = (True, foldl (\<lambda>a c. 10 * a + digit_val c) 0 ds, [])"
    using nd d dec_digits_all [OF assms(2), of 0] by (simp add: strtol_parse_def ds isspace_def)
qed

lemma clamp_bounds: "lo \<le> hi \<Longrightarrow> lo \<le> clamp lo hi v \<and> clamp lo hi v \<le> hi"
  by (simp add: clamp_def)

lemma clamp_id: "lo \<le> v \<Longrightarrow> v \<le> hi \<Longrightarrow> clamp lo hi v = v"
  by (simp add: clamp_def)

lemma atoi_bounds: "- (2 ^ 31) \<le> atoi s \<and> atoi s < 2 ^ 31"
proof -
  obtain neg v r where p: "strtol_parse s = (neg, v, r)" by (cases "strtol_parse s") auto
  show ?thesis
    using clamp_bounds [of "- (2 ^ 31)" "2 ^ 31 - 1" "if neg then - int v else int v"]
    by (simp add: atoi_def strto_signed_def p)
qed

end
