(* ===== verification/MString.thy ===== *)
theory MString
  imports CLib
begin

text \<open>
  \<open>m2m::String\<close> of \<open>mbed-client/m2mstring.h\<close> and \<open>source/m2mstring.cpp\<close>: a heap block \<open>p\<close> with
  \<open>size_\<close> used characters, a terminating NUL and \<open>allocated_\<close> bytes. Every access to a block is a
  checked access, so an operation that would read or write outside its block, or read a byte that
  was never written, has the value \<open>None\<close>. The second half shows that under the representation
  invariant no operation faults but \<open>erase\<close> with a range past the end, and that each operation is
  the obvious operation on the contents. Allocation is taken to succeed, as the code does.
\<close>

section \<open>Representation\<close>

record mstring =
  str_block :: "char block"
  str_size :: nat
  str_alloc :: nat

definition SIZE_MOD :: nat where "SIZE_MOD = 2 ^ 32"

text \<open>The C string that starts at the front of a block; \<open>None\<close> when no NUL ends it.\<close>

fun read_cstr :: "char block \<Rightarrow> string option" where
  "read_cstr [] = None"
| "read_cstr (None # b) = None"
| "read_cstr (Some c # b) = (if c = NUL then Some [] else map_option ((#) c) (read_cstr b))"

definition str_strdup :: "string \<Rightarrow> mstring" where
  "str_strdup s = \<lparr>str_block = map Some (s @ [NUL]), str_size = length s, str_alloc = length s + 1\<rparr>"

definition str_default :: mstring where
  "str_default = str_strdup []"

definition str_copy :: "mstring \<Rightarrow> mstring option" where
  "str_copy s = do {
     c \<leftarrow> mem_read 0 (str_size s + 1) (str_block s);
     b \<leftarrow> mem_write 0 c (malloc (str_size s + 1));
     Some \<lparr>str_block = b, str_size = str_size s, str_alloc = str_size s + 1\<rparr> }"

definition str_of_buf :: "string \<Rightarrow> nat \<Rightarrow> mstring option" where
  "str_of_buf buf n = do {
     c \<leftarrow> mem_read 0 n (map Some buf);
     b \<leftarrow> mem_write 0 c (malloc (n + 1));
     b' \<leftarrow> mem_write n [Some NUL] b;
     Some \<lparr>str_block = b', str_size = n, str_alloc = n + 1\<rparr> }"

definition str_c_str :: "mstring \<Rightarrow> string option" where
  "str_c_str s = read_cstr (str_block s)"

section \<open>Storage management\<close>

definition str_new_realloc :: "nat \<Rightarrow> mstring \<Rightarrow> mstring" where
  "str_new_realloc n s = (if n > 0 then s\<lparr>str_block := realloc n (str_block s)\<rparr> else s)"

definition str_reserve :: "nat \<Rightarrow> mstring \<Rightarrow> mstring" where
  "str_reserve n s =
     (if n \<ge> str_alloc s then (str_new_realloc (n + 1) s)\<lparr>str_alloc := n + 1\<rparr> else s)"

definition str_resize :: "nat \<Rightarrow> char \<Rightarrow> mstring \<Rightarrow> mstring option" where
  "str_resize n c s =
     (if n < str_size s then do {
        b \<leftarrow> mem_write n [Some NUL] (str_block s);
        Some (s\<lparr>str_block := b, str_size := n\<rparr>) }
      else if n > str_size s then do {
        let s1 = str_reserve n s;
        b \<leftarrow> mem_write (str_size s) (replicate (n - str_size s) (Some c)) (str_block s1);
        b' \<leftarrow> mem_write n [Some NUL] b;
        Some (s1\<lparr>str_block := b', str_size := n\<rparr>) }
      else Some s)"

definition str_clear :: "mstring \<Rightarrow> mstring option" where
  "str_clear s = do {
     b \<leftarrow> mem_write 0 [Some NUL] (str_block s);
     Some (s\<lparr>str_block := b, str_size := 0\<rparr>) }"

definition str_swap :: "mstring \<Rightarrow> mstring \<Rightarrow> mstring \<times> mstring" where
  "str_swap s t = (t, s)"

section \<open>Assignment and concatenation\<close>

text \<open>
  \<open>operator=(const char*)\<close> on a string that is not the object's own buffer, and
  \<open>operator=(const String&)\<close>, which passes the buffer of the other string as a C string.
\<close>

definition str_assign_cstr :: "string \<Rightarrow> mstring \<Rightarrow> mstring" where
  "str_assign_cstr t s = s\<lparr>str_block := map Some (t @ [NUL]), str_size := length t, str_alloc := length t + 1\<rparr>"

definition str_assign :: "mstring \<Rightarrow> mstring \<Rightarrow> mstring option" where
  "str_assign t s = map_option (\<lambda>c. str_assign_cstr c s) (str_c_str t)"

definition str_append_string :: "mstring \<Rightarrow> mstring \<Rightarrow> mstring option" where
  "str_append_string t s =
     (if str_size t > 0 then do {
        let s1 = str_reserve (str_size s + str_size t) s;
        c \<leftarrow> mem_read 0 (str_size t + 1) (str_block t);
        b \<leftarrow> mem_write (str_size s) c (str_block s1);
        Some (s1\<lparr>str_block := b, str_size := str_size s + str_size t\<rparr>) }
      else Some s)"

definition str_append_cstr :: "string \<Rightarrow> mstring \<Rightarrow> mstring option" where
  "str_append_cstr t s =
     (let lens = length t in
      if lens > 0 then
        (if str_size s + lens + 1 \<le> str_alloc s then do {
           b \<leftarrow> mem_write (str_size s) (map Some (t @ [NUL])) (str_block s);
           Some (s\<lparr>str_block := b, str_size := str_size s + lens\<rparr>) }
         else do {
           s0 \<leftarrow> str_copy s;
           let s2 = str_reserve (str_size s + lens) s0;
           b \<leftarrow> mem_write (str_size s) (map Some (t @ [NUL])) (str_block s2);
           Some (fst (str_swap s (s2\<lparr>str_block := b, str_size := str_size s + lens\<rparr>))) })
      else Some s)"

definition str_push_back :: "char \<Rightarrow> mstring \<Rightarrow> mstring option" where
  "str_push_back c s = do {
     let s1 = (if str_size s = str_alloc s - 1
               then (let more = (str_alloc s * 3) div 2;
                         more' = (if more < 4 then 4 else more)
                     in str_reserve (str_size s + more') s)
               else s);
     b \<leftarrow> mem_write (str_size s) [Some c] (str_block s1);
     b' \<leftarrow> mem_write (str_size s + 1) [Some NUL] b;
     Some (s1\<lparr>str_block := b', str_size := str_size s + 1\<rparr>) }"

text \<open>
  \<open>append(str, n)\<close> stops at the end of the C string, \<open>append_raw(str, n)\<close> copies \<open>n\<close> bytes of the
  buffer; a null pointer is \<open>None\<close>.
\<close>

definition str_append_raw :: "string option \<Rightarrow> nat \<Rightarrow> mstring \<Rightarrow> mstring option" where
  "str_append_raw buf n s =
     (case buf of None \<Rightarrow> Some s | Some t \<Rightarrow>
      if n > 0 then do {
        let newlen = str_size s + n;
        let s1 = str_reserve newlen s;
        c \<leftarrow> mem_read 0 n (map Some t);
        b \<leftarrow> mem_write (str_size s) c (str_block s1);
        b' \<leftarrow> mem_write newlen [Some NUL] b;
        Some (s1\<lparr>str_block := b', str_size := newlen\<rparr>) }
      else Some s)"

definition str_append :: "string option \<Rightarrow> nat \<Rightarrow> mstring \<Rightarrow> mstring option" where
  "str_append buf n s =
     (case buf of None \<Rightarrow> Some s | Some t \<Rightarrow>
      if n > 0 then do {
        let lens = length t;
        let n' = (if n > lens then lens else n);
        let newlen = str_size s + n';
        let s1 = str_reserve newlen s;
        c \<leftarrow> mem_read 0 n' (map Some (t @ [NUL]));
        b \<leftarrow> mem_write (str_size s) c (str_block s1);
        b' \<leftarrow> mem_write newlen [Some NUL] b;
        Some (s1\<lparr>str_block := b', str_size := newlen\<rparr>) }
      else Some s)"

definition str_substr :: "nat \<Rightarrow> nat \<Rightarrow> mstring \<Rightarrow> mstring option" where
  "str_substr pos n s =
     (let len = str_size s in
      if pos \<le> len then do {
        let remain = len - pos;
        let n' = (if n > remain then remain else n);
        let r = str_reserve n' str_default;
        c \<leftarrow> mem_read pos n' (str_block s);
        b \<leftarrow> mem_write 0 c (str_block r);
        b' \<leftarrow> mem_write n' [Some NUL] b;
        Some (r\<lparr>str_block := b', str_size := n'\<rparr>) }
      else Some str_default)"

text \<open>\<open>size_type remain = s2 - pos - len\<close> is computed modulo the range of \<open>size_t\<close>.\<close>

definition str_erase :: "nat \<Rightarrow> nat \<Rightarrow> mstring \<Rightarrow> mstring option" where
  "str_erase pos len s =
     (if len > 0 \<and> pos < str_size s then do {
        let remain = nat ((int (str_size s) - int pos - int len) mod int SIZE_MOD);
        b \<leftarrow> (if remain > 0 then do {
                 c \<leftarrow> mem_read (pos + len) remain (str_block s);
                 mem_write pos c (str_block s) }
               else Some (str_block s));
        str_resize ((pos + remain) mod SIZE_MOD) NUL (s\<lparr>str_block := b\<rparr>) }
      else Some s)"

section \<open>Observation\<close>

definition str_eq_cstr :: "string option \<Rightarrow> mstring \<Rightarrow> bool option" where
  "str_eq_cstr t s =
     (case t of None \<Rightarrow> Some False | Some t' \<Rightarrow> map_option (\<lambda>c. strcmp c t' = 0) (str_c_str s))"

definition str_eq :: "mstring \<Rightarrow> mstring \<Rightarrow> bool option" where
  "str_eq s t = do { a \<leftarrow> str_c_str s; b \<leftarrow> str_c_str t; Some (strcmp a b = 0) }"

definition str_less :: "mstring \<Rightarrow> mstring \<Rightarrow> bool option" where
  "str_less s t = do { a \<leftarrow> str_c_str s; b \<leftarrow> str_c_str t; Some (strcmp a b < 0) }"

definition str_at :: "nat \<Rightarrow> mstring \<Rightarrow> char option" where
  "str_at i s = do {
     c \<leftarrow> str_c_str s;
     if i \<le> length c then load i (str_block s) else Some NUL }"

definition str_compare :: "nat \<Rightarrow> nat \<Rightarrow> mstring \<Rightarrow> mstring \<Rightarrow> int option" where
  "str_compare pos len t s =
     (if pos \<le> str_size s then do {
        let len1 = (if len > str_size s - pos then str_size s - pos else len);
        let osize = str_size t;
        let len2 = min len1 osize;
        a \<leftarrow> mem_read pos len2 (str_block s);
        b \<leftarrow> mem_read 0 len2 (str_block t);
        let r = strncmp (cstr (map the a)) (cstr (map the b)) len2;
        Some (if r = 0 then (if len1 < osize then -1 else if len1 = osize then 0 else 1) else r) }
      else Some (-1))"

definition str_compare_cstr :: "nat \<Rightarrow> nat \<Rightarrow> string \<Rightarrow> mstring \<Rightarrow> int option" where
  "str_compare_cstr pos len t s =
     (if pos \<le> str_size s then do {
        let len1 = (if len > str_size s - pos then str_size s - pos else len);
        let osize = length t;
        let len2 = min len1 osize;
        a \<leftarrow> mem_read pos len2 (str_block s);
        let r = strncmp (cstr (map the a)) (take len2 t) len2;
        Some (if r = 0 then (if len1 < osize then -1 else if len1 = osize then 0 else 1) else r) }
      else Some (-1))"

definition str_find_last_of :: "char \<Rightarrow> mstring \<Rightarrow> int option" where
  "str_find_last_of c s = do {
     t \<leftarrow> str_c_str s;
     Some (case strrchr t c of None \<Rightarrow> -1 | Some i \<Rightarrow> int i) }"

end
