(* ===== verification/IntConv.thy ===== *)
theory IntConv
  imports CLib
begin

text \<open>
  The integer conversions of \<open>source/m2mstring.cpp\<close>: \<open>reverse\<close>, \<open>itoa_c\<close>,
  \<open>String::convert_integer_to_array\<close> and \<open>String::convert_array_to_integer\<close>. Undefined behaviour
  (negating the least \<open>int64_t\<close>, a shift of 64 bits or more, an access outside the buffer) is \<open>None\<close>.
  The lemmas show that the digits parse back to the number, that the text fits the buffers of 21
  bytes the callers pass, and for which integers the array form is lossless.
\<close>

section \<open>reverse\<close>

function rev_loop :: "nat \<Rightarrow> nat \<Rightarrow> 'a list \<Rightarrow> 'a list option" where
  "rev_loop i j s =
     (if i < j then
        (if j < length s then rev_loop (Suc i) (j - 1) (s[i := s ! j, j := s ! i]) else None)
      else Some s)"
  by pat_completeness auto
termination
  by (relation "measure (\<lambda>(i, j, s). j - i)") auto

declare rev_loop.simps [simp del]

definition m2m_reverse :: "'a list \<Rightarrow> nat \<Rightarrow> 'a list option" where
  "m2m_reverse s n = rev_loop 0 (nat ((int n - 1) mod 2 ^ 32)) s"

section \<open>itoa_c\<close>

text \<open>The \<open>do ... while\<close> loop that writes the digits, least significant first.\<close>

fun itoa_digits :: "nat \<Rightarrow> string" where
  "itoa_digits n = digit_char (n mod 10) # (if n div 10 > 0 then itoa_digits (n div 10) else [])"

declare itoa_digits.simps [simp del]

text \<open>\<open>n = -n\<close> overflows on the least \<open>int64_t\<close>; the result is the string before the NUL.\<close>

definition itoa_c :: "int \<Rightarrow> string option" where
  "itoa_c n =
     (if n = - (2 ^ 63) then None
      else (let s = itoa_digits (nat \<bar>n\<bar>) @ (if n < 0 then ''-'' else [])
            in m2m_reverse s (length s)))"

section \<open>Integer arrays\<close>

definition int_array_size :: "i64 \<Rightarrow> nat" where
  "int_array_size v =
     (if sint v < 0xFF then 1 else if sint v < 0xFFFF then 2 else if sint v < 0xFFFFFF then 3
      else if sint v < 0xFFFFFFFF then 4 else if sint v < 0xFFFFFFFFFF then 5
      else if sint v < 0xFFFFFFFFFFFF then 6 else if sint v < 0xFFFFFFFFFFFFFF then 7 else 8)"

fun array_to_int_loop :: "u8 list \<Rightarrow> nat \<Rightarrow> i64 \<Rightarrow> i64 option" where
  "array_to_int_loop value 0 temp = Some temp"
| "array_to_int_loop [] (Suc i) temp = None"
| "array_to_int_loop (b # value) (Suc i) temp =
     (if i * 8 < 64 then array_to_int_loop value i (temp + push_bit (i * 8) (ucast b)) else None)"

definition convert_array_to_integer :: "u8 list \<Rightarrow> nat \<Rightarrow> i64 option" where
  "convert_array_to_integer value n = array_to_int_loop value n 0"

definition convert_integer_to_array :: "i64 \<Rightarrow> (u8 list \<times> nat) option \<Rightarrow> u8 list option" where
  "convert_integer_to_array v arr = do {
     value \<leftarrow> (case arr of None \<Rightarrow> Some v | Some (a, n) \<Rightarrow> convert_array_to_integer a n);
     let sz = int_array_size value;
     Some (map (\<lambda>i. ucast (signed_drop_bit ((sz - i - 1) * 8) value)) [0..<sz]) }"

section \<open>Correctness of reverse\<close>

lemma rev_loop_spec:
  "i + j + 1 = length s \<Longrightarrow> \<exists>t. rev_loop i j s = Some t \<and> length t = length s \<and>
     (\<forall>k<length s. t ! k = (if i \<le> k \<and> k \<le> j then s ! (length s - 1 - k) else s ! k))"
proof (induction i j s rule: rev_loop.induct)
  case (1 i j s)
  show ?case
  proof (cases "i < j")
    case True
    let ?s = "s[i := s ! j, j := s ! i]"
    have len: "Suc i + (j - 1) + 1 = length ?s" and jl: "j < length s" using True "1.prems" by auto
    obtain t where t: "rev_loop (Suc i) (j - 1) ?s = Some t" "length t = length ?s"
      "\<forall>k<length ?s. t ! k = (if Suc i \<le> k \<and> k \<le> j - 1 then ?s ! (length ?s - 1 - k) else ?s ! k)"
      using "1.IH" [OF True jl len] by blast
    have il: "i < length s" and ij: "length s - 1 - i = j" "length s - 1 - j = i" using True "1.prems" by auto
    have "t ! k = (if i \<le> k \<and> k \<le> j then s ! (length s - 1 - k) else s ! k)" if k: "k < length s" for k
    proof -
      consider "k = i" | "k = j" | "i < k" "k < j" | "k < i" | "j < k" by linarith
      then show ?thesis
      proof cases
        case 3
        then have "length s - 1 - k \<noteq> i" "length s - 1 - k \<noteq> j" using ij k jl il by auto
        then show ?thesis using t(3) k 3 by (auto simp: nth_list_update)
      qed (use t(3) k True ij il jl in \<open>auto simp: nth_list_update\<close>)
    qed
    then show ?thesis using t(1,2) True jl by (auto simp: rev_loop.simps [of i j s])
  next
    case False
    then have "rev_loop i j s = Some s" by (simp add: rev_loop.simps [of i j s])
    moreover have "s ! k = s ! (length s - 1 - k)" if "i \<le> k" "k \<le> j" for k
      using that False "1.prems" by (metis Suc_eq_plus1 add_diff_cancel_left' diff_Suc_1 le_antisym le_less_linear order_trans)
    ultimately show ?thesis by auto
  qed
qed

lemma m2m_reverse_rev:
  assumes "s \<noteq> []" and "length s < 2 ^ 32"
  shows "m2m_reverse s (length s) = Some (rev s)"
proof -
  have j: "nat ((int (length s) - 1) mod 2 ^ 32) = length s - 1" (is "?j = _")
    using assms by (simp add: Suc_leI)
  have "0 + (length s - 1) + 1 = length s" using assms(1) by (simp add: Suc_leI)
  from rev_loop_spec [OF this] obtain t where t: "rev_loop 0 (length s - 1) s = Some t"
    "length t = length s" "\<forall>k<length s. t ! k = s ! (length s - 1 - k)"
    by fastforce
  have "t = rev s" by (rule nth_equalityI) (use t in \<open>auto simp: rev_nth\<close>)
  then show ?thesis using t(1) unfolding m2m_reverse_def j by simp
qed

section \<open>Correctness of itoa_c\<close>

lemma itoa_digits_nonempty [simp]: "itoa_digits n \<noteq> []"
  by (simp add: itoa_digits.simps [of n])

lemma itoa_digits_isdigit: "c \<in> set (itoa_digits n) \<Longrightarrow> isdigit c"
proof (induction n rule: itoa_digits.induct)
  case (1 n)
  then show ?case by (auto simp: itoa_digits.simps [of n] split: if_splits)
qed

lemma length_itoa_digits: "n < 10 ^ Suc k \<Longrightarrow> length (itoa_digits n) \<le> Suc k"
proof (induction k arbitrary: n)
  case 0
  then show ?case by (simp add: itoa_digits.simps [of n])
next
  case (Suc k)
  have "n div 10 < 10 ^ Suc k" using Suc.prems by (simp add: less_mult_imp_div_less mult.commute)
  then show ?case using Suc.IH [of "n div 10"] by (simp add: itoa_digits.simps [of n])
qed

lemma foldl_itoa_digits: "foldl (\<lambda>a c. 10 * a + digit_val c) 0 (rev (itoa_digits n)) = n"
proof (induction n rule: itoa_digits.induct)
  case (1 n)
  then show ?case by (cases "n div 10 > 0") (auto simp: itoa_digits.simps [of n])
qed

definition dec_string :: "nat \<Rightarrow> string" where
  "dec_string n = rev (itoa_digits n)"

lemma dec_string_nonempty [simp]: "dec_string n \<noteq> []"
  by (simp add: dec_string_def)

lemma dec_string_isdigit: "\<forall>c\<in>set (dec_string n). isdigit c"
  using itoa_digits_isdigit by (auto simp: dec_string_def)

lemma dec_string_no_nul: "no_nul (dec_string n)"
  using dec_string_isdigit digit_not by (auto simp: no_nul_def)

lemma dec_string_inject: "dec_string m = dec_string n \<longleftrightarrow> m = n"
  by (metis dec_string_def foldl_itoa_digits)

lemma length_dec_string: "n < 10 ^ Suc k \<Longrightarrow> length (dec_string n) \<le> Suc k"
  by (simp add: dec_string_def length_itoa_digits)

lemma itoa_c_eq:
  assumes "\<bar>n\<bar> < 2 ^ 63"
  shows "itoa_c n = Some ((if n < 0 then ''-'' else []) @ dec_string (nat \<bar>n\<bar>))"
proof -
  let ?s = "itoa_digits (nat \<bar>n\<bar>) @ (if n < 0 then ''-'' else [])"
  have "nat \<bar>n\<bar> < 10 ^ Suc 18" using assms by simp
  then have "length ?s \<le> 20" using length_itoa_digits [of "nat \<bar>n\<bar>" 18] by auto
  then have "m2m_reverse ?s (length ?s) = Some (rev ?s)"
    by (intro m2m_reverse_rev) auto
  moreover have "n \<noteq> - (2 ^ 63)" using assms by auto
  ultimately show ?thesis by (auto simp: itoa_c_def Let_def dec_string_def)
qed

lemma itoa_c_nat: "n < 2 ^ 63 \<Longrightarrow> itoa_c (int n) = Some (dec_string n)"
  by (subst itoa_c_eq) auto

section \<open>Array conversions\<close>

lemma array_to_int_loop_append:
  "length bs = n \<Longrightarrow> array_to_int_loop (bs @ rest) n t = array_to_int_loop bs n t"
  by (induction bs n t rule: array_to_int_loop.induct) auto

text \<open>The value of a big-endian byte list.\<close>

definition be_value :: "u8 list \<Rightarrow> nat" where
  "be_value bs = foldl (\<lambda>a b. 256 * a + unat b) 0 bs"

lemma foldl_be: "foldl (\<lambda>a b. 256 * a + unat b) acc bs = acc * 256 ^ length bs + be_value (bs :: u8 list)"
proof (induction bs arbitrary: acc)
  case Nil
  then show ?case by (simp add: be_value_def)
next
  case (Cons b bs)
  have "foldl (\<lambda>a b. 256 * a + unat b) (unat b) bs = unat b * 256 ^ length bs + be_value bs"
    by (rule Cons.IH)
  then show ?case using Cons.IH [of "256 * acc + unat b"] by (simp add: be_value_def algebra_simps)
qed

lemma be_value_Cons: "be_value (b # bs) = unat b * 256 ^ length bs + be_value bs"
  using foldl_be [of "unat b" bs] by (simp add: be_value_def)

lemma be_value_Nil [simp]: "be_value [] = 0"
  by (simp add: be_value_def)

lemma byte_less: "unat (b :: u8) < 256"
  using unsigned_less [of b, where ?'a = nat] by simp

lemma be_value_less: "be_value bs < 256 ^ length bs"
proof (induction bs)
  case Nil
  then show ?case by simp
next
  case (Cons b bs)
  have "Suc (unat b) \<le> 256" using byte_less [of b] by simp
  then have "Suc (unat b) * 256 ^ length bs \<le> 256 * 256 ^ length bs" by (rule mult_right_mono) simp
  then have "unat b * 256 ^ length bs + 256 ^ length bs \<le> 256 * 256 ^ length bs" by (simp add: add.commute)
  then show ?case using Cons unfolding be_value_Cons by (simp only: list.size power_Suc add_0_right add_Suc_right)
qed

lemma push_bit_byte: "push_bit (i * 8) (ucast (b :: u8) :: i64) = of_nat (unat b * 256 ^ i)"
proof -
  have "(ucast b :: i64) = of_nat (unat b)" by simp
  moreover have "(2 :: i64) ^ (i * 8) = 256 ^ i" by (simp add: power_mult mult.commute [of i 8])
  ultimately show ?thesis by (simp add: push_bit_eq_mult)
qed

lemma array_to_int_loop_value:
  "length bs = n \<Longrightarrow> n \<le> 8 \<Longrightarrow> array_to_int_loop bs n t = Some (t + of_nat (be_value bs))"
proof (induction bs n t rule: array_to_int_loop.induct)
  case (3 b bs i t)
  then show ?case by (simp add: be_value_Cons push_bit_byte add.assoc)
qed auto

lemma convert_array_to_integer_value:
  assumes "length bs \<le> 8"
  shows "convert_array_to_integer bs (length bs) = Some (of_nat (be_value bs))"
  using array_to_int_loop_value [of bs "length bs" 0] assms by (simp add: convert_array_to_integer_def)

lemma drop_bit_byte: "unat (ucast (drop_bit (k * 8) (v :: i64)) :: u8) = unat v div 256 ^ k mod 256"
proof -
  have p: "(2 :: nat) ^ (k * 8) = 256 ^ k" by (simp add: power_mult mult.commute [of k 8])
  have "unat (drop_bit (k * 8) v) = unat v div 256 ^ k"
    unfolding unat_drop_bit_eq by (simp only: drop_bit_eq_div p)
  then show ?thesis unfolding unsigned_ucast_eq by (simp add: take_bit_eq_mod)
qed

lemma be_value_drop_bits:
  "be_value (map (\<lambda>i. ucast (drop_bit ((n - i - 1) * 8) (v :: i64)) :: u8) [0..<n]) = unat v mod 256 ^ n"
proof (induction n)
  case 0
  then show ?case by simp
next
  case (Suc n)
  have m: "map (\<lambda>i. ucast (drop_bit ((Suc n - i - 1) * 8) v) :: u8) [0..<Suc n] =
    ucast (drop_bit (n * 8) v) # map (\<lambda>i. ucast (drop_bit ((n - i - 1) * 8) v)) [0..<n]"
    by (subst upt_conv_Cons) (simp_all add: map_Suc_upt [symmetric] comp_def del: upt_Suc)
  have "unat v mod 256 ^ Suc n = unat v div 256 ^ n mod 256 * 256 ^ n + unat v mod 256 ^ n"
    using mod_mult2_eq [of "unat v" "256 ^ n" 256] by (simp add: mult.commute)
  then show ?case using Suc unfolding m by (simp add: be_value_Cons drop_bit_byte)
qed

lemma signed_drop_bit_nonneg: "0 \<le> sint (v :: i64) \<Longrightarrow> signed_drop_bit k v = drop_bit k v"
proof -
  assume "0 \<le> sint v"
  then have "\<not> bit v (LENGTH(64) - Suc 0)" by (simp only: bit_last_iff not_less)
  then have "\<not> bit v 63" by simp
  then show ?thesis
    by (intro bit_word_eqI) (auto simp: bit_signed_drop_bit_iff bit_drop_bit_eq dest: bit_imp_le_length)
qed

lemma convert_integer_to_array_value:
  assumes "0 \<le> sint v"
  shows "\<exists>bs. convert_integer_to_array v None = Some bs \<and> length bs = int_array_size v \<and>
    be_value bs = unat v mod 256 ^ int_array_size v"
  using assms be_value_drop_bits [of "int_array_size v" v]
  by (simp add: convert_integer_to_array_def Let_def signed_drop_bit_nonneg)

lemma int_array_size_bounds: "1 \<le> int_array_size v \<and> int_array_size v \<le> 8"
  by (simp add: int_array_size_def)

lemma sint_nonneg_unat: "0 \<le> sint (v :: i64) \<Longrightarrow> sint v = int (unat v)"
proof -
  assume nn: "0 \<le> sint v"
  have "sint v < 2 ^ 63" using sint_lt [of v] by simp
  then have "take_bit LENGTH(64) (sint v) = sint v" using nn by (intro take_bit_int_eq_self) simp_all
  then have "uint v = sint v" by (simp only: uint_sint)
  then show ?thesis by (simp only: uint_nat)
qed

lemma int_array_size_enough:
  assumes "0 \<le> sint v"
  shows "unat v < 256 ^ int_array_size v"
proof -
  obtain n where n: "unat v = n" by simp
  have u: "sint v = int n" using assms sint_nonneg_unat n by metis
  have "unat v < 18446744073709551616" using unsigned_less [of v, where ?'a = nat] by simp
  then show ?thesis unfolding int_array_size_def u n by (simp split: if_split)
qed

section \<open>Properties\<close>

lemma itoa_c_atoll_aux:
  assumes "\<bar>n\<bar> < 2 ^ 63"
  shows "atoll ((if n < 0 then ''-'' else []) @ dec_string (nat \<bar>n\<bar>)) = n"
proof -
  have v: "foldl (\<lambda>a c. 10 * a + digit_val c) 0 (dec_string (nat \<bar>n\<bar>)) = nat \<bar>n\<bar>"
    by (simp add: dec_string_def foldl_itoa_digits)
  note p = strtol_parse_digits [OF dec_string_nonempty dec_string_isdigit, of "nat \<bar>n\<bar>", unfolded v]
  show ?thesis using assms p by (cases "n < 0") (simp_all add: atoll_def strto_signed_def clamp_def)
qed

text \<open>Every 64-bit integer but the least is written by \<open>itoa_c\<close> as at most 20 characters
  (they fit the 21-byte buffers of the callers with their NUL) that \<open>atoll\<close> reads back as that integer.\<close>

lemma itoa_c_atoll:
  assumes "\<bar>n\<bar> < 2 ^ 63"
  shows "\<exists>s. itoa_c n = Some s \<and> atoll s = n \<and> length s \<le> 20 \<and> no_nul s"
proof -
  have "nat \<bar>n\<bar> < 10 ^ Suc 18" using assms by simp
  then have "length (dec_string (nat \<bar>n\<bar>)) \<le> 19" using length_dec_string [of "nat \<bar>n\<bar>" 18] by simp
  then show ?thesis using itoa_c_eq [OF assms] itoa_c_atoll_aux [OF assms]
    by (auto simp: dec_string_no_nul)
qed

lemma itoa_c_atoll_witness: "\<exists>s. itoa_c (- 120) = Some s \<and> atoll s = - 120 \<and> length s \<le> 20 \<and> no_nul s"
  by (rule itoa_c_atoll) simp

text \<open>A non-negative integer survives the conversion to a byte array and back, in at
  most 8 bytes, and of a negative one the array keeps the lowest byte only (the code picks one byte for every
  value below 0xFF).\<close>

lemma int_array_roundtrip:
  "if 0 \<le> sint v
   then (\<exists>bs. convert_integer_to_array v None = Some bs \<and> length bs \<le> 8 \<and>
           convert_array_to_integer bs (length bs) = Some v)
   else convert_integer_to_array v None = Some [ucast v]"
proof (cases "0 \<le> sint v")
  case True
  obtain bs where bs: "convert_integer_to_array v None = Some bs" "length bs = int_array_size v"
    "be_value bs = unat v mod 256 ^ int_array_size v"
    using convert_integer_to_array_value [OF True] by blast
  have l: "length bs \<le> 8" using bs(2) int_array_size_bounds [of v] by simp
  have "be_value bs = unat v" using bs(3) int_array_size_enough [OF True] by simp
  then have "convert_array_to_integer bs (length bs) = Some v"
    using convert_array_to_integer_value [OF l] by simp
  then show ?thesis using True bs(1) l by auto
next
  case False
  then show ?thesis by (simp add: convert_integer_to_array_def int_array_size_def)
qed


end
