(* ===== verification/MStringSpec.thy ===== *)
theory MStringSpec
  imports MString IntConv
begin

text \<open>
  What \<open>m2m::String\<close> promises. \<open>str_rep s t\<close> says that the representation \<open>s\<close> holds the
  characters \<open>t\<close>: the block has \<open>allocated_\<close> cells, the first \<open>size_\<close> of them are \<open>t\<close>, and a NUL
  follows. Each operation on a represented string neither faults nor loses the representation, and
  is the list operation its name says; the exceptions (an embedded NUL, \<open>erase\<close> past the end) are
  stated too.
\<close>

definition str_rep :: "mstring \<Rightarrow> string \<Rightarrow> bool" where
  "str_rep s t \<longleftrightarrow> str_size s = length t \<and> length (str_block s) = str_alloc s \<and>
     length t < str_alloc s \<and> take (Suc (length t)) (str_block s) = map Some t @ [Some NUL]"

definition str_append_int :: "i32 \<Rightarrow> mstring \<Rightarrow> mstring option" where
  "str_append_int n s = do {
     c \<leftarrow> itoa_c (sint n);
     str_append_raw (Some c) (length c) s }"

lemma str_rep_size: "str_rep s t \<Longrightarrow> str_size s = length t"
  by (simp add: str_rep_def)

lemma str_rep_block:
  "str_rep s t \<longleftrightarrow> str_size s = length t \<and> length (str_block s) = str_alloc s \<and>
     (\<exists>junk. str_block s = map Some t @ Some NUL # junk)"
proof
  assume r: "str_rep s t"
  have "str_block s = take (Suc (length t)) (str_block s) @ drop (Suc (length t)) (str_block s)" by simp
  then show "str_size s = length t \<and> length (str_block s) = str_alloc s \<and>
     (\<exists>junk. str_block s = map Some t @ Some NUL # junk)"
    using r unfolding str_rep_def by (metis append.assoc append_Cons append_Nil)
next
  assume "str_size s = length t \<and> length (str_block s) = str_alloc s \<and>
     (\<exists>junk. str_block s = map Some t @ Some NUL # junk)"
  then show "str_rep s t" by (auto simp: str_rep_def)
qed

lemma str_repI:
  "str_size s = length t \<Longrightarrow> length (str_block s) = str_alloc s \<Longrightarrow>
   str_block s = map Some t @ Some NUL # junk \<Longrightarrow> str_rep s t"
  by (auto simp: str_rep_block)

lemma str_repE:
  assumes "str_rep s t"
  obtains junk where "str_size s = length t" "str_block s = map Some t @ Some NUL # junk"
    "str_alloc s = length t + 1 + length junk"
  using assms unfolding str_rep_block by auto

lemma read_cstr_map: "read_cstr (map Some t @ Some NUL # junk) = Some (cstr t)"
  by (induction t) (auto simp: cstr_def)

lemma c_str_rep: "str_rep s t \<Longrightarrow> str_c_str s = Some (cstr t)"
  by (auto simp: str_rep_block str_c_str_def read_cstr_map)

lemma strdup_rep: "str_rep (str_strdup t) t"
  by (auto simp: str_rep_block str_strdup_def)

lemma default_rep: "str_rep str_default []"
  unfolding str_default_def by (rule strdup_rep)

lemma read_used: "str_rep s t \<Longrightarrow> pos + n \<le> length t \<Longrightarrow>
   mem_read pos n (str_block s) = Some (map Some (take n (drop pos t)))"
  by (auto simp: str_rep_block mem_simps take_map drop_map)

lemma read_used_nul: "str_rep s t \<Longrightarrow> mem_read 0 (length t + 1) (str_block s) = Some (map Some t @ [Some NUL])"
  by (auto simp: str_rep_block mem_simps)

lemma copy_rep:
  assumes "str_rep s t"
  shows "\<exists>s'. str_copy s = Some s' \<and> str_rep s' t \<and> str_alloc s' = length t + 1"
proof -
  have "mem_read 0 (str_size s + 1) (str_block s) = Some (map Some t @ [Some NUL])"
    using read_used_nul [OF assms] str_rep_size [OF assms] by simp
  moreover have "mem_write 0 (map Some t @ [Some NUL]) (malloc (str_size s + 1)) = Some (map Some t @ [Some NUL])"
    by (rule mem_write_malloc) (simp add: str_rep_size [OF assms])
  ultimately show ?thesis by (simp add: str_copy_def str_rep_size [OF assms] str_rep_block)
qed

lemma of_buf_rep:
  assumes "n \<le> length buf"
  shows "\<exists>s. str_of_buf buf n = Some s \<and> str_rep s (take n buf)"
proof -
  have "mem_read 0 n (map Some buf) = Some (map Some (take n buf))" using assms by (simp add: mem_simps take_map)
  moreover have "mem_write 0 (map Some (take n buf)) (malloc (n + 1)) = Some (map Some (take n buf) @ [None])"
    using assms by (simp add: mem_write_def malloc_def min_absorb2 replicate_append_same [symmetric])
  moreover have "mem_write n [Some NUL] (map Some (take n buf) @ [None]) = Some (map Some (take n buf) @ [Some NUL])"
    using assms by (simp add: mem_simps)
  ultimately show ?thesis using assms by (auto simp: str_of_buf_def str_rep_block)
qed

section \<open>Growing and writing\<close>

lemma reserve_keeps:
  assumes "str_rep s t"
  shows "str_rep (str_reserve n s) t" and "n < str_alloc (str_reserve n s)"
proof -
  obtain junk where j: "str_size s = length t" "str_block s = map Some t @ Some NUL # junk"
    "str_alloc s = length t + 1 + length junk" by (rule str_repE [OF assms])
  show "str_rep (str_reserve n s) t"
  proof (cases "n \<ge> str_alloc s")
    case True
    have "realloc (n + 1) (str_block s) =
      map Some t @ Some NUL # (take (n - length t) junk @ replicate (n + 1 - str_alloc s) None)"
      using True j by (simp add: realloc_def)
    then show ?thesis using True j by (auto simp: str_reserve_def str_new_realloc_def intro!: str_repI)
  next
    case False
    then show ?thesis using assms by (simp add: str_reserve_def)
  qed
  show "n < str_alloc (str_reserve n s)" by (simp add: str_reserve_def str_new_realloc_def)
qed

text \<open>Writing characters and a NUL over the tail of a string that has room for them.\<close>

lemma write_tail:
  assumes "str_rep s t" and "k \<le> length t" and "k + length u < str_alloc s"
  shows "\<exists>b. mem_write k (map Some u) (str_block s) = Some b \<and>
     (\<exists>junk. mem_write (k + length u) [Some NUL] b = Some (map Some (take k t @ u) @ Some NUL # junk) \<and>
       k + length u + 1 + length junk = str_alloc s) \<and>
     mem_write k (map Some u @ [Some NUL]) (str_block s) = mem_write (k + length u) [Some NUL] b"
proof -
  have len: "length (str_block s) = str_alloc s" using assms(1) by (simp add: str_rep_def)
  have tk: "take k (str_block s) = map Some (take k t)"
    using assms(1,2) by (auto simp: str_rep_block take_map)
  let ?b = "take k (str_block s) @ map Some u @ drop (k + length u) (str_block s)"
  have "mem_write k (map Some u) (str_block s) = Some ?b"
    using assms(3) len by (simp add: mem_simps)
  moreover have "mem_write (k + length u) [Some NUL] ?b =
      Some (map Some (take k t @ u) @ Some NUL # drop (k + length u + 1) (str_block s))"
    using assms(3) len by (simp add: mem_simps tk assms(2))
  moreover have "mem_write k (map Some u @ [Some NUL]) (str_block s) =
      Some (map Some (take k t @ u) @ Some NUL # drop (k + length u + 1) (str_block s))"
    using assms(3) len by (simp add: mem_simps tk)
  ultimately show ?thesis using assms(3) len by auto
qed

lemma write_tail_rep:
  assumes "str_rep s t" and "k \<le> length t" and "k + length u < str_alloc s"
  shows "\<exists>b b'. mem_write k (map Some u) (str_block s) = Some b \<and>
     mem_write (k + length u) [Some NUL] b = Some b' \<and>
     mem_write k (map Some u @ [Some NUL]) (str_block s) = Some b' \<and>
     str_rep (s\<lparr>str_block := b', str_size := k + length u\<rparr>) (take k t @ u)"
  using write_tail [OF assms] assms(2) by (fastforce simp: str_rep_block)

lemma resize_rep:
  assumes "str_rep s t"
  shows "\<exists>s'. str_resize n c s = Some s' \<and> str_rep s' (take n t @ replicate (n - length t) c)"
proof -
  have sz: "str_size s = length t" using assms by (rule str_rep_size)
  have fit: "length t < str_alloc s" using assms by (simp add: str_rep_def)
  consider "n < length t" | "n = length t" | "n > length t" by linarith
  then show ?thesis
  proof cases
    case 1
    then show ?thesis using write_tail_rep [OF assms, of n "[]"] sz fit
      by (auto simp: str_resize_def)
  next
    case 2
    then show ?thesis using assms sz by (simp add: str_resize_def)
  next
    case 3
    then show ?thesis
      using write_tail_rep [OF reserve_keeps(1) [OF assms, of n], of "length t" "replicate (n - length t) c"]
        reserve_keeps(2) [OF assms, of n] sz
      by (fastforce simp: str_resize_def Let_def)
  qed
qed

lemma clear_rep: "str_rep s t \<Longrightarrow> \<exists>s'. str_clear s = Some s' \<and> str_rep s' []"
  using write_tail_rep [of s t 0 "[]"] by (auto simp: str_clear_def str_rep_def)

lemma assign_cstr_rep: "str_rep (str_assign_cstr t s) t"
  by (auto simp: str_rep_block str_assign_cstr_def)

lemma assign_rep: "str_rep s t \<Longrightarrow> str_rep s0 t0 \<Longrightarrow> \<exists>s'. str_assign s s0 = Some s' \<and> str_rep s' (cstr t)"
  by (simp add: str_assign_def c_str_rep assign_cstr_rep)

section \<open>Appending\<close>

lemma append_string_rep:
  assumes "str_rep s t" and "str_rep s2 u"
  shows "\<exists>s'. str_append_string s2 s = Some s' \<and> str_rep s' (t @ u)"
proof (cases "u = []")
  case True
  then show ?thesis using assms by (simp add: str_append_string_def str_rep_size)
next
  case False
  note w = write_tail_rep [OF reserve_keeps(1) [OF assms(1), of "length t + length u"], of "length t" u]
  show ?thesis
    using w reserve_keeps(2) [OF assms(1), of "length t + length u"] read_used_nul [OF assms(2)] False
    by (fastforce simp: str_append_string_def str_rep_size [OF assms(1)] str_rep_size [OF assms(2)] Let_def)
qed

lemma append_cstr_rep:
  assumes "str_rep s t"
  shows "\<exists>s'. str_append_cstr u s = Some s' \<and> str_rep s' (t @ u)"
proof -
  have sz: "str_size s = length t" using assms by (rule str_rep_size)
  consider "u = []" | "u \<noteq> []" "length t + length u + 1 \<le> str_alloc s"
    | "u \<noteq> []" "\<not> length t + length u + 1 \<le> str_alloc s" by blast
  then show ?thesis
  proof cases
    case 1
    then show ?thesis using assms by (simp add: str_append_cstr_def)
  next
    case 2
    then show ?thesis using write_tail_rep [OF assms, of "length t" u] sz
      by (fastforce simp: str_append_cstr_def Let_def)
  next
    case 3
    obtain s0 where s0: "str_copy s = Some s0" "str_rep s0 t" using copy_rep [OF assms] by blast
    show ?thesis
      using write_tail_rep [OF reserve_keeps(1) [OF s0(2), of "length t + length u"], of "length t" u]
        reserve_keeps(2) [OF s0(2), of "length t + length u"] 3 sz s0(1)
      by (fastforce simp: str_append_cstr_def Let_def str_swap_def)
  qed
qed

lemma append_raw_rep:
  assumes "str_rep s t" and "n \<le> length buf"
  shows "\<exists>s'. str_append_raw (Some buf) n s = Some s' \<and> str_rep s' (t @ take n buf)"
proof (cases "n = 0")
  case True
  then show ?thesis using assms by (simp add: str_append_raw_def)
next
  case False
  have "mem_read 0 n (map Some buf) = Some (map Some (take n buf))" using assms(2) by (simp add: mem_simps take_map)
  then show ?thesis
    using write_tail_rep [OF reserve_keeps(1) [OF assms(1), of "length t + n"], of "length t" "take n buf"]
      reserve_keeps(2) [OF assms(1), of "length t + n"] False assms(2) str_rep_size [OF assms(1)]
    by (fastforce simp: str_append_raw_def Let_def)
qed

lemma append_rep:
  assumes "str_rep s t"
  shows "\<exists>s'. str_append (Some buf) n s = Some s' \<and> str_rep s' (t @ take n buf)"
proof (cases "n = 0")
  case True
  then show ?thesis using assms by (simp add: str_append_def)
next
  case False
  define k where "k = (if n > length buf then length buf else n)"
  have k: "k \<le> length buf" "take n buf = take k buf" by (auto simp: k_def)
  then have "mem_read 0 k (map Some (buf @ [NUL])) = Some (map Some (take k buf))" by (simp add: mem_simps take_map)
  then show ?thesis
    using write_tail_rep [OF reserve_keeps(1) [OF assms(1), of "length t + k"], of "length t" "take k buf"]
      reserve_keeps(2) [OF assms(1), of "length t + k"] False k str_rep_size [OF assms(1)]
    by (fastforce simp: str_append_def Let_def k_def [symmetric])
qed

lemma push_back_rep:
  assumes "str_rep s t"
  shows "\<exists>s'. str_push_back c s = Some s' \<and> str_rep s' (t @ [c])"
proof -
  define more where "more = (let m = (str_alloc s * 3) div 2 in if m < 4 then 4 else m)"
  define s1 where "s1 = (if str_size s = str_alloc s - 1 then str_reserve (str_size s + more) s else s)"
  have sz: "str_size s = length t" and lt: "length t < str_alloc s" using assms by (simp_all add: str_rep_def)
  have "more \<ge> 4" by (simp add: more_def Let_def)
  then have fit: "length t + 1 < str_alloc s1"
    using reserve_keeps(2) [OF assms, of "str_size s + more"] sz lt by (auto simp: s1_def)
  have r: "str_rep s1 t" using assms reserve_keeps(1) by (simp add: s1_def)
  have "str_push_back c s = do {
     b \<leftarrow> mem_write (length t) [Some c] (str_block s1);
     b' \<leftarrow> mem_write (length t + 1) [Some NUL] b;
     Some (s1\<lparr>str_block := b', str_size := length t + 1\<rparr>) }"
    by (simp add: str_push_back_def s1_def more_def sz Let_def)
  then show ?thesis using write_tail_rep [OF r, of "length t" "[c]"] fit by auto
qed

lemma append_int_rep:
  assumes "str_rep s t"
  shows "\<exists>s'. str_append_int n s = Some s' \<and>
     str_rep s' (t @ (if sint n < 0 then ''-'' else []) @ dec_string (nat \<bar>sint n\<bar>))"
proof -
  let ?u = "(if sint n < 0 then ''-'' else []) @ dec_string (nat \<bar>sint n\<bar>)"
  have "- (2 ^ 31) \<le> sint n" "sint n < 2 ^ 31" using sint_ge [of n] sint_lt [of n] by simp_all
  then have "\<bar>sint n\<bar> < 2 ^ 63" by simp
  then have "itoa_c (sint n) = Some ?u" by (rule itoa_c_eq)
  then have "str_append_int n s = str_append_raw (Some ?u) (length ?u) s"
    by (simp only: str_append_int_def Option.bind.bind_lunit)
  then show ?thesis
    using append_raw_rep [OF assms, of "length ?u" ?u] by simp
qed

section \<open>Cutting\<close>

lemma substr_rep:
  assumes "str_rep s t"
  shows "\<exists>s'. str_substr pos n s = Some s' \<and> str_rep s' (take n (drop pos t))"
proof (cases "pos \<le> length t")
  case True
  define k where "k = (if n > length t - pos then length t - pos else n)"
  have k: "pos + k \<le> length t" "take n (drop pos t) = take k (drop pos t)" using True by (auto simp: k_def)
  show ?thesis
    using write_tail_rep [OF reserve_keeps(1) [OF default_rep, of k], of 0 "take k (drop pos t)"]
      reserve_keeps(2) [OF default_rep, of k] read_used [OF assms k(1)] k True str_rep_size [OF assms]
    by (fastforce simp: str_substr_def Let_def k_def [symmetric])
next
  case False
  then show ?thesis using str_rep_size [OF assms] default_rep by (simp add: str_substr_def Let_def)
qed

lemma erase_rep:
  assumes "str_rep s t" and "pos + len \<le> length t" and "length t < SIZE_MOD"
  shows "\<exists>s'. str_erase pos len s = Some s' \<and> str_rep s' (take pos t @ drop (pos + len) t)"
proof (cases "len > 0 \<and> pos < length t")
  case False
  then have "take pos t @ drop (pos + len) t = t" using assms(2) by auto
  then show ?thesis using False assms(1) str_rep_size [OF assms(1)] by (auto simp: str_erase_def)
next
  case True
  let ?r = "length t - pos - len"
  obtain junk where j: "str_size s = length t" "str_block s = map Some t @ Some NUL # junk"
    "str_alloc s = length t + 1 + length junk" by (rule str_repE [OF assms(1)])
  have r: "nat ((int (str_size s) - int pos - int len) mod int SIZE_MOD) = ?r"
  proof -
    have "int (str_size s) - int pos - int len = int ?r" using j(1) assms(2) by simp
    moreover have "?r < SIZE_MOD" using assms(3) by simp
    ultimately show ?thesis by simp
  qed
  define b where "b = map Some (take pos t @ drop (pos + len) t @ drop (pos + ?r) t) @ Some NUL # junk"
  have mv: "(if ?r > 0 then do { c \<leftarrow> mem_read (pos + len) ?r (str_block s); mem_write pos c (str_block s) }
      else Some (str_block s)) = Some b"
  proof (cases "?r > 0")
    case True
    have rd: "mem_read (pos + len) ?r (str_block s) = Some (map Some (drop (pos + len) t))"
      using read_used [OF assms(1), of "pos + len" ?r] assms(2) by simp
    have "mem_write pos (map Some (drop (pos + len) t)) (str_block s) = Some b"
      using assms(2) j by (simp add: mem_simps b_def take_map drop_map)
    then show ?thesis using True rd by simp
  next
    case False
    then show ?thesis using assms(2) j by (simp add: b_def)
  qed
  have rep: "str_rep (s\<lparr>str_block := b\<rparr>) (take pos t @ drop (pos + len) t @ drop (pos + ?r) t)"
    using assms(2) j by (auto simp: b_def intro!: str_repI)
  have n: "(pos + ?r) mod SIZE_MOD = pos + ?r" using assms(2,3) True by simp
  show ?thesis
    using resize_rep [OF rep, of "pos + ?r" NUL] True j(1) assms(2)
    unfolding str_erase_def r Let_def mv n by simp
qed

section \<open>Observing\<close>

lemma eq_rep: "str_rep s t \<Longrightarrow> str_rep s' t' \<Longrightarrow> str_eq s s' = Some (cstr t = cstr t')"
  by (simp add: str_eq_def c_str_rep)

lemma eq_cstr_rep: "str_rep s t \<Longrightarrow> str_eq_cstr (Some u) s = Some (cstr t = u)"
  by (simp add: str_eq_cstr_def c_str_rep)

lemma at_rep:
  assumes "str_rep s t" and "no_nul t"
  shows "str_at i s = Some (if i < length t then t ! i else NUL)"
proof -
  obtain junk where j: "str_block s = map Some t @ Some NUL # junk" by (rule str_repE [OF assms(1)])
  show ?thesis using assms by (auto simp: str_at_def c_str_rep load_def j nth_append)
qed

lemma find_last_of_rep:
  assumes "str_rep s t" and "no_nul t" and "c \<noteq> NUL"
  shows "str_find_last_of c s = Some (case last_index c t of None \<Rightarrow> -1 | Some i \<Rightarrow> int i)"
  using assms by (simp add: str_find_last_of_def c_str_rep strrchr_def last_index_append_notin)

section \<open>Properties\<close>

text \<open>C38: on strings that represent \<open>t\<close> and \<open>u\<close>, copying, the four ways of
  appending, resizing, clearing and cutting never access memory outside their blocks and represent the
  corresponding list operation.\<close>

theorem string_operations_refine:
  assumes "str_rep s t" and "str_rep s' u"
  shows "(\<exists>r. str_copy s = Some r \<and> str_rep r t) \<and>
    (\<exists>r. str_append_string s' s = Some r \<and> str_rep r (t @ u)) \<and>
    (\<exists>r. str_append_cstr c s = Some r \<and> str_rep r (t @ c)) \<and>
    (\<exists>r. str_append (Some c) n s = Some r \<and> str_rep r (t @ take n c)) \<and>
    (\<exists>r. str_push_back d s = Some r \<and> str_rep r (t @ [d])) \<and>
    (\<exists>r. str_resize n d s = Some r \<and> str_rep r (take n t @ replicate (n - length t) d)) \<and>
    (\<exists>r. str_clear s = Some r \<and> str_rep r []) \<and>
    (\<exists>r. str_substr pos n s = Some r \<and> str_rep r (take n (drop pos t)))"
  using copy_rep [OF assms(1)] append_string_rep [OF assms] append_cstr_rep [OF assms(1)]
    append_rep [OF assms(1)] push_back_rep [OF assms(1)] resize_rep [OF assms(1)] clear_rep [OF assms(1)]
    substr_rep [OF assms(1)] by blast

theorem string_operations_refine_witness:
  "\<exists>r. str_append_string (str_strdup ''cd'') (str_strdup ''ab'') = Some r \<and> str_rep r ''abcd''"
  using string_operations_refine [OF strdup_rep [of "''ab''"] strdup_rep [of "''cd''"]] by simp

text \<open>\<open>erase\<close> of a range inside the string removes it; of a range that starts inside and
  ends past the end it moves close to 2^32 bytes and leaves the buffer, because \<open>s2 - pos - len\<close> wraps
  around.\<close>

lemma string_erase:
  assumes "str_rep s t" and "str_alloc s < SIZE_MOD" and "pos + len < SIZE_MOD"
  shows "(pos + len \<le> length t \<longrightarrow>
           (\<exists>r. str_erase pos len s = Some r \<and> str_rep r (take pos t @ drop (pos + len) t))) \<and>
    (pos < length t \<and> length t < pos + len \<longrightarrow> str_erase pos len s = None)"
proof (intro conjI impI)
  have lt: "length t < SIZE_MOD" using assms(1,2) by (auto simp: str_rep_def)
  show "pos + len \<le> length t \<Longrightarrow> \<exists>r. str_erase pos len s = Some r \<and> str_rep r (take pos t @ drop (pos + len) t)"
    using erase_rep [OF assms(1) _ lt] by blast
  assume o: "pos < length t \<and> length t < pos + len"
  have sz: "str_size s = length t" and bl: "length (str_block s) < SIZE_MOD"
    using assms(1,2) by (auto simp: str_rep_def)
  let ?x = "int (length t) - int pos - int len"
  have "?x mod int SIZE_MOD = ?x + int SIZE_MOD"
  proof -
    have "(?x + int SIZE_MOD) mod int SIZE_MOD = ?x + int SIZE_MOD"
      using o assms(3) by (intro mod_pos_pos_trivial) simp_all
    then show ?thesis by simp
  qed
  then have r: "nat (?x mod int SIZE_MOD) = SIZE_MOD + length t - (pos + len)" using o assms(3) by simp
  have "mem_read (pos + len) (SIZE_MOD + length t - (pos + len)) (str_block s) = None"
    using bl assms(3) by (simp add: mem_read_def)
  then show "str_erase pos len s = None"
    using o assms(3) by (simp add: str_erase_def sz r Let_def)
qed

lemma string_erase_witness:
  "str_erase 1 4 (str_strdup ''abc'') = None \<and> (\<exists>r. str_erase 1 1 (str_strdup ''abc'') = Some r \<and> str_rep r ''ac'')"
  using string_erase [OF strdup_rep [of "''abc''"], of 1 4] string_erase [OF strdup_rep [of "''abc''"], of 1 1]
  by (simp add: str_strdup_def SIZE_MOD_def)


end
