(* ===== verification/CFloat.thy ===== *)
theory CFloat
  imports Complex_Main CLib
begin

text \<open>
  The \<open>float\<close> and \<open>double\<close> values the report handler computes with, and \<open>atof\<close>. A finite value is
  its exact rational; an operation rounds to nearest, ties to even, in the binary format of the
  result (24 bits for \<open>float\<close>, 53 for \<open>double\<close>), and overflows to an infinity. The sign of a zero is
  not kept: the code only compares, adds, subtracts and doubles. A comparison with a NaN is false.
  \<open>atof\<close> reads the decimal syntax of \<open>strtod\<close> and its infinities and NaN, not hexadecimal floats.
\<close>

datatype cfloat = Fin rat | PInf | NInf | NaN

fun ilog2 :: "nat \<Rightarrow> nat" where
  "ilog2 n = (if n \<le> 1 then 0 else Suc (ilog2 (n div 2)))"

declare ilog2.simps [simp del]

definition pow2 :: "int \<Rightarrow> rat" where
  "pow2 k = (if 0 \<le> k then 2 ^ nat k else 1 / 2 ^ nat (- k))"

definition rat_exp :: "rat \<Rightarrow> int" where
  "rat_exp r = (case quotient_of r of (a, b) \<Rightarrow>
     (let l = int (ilog2 (nat \<bar>a\<bar>)) - int (ilog2 (nat b))
      in if pow2 l \<le> \<bar>r\<bar> then l else l - 1))"

definition round_even :: "rat \<Rightarrow> int" where
  "round_even r =
     (let f = \<lfloor>r\<rfloor>; d = r - of_int f
      in if d < 1/2 then f else if d > 1/2 then f + 1 else if even f then f else f + 1)"

definition round_fmt :: "int \<Rightarrow> int \<Rightarrow> int \<Rightarrow> rat \<Rightarrow> cfloat" where
  "round_fmt p emin emax r =
     (if r = 0 then Fin 0
      else (let q = max (rat_exp r - (p - 1)) emin;
                v = of_int (round_even (r / pow2 q)) * pow2 q
            in if \<bar>v\<bar> \<ge> pow2 (emax + 1) then (if r > 0 then PInf else NInf) else Fin v))"

definition f32 :: "rat \<Rightarrow> cfloat" where "f32 r = round_fmt 24 (-149) 127 r"
definition f64 :: "rat \<Rightarrow> cfloat" where "f64 r = round_fmt 53 (-1074) 1023 r"

fun to_f32 :: "cfloat \<Rightarrow> cfloat" where
  "to_f32 (Fin r) = f32 r"
| "to_f32 v = v"

fun f_neg :: "cfloat \<Rightarrow> cfloat" where
  "f_neg (Fin r) = Fin (- r)"
| "f_neg PInf = NInf"
| "f_neg NInf = PInf"
| "f_neg NaN = NaN"

fun f_add :: "cfloat \<Rightarrow> cfloat \<Rightarrow> cfloat" where
  "f_add (Fin a) (Fin b) = f32 (a + b)"
| "f_add NaN _ = NaN"
| "f_add _ NaN = NaN"
| "f_add PInf NInf = NaN"
| "f_add NInf PInf = NaN"
| "f_add PInf _ = PInf"
| "f_add _ PInf = PInf"
| "f_add NInf _ = NInf"
| "f_add _ NInf = NInf"

definition f_sub :: "cfloat \<Rightarrow> cfloat \<Rightarrow> cfloat" where
  "f_sub a b = f_add a (f_neg b)"

fun f_lt :: "cfloat \<Rightarrow> cfloat \<Rightarrow> bool" where
  "f_lt (Fin a) (Fin b) \<longleftrightarrow> a < b"
| "f_lt NaN _ \<longleftrightarrow> False"
| "f_lt _ NaN \<longleftrightarrow> False"
| "f_lt NInf NInf \<longleftrightarrow> False"
| "f_lt NInf _ \<longleftrightarrow> True"
| "f_lt _ NInf \<longleftrightarrow> False"
| "f_lt PInf _ \<longleftrightarrow> False"
| "f_lt _ PInf \<longleftrightarrow> True"

definition f_eq :: "cfloat \<Rightarrow> cfloat \<Rightarrow> bool" where
  "f_eq a b \<longleftrightarrow> a = b \<and> a \<noteq> NaN"

definition f_le :: "cfloat \<Rightarrow> cfloat \<Rightarrow> bool" where
  "f_le a b \<longleftrightarrow> f_lt a b \<or> f_eq a b"

text \<open>Conversions between \<open>int32_t\<close> and \<open>float\<close>; out of range the conversion back is undefined.\<close>

definition f_of_int :: "int \<Rightarrow> cfloat" where
  "f_of_int n = f32 (of_int n)"

fun int_of_f :: "cfloat \<Rightarrow> int option" where
  "int_of_f (Fin r) =
     (let n = (if r \<ge> 0 then \<lfloor>r\<rfloor> else \<lceil>r\<rceil>)
      in if - (2 ^ 31) \<le> n \<and> n < 2 ^ 31 then Some n else None)"
| "int_of_f _ = None"

section \<open>atof\<close>

definition to_lower :: "char \<Rightarrow> char" where
  "to_lower c = (if CHR ''A'' \<le> c \<and> c \<le> CHR ''Z'' then char_of ((of_char c :: nat) + 32) else c)"

definition pow10 :: "int \<Rightarrow> rat" where
  "pow10 k = (if 0 \<le> k then 10 ^ nat k else 1 / 10 ^ nat (- k))"

definition exponent_part :: "string \<Rightarrow> int" where
  "exponent_part s =
     (case s of [] \<Rightarrow> 0
      | c # cs \<Rightarrow>
          if c = CHR ''e'' \<or> c = CHR ''E'' then
            (let neg = (cs \<noteq> [] \<and> hd cs = CHR ''-'');
                 ds = takeWhile isdigit (if cs \<noteq> [] \<and> (hd cs = CHR ''-'' \<or> hd cs = CHR ''+'') then tl cs else cs);
                 v = int (fst (dec_digits 0 ds))
             in if neg then - v else v)
          else 0)"

definition atof :: "string \<Rightarrow> cfloat" where
  "atof s =
     (let s1 = dropWhile isspace s;
          neg = (s1 \<noteq> [] \<and> hd s1 = CHR ''-'');
          s2 = (if s1 \<noteq> [] \<and> (hd s1 = CHR ''-'' \<or> hd s1 = CHR ''+'') then tl s1 else s1);
          ip = takeWhile isdigit s2;
          r1 = dropWhile isdigit s2;
          fp = (if r1 \<noteq> [] \<and> hd r1 = CHR ''.'' then takeWhile isdigit (tl r1) else []);
          r2 = (if r1 \<noteq> [] \<and> hd r1 = CHR ''.'' then dropWhile isdigit (tl r1) else r1);
          word = map to_lower (take 3 s2)
      in if ip @ fp \<noteq> [] then
           (let v = of_nat (fst (dec_digits 0 (ip @ fp))) * pow10 (exponent_part r2 - int (length fp))
            in f64 (if neg then - v else v))
         else if word = ''inf'' then (if neg then NInf else PInf)
         else if word = ''nan'' then NaN
         else Fin 0)"

section \<open>Exactness on integers\<close>

lemma ilog2_bounds: "0 < n \<Longrightarrow> 2 ^ ilog2 n \<le> n \<and> n < 2 ^ Suc (ilog2 n)"
proof (induction n rule: ilog2.induct)
  case (1 n)
  show ?case
  proof (cases "n \<le> 1")
    case True
    then show ?thesis using 1(2) by (simp add: ilog2.simps [of n])
  next
    case False
    define x :: nat where "x = 2 ^ ilog2 (n div 2)"
    have "x \<le> n div 2 \<and> n div 2 < 2 * x" using False 1(1) by (simp add: x_def)
    then have "2 * x \<le> n \<and> n < 4 * x" by linarith
    then show ?thesis using False by (simp add: ilog2.simps [of n] x_def)
  qed
qed

lemma ilog2_less: "0 < n \<Longrightarrow> n < 2 ^ k \<Longrightarrow> ilog2 n < k"
  using ilog2_bounds [of n] by (meson le_less_trans power_less_imp_less_exp one_less_numeral_iff semiring_norm(76))

lemma ilog2_1 [simp]: "ilog2 (Suc 0) = 0"
  by (simp add: ilog2.simps)

lemma rat_exp_int:
  assumes "n \<noteq> 0"
  shows "rat_exp (of_int n) = int (ilog2 (nat \<bar>n\<bar>))"
proof -
  have "2 ^ ilog2 (nat \<bar>n\<bar>) \<le> nat \<bar>n\<bar>" using ilog2_bounds [of "nat \<bar>n\<bar>"] assms by simp
  then have "(2 :: int) ^ ilog2 (nat \<bar>n\<bar>) \<le> \<bar>n\<bar>"
    by (metis abs_ge_zero nat_le_eq_zle nat_numeral nat_power_eq of_nat_numeral of_nat_power zero_le_numeral nat_int of_nat_le_iff int_nat_eq)
  then have "(of_int (2 ^ ilog2 (nat \<bar>n\<bar>)) :: rat) \<le> of_int \<bar>n\<bar>" by (simp only: of_int_le_iff)
  then have "pow2 (int (ilog2 (nat \<bar>n\<bar>))) \<le> \<bar>of_int n :: rat\<bar>" by (simp add: pow2_def)
  then show ?thesis by (simp add: rat_exp_def)
qed

lemma round_even_int [simp]: "round_even (of_int n) = n"
  by (simp add: round_even_def)

lemma f32_int:
  assumes "\<bar>n\<bar> < 2 ^ 24"
  shows "f32 (of_int n) = Fin (of_int n)"
proof (cases "n = 0")
  case True
  then show ?thesis by (simp add: f32_def round_fmt_def)
next
  case False
  define k where "k = ilog2 (nat \<bar>n\<bar>)"
  have "nat \<bar>n\<bar> < 2 ^ 24" "0 < nat \<bar>n\<bar>" using assms False by auto
  then have k: "k < 24" unfolding k_def by (intro ilog2_less)
  have e: "rat_exp (of_int n) = int k" using rat_exp_int [OF False] by (simp add: k_def)
  have q: "max (rat_exp (of_int n) - (24 - 1)) (-149) = int k - 23" using k unfolding e by simp
  have p: "pow2 (int k - 23) = 1 / 2 ^ (23 - k)"
    using k by (cases "k = 23") (auto simp: pow2_def nat_diff_distrib)
  have "(of_int n :: rat) / pow2 (int k - 23) = of_int (n * 2 ^ (23 - k))" unfolding p by simp
  then have r: "round_even (of_int n / pow2 (int k - 23)) = n * 2 ^ (23 - k)" by (simp only: round_even_int)
  have v: "(of_int (n * 2 ^ (23 - k)) :: rat) * pow2 (int k - 23) = of_int n" unfolding p by simp
  have "\<bar>of_int n :: rat\<bar> < 2 ^ 24"
    using assms by (metis of_int_abs of_int_less_iff of_int_numeral of_int_power)
  moreover have "pow2 (127 + 1) = 2 ^ 128" by (simp add: pow2_def)
  ultimately have "\<not> \<bar>of_int n :: rat\<bar> \<ge> pow2 (127 + 1)" by simp
  then show ?thesis using False unfolding f32_def round_fmt_def q r v Let_def by simp
qed

lemma int_of_f_of_int: "\<bar>n\<bar> < 2 ^ 24 \<Longrightarrow> int_of_f (f_of_int n) = Some n"
  by (auto simp: f_of_int_def f32_int)

lemma f_lt_irrefl [simp]: "\<not> f_lt a a"
  by (cases a) auto

lemma f_lt_trans: "f_lt a b \<Longrightarrow> f_lt b c \<Longrightarrow> f_lt a c"
  by (cases a; cases b; cases c) auto

lemma f_eq_refl: "f_eq a a \<longleftrightarrow> a \<noteq> NaN"
  by (simp add: f_eq_def)

end
