(* ===== verification/Coap.thy ===== *)
theory Coap
  imports CLib
begin

text \<open>
  The fields of a CoAP message that the sources read and write. The message type itself belongs to
  the CoAP library; only the fields that appear in \<open>source/\<close> are kept. A pointer that may be null is
  an option, a pointer with its length is the list of the bytes; \<open>-1\<close> is the library's mark of an
  absent option or content format.
\<close>

datatype coap_code =
    COAP_MSG_CODE_EMPTY
  | COAP_MSG_CODE_REQUEST_GET
  | COAP_MSG_CODE_REQUEST_POST
  | COAP_MSG_CODE_REQUEST_PUT
  | COAP_MSG_CODE_REQUEST_DELETE
  | COAP_MSG_CODE_RESPONSE_CREATED
  | COAP_MSG_CODE_RESPONSE_DELETED
  | COAP_MSG_CODE_RESPONSE_CHANGED
  | COAP_MSG_CODE_RESPONSE_CONTENT
  | COAP_MSG_CODE_RESPONSE_BAD_REQUEST
  | COAP_MSG_CODE_RESPONSE_NOT_FOUND
  | COAP_MSG_CODE_RESPONSE_METHOD_NOT_ALLOWED
  | COAP_MSG_CODE_RESPONSE_NOT_ACCEPTABLE
  | COAP_MSG_CODE_RESPONSE_REQUEST_ENTITY_TOO_LARGE
  | COAP_MSG_CODE_RESPONSE_UNSUPPORTED_CONTENT_FORMAT
  | COAP_MSG_CODE_RESPONSE_INTERNAL_SERVER_ERROR
  | COAP_MSG_CODE_RESPONSE_VALID
  | COAP_MSG_CODE_RESPONSE_UNAUTHORIZED
  | COAP_MSG_CODE_RESPONSE_BAD_OPTION
  | COAP_MSG_CODE_RESPONSE_FORBIDDEN
  | COAP_MSG_CODE_RESPONSE_REQUEST_ENTITY_INCOMPLETE
  | COAP_MSG_CODE_RESPONSE_PRECONDITION_FAILED
  | COAP_MSG_CODE_OTHER nat

record coap_options =
  opt_observe :: int
  opt_uri_query :: "string option"
  opt_block1 :: i32
  opt_use_size1 :: bool
  opt_size1 :: u32
  opt_max_age :: u32
  opt_location_path :: "string option"

record coap_msg =
  cm_code :: coap_code
  cm_id :: u16
  cm_content_format :: int
  cm_uri_path :: "string option"
  cm_token :: "u8 list option"
  cm_payload :: "u8 list option"
  cm_options :: "coap_options option"

definition payload_len :: "coap_msg \<Rightarrow> nat" where
  "payload_len m = (case cm_payload m of None \<Rightarrow> 0 | Some p \<Rightarrow> length p)"

end
