(* ===== verification/BaseTypes.thy ===== *)
theory BaseTypes
  imports CFloat Coap
begin

text \<open>
  The enumerations of \<open>M2MBase\<close> (\<open>mbed-client/m2mbase.h\<close>) and the constants of
  \<open>mbed-client/m2mconstants.h\<close> the components share. An enumeration the code combines with bit
  operations is a byte, the others are datatypes.
\<close>

datatype base_type = BT_Object | BT_Resource | BT_ObjectInstance | BT_ResourceInstance

datatype mode = Static | Dynamic | Directory

datatype data_type = STRING | INTEGER | FLOAT | BOOLEAN | OPAQUE | TIME | OBJLINK

abbreviation obs_None :: u8 where "obs_None \<equiv> 0"
abbreviation R_Attribute :: u8 where "R_Attribute \<equiv> 1"
abbreviation OI_Attribute :: u8 where "OI_Attribute \<equiv> 2"
abbreviation O_Attribute :: u8 where "O_Attribute \<equiv> 4"

abbreviation NOT_ALLOWED :: u8 where "NOT_ALLOWED \<equiv> 0"
abbreviation GET_ALLOWED :: u8 where "GET_ALLOWED \<equiv> 1"
abbreviation PUT_ALLOWED :: u8 where "PUT_ALLOWED \<equiv> 2"
abbreviation GET_PUT_ALLOWED :: u8 where "GET_PUT_ALLOWED \<equiv> 3"
abbreviation POST_ALLOWED :: u8 where "POST_ALLOWED \<equiv> 4"
abbreviation DELETE_ALLOWED :: u8 where "DELETE_ALLOWED \<equiv> 8"
abbreviation GET_PUT_POST_DELETE_ALLOWED :: u8 where "GET_PUT_POST_DELETE_ALLOWED \<equiv> 15"

abbreviation MAX_ALLOWED_STRING_LENGTH :: nat where "MAX_ALLOWED_STRING_LENGTH \<equiv> 64"
abbreviation MAX_NAME_SIZE :: nat where "MAX_NAME_SIZE \<equiv> 64"
abbreviation MAX_INSTANCE_SIZE :: nat where "MAX_INSTANCE_SIZE \<equiv> 5"
abbreviation COAP_CONTENT_OMA_TLV_TYPE :: int where "COAP_CONTENT_OMA_TLV_TYPE \<equiv> 99"
abbreviation COAP_CONTENT_OMA_OPAQUE_TYPE :: int where "COAP_CONTENT_OMA_OPAQUE_TYPE \<equiv> 42"

abbreviation has_flag :: "u8 \<Rightarrow> u8 \<Rightarrow> bool" where "has_flag s f \<equiv> s AND f = f"

lemma flag_or_self: "has_flag (s OR f) f"
  by (rule bit_word_eqI) (auto simp: bit_simps)

lemma flag_or_mono: "has_flag s f \<Longrightarrow> has_flag (s OR g) f"
proof (rule bit_word_eqI)
  fix n
  assume "has_flag s f" "n < LENGTH(8)"
  then have "bit (s AND f) n = bit f n" by simp
  then show "bit ((s OR g) AND f) n = bit f n" by (auto simp: bit_simps)
qed

end
