(* ===== verification/ReportHandler.thy ===== *)
theory ReportHandler
  imports BaseTypes
begin

text \<open>
  \<open>M2MReportHandler\<close> of \<open>source/m2mreporthandler.cpp\<close>: when a value change, a child that changed or
  an expired timer makes a notification due. The members are the fields of a record; the two timers
  and the observer are outside the component, so an operation returns the calls it makes on them, in
  order. Buffers of the attribute parser are real 20-byte buffers: a \<open>memcpy\<close> that does not fit is
  the result \<open>None\<close>.
\<close>

section \<open>State and outputs\<close>

datatype timer_type = PMinTimer | PMaxTimer | OtherTimer

datatype report_event =
    ObservationToBeSent "u16 list" u16 bool
  | StartTimer timer_type u64
  | StopTimer timer_type

record report_handler =
  rh_under_observation :: bool
  rh_level :: u8
  rh_attribute_state :: u8
  rh_token :: "u8 list option"
  rh_token_length :: nat
  rh_notify :: bool
  rh_pmin_exceeded :: bool
  rh_pmax_exceeded :: bool
  rh_observation_number :: u16
  rh_pmax :: i32
  rh_pmin :: i32
  rh_current :: cfloat
  rh_gt :: cfloat
  rh_lt :: cfloat
  rh_st :: cfloat
  rh_high_step :: cfloat
  rh_low_step :: cfloat
  rh_last :: cfloat
  rh_changed :: "u16 list"

abbreviation Pmin :: u8 where "Pmin \<equiv> 2"
abbreviation Pmax :: u8 where "Pmax \<equiv> 4"
abbreviation Lt :: u8 where "Lt \<equiv> 8"
abbreviation Gt :: u8 where "Gt \<equiv> 16"
abbreviation St :: u8 where "St \<equiv> 32"

abbreviation attr_set :: "report_handler \<Rightarrow> u8 \<Rightarrow> bool" where
  "attr_set h f \<equiv> has_flag (rh_attribute_state h) f"

definition rh_new :: report_handler where
  "rh_new = \<lparr>rh_under_observation = False, rh_level = obs_None, rh_attribute_state = 0,
     rh_token = None, rh_token_length = 0, rh_notify = False, rh_pmin_exceeded = False,
     rh_pmax_exceeded = False, rh_observation_number = 0, rh_pmax = -1, rh_pmin = 1,
     rh_current = Fin 0, rh_gt = Fin 0, rh_lt = Fin 0, rh_st = Fin 0, rh_high_step = Fin 0,
     rh_low_step = Fin 0, rh_last = Fin (-1), rh_changed = []\<rparr>"

section \<open>Timers and reports\<close>

definition rh_handle_timers :: "report_handler \<Rightarrow> report_handler \<times> report_event list" where
  "rh_handle_timers h =
     (let (h1, e1) =
            (if attr_set h Pmin then
               (if rh_pmin h = rh_pmax h then (h\<lparr>rh_pmin_exceeded := True\<rparr>, [])
                else (h\<lparr>rh_pmin_exceeded := False\<rparr>, [StartTimer PMinTimer (scast (rh_pmin h) * 1000)]))
             else (h, []));
          e2 = (if attr_set h1 Pmax \<and> sint (rh_pmax h1) > 0
                then [StartTimer PMaxTimer (scast (rh_pmax h1) * 1000)] else [])
      in (h1, e1 @ e2))"

definition rh_report :: "report_handler \<Rightarrow> report_handler \<times> report_event list" where
  "rh_report h =
     (let (h1, e1) =
            (if \<not> f_eq (rh_current h) (rh_last h) \<and> rh_notify h then
               (let h0 = h\<lparr>rh_pmin_exceeded := False, rh_pmax_exceeded := False, rh_notify := False,
                           rh_observation_number := rh_observation_number h + 1\<rparr>
                in (h0\<lparr>rh_changed := []\<rparr>,
                    [ObservationToBeSent (rh_changed h0) (rh_observation_number h0) False,
                     StopTimer PMaxTimer]))
             else if rh_pmax_exceeded h then
               (let h0 = h\<lparr>rh_observation_number := rh_observation_number h + 1\<rparr>
                in (h0\<lparr>rh_changed := []\<rparr>,
                    [ObservationToBeSent (rh_changed h0) (rh_observation_number h0) True]))
             else (h, []));
          (h2, e2) = rh_handle_timers h1
      in (h2\<lparr>rh_last := rh_current h2\<rparr>, e1 @ e2))"

definition rh_schedule_report :: "report_handler \<Rightarrow> report_handler \<times> report_event list" where
  "rh_schedule_report h =
     (let h1 = h\<lparr>rh_notify := True\<rparr>
      in if \<not> attr_set h1 Pmin \<or> rh_pmin_exceeded h1 then rh_report h1 else (h1, []))"

definition rh_stop_timers :: "report_handler \<Rightarrow> report_handler \<times> report_event list" where
  "rh_stop_timers h =
     (h\<lparr>rh_pmin_exceeded := False, rh_pmax_exceeded := False\<rparr>,
      [StopTimer PMinTimer, StopTimer PMaxTimer])"

definition rh_set_default_values :: "report_handler \<Rightarrow> report_handler" where
  "rh_set_default_values h =
     h\<lparr>rh_pmax := -1, rh_pmin := 1, rh_gt := Fin 0, rh_lt := Fin 0, rh_st := Fin 0,
       rh_high_step := Fin 0, rh_low_step := Fin 0, rh_pmin_exceeded := False,
       rh_pmax_exceeded := False, rh_last := Fin (-1), rh_attribute_state := 0, rh_changed := []\<rparr>"

definition rh_set_under_observation :: "bool \<Rightarrow> report_handler \<Rightarrow> report_handler \<times> report_event list" where
  "rh_set_under_observation observed h =
     (let (h1, e1) = rh_stop_timers (h\<lparr>rh_under_observation := observed\<rparr>)
      in if observed then (let (h2, e2) = rh_handle_timers h1 in (h2, e1 @ e2))
         else (rh_set_default_values h1, e1))"

section \<open>Values and thresholds\<close>

definition rh_check_gt_lt_params :: "report_handler \<Rightarrow> bool" where
  "rh_check_gt_lt_params h =
     (if has_flag (rh_attribute_state h) (Lt OR Gt) then
        (if f_lt (rh_gt h) (rh_current h) \<or> f_lt (rh_current h) (rh_lt h) then True else False)
      else if attr_set h Lt \<and> rh_attribute_state h AND Gt = 0 then
        (if f_lt (rh_current h) (rh_lt h) then True else False)
      else if attr_set h Gt \<and> rh_attribute_state h AND Lt = 0 then
        (if f_lt (rh_gt h) (rh_current h) then True else False)
      else True)"

definition rh_check_threshold_values :: "report_handler \<Rightarrow> bool" where
  "rh_check_threshold_values h =
     (if attr_set h St then
        (if f_le (rh_high_step h) (rh_current h) \<or> f_le (rh_current h) (rh_low_step h) then True
         else if attr_set h Lt \<or> attr_set h Gt then rh_check_gt_lt_params h
         else False)
      else rh_check_gt_lt_params h)"

definition rh_set_value :: "cfloat \<Rightarrow> report_handler \<Rightarrow> report_handler \<times> report_event list" where
  "rh_set_value v h =
     (let h1 = h\<lparr>rh_current := v\<rparr>
      in if \<not> f_eq (rh_current h1) (rh_last h1) then
           (let (h2, e2) =
                  (if rh_check_threshold_values h1 then rh_schedule_report h1
                   else (let h' = h1\<lparr>rh_notify := False, rh_last := rh_current h1\<rparr>
                         in if attr_set h' Lt \<or> attr_set h' Gt \<or> attr_set h' St
                            then (h'\<lparr>rh_pmin_exceeded := True\<rparr>, [StopTimer PMinTimer]) else (h', [])))
            in (h2\<lparr>rh_high_step := f_add (rh_current h2) (rh_st h2),
                   rh_low_step := f_sub (rh_current h2) (rh_st h2)\<rparr>, e2))
         else (h1, []))"

definition rh_set_notification_trigger :: "u16 \<Rightarrow> report_handler \<Rightarrow> report_handler \<times> report_event list" where
  "rh_set_notification_trigger obj_instance_id h =
     (let found = (find_idx (\<lambda>i. i = obj_instance_id) (rh_changed h) \<noteq> None);
          h1 = (if \<not> found then h\<lparr>rh_changed := rh_changed h @ [obj_instance_id]\<rparr> else h)
      in rh_schedule_report (h1\<lparr>rh_current := Fin 0, rh_last := Fin 1\<rparr>))"

definition rh_timer_expired :: "timer_type \<Rightarrow> report_handler \<Rightarrow> report_handler \<times> report_event list" where
  "rh_timer_expired t h =
     (case t of
        PMinTimer \<Rightarrow>
          (let h1 = h\<lparr>rh_pmin_exceeded := True\<rparr>
           in if rh_notify h1 \<or> (sint (rh_pmin h1) > 0 \<and> \<not> attr_set h1 Pmax) then rh_report h1 else (h1, []))
      | PMaxTimer \<Rightarrow>
          (let h1 = h\<lparr>rh_pmax_exceeded := True\<rparr>
           in if rh_pmin_exceeded h1 \<or> \<not> attr_set h1 Pmin then rh_report h1 else (h1, []))
      | OtherTimer \<Rightarrow> (h, []))"

section \<open>Notification attributes\<close>

definition strstr_index :: "char \<Rightarrow> string \<Rightarrow> nat option" where
  "strstr_index c s = find_idx (\<lambda>d. d = c) s"

definition fill20 :: "string \<Rightarrow> char block option" where
  "fill20 s = mem_write 0 (map Some s) (replicate 20 (Some NUL))"

definition rh_set_notification_attribute ::
  "string \<Rightarrow> base_type \<Rightarrow> data_type \<Rightarrow> report_handler \<Rightarrow> (bool \<times> report_handler) option" where
  "rh_set_notification_attribute opt type resource_type h = do {
     (attribute, value) \<leftarrow>
       (case strstr_index CHR ''='' opt of
          Some pos \<Rightarrow> do { a \<leftarrow> fill20 (take pos opt); v \<leftarrow> fill20 (drop (Suc pos) opt); Some (a, v) }
        | None \<Rightarrow> do { a \<leftarrow> fill20 (opt @ [NUL]); Some (a, replicate 20 (Some NUL)) });
     if NUL \<notin> the ` set value then None
     else do {
       let attr = cstr (map the attribute);
       let val = cstr (map the value);
       if val \<noteq> [] then do {
         let (success, h1) =
               (if attr = ''pmin'' then
                  (True, h\<lparr>rh_pmin := word_of_int (atoi val),
                           rh_attribute_state := rh_attribute_state h OR Pmin\<rparr>)
                else if attr = ''pmax'' then
                  (True, h\<lparr>rh_pmax := word_of_int (atoi val),
                           rh_attribute_state := rh_attribute_state h OR Pmax\<rparr>)
                else if attr = ''gt'' \<and> type = BT_Resource then
                  (True, h\<lparr>rh_gt := to_f32 (atof val),
                           rh_attribute_state := rh_attribute_state h OR Gt\<rparr>)
                else if attr = ''lt'' \<and> type = BT_Resource then
                  (True, h\<lparr>rh_lt := to_f32 (atof val),
                           rh_attribute_state := rh_attribute_state h OR Lt\<rparr>)
                else if (attr = ''st'' \<or> attr = ''stp'') \<and> type = BT_Resource then
                  (let s = to_f32 (atof val)
                   in (True, h\<lparr>rh_st := s, rh_high_step := f_add (rh_current h) s,
                               rh_low_step := f_sub (rh_current h) s,
                               rh_attribute_state := rh_attribute_state h OR St\<rparr>))
                else (False, h));
         Some (if resource_type \<noteq> INTEGER \<and> resource_type \<noteq> FLOAT \<and>
                  (attr_set h1 Gt \<or> attr_set h1 Lt \<or> attr_set h1 St)
               then False else success, h1) }
       else Some (False, h) } }"

definition rh_check_attribute_validity :: "report_handler \<Rightarrow> bool" where
  "rh_check_attribute_validity h =
     (let s1 = \<not> (attr_set h Pmax \<and> sint (rh_pmax h) \<ge> -1 \<and> sint (rh_pmin h) > sint (rh_pmax h));
          low = f_add (rh_lt h) (f_add (rh_st h) (rh_st h))
      in s1 \<and> \<not> (attr_set h Gt \<and> f_le (rh_gt h) low))"

text \<open>The rows of \<open>query_options[5][20]\<close>, of which the last byte stays NUL.\<close>

fun amp_options :: "nat \<Rightarrow> string \<Rightarrow> string list" where
  "amp_options 0 rest = []"
| "amp_options (Suc k) rest =
     (case strstr_index CHR ''&'' rest of
        None \<Rightarrow> if length rest > 0 then [take 19 rest] else []
      | Some i \<Rightarrow> take 19 (take i rest) # amp_options k (drop (Suc i) rest))"

fun rh_set_options ::
  "string list \<Rightarrow> bool \<Rightarrow> base_type \<Rightarrow> data_type \<Rightarrow> report_handler \<Rightarrow> (bool \<times> report_handler) option" where
  "rh_set_options [] success type rt h = Some (success, h)"
| "rh_set_options (q # qs) success type rt h = do {
     (s, h1) \<leftarrow> rh_set_notification_attribute q type rt h;
     if \<not> s then Some (False, h1) else rh_set_options qs True type rt h1 }"

definition rh_parse_notification_attribute ::
  "string \<Rightarrow> base_type \<Rightarrow> data_type \<Rightarrow> report_handler \<Rightarrow> (bool \<times> report_handler) option" where
  "rh_parse_notification_attribute query type rt h =
     (if CHR ''&'' \<in> set query then do {
        let pmin = f_of_int (sint (rh_pmin h));
        let pmax = f_of_int (sint (rh_pmax h));
        (success, h1) \<leftarrow> rh_set_options (amp_options 5 query) False type rt h;
        if success then Some (rh_check_attribute_validity h1, h1)
        else do {
          lo \<leftarrow> int_of_f pmin;
          hi \<leftarrow> int_of_f pmax;
          Some (False, h1\<lparr>rh_pmin := word_of_int lo, rh_pmax := word_of_int hi, rh_st := rh_st h,
            rh_lt := rh_lt h, rh_gt := rh_gt h, rh_high_step := rh_high_step h,
            rh_low_step := rh_low_step h, rh_attribute_state := rh_attribute_state h\<rparr>) } }
      else do {
        (s, h1) \<leftarrow> rh_set_notification_attribute query type rt h;
        if s then Some (rh_check_attribute_validity h1, h1) else Some (False, h1) })"

section \<open>Token and level\<close>

definition rh_set_observation_token :: "u8 list option \<Rightarrow> u8 \<Rightarrow> report_handler \<Rightarrow> report_handler" where
  "rh_set_observation_token token len h =
     (let h1 = h\<lparr>rh_token := None, rh_token_length := 0\<rparr>
      in case token of None \<Rightarrow> h1
         | Some t \<Rightarrow> if unat len > 0
             then h1\<lparr>rh_token := Some (take (unat len) t), rh_token_length := unat len\<rparr> else h1)"

definition rh_get_observation_token :: "report_handler \<Rightarrow> u8 list option \<times> nat" where
  "rh_get_observation_token h =
     (case rh_token h of None \<Rightarrow> (None, 0)
      | Some t \<Rightarrow> (Some (take (rh_token_length h) t), rh_token_length h))"

definition rh_add_observation_level :: "u8 \<Rightarrow> report_handler \<Rightarrow> report_handler" where
  "rh_add_observation_level l h = h\<lparr>rh_level := rh_level h OR l\<rparr>"

definition rh_remove_observation_level :: "u8 \<Rightarrow> report_handler \<Rightarrow> report_handler" where
  "rh_remove_observation_level l h = h\<lparr>rh_level := rh_level h AND NOT l\<rparr>"

end
