(* ===== verification/StringBuffer.thy ===== *)
theory StringBuffer
  imports IntConv
begin

text \<open>
  \<open>StringBuffer<SIZE>\<close> of \<open>mbed-client/m2mstringbuffer.h\<close> over \<open>StringBufferBase\<close> of
  \<open>source/m2mstringbufferbase.cpp\<close>: a fixed buffer that refuses what does not fit. The template
  argument is the length of the block. The lemmas show that an append either leaves the buffer as it
  was and reports \<open>false\<close>, or leaves the concatenation and reports \<open>true\<close>, that \<open>true\<close> is reported
  exactly when the text and its NUL fit, and that no access leaves the block.
\<close>

record string_buffer =
  sb_buff :: "char block"
  sb_size :: nat

definition sb_new :: "nat \<Rightarrow> string_buffer option" where
  "sb_new cap = do {
     b \<leftarrow> mem_write 0 [Some NUL] (malloc cap);
     Some \<lparr>sb_buff = b, sb_size = 0\<rparr> }"

definition ensure_space :: "nat \<Rightarrow> nat \<Rightarrow> string_buffer \<Rightarrow> bool" where
  "ensure_space max_size required_size s =
     (let space_left = nat ((int max_size - int (sb_size s)) mod 2 ^ 32)
      in required_size \<le> space_left)"

definition sb_append_char :: "nat \<Rightarrow> char \<Rightarrow> string_buffer \<Rightarrow> (bool \<times> string_buffer) option" where
  "sb_append_char max_size c s =
     (if ensure_space max_size (1 + 1) s then do {
        b \<leftarrow> mem_write (sb_size s) [Some c] (sb_buff s);
        b' \<leftarrow> mem_write (sb_size s + 1) [Some NUL] b;
        Some (True, \<lparr>sb_buff = b', sb_size = sb_size s + 1\<rparr>) }
      else Some (False, s))"

definition sb_append_cstr :: "nat \<Rightarrow> string \<Rightarrow> string_buffer \<Rightarrow> (bool \<times> string_buffer) option" where
  "sb_append_cstr max_size t s =
     (if ensure_space max_size (length t + 1) s then do {
        b \<leftarrow> mem_write (sb_size s) (map Some (t @ [NUL])) (sb_buff s);
        Some (True, \<lparr>sb_buff = b, sb_size = sb_size s + length t\<rparr>) }
      else Some (False, s))"

definition sb_append_data :: "nat \<Rightarrow> string \<Rightarrow> nat \<Rightarrow> string_buffer \<Rightarrow> (bool \<times> string_buffer) option" where
  "sb_append_data max_size buf n s =
     (if n > 0 then
        (if ensure_space max_size (n + 1) s then do {
           c \<leftarrow> mem_read 0 n (map Some buf);
           b \<leftarrow> mem_write (sb_size s) c (sb_buff s);
           b' \<leftarrow> mem_write (sb_size s + n) [Some NUL] b;
           Some (True, \<lparr>sb_buff = b', sb_size = sb_size s + n\<rparr>) }
         else Some (False, s))
      else Some (True, s))"

definition sb_append_int :: "nat \<Rightarrow> u16 \<Rightarrow> string_buffer \<Rightarrow> (bool \<times> string_buffer) option" where
  "sb_append_int max_size d s = do {
     c \<leftarrow> itoa_c (uint d);
     sb_append_data max_size c (length c) s }"

text \<open>The loop from \<open>_curr_size\<close> down to 0.\<close>

fun sb_find_from :: "char block \<Rightarrow> char \<Rightarrow> nat \<Rightarrow> int option" where
  "sb_find_from b c 0 = do { d \<leftarrow> load 0 b; Some (if d = c then 0 else -1) }"
| "sb_find_from b c (Suc i) = do {
     d \<leftarrow> load (Suc i) b;
     if d = c then Some (int (Suc i)) else sb_find_from b c i }"

definition sb_find_last_of :: "char \<Rightarrow> string_buffer \<Rightarrow> int option" where
  "sb_find_last_of c s = sb_find_from (sb_buff s) c (sb_size s)"

section \<open>Correctness\<close>

definition sb_rep :: "nat \<Rightarrow> string_buffer \<Rightarrow> string \<Rightarrow> bool" where
  "sb_rep cap s t \<longleftrightarrow> sb_size s = length t \<and> length (sb_buff s) = cap \<and> cap < 2 ^ 32 \<and>
     length t < cap \<and> (\<exists>junk. sb_buff s = map Some t @ Some NUL # junk)"

lemma sb_rep_size: "sb_rep cap s t \<Longrightarrow> sb_size s = length t"
  by (simp add: sb_rep_def)

lemma sb_new_rep: "0 < cap \<Longrightarrow> cap < 2 ^ 32 \<Longrightarrow> \<exists>s. sb_new cap = Some s \<and> sb_rep cap s []"
  by (auto simp: sb_new_def mem_write_def malloc_def sb_rep_def)

lemma ensure_space_rep: "sb_rep cap s t \<Longrightarrow> ensure_space cap n s \<longleftrightarrow> length t + n \<le> cap"
proof -
  assume r: "sb_rep cap s t"
  then have "int cap - int (sb_size s) = int (cap - length t)" "cap - length t < 2 ^ 32"
    by (auto simp: sb_rep_def)
  then have "nat ((int cap - int (sb_size s)) mod 2 ^ 32) = cap - length t" by simp
  then show ?thesis using r by (auto simp: ensure_space_def sb_rep_def)
qed

lemma sb_write:
  assumes "sb_rep cap s t" and "length t + length u < cap"
  shows "\<exists>b b'. mem_write (length t) (map Some u) (sb_buff s) = Some b \<and>
     mem_write (length t + length u) [Some NUL] b = Some b' \<and>
     mem_write (length t) (map Some u @ [Some NUL]) (sb_buff s) = Some b' \<and>
     sb_rep cap \<lparr>sb_buff = b', sb_size = length t + length u\<rparr> (t @ u)"
proof -
  obtain junk where b: "sb_buff s = map Some t @ Some NUL # junk" and len: "length (sb_buff s) = cap"
    using assms(1) by (auto simp: sb_rep_def)
  let ?r = "drop (length t + length u) (sb_buff s)"
  have "mem_write (length t) (map Some u) (sb_buff s) = Some (map Some t @ map Some u @ ?r)"
    using assms(2) len by (simp add: mem_simps b)
  moreover have "mem_write (length t + length u) [Some NUL] (map Some t @ map Some u @ ?r) =
     Some (map Some (t @ u) @ Some NUL # drop 1 ?r)"
    using assms(2) len by (simp add: mem_simps)
  moreover have "mem_write (length t) (map Some u @ [Some NUL]) (sb_buff s) =
     Some (map Some (t @ u) @ Some NUL # drop 1 ?r)"
    using assms(2) len by (simp add: mem_simps) (simp add: b)
  ultimately show ?thesis using assms len by (auto simp: sb_rep_def)
qed

lemma sb_append_char_rep:
  assumes "sb_rep cap s t"
  shows "\<exists>s'. sb_append_char cap c s = Some (length t + 2 \<le> cap, s') \<and>
     sb_rep cap s' (if length t + 2 \<le> cap then t @ [c] else t)"
  using sb_write [OF assms, of "[c]"] assms
  by (cases "length t + 2 \<le> cap") (auto simp: sb_append_char_def ensure_space_rep [OF assms] sb_rep_size)

lemma sb_append_cstr_rep:
  assumes "sb_rep cap s t"
  shows "\<exists>s'. sb_append_cstr cap u s = Some (length t + length u + 1 \<le> cap, s') \<and>
     sb_rep cap s' (if length t + length u + 1 \<le> cap then t @ u else t)"
  using sb_write [OF assms, of u] assms
  by (cases "length t + length u + 1 \<le> cap") (auto simp: sb_append_cstr_def ensure_space_rep [OF assms] sb_rep_size)

lemma sb_append_data_rep:
  assumes "sb_rep cap s t" and "n \<le> length buf" and "n > 0"
  shows "\<exists>s'. sb_append_data cap buf n s = Some (length t + n + 1 \<le> cap, s') \<and>
     sb_rep cap s' (if length t + n + 1 \<le> cap then t @ take n buf else t)"
proof -
  have "mem_read 0 n (map Some buf) = Some (map Some (take n buf))"
    using assms(2) by (simp add: mem_simps take_map)
  then show ?thesis
    using sb_write [OF assms(1), of "take n buf"] assms
    by (cases "length t + n + 1 \<le> cap")
      (auto simp: sb_append_data_def ensure_space_rep [OF assms(1)] min_absorb2 sb_rep_size)
qed

lemma sb_append_int_rep:
  assumes "sb_rep cap s t"
  shows "\<exists>s'. sb_append_int cap d s = Some (length t + length (dec_string (unat d)) + 1 \<le> cap, s') \<and>
     sb_rep cap s' (if length t + length (dec_string (unat d)) + 1 \<le> cap then t @ dec_string (unat d) else t)"
proof -
  have "unat d < 2 ^ 16" using unsigned_less [of d, where ?'a = nat] by simp
  then have "itoa_c (int (unat d)) = Some (dec_string (unat d))" by (intro itoa_c_nat) simp
  then have c: "itoa_c (uint d) = Some (dec_string (unat d))" by (simp only: uint_nat)
  show ?thesis
    using sb_append_data_rep [OF assms order_refl, of "dec_string (unat d)"]
    unfolding sb_append_int_def c by (simp only: Option.bind.bind_lunit take_all order_refl) simp
qed

lemma sb_find_from_spec:
  assumes "i < length t"
  shows "sb_find_from (map Some t @ r) c i =
    Some (case last_index c (take (Suc i) t) of None \<Rightarrow> -1 | Some k \<Rightarrow> int k)"
  using assms
proof (induction i)
  case 0
  then obtain x xs where "t = x # xs" by (cases t) auto
  then show ?case by (simp add: load_def)
next
  case (Suc i)
  have tk: "take (Suc (Suc i)) t = take (Suc i) t @ [t ! Suc i]" using Suc.prems by (simp add: take_Suc_conv_app_nth)
  have la: "last_index c (xs @ [x]) = (if x = c then Some (length xs) else last_index c xs)" for xs x
    by (induction xs) auto
  show ?case using Suc unfolding tk la by (auto simp: load_def nth_append)
qed

lemma sb_find_last_of_rep:
  assumes "sb_rep cap s t" and "c \<noteq> NUL"
  shows "sb_find_last_of c s = Some (case last_index c t of None \<Rightarrow> -1 | Some i \<Rightarrow> int i)"
proof -
  obtain junk where b: "sb_buff s = map Some t @ Some NUL # junk" and sz: "sb_size s = length t"
    using assms(1) by (auto simp: sb_rep_def)
  have "sb_find_from (map Some (t @ [NUL]) @ junk) c (length t) =
    Some (case last_index c (take (Suc (length t)) (t @ [NUL])) of None \<Rightarrow> -1 | Some k \<Rightarrow> int k)"
    by (rule sb_find_from_spec) simp
  then show ?thesis using assms(2) by (simp add: sb_find_last_of_def b sz last_index_append_notin)
qed

section \<open>Properties\<close>

text \<open>C39: on a buffer of \<open>cap\<close> bytes that holds the text \<open>t\<close>, each way of appending
  (a character, a C string, \<open>n\<close> characters, a number) accesses only the buffer, reports whether the result
  with its NUL fits, and leaves the concatenation when it fits and the text unchanged when it does not.\<close>

theorem string_buffer_append:
  assumes "sb_rep cap s t" and "n \<le> length buf" and "n > 0"
  shows "(\<exists>s'. sb_append_char cap c s = Some (length t + 2 \<le> cap, s') \<and>
             sb_rep cap s' (if length t + 2 \<le> cap then t @ [c] else t)) \<and>
    (\<exists>s'. sb_append_cstr cap u s = Some (length t + length u + 1 \<le> cap, s') \<and>
             sb_rep cap s' (if length t + length u + 1 \<le> cap then t @ u else t)) \<and>
    (\<exists>s'. sb_append_data cap buf n s = Some (length t + n + 1 \<le> cap, s') \<and>
             sb_rep cap s' (if length t + n + 1 \<le> cap then t @ take n buf else t)) \<and>
    (\<exists>s'. sb_append_int cap d s = Some (length t + length (dec_string (unat d)) + 1 \<le> cap, s') \<and>
             sb_rep cap s' (if length t + length (dec_string (unat d)) + 1 \<le> cap
                            then t @ dec_string (unat d) else t))"
  by (intro conjI sb_append_char_rep sb_append_cstr_rep sb_append_data_rep sb_append_int_rep assms)

theorem string_buffer_append_witness:
  "\<exists>s s'. sb_new 4 = Some s \<and> sb_append_cstr 4 ''3/0'' s = Some (True, s') \<and> sb_rep 4 s' ''3/0''"
proof -
  obtain s where s: "sb_new 4 = Some s" "sb_rep 4 s []" using sb_new_rep [of 4] by auto
  show ?thesis using string_buffer_append [OF s(2), of 1 "''a''" undefined "''3/0''" 0] s(1) by auto
qed

end
