(* ===== verification/BlockMessage.thy ===== *)
theory BlockMessage
  imports Coap
begin

text \<open>
  \<open>M2MBlockMessage\<close> of \<open>source/m2mblockmessage.cpp\<close>, which reads one block of a block-wise transfer
  out of a CoAP request. The \<open>block1\<close> option holds the block number above a 3-bit size exponent
  and the bit \<open>0x08\<close> that announces more blocks; a field keeps its machine width. The lemmas give
  the decoded block for every header, the size limit, and that a rejected message leaves the data of
  the block before it in place.
\<close>

datatype block_error = ErrorNone | EntityTooLarge

record block_message =
  bm_data :: "u8 list option"
  bm_total_message_size :: u32
  bm_data_len :: u32
  bm_block_number :: u16
  bm_error_code :: block_error
  bm_is_last_block :: bool
  bm_is_block_message :: bool

definition bm_new :: block_message where
  "bm_new = \<lparr>bm_data = None, bm_total_message_size = 0, bm_data_len = 0, bm_block_number = 0,
     bm_error_code = ErrorNone, bm_is_last_block = False, bm_is_block_message = False\<rparr>"

definition SN_COAP_MAX_INCOMING_MESSAGE_SIZE :: u32 where
  "SN_COAP_MAX_INCOMING_MESSAGE_SIZE = 0xFFFF"

definition bm_set_message_info :: "coap_msg option \<Rightarrow> block_message \<Rightarrow> block_message" where
  "bm_set_message_info hdr s =
     (let s1 = s\<lparr>bm_is_block_message :=
                 (case hdr of None \<Rightarrow> False
                  | Some h \<Rightarrow> (case cm_options h of None \<Rightarrow> False | Some opts \<Rightarrow> opt_block1 opts \<noteq> -1))\<rparr>
      in case hdr of None \<Rightarrow> s1
       | Some h \<Rightarrow> (case cm_options h of None \<Rightarrow> s1
           | Some opts \<Rightarrow>
             (let s2 = (if opt_use_size1 opts then s1\<lparr>bm_total_message_size := opt_size1 opts\<rparr> else s1);
                  s3 = s2\<lparr>bm_error_code :=
                         (if bm_total_message_size s2 > SN_COAP_MAX_INCOMING_MESSAGE_SIZE
                          then EntityTooLarge else ErrorNone)\<rparr>
              in if bm_error_code s3 = ErrorNone then
                   (let s4 = (if opt_block1 opts \<noteq> -1
                              then s3\<lparr>bm_is_last_block := (opt_block1 opts AND 0x08 = 0)\<rparr> else s3);
                        s5 = s4\<lparr>bm_block_number := ucast (signed_drop_bit 4 (opt_block1 opts))\<rparr>;
                        s6 = s5\<lparr>bm_data := None, bm_data_len := of_nat (payload_len h)\<rparr>
                    in if payload_len h > 0 then s6\<lparr>bm_data := cm_payload h\<rparr> else s6)
                 else s3)))"

definition bm_clear_values :: "block_message \<Rightarrow> block_message" where
  "bm_clear_values s =
     s\<lparr>bm_data := None, bm_data_len := 0, bm_block_number := 0, bm_total_message_size := 0,
       bm_is_last_block := False, bm_error_code := ErrorNone\<rparr>"

section \<open>Correctness\<close>

text \<open>The \<open>block1\<close> option as the CoAP block-wise transfer writes it.\<close>

definition block1_value :: "nat \<Rightarrow> bool \<Rightarrow> nat \<Rightarrow> i32" where
  "block1_value num m szx = of_nat (16 * num + (if m then 8 else 0) + szx)"

lemma block1_value_unat:
  assumes "num < 2 ^ 20" and "szx < 8"
  shows "unat (block1_value num m szx) = 16 * num + (if m then 8 else 0) + szx"
proof -
  have "take_bit LENGTH(32) (16 * num + (if m then 8 else 0) + szx) = 16 * num + (if m then 8 else 0) + szx"
    by (rule take_bit_nat_eq_self) (use assms in auto)
  then show ?thesis unfolding block1_value_def by (simp only: unsigned_of_nat of_nat_id)
qed

lemma bit_unat: "bit (w :: i32) k \<longleftrightarrow> odd (unat w div 2 ^ k)"
  using bit_unsigned_iff [of w k, where ?'a = nat] bit_iff_odd [of "unat w" k] by simp

lemma block1_value_bit3:
  assumes "num < 2 ^ 20" and "szx < 8"
  shows "block1_value num m szx AND 0x08 = 0 \<longleftrightarrow> \<not> m"
proof -
  have "(16 * num + (if m then 8 else 0) + szx) div 8 = (8 * (2 * num + (if m then 1 else 0)) + szx) div 8"
    by simp
  also have "\<dots> = 2 * num + (if m then 1 else 0)"
    using assms(2) by (subst div_mult_self4) auto
  finally have "(16 * num + (if m then 8 else 0) + szx) div 8 = 2 * num + (if m then 1 else 0)" .
  then have "bit (block1_value num m szx) 3 \<longleftrightarrow> m"
    unfolding bit_unat block1_value_unat [OF assms] by simp
  then show ?thesis using and_exp_eq_0_iff_not_bit [of "block1_value num m szx" 3] by simp
qed

lemma block1_value_sign:
  assumes "num < 2 ^ 20" and "szx < 8"
  shows "\<not> bit (block1_value num m szx) 31"
proof -
  have "16 * num + (if m then 8 else 0) + szx < 2 ^ 31" using assms by simp
  then show ?thesis unfolding bit_unat block1_value_unat [OF assms] by simp
qed

lemma block1_value_number:
  assumes "num < 2 ^ 20" and "szx < 8"
  shows "unat (ucast (signed_drop_bit 4 (block1_value num m szx)) :: u16) = num mod 2 ^ 16"
proof -
  let ?w = "block1_value num m szx"
  have "signed_drop_bit 4 ?w = drop_bit 4 ?w" using block1_value_sign [OF assms]
    by (intro bit_word_eqI) (auto simp: bit_signed_drop_bit_iff bit_drop_bit_eq dest: bit_imp_le_length)
  moreover have "unat (drop_bit 4 ?w) = num"
  proof -
    have "unat (drop_bit 4 ?w) = drop_bit 4 (unat ?w)" by (rule unat_drop_bit_eq)
    also have "\<dots> = (16 * num + ((if m then 8 else 0) + szx)) div 16"
      unfolding block1_value_unat [OF assms] drop_bit_eq_div by simp
    also have "\<dots> = num" using assms(2) by (subst div_mult_self4) auto
    finally show ?thesis .
  qed
  ultimately show ?thesis unfolding unsigned_ucast_eq by (simp add: take_bit_eq_mod)
qed

lemma block1_value_not_none: "num < 2 ^ 20 \<Longrightarrow> szx < 8 \<Longrightarrow> block1_value num m szx \<noteq> -1"
  using block1_value_sign [of num szx m] by (auto simp: bit_minus_1_iff)

section \<open>Properties\<close>

text \<open>The size an announced transfer has, as far as the message and the block before it tell.\<close>

definition announced_size :: "coap_options \<Rightarrow> block_message \<Rightarrow> u32" where
  "announced_size opts s = (if opt_use_size1 opts then opt_size1 opts else bm_total_message_size s)"

text \<open>Of a message whose \<open>block1\<close> option is block \<open>num\<close> of a transfer (\<open>num\<close> below 2 ^ 20, as
  the option has room for), with or without more blocks to come, and whose announced size is within the limit, the code reads the
  payload, whether it is the last block, and the block number modulo 2 ^ 16.\<close>

lemma block1_decoded:
  assumes "cm_options h = Some opts" and "opt_block1 opts = block1_value num m szx"
    and "num < 2 ^ 20" and "szx < 8" and "announced_size opts s \<le> SN_COAP_MAX_INCOMING_MESSAGE_SIZE"
  shows "bm_is_block_message (bm_set_message_info (Some h) s) \<and>
    bm_error_code (bm_set_message_info (Some h) s) = ErrorNone \<and>
    bm_is_last_block (bm_set_message_info (Some h) s) = (\<not> m) \<and>
    unat (bm_block_number (bm_set_message_info (Some h) s)) = num mod 2 ^ 16 \<and>
    bm_data (bm_set_message_info (Some h) s) = (if payload_len h > 0 then cm_payload h else None) \<and>
    bm_data_len (bm_set_message_info (Some h) s) = of_nat (payload_len h)"
  using assms(1,2,5) block1_value_not_none [OF assms(3,4), of m] block1_value_bit3 [OF assms(3,4), of m]
    block1_value_number [OF assms(3,4), of m]
  by (simp add: bm_set_message_info_def Let_def announced_size_def not_less split: if_splits)

definition sample_block :: "u32 \<Rightarrow> coap_msg" where
  "sample_block size1 = \<lparr>cm_code = COAP_MSG_CODE_REQUEST_PUT, cm_id = 1, cm_content_format = 42,
     cm_uri_path = None, cm_token = None, cm_payload = Some [1, 2],
     cm_options = Some \<lparr>opt_observe = -1, opt_uri_query = None, opt_block1 = block1_value 3 True 2,
       opt_use_size1 = True, opt_size1 = size1, opt_max_age = 0, opt_location_path = None\<rparr>\<rparr>"

lemma block1_decoded_witness:
  "unat (bm_block_number (bm_set_message_info (Some (sample_block 100)) bm_new)) = 3 \<and>
   \<not> bm_is_last_block (bm_set_message_info (Some (sample_block 100)) bm_new)"
  using block1_decoded [of "sample_block 100" "the (cm_options (sample_block 100))" 3 True 2 bm_new]
  by (simp add: sample_block_def announced_size_def SN_COAP_MAX_INCOMING_MESSAGE_SIZE_def)

text \<open>A block of a transfer announced to be larger than the limit is an error, and the
  data, number and last-block mark of the block before it stay in place.\<close>

lemma oversized_block_rejected:
  assumes "cm_options h = Some opts" and "announced_size opts s > SN_COAP_MAX_INCOMING_MESSAGE_SIZE"
  shows "bm_error_code (bm_set_message_info (Some h) s) = EntityTooLarge \<and>
    bm_total_message_size (bm_set_message_info (Some h) s) = announced_size opts s \<and>
    bm_data (bm_set_message_info (Some h) s) = bm_data s \<and>
    bm_data_len (bm_set_message_info (Some h) s) = bm_data_len s \<and>
    bm_block_number (bm_set_message_info (Some h) s) = bm_block_number s \<and>
    bm_is_last_block (bm_set_message_info (Some h) s) = bm_is_last_block s"
  using assms by (auto simp: bm_set_message_info_def Let_def announced_size_def split: if_splits)

lemma oversized_block_rejected_witness:
  "bm_error_code (bm_set_message_info (Some (sample_block 0x10000)) bm_new) = EntityTooLarge"
  using oversized_block_rejected [of "sample_block 0x10000" "the (cm_options (sample_block 0x10000))" bm_new]
  by (simp add: sample_block_def announced_size_def SN_COAP_MAX_INCOMING_MESSAGE_SIZE_def)

end
