(* ===== verification/ObjectTree.thy ===== *)
theory ObjectTree
  imports ReportHandler StringBuffer BlockMessage
begin

text \<open>
  The data of an LWM2M object: \<open>M2MBase\<close> with its \<open>lwm2m_parameters_s\<close> and the CoAP library's
  resource parameters, and the three levels \<open>M2MObject\<close>, \<open>M2MObjectInstance\<close>, \<open>M2MResource\<close> with the
  \<open>M2MResourceInstance\<close> of a multiple resource. A parent holds its children in order, as the vectors
  of pointers do; a node is addressed by its positions. The state of a request is the object and the
  calls made so far on the observation handler and the timers.
\<close>

section \<open>Records\<close>

text \<open>The union \<open>identifier\<close> with its tag \<open>identifier_int_type\<close>.\<close>

datatype node_ident = Name string | InstanceId u16

record base =
  bs_ident :: node_ident
  bs_base_type :: base_type
  bs_data_type :: data_type
  bs_multiple :: bool
  bs_max_age :: u32
  bs_mode :: mode
  bs_path :: string
  bs_resource_type :: string
  bs_access :: u8
  bs_observable :: bool
  bs_content_type :: int
  bs_publish_uri :: bool
  bs_external_block :: bool
  bs_value :: "u8 list option"
  bs_report :: "report_handler option"

record resource_instance =
  ri_base :: base
  ri_block :: "block_message option"

record resource =
  r_base :: base
  r_block :: "block_message option"
  r_instances :: "resource_instance list"
  r_delayed_response :: bool
  r_delayed_token :: "u8 list option"

record object_instance =
  oi_base :: base
  oi_resources :: "resource list"

text \<open>\<open>_observation_handler\<close> is null or the one handler of the client.\<close>

record lwm2m_object =
  o_base :: base
  o_instances :: "object_instance list"
  o_handler :: bool

datatype node = NObj | NInst nat | NRes nat nat | NRinst nat nat nat

datatype tree_output =
    SendObservation node u16 "u16 list" bool
  | ValueUpdated node
  | ResourceToBeDeleted string
  | TimerStarted node timer_type u64
  | TimerStopped node timer_type

record tree =
  t_object :: lwm2m_object
  t_out :: "tree_output list"

section \<open>M2MBase\<close>

definition base_new ::
  "string \<Rightarrow> mode \<Rightarrow> string \<Rightarrow> string \<Rightarrow> bool \<Rightarrow> bool \<Rightarrow> data_type \<Rightarrow> base_type \<Rightarrow> base" where
  "base_new resource_name m resource_type path external_blockwise_store multiple_instance type bt =
     \<lparr>bs_ident = (if resource_name \<noteq> [] then Name resource_name else InstanceId 0),
      bs_base_type = bt, bs_data_type = type, bs_multiple = multiple_instance, bs_max_age = 0,
      bs_mode = m, bs_path = path, bs_resource_type = resource_type, bs_access = NOT_ALLOWED,
      bs_observable = False, bs_content_type = 0, bs_publish_uri = True,
      bs_external_block = external_blockwise_store, bs_value = None, bs_report = None\<rparr>"

definition is_integer :: "string \<Rightarrow> bool" where
  "is_integer value =
     (if length value < 1 \<or> (\<not> isdigit (hd value) \<and> hd value \<noteq> CHR ''-'' \<and> hd value \<noteq> CHR ''+'') then False
      else (case strtol_parse value of (_, _, rest) \<Rightarrow> rest = []))"

definition string_name_id :: "string \<Rightarrow> int" where
  "string_name_id name =
     (let name_id = -1
      in if is_integer name \<and> length name \<le> MAX_ALLOWED_STRING_LENGTH then
           (let v = sint (word_of_int (strtoul name) :: i32)
            in if v > 65535 then -1 else v)
         else name_id)"

text \<open>
  The accessors of the union assert its tag; a name is kept by the object and by resources, a number
  by instances.
\<close>

definition base_name :: "base \<Rightarrow> string option" where
  "base_name b = (case bs_ident b of Name s \<Rightarrow> Some s | InstanceId _ \<Rightarrow> None)"

definition base_name_id :: "base \<Rightarrow> int" where
  "base_name_id b = (case bs_ident b of Name s \<Rightarrow> string_name_id s | InstanceId _ \<Rightarrow> -1)"

definition base_instance_id :: "base \<Rightarrow> u16" where
  "base_instance_id b = (case bs_ident b of InstanceId i \<Rightarrow> i | Name _ \<Rightarrow> 0)"

definition base_set_instance_id :: "u16 \<Rightarrow> base \<Rightarrow> base" where
  "base_set_instance_id i b = b\<lparr>bs_ident := InstanceId i\<rparr>"

definition base_set_operation :: "u8 \<Rightarrow> base \<Rightarrow> base" where
  "base_set_operation opr b =
     (if bs_mode b = Static then b\<lparr>bs_access := GET_ALLOWED\<rparr> else b\<lparr>bs_access := opr\<rparr>)"

definition base_observation_level :: "base \<Rightarrow> u8" where
  "base_observation_level b = (case bs_report b of None \<Rightarrow> obs_None | Some h \<Rightarrow> rh_level h)"

definition base_observation_number :: "base \<Rightarrow> u16" where
  "base_observation_number b = (case bs_report b of None \<Rightarrow> 0 | Some h \<Rightarrow> rh_observation_number h)"

definition base_is_under_observation :: "base \<Rightarrow> bool" where
  "base_is_under_observation b = (case bs_report b of None \<Rightarrow> False | Some h \<Rightarrow> rh_under_observation h)"

definition base_add_observation_level :: "u8 \<Rightarrow> base \<Rightarrow> base" where
  "base_add_observation_level l b = b\<lparr>bs_report := map_option (rh_add_observation_level l) (bs_report b)\<rparr>"

definition base_remove_observation_level :: "u8 \<Rightarrow> base \<Rightarrow> base" where
  "base_remove_observation_level l b = b\<lparr>bs_report := map_option (rh_remove_observation_level l) (bs_report b)\<rparr>"

definition base_set_observation_token :: "u8 list \<Rightarrow> u8 \<Rightarrow> base \<Rightarrow> base" where
  "base_set_observation_token t n b =
     b\<lparr>bs_report := map_option (rh_set_observation_token (Some t) n) (bs_report b)\<rparr>"

definition validate_string_length :: "string \<Rightarrow> nat \<Rightarrow> nat \<Rightarrow> bool" where
  "validate_string_length s min_length max_length \<longleftrightarrow> length s \<ge> min_length \<and> length s \<le> max_length"

definition value_len :: "base \<Rightarrow> nat" where
  "value_len b = (case bs_value b of None \<Rightarrow> 0 | Some v \<Rightarrow> length v)"

definition alloc_string_copy :: "u8 list \<Rightarrow> nat \<Rightarrow> u8 list" where
  "alloc_string_copy source n = take n source"

section \<open>Paths\<close>

text \<open>
  \<open>create_path\<close> for the four kinds of parents: appends to fixed string buffers whose results are not
  looked at, so a part that does not fit is left out.
\<close>

definition sb_or_same :: "(bool \<times> string_buffer) option \<Rightarrow> string_buffer option" where
  "sb_or_same r = map_option snd r"

definition sb_str :: "string_buffer \<Rightarrow> string option" where
  "sb_str s = (if None \<in> set (takeWhile (\<lambda>c. c \<noteq> Some NUL) (sb_buff s)) then None
               else Some (map the (takeWhile (\<lambda>c. c \<noteq> Some NUL) (sb_buff s))))"

definition create_path_object_name :: "string \<Rightarrow> string \<Rightarrow> string option" where
  "create_path_object_name obj_name name = do {
     let n = MAX_NAME_SIZE * 2 + (2 + 1);
     p0 \<leftarrow> sb_new n;
     p1 \<leftarrow> sb_or_same (sb_append_cstr n obj_name p0);
     p2 \<leftarrow> sb_or_same (sb_append_char n CHR ''/'' p1);
     p3 \<leftarrow> sb_or_same (sb_append_cstr n name p2);
     sb_str p3 }"

definition create_path_object :: "string \<Rightarrow> u16 \<Rightarrow> string option" where
  "create_path_object obj_name object_instance = do {
     b0 \<leftarrow> sb_new 5;
     b1 \<leftarrow> sb_or_same (sb_append_int 5 object_instance b0);
     s \<leftarrow> sb_str b1;
     create_path_object_name obj_name s }"

definition create_path_instance :: "string \<Rightarrow> u16 \<Rightarrow> string \<Rightarrow> string option" where
  "create_path_instance obj_name obj_inst_id name = do {
     let n = MAX_NAME_SIZE * 3 + (2 + 1);
     p0 \<leftarrow> sb_new n;
     p1 \<leftarrow> sb_or_same (sb_append_cstr n obj_name p0);
     p2 \<leftarrow> sb_or_same (sb_append_char n CHR ''/'' p1);
     p3 \<leftarrow> sb_or_same (sb_append_int n obj_inst_id p2);
     p4 \<leftarrow> sb_or_same (sb_append_char n CHR ''/'' p3);
     p5 \<leftarrow> sb_or_same (sb_append_cstr n name p4);
     sb_str p5 }"

definition create_path_resource_name :: "string \<Rightarrow> u16 \<Rightarrow> string \<Rightarrow> string \<Rightarrow> string option" where
  "create_path_resource_name obj_name obj_inst_id resource_name name = do {
     let n = MAX_NAME_SIZE * 4 + (3 + 1);
     p0 \<leftarrow> sb_new n;
     p1 \<leftarrow> sb_or_same (sb_append_cstr n obj_name p0);
     p2 \<leftarrow> sb_or_same (sb_append_char n CHR ''/'' p1);
     p3 \<leftarrow> sb_or_same (sb_append_int n obj_inst_id p2);
     p4 \<leftarrow> sb_or_same (sb_append_char n CHR ''/'' p3);
     p5 \<leftarrow> sb_or_same (sb_append_cstr n resource_name p4);
     p6 \<leftarrow> sb_or_same (sb_append_char n CHR ''/'' p5);
     p7 \<leftarrow> sb_or_same (sb_append_cstr n name p6);
     sb_str p7 }"

definition create_path_resource :: "string \<Rightarrow> u16 \<Rightarrow> string \<Rightarrow> u16 \<Rightarrow> string option" where
  "create_path_resource obj_name obj_inst_id resource_name resource_instance = do {
     b0 \<leftarrow> sb_new 5;
     b1 \<leftarrow> sb_or_same (sb_append_int 5 resource_instance b0);
     s \<leftarrow> sb_str b1;
     create_path_resource_name obj_name obj_inst_id resource_name s }"

text \<open>\<open>build_path\<close> for the four kinds of nodes, which checks the space first.\<close>

definition build_path_1 :: "string \<Rightarrow> u16 \<Rightarrow> string \<Rightarrow> u16 \<Rightarrow> (bool \<times> string) option" where
  "build_path_1 s1 i1 s2 i2 = do {
     let n = (MAX_NAME_SIZE * 2) + (MAX_INSTANCE_SIZE * 2) + 3 + 1;
     p0 \<leftarrow> sb_new n;
     if \<not> ensure_space n (length s1 + length s2 + (MAX_INSTANCE_SIZE * 2) + 3 + 1) p0 then Some (False, [])
     else do {
       p1 \<leftarrow> sb_or_same (sb_append_cstr n s1 p0);
       p2 \<leftarrow> sb_or_same (sb_append_char n CHR ''/'' p1);
       p3 \<leftarrow> sb_or_same (sb_append_int n i1 p2);
       p4 \<leftarrow> sb_or_same (sb_append_char n CHR ''/'' p3);
       p5 \<leftarrow> sb_or_same (sb_append_cstr n s2 p4);
       p6 \<leftarrow> sb_or_same (sb_append_char n CHR ''/'' p5);
       p7 \<leftarrow> sb_or_same (sb_append_int n i2 p6);
       s \<leftarrow> sb_str p7;
       Some (True, s) } }"

definition build_path_2 :: "string \<Rightarrow> u16 \<Rightarrow> string \<Rightarrow> (bool \<times> string) option" where
  "build_path_2 s1 i1 s2 = do {
     let n = (MAX_NAME_SIZE * 2) + MAX_INSTANCE_SIZE + 2 + 1;
     p0 \<leftarrow> sb_new n;
     if \<not> ensure_space n (length s1 + length s2 + MAX_INSTANCE_SIZE + 2 + 1) p0 then Some (False, [])
     else do {
       p1 \<leftarrow> sb_or_same (sb_append_cstr n s1 p0);
       p2 \<leftarrow> sb_or_same (sb_append_char n CHR ''/'' p1);
       p3 \<leftarrow> sb_or_same (sb_append_int n i1 p2);
       p4 \<leftarrow> sb_or_same (sb_append_char n CHR ''/'' p3);
       p5 \<leftarrow> sb_or_same (sb_append_cstr n s2 p4);
       s \<leftarrow> sb_str p5;
       Some (True, s) } }"

definition build_path_4 :: "string \<Rightarrow> u16 \<Rightarrow> (bool \<times> string) option" where
  "build_path_4 s1 i1 = do {
     let n = MAX_NAME_SIZE + MAX_INSTANCE_SIZE + 1 + 1;
     p0 \<leftarrow> sb_new n;
     if \<not> ensure_space n (length s1 + MAX_INSTANCE_SIZE + 1 + 1) p0 then Some (False, [])
     else do {
       p1 \<leftarrow> sb_or_same (sb_append_cstr n s1 p0);
       p2 \<leftarrow> sb_or_same (sb_append_char n CHR ''/'' p1);
       p3 \<leftarrow> sb_or_same (sb_append_int n i1 p2);
       s \<leftarrow> sb_str p3;
       Some (True, s) } }"

definition build_path_3 :: "string \<Rightarrow> u16 \<Rightarrow> u16 \<Rightarrow> (bool \<times> string) option" where
  "build_path_3 s1 i1 i2 = do {
     let n = MAX_NAME_SIZE + (MAX_INSTANCE_SIZE * 2) + 2 + 1;
     p0 \<leftarrow> sb_new n;
     if \<not> ensure_space n (length s1 + (MAX_INSTANCE_SIZE * 2) + 2 + 1) p0 then Some (False, [])
     else do {
       p1 \<leftarrow> sb_or_same (sb_append_cstr n s1 p0);
       p2 \<leftarrow> sb_or_same (sb_append_char n CHR ''/'' p1);
       p3 \<leftarrow> sb_or_same (sb_append_int n i1 p2);
       p4 \<leftarrow> sb_or_same (sb_append_char n CHR ''/'' p3);
       p5 \<leftarrow> sb_or_same (sb_append_int n i2 p4);
       s \<leftarrow> sb_str p5;
       Some (True, s) } }"

end
