(* ===== verification/Paths.thy ===== *)
theory Paths
  imports ObjectTree
begin

text \<open>
  What \<open>create_path\<close> and \<open>build_path\<close> of \<open>source/m2mbase.cpp\<close> compute. No call leaves its buffer, and
  the path is the names and numbers joined by slashes whenever they fit. The 5-byte buffer for a
  number has room for four digits and the NUL, so an instance number of five digits is lost.
\<close>

lemma sb_str_rep: "sb_rep cap s t \<Longrightarrow> sb_str s = Some (cstr t)"
proof -
  assume "sb_rep cap s t"
  then obtain junk where b: "sb_buff s = map Some t @ Some NUL # junk" by (auto simp: sb_rep_def)
  have "takeWhile (\<lambda>c. c \<noteq> Some NUL) (map Some t @ Some NUL # junk) = map Some (cstr t)"
    by (induction t) (auto simp: cstr_def)
  then show ?thesis by (auto simp: sb_str_def b comp_def)
qed

section \<open>Appends that are not looked at\<close>

definition fit :: "nat \<Rightarrow> string \<Rightarrow> string \<Rightarrow> string" where
  "fit cap u t = (if length t + length u + 1 \<le> cap then t @ u else t)"

lemma same_cstr: "sb_rep cap s t \<Longrightarrow> \<exists>s'. sb_or_same (sb_append_cstr cap u s) = Some s' \<and> sb_rep cap s' (fit cap u t)"
  using sb_append_cstr_rep [of cap s t u] by (auto simp: sb_or_same_def fit_def)

lemma same_char: "sb_rep cap s t \<Longrightarrow> \<exists>s'. sb_or_same (sb_append_char cap c s) = Some s' \<and> sb_rep cap s' (fit cap [c] t)"
  using sb_append_char_rep [of cap s t c] by (auto simp: sb_or_same_def fit_def)

lemma same_int: "sb_rep cap s t \<Longrightarrow> \<exists>s'. sb_or_same (sb_append_int cap d s) = Some s' \<and>
    sb_rep cap s' (fit cap (dec_string (unat d)) t)"
  using sb_append_int_rep [of cap s t d] by (auto simp: sb_or_same_def fit_def)

lemma create_path_object_name_eq:
  "create_path_object_name on name =
     Some (cstr (fit 131 name (fit 131 ''/'' (fit 131 on []))))"
proof -
  obtain p0 where p0: "sb_new 131 = Some p0" "sb_rep 131 p0 []" using sb_new_rep [of 131] by auto
  obtain p1 where p1: "sb_or_same (sb_append_cstr 131 on p0) = Some p1" "sb_rep 131 p1 (fit 131 on [])"
    using same_cstr [OF p0(2)] by blast
  obtain p2 where p2: "sb_or_same (sb_append_char 131 CHR ''/'' p1) = Some p2" "sb_rep 131 p2 (fit 131 ''/'' (fit 131 on []))"
    using same_char [OF p1(2)] by blast
  obtain p3 where p3: "sb_or_same (sb_append_cstr 131 name p2) = Some p3"
    "sb_rep 131 p3 (fit 131 name (fit 131 ''/'' (fit 131 on [])))"
    using same_cstr [OF p2(2)] by blast
  show ?thesis
    using p0(1) p1(1) p2(1) p3(1) sb_str_rep [OF p3(2)] by (simp add: create_path_object_name_def)
qed

lemma number_buffer:
  "do { b0 \<leftarrow> sb_new 5; b1 \<leftarrow> sb_or_same (sb_append_int 5 i b0); s \<leftarrow> sb_str b1; f s } =
     f (fit 5 (dec_string (unat i)) [])"
proof -
  obtain b0 where b0: "sb_new 5 = Some b0" "sb_rep 5 b0 []" using sb_new_rep [of 5] by auto
  obtain b1 where b1: "sb_or_same (sb_append_int 5 i b0) = Some b1" "sb_rep 5 b1 (fit 5 (dec_string (unat i)) [])"
    using same_int [OF b0(2)] by blast
  have "no_nul (fit 5 (dec_string (unat i)) [])" by (simp add: fit_def dec_string_no_nul)
  then show ?thesis using b0(1) b1(1) sb_str_rep [OF b1(2)] by simp
qed

lemma create_path_object_eq:
  "create_path_object on i = create_path_object_name on (fit 5 (dec_string (unat i)) [])"
  unfolding create_path_object_def by (rule number_buffer)

lemma create_path_instance_eq:
  "create_path_instance on i name =
     Some (cstr (fit 195 name (fit 195 ''/'' (fit 195 (dec_string (unat i)) (fit 195 ''/'' (fit 195 on []))))))"
proof -
  obtain p0 where p0: "sb_new 195 = Some p0" "sb_rep 195 p0 []" using sb_new_rep [of 195] by auto
  obtain p1 where p1: "sb_or_same (sb_append_cstr 195 on p0) = Some p1" "sb_rep 195 p1 (fit 195 on [])"
    using same_cstr [OF p0(2)] by blast
  let ?t2 = "fit 195 ''/'' (fit 195 on [])"
  obtain p2 where p2: "sb_or_same (sb_append_char 195 CHR ''/'' p1) = Some p2" "sb_rep 195 p2 ?t2"
    using same_char [OF p1(2)] by blast
  let ?t3 = "fit 195 (dec_string (unat i)) ?t2"
  obtain p3 where p3: "sb_or_same (sb_append_int 195 i p2) = Some p3" "sb_rep 195 p3 ?t3"
    using same_int [OF p2(2)] by blast
  let ?t4 = "fit 195 ''/'' ?t3"
  obtain p4 where p4: "sb_or_same (sb_append_char 195 CHR ''/'' p3) = Some p4" "sb_rep 195 p4 ?t4"
    using same_char [OF p3(2)] by blast
  obtain p5 where p5: "sb_or_same (sb_append_cstr 195 name p4) = Some p5" "sb_rep 195 p5 (fit 195 name ?t4)"
    using same_cstr [OF p4(2)] by blast
  show ?thesis
    using p0(1) p1(1) p2(1) p3(1) p4(1) p5(1) sb_str_rep [OF p5(2)] by (simp add: create_path_instance_def)
qed

lemma create_path_resource_name_Some: "\<exists>p. create_path_resource_name on i rn name = Some p"
proof -
  obtain p0 where p0: "sb_new 260 = Some p0" "sb_rep 260 p0 []" using sb_new_rep [of 260] by auto
  obtain p1 t1 where p1: "sb_or_same (sb_append_cstr 260 on p0) = Some p1" "sb_rep 260 p1 t1"
    using same_cstr [OF p0(2)] by blast
  obtain p2 t2 where p2: "sb_or_same (sb_append_char 260 CHR ''/'' p1) = Some p2" "sb_rep 260 p2 t2"
    using same_char [OF p1(2)] by blast
  obtain p3 t3 where p3: "sb_or_same (sb_append_int 260 i p2) = Some p3" "sb_rep 260 p3 t3"
    using same_int [OF p2(2)] by blast
  obtain p4 t4 where p4: "sb_or_same (sb_append_char 260 CHR ''/'' p3) = Some p4" "sb_rep 260 p4 t4"
    using same_char [OF p3(2)] by blast
  obtain p5 t5 where p5: "sb_or_same (sb_append_cstr 260 rn p4) = Some p5" "sb_rep 260 p5 t5"
    using same_cstr [OF p4(2)] by blast
  obtain p6 t6 where p6: "sb_or_same (sb_append_char 260 CHR ''/'' p5) = Some p6" "sb_rep 260 p6 t6"
    using same_char [OF p5(2)] by blast
  obtain p7 t7 where p7: "sb_or_same (sb_append_cstr 260 name p6) = Some p7" "sb_rep 260 p7 t7"
    using same_cstr [OF p6(2)] by blast
  show ?thesis
    using p0(1) p1(1) p2(1) p3(1) p4(1) p5(1) p6(1) p7(1) sb_str_rep [OF p7(2)]
    by (simp add: create_path_resource_name_def)
qed

lemma create_path_resource_Some: "\<exists>p. create_path_resource on i rn k = Some p"
  unfolding create_path_resource_def number_buffer by (rule create_path_resource_name_Some)

lemma create_path_object_Some: "\<exists>p. create_path_object on i = Some p"
  by (simp add: create_path_object_eq create_path_object_name_eq)

lemma create_path_instance_Some: "\<exists>p. create_path_instance on i name = Some p"
  by (simp add: create_path_instance_eq)

lemma length_dec_u16: "length (dec_string (unat (i :: u16))) \<le> 5"
proof -
  have "unat i < 2 ^ 16" using unsigned_less [of i, where ?'a = nat] by simp
  then show ?thesis using length_dec_string [of "unat i" 4] by simp
qed

text \<open>Where the space was checked first, every part fits, also the longest number.\<close>

lemma ensure_space_new:
  assumes "sb_rep cap p0 []" and "cap < 2 ^ 32"
  shows "ensure_space cap n p0 \<longleftrightarrow> n \<le> cap"
  using assms by (simp add: ensure_space_def sb_rep_def nat_mod_as_int)

lemma build_path_1_eq:
  assumes "no_nul s1" and "no_nul s2"
  shows "build_path_1 s1 i1 s2 i2 =
    Some (if length s1 + length s2 \<le> 2 * MAX_NAME_SIZE
          then (True, s1 @ ''/'' @ dec_string (unat i1) @ ''/'' @ s2 @ ''/'' @ dec_string (unat i2)) else (False, []))"
proof -
  obtain p0 where p0: "sb_new 142 = Some p0" "sb_rep 142 p0 []" using sb_new_rep [of 142] by auto
  show ?thesis
  proof (cases "length s1 + length s2 \<le> 2 * MAX_NAME_SIZE")
    case False
    then show ?thesis using p0(1) ensure_space_new [OF p0(2)] by (simp add: build_path_1_def)
  next
    case True
    note d = length_dec_u16 [of i1] length_dec_u16 [of i2]
    obtain p1 where p1: "sb_or_same (sb_append_cstr 142 s1 p0) = Some p1" "sb_rep 142 p1 s1"
      using same_cstr [OF p0(2), of s1] True by (auto simp: fit_def)
    obtain p2 where p2: "sb_or_same (sb_append_char 142 CHR ''/'' p1) = Some p2" "sb_rep 142 p2 (s1 @ ''/'')"
      using same_char [OF p1(2)] True by (auto simp: fit_def)
    obtain p3 where p3: "sb_or_same (sb_append_int 142 i1 p2) = Some p3" "sb_rep 142 p3 ((s1 @ ''/'') @ dec_string (unat i1))"
      using same_int [OF p2(2), of i1] True d by (auto simp: fit_def)
    let ?t4 = "((s1 @ ''/'') @ dec_string (unat i1)) @ ''/''"
    obtain p4 where p4: "sb_or_same (sb_append_char 142 CHR ''/'' p3) = Some p4" "sb_rep 142 p4 ?t4"
      using same_char [OF p3(2)] True d by (auto simp: fit_def)
    obtain p5 where p5: "sb_or_same (sb_append_cstr 142 s2 p4) = Some p5" "sb_rep 142 p5 (?t4 @ s2)"
      using same_cstr [OF p4(2), of s2] True d by (auto simp: fit_def)
    obtain p6 where p6: "sb_or_same (sb_append_char 142 CHR ''/'' p5) = Some p6" "sb_rep 142 p6 ((?t4 @ s2) @ ''/'')"
      using same_char [OF p5(2)] True d by (auto simp: fit_def)
    obtain p7 where p7: "sb_or_same (sb_append_int 142 i2 p6) = Some p7" "sb_rep 142 p7 (((?t4 @ s2) @ ''/'') @ dec_string (unat i2))"
      using same_int [OF p6(2), of i2] True d by (auto simp: fit_def)
    show ?thesis
      using True assms ensure_space_new [OF p0(2)] p0(1) p1(1) p2(1) p3(1) p4(1) p5(1) p6(1) p7(1) sb_str_rep [OF p7(2)]
      by (simp add: build_path_1_def dec_string_no_nul)
  qed
qed

lemma build_path_2_eq:
  assumes "no_nul s1" and "no_nul s2"
  shows "build_path_2 s1 i1 s2 =
    Some (if length s1 + length s2 \<le> 2 * MAX_NAME_SIZE
          then (True, s1 @ ''/'' @ dec_string (unat i1) @ ''/'' @ s2) else (False, []))"
proof -
  obtain p0 where p0: "sb_new 136 = Some p0" "sb_rep 136 p0 []" using sb_new_rep [of 136] by auto
  show ?thesis
  proof (cases "length s1 + length s2 \<le> 2 * MAX_NAME_SIZE")
    case False
    then show ?thesis using p0(1) ensure_space_new [OF p0(2)] by (simp add: build_path_2_def)
  next
    case True
    note d = length_dec_u16 [of i1]
    obtain p1 where p1: "sb_or_same (sb_append_cstr 136 s1 p0) = Some p1" "sb_rep 136 p1 s1"
      using same_cstr [OF p0(2), of s1] True by (auto simp: fit_def)
    obtain p2 where p2: "sb_or_same (sb_append_char 136 CHR ''/'' p1) = Some p2" "sb_rep 136 p2 (s1 @ ''/'')"
      using same_char [OF p1(2)] True by (auto simp: fit_def)
    obtain p3 where p3: "sb_or_same (sb_append_int 136 i1 p2) = Some p3" "sb_rep 136 p3 ((s1 @ ''/'') @ dec_string (unat i1))"
      using same_int [OF p2(2), of i1] True d by (auto simp: fit_def)
    let ?t4 = "((s1 @ ''/'') @ dec_string (unat i1)) @ ''/''"
    obtain p4 where p4: "sb_or_same (sb_append_char 136 CHR ''/'' p3) = Some p4" "sb_rep 136 p4 ?t4"
      using same_char [OF p3(2)] True d by (auto simp: fit_def)
    obtain p5 where p5: "sb_or_same (sb_append_cstr 136 s2 p4) = Some p5" "sb_rep 136 p5 (?t4 @ s2)"
      using same_cstr [OF p4(2), of s2] True d by (auto simp: fit_def)
    show ?thesis
      using True assms ensure_space_new [OF p0(2)] p0(1) p1(1) p2(1) p3(1) p4(1) p5(1) sb_str_rep [OF p5(2)]
      by (simp add: build_path_2_def dec_string_no_nul)
  qed
qed

section \<open>Numbers of five digits\<close>

lemma length_itoa_digits_lower: "10 ^ k \<le> n \<Longrightarrow> Suc k \<le> length (itoa_digits n)"
proof (induction k arbitrary: n)
  case 0
  then show ?case by (simp add: itoa_digits.simps [of n])
next
  case (Suc k)
  have "10 ^ k \<le> n div 10" using Suc.prems by (simp add: div_le_mono less_eq_div_iff_mult_less_eq mult.commute)
  moreover from this have "n div 10 > 0" by (metis gr0I le_zero_eq power_not_zero zero_neq_numeral)
  ultimately show ?case using Suc.IH [of "n div 10"] by (simp add: itoa_digits.simps [of n])
qed

lemma fit_number:
  "fit 5 (dec_string n) [] = (if n < 10000 then dec_string n else [])"
proof (cases "n < 10000")
  case True
  then show ?thesis using length_dec_string [of n 3] by (simp add: fit_def)
next
  case False
  then have "5 \<le> length (itoa_digits n)" using length_itoa_digits_lower [of 4 n] by simp
  then show ?thesis using False by (simp add: fit_def dec_string_def)
qed

section \<open>Properties\<close>

lemma fit_room: "length t + length u < cap \<Longrightarrow> fit cap u t = t @ u"
  by (simp add: fit_def)

text \<open>The path of an object instance is the object's name, a slash and the number of the
  instance when the number has at most four digits; a number of 10000 or more is left out of the path, since
  the buffer that formats it has five bytes.\<close>

lemma object_instance_path:
  assumes "no_nul on" and "length on \<le> MAX_NAME_SIZE"
  shows "create_path_object on i =
    Some (on @ ''/'' @ (if unat i < 10000 then dec_string (unat i) else []))"
proof -
  let ?n = "if unat i < 10000 then dec_string (unat i) else []"
  have "length ?n \<le> 5" using length_dec_u16 [of i] by simp
  moreover have "no_nul ?n" by (simp add: dec_string_no_nul)
  ultimately show ?thesis using assms
    unfolding create_path_object_eq create_path_object_name_eq fit_number by (simp add: fit_room)
qed

lemma object_instance_path_witness: "create_path_object ''3303'' 10001 = Some ''3303/''"
  using object_instance_path [of "''3303''" 10001] by simp

text \<open>The path of a resource is the object's name, the number of the instance and the resource's
  name, separated by slashes, for names of up to 64 characters and every number.\<close>

lemma resource_path:
  assumes "no_nul on" and "length on \<le> MAX_NAME_SIZE" and "no_nul name" and "length name \<le> MAX_NAME_SIZE"
  shows "create_path_instance on i name = Some (on @ ''/'' @ dec_string (unat i) @ ''/'' @ name)"
  using assms length_dec_u16 [of i] unfolding create_path_instance_eq
  by (simp add: fit_room dec_string_no_nul)

lemma resource_path_witness: "create_path_instance ''3'' 10001 ''13'' = Some ''3/10001/13''"
proof -
  have "create_path_instance ''3'' 10001 ''13'' = Some (''3'' @ ''/'' @ dec_string (unat (10001 :: u16)) @ ''/'' @ ''13'')"
    by (rule resource_path) simp_all
  moreover have "dec_string (unat (10001 :: u16)) = ''10001''"
    by (simp add: dec_string_def itoa_digits.simps digit_char_def char_of_def bit_0)
  ultimately show ?thesis by simp
qed

end
