(* ===== verification/ReportHandlerSpec.thy ===== *)
theory ReportHandlerSpec
  imports ReportHandler
begin

text \<open>
  The report handler as a machine: its inputs, a run over a list of inputs, and what holds along every
  run. Notifications are numbered consecutively, the list of changed instances has no duplicates,
  \<open>pmin\<close> separates two notifications unless a value out of range stops its timer, \<open>pmax\<close> forces one, and a query that is refused leaves the
  attributes as they were.
\<close>

section \<open>Runs\<close>

datatype rh_input =
    SetUnderObservation bool
  | SetValue cfloat
  | Trigger u16
  | TimerExpired timer_type
  | ParseQuery string base_type data_type
  | SetToken "u8 list option" u8
  | AddLevel u8
  | RemoveLevel u8
  | SetDefaults

fun rh_step :: "rh_input \<Rightarrow> report_handler \<Rightarrow> (report_handler \<times> report_event list) option" where
  "rh_step (SetUnderObservation b) h = Some (rh_set_under_observation b h)"
| "rh_step (SetValue v) h = Some (rh_set_value v h)"
| "rh_step (Trigger i) h = Some (rh_set_notification_trigger i h)"
| "rh_step (TimerExpired t) h = Some (rh_timer_expired t h)"
| "rh_step (ParseQuery q t rt) h = map_option (\<lambda>(s, h'). (h', [])) (rh_parse_notification_attribute q t rt h)"
| "rh_step (SetToken t n) h = Some (rh_set_observation_token t n h, [])"
| "rh_step (AddLevel l) h = Some (rh_add_observation_level l h, [])"
| "rh_step (RemoveLevel l) h = Some (rh_remove_observation_level l h, [])"
| "rh_step SetDefaults h = Some (rh_set_default_values h, [])"

fun rh_run :: "rh_input list \<Rightarrow> report_handler \<Rightarrow> (report_handler \<times> report_event list) option" where
  "rh_run [] h = Some (h, [])"
| "rh_run (i # is) h = do {
     (h1, e1) \<leftarrow> rh_step i h;
     (h2, e2) \<leftarrow> rh_run is h1;
     Some (h2, e1 @ e2) }"

fun notification_numbers :: "report_event list \<Rightarrow> u16 list" where
  "notification_numbers [] = []"
| "notification_numbers (ObservationToBeSent ids n so # es) = n # notification_numbers es"
| "notification_numbers (_ # es) = notification_numbers es"

lemma notification_numbers_append [simp]:
  "notification_numbers (xs @ ys) = notification_numbers xs @ notification_numbers ys"
  by (induction xs rule: notification_numbers.induct) auto

section \<open>Numbering\<close>

fun numbered :: "u16 \<Rightarrow> u16 list \<Rightarrow> u16 \<Rightarrow> bool" where
  "numbered n [] m \<longleftrightarrow> m = n"
| "numbered n (k # ks) m \<longleftrightarrow> k = n + 1 \<and> numbered (n + 1) ks m"

lemma numbered_append: "numbered n xs k \<Longrightarrow> numbered k ys m \<Longrightarrow> numbered n (xs @ ys) m"
  by (induction xs arbitrary: n) auto

lemma numbered_nth:
  "numbered n ks m \<Longrightarrow> m = n + of_nat (length ks) \<and> (\<forall>i<length ks. ks ! i = n + of_nat (Suc i))"
proof (induction ks arbitrary: n)
  case (Cons k ks)
  then have IH: "m = n + 1 + of_nat (length ks)" "\<forall>i<length ks. ks ! i = n + 1 + of_nat (Suc i)"
    using Cons.IH [of "n + 1"] by auto
  have "(k # ks) ! i = n + of_nat (Suc i)" if "i < length (k # ks)" for i
    using that IH(2) Cons.prems by (cases i) (auto simp: add.assoc)
  then show ?case using IH(1) by (simp add: add.assoc)
qed simp

definition keeps_numbering :: "report_handler \<Rightarrow> report_handler \<times> report_event list \<Rightarrow> bool" where
  "keeps_numbering h r \<longleftrightarrow>
     numbered (rh_observation_number h) (notification_numbers (snd r)) (rh_observation_number (fst r))"

named_theorems rh_defs "definitions of the report handler's operations"
declare rh_handle_timers_def [rh_defs] rh_report_def [rh_defs] rh_schedule_report_def [rh_defs]
  rh_stop_timers_def [rh_defs] rh_set_default_values_def [rh_defs] rh_set_under_observation_def [rh_defs]
  rh_set_value_def [rh_defs] rh_set_notification_trigger_def [rh_defs] rh_timer_expired_def [rh_defs]

lemma handle_timers_frame:
  "notification_numbers (snd (rh_handle_timers h)) = []"
  "rh_observation_number (fst (rh_handle_timers h)) = rh_observation_number h"
  "rh_changed (fst (rh_handle_timers h)) = rh_changed h"
  "rh_notify (fst (rh_handle_timers h)) = rh_notify h"
  "rh_current (fst (rh_handle_timers h)) = rh_current h"
  "rh_attribute_state (fst (rh_handle_timers h)) = rh_attribute_state h"
  "rh_pmin (fst (rh_handle_timers h)) = rh_pmin h"
  "rh_pmax (fst (rh_handle_timers h)) = rh_pmax h"
  "rh_token (fst (rh_handle_timers h)) = rh_token h"
  "rh_token_length (fst (rh_handle_timers h)) = rh_token_length h"
  by (simp_all add: rh_handle_timers_def Let_def split: if_splits)

lemma report_numbering: "keeps_numbering h (rh_report h)"
  using handle_timers_frame
  by (simp add: rh_report_def keeps_numbering_def Let_def split_beta)

lemma schedule_report_numbering: "keeps_numbering h (rh_schedule_report h)"
  using report_numbering [of "h\<lparr>rh_notify := True\<rparr>"]
  by (simp add: rh_schedule_report_def keeps_numbering_def Let_def)

lemma set_notification_attribute_frame:
  "rh_set_notification_attribute q t rt h = Some (s, h') \<Longrightarrow>
     rh_observation_number h' = rh_observation_number h \<and> rh_changed h' = rh_changed h \<and>
     rh_token h' = rh_token h \<and> rh_token_length h' = rh_token_length h"
  by (auto simp: rh_set_notification_attribute_def bind_eq_Some_conv Let_def split: if_splits option.splits)

lemma set_options_frame:
  "rh_set_options qs s0 t rt h = Some (s, h') \<Longrightarrow>
     rh_observation_number h' = rh_observation_number h \<and> rh_changed h' = rh_changed h \<and>
     rh_token h' = rh_token h \<and> rh_token_length h' = rh_token_length h"
proof (induction qs s0 t rt h rule: rh_set_options.induct)
  case (2 q qs success type rt h)
  obtain s1 h1 where q: "rh_set_notification_attribute q type rt h = Some (s1, h1)"
    using 2(2) by (auto simp: bind_eq_Some_conv)
  show ?case
  proof (cases s1)
    case True
    then have "rh_set_options qs True type rt h1 = Some (s, h')" using 2(2) q by simp
    then show ?thesis using 2(1) [OF q] True set_notification_attribute_frame [OF q] by simp
  next
    case False
    then show ?thesis using 2(2) q set_notification_attribute_frame [OF q] by simp
  qed
qed auto

lemma parse_frame:
  "rh_parse_notification_attribute q t rt h = Some (s, h') \<Longrightarrow>
     rh_observation_number h' = rh_observation_number h \<and> rh_changed h' = rh_changed h \<and>
     rh_token h' = rh_token h \<and> rh_token_length h' = rh_token_length h"
  unfolding rh_parse_notification_attribute_def
  by (auto simp: bind_eq_Some_conv split: if_splits dest!: set_options_frame set_notification_attribute_frame)

lemma step_numbering: "rh_step i h = Some r \<Longrightarrow> keeps_numbering h r"
proof (cases i)
  case (SetUnderObservation b)
  then show "rh_step i h = Some r \<Longrightarrow> ?thesis"
    by (auto simp: keeps_numbering_def rh_set_under_observation_def rh_stop_timers_def Let_def split_beta
        handle_timers_frame rh_set_default_values_def)
next
  case (SetValue v)
  then show "rh_step i h = Some r \<Longrightarrow> ?thesis"
    using schedule_report_numbering [of "h\<lparr>rh_current := v\<rparr>"]
    by (auto simp: keeps_numbering_def rh_set_value_def Let_def split_beta)
next
  case (Trigger k)
  let ?h1 = "if find_idx (\<lambda>i. i = k) (rh_changed h) = None then h\<lparr>rh_changed := rh_changed h @ [k]\<rparr> else h"
  show "rh_step i h = Some r \<Longrightarrow> ?thesis"
    using Trigger schedule_report_numbering [of "?h1\<lparr>rh_current := Fin 0, rh_last := Fin 1\<rparr>"]
    by (auto simp: keeps_numbering_def rh_set_notification_trigger_def Let_def split_beta split: if_splits)
next
  case (TimerExpired t)
  then show "rh_step i h = Some r \<Longrightarrow> ?thesis"
    using report_numbering [of "h\<lparr>rh_pmin_exceeded := True\<rparr>"] report_numbering [of "h\<lparr>rh_pmax_exceeded := True\<rparr>"]
    by (auto simp: keeps_numbering_def rh_timer_expired_def Let_def split: timer_type.splits if_splits)
next
  case (ParseQuery q t rt)
  then show "rh_step i h = Some r \<Longrightarrow> ?thesis"
    by (auto simp: keeps_numbering_def dest!: parse_frame)
qed (auto simp: keeps_numbering_def rh_set_observation_token_def Let_def rh_add_observation_level_def
    rh_remove_observation_level_def rh_set_default_values_def split: option.splits)

lemma run_numbering:
  "rh_run is h = Some (h', es) \<Longrightarrow>
     numbered (rh_observation_number h) (notification_numbers es) (rh_observation_number h')"
proof (induction "is" arbitrary: h es)
  case (Cons i "is")
  obtain h1 e1 e2 where s: "rh_step i h = Some (h1, e1)" "rh_run is h1 = Some (h', e2)" "es = e1 @ e2"
    using Cons.prems by (auto simp: bind_eq_Some_conv)
  then show ?case
    using step_numbering [OF s(1)] Cons.IH [OF s(2)] by (auto simp: keeps_numbering_def intro: numbered_append)
qed simp

section \<open>Well-formed handlers\<close>

fun token_ok :: "u8 list option \<Rightarrow> nat \<Rightarrow> bool" where
  "token_ok None n \<longleftrightarrow> n = 0"
| "token_ok (Some t) n \<longleftrightarrow> 0 < n \<and> length t = n"

definition rh_inv :: "report_handler \<Rightarrow> bool" where
  "rh_inv h \<longleftrightarrow> distinct (rh_changed h) \<and> token_ok (rh_token h) (rh_token_length h)"

fun valid_input :: "rh_input \<Rightarrow> bool" where
  "valid_input (SetToken (Some t) n) \<longleftrightarrow> unat n \<le> length t"
| "valid_input _ \<longleftrightarrow> True"

lemma report_frame:
  "rh_token (fst (rh_report h)) = rh_token h"
  "rh_token_length (fst (rh_report h)) = rh_token_length h"
  "rh_changed (fst (rh_report h)) = rh_changed h \<or> rh_changed (fst (rh_report h)) = []"
  by (simp_all add: rh_report_def Let_def split_beta handle_timers_frame)

lemma report_inv: "rh_inv h \<Longrightarrow> rh_inv (fst (rh_report h))"
  using report_frame [of h] by (auto simp: rh_inv_def)

lemma rh_inv_frame:
  "rh_changed h' = rh_changed h \<Longrightarrow> rh_token h' = rh_token h \<Longrightarrow> rh_token_length h' = rh_token_length h \<Longrightarrow>
     rh_inv h' \<longleftrightarrow> rh_inv h"
  by (simp add: rh_inv_def)

lemma schedule_report_inv: "rh_inv h \<Longrightarrow> rh_inv (fst (rh_schedule_report h))"
  using report_inv [of "h\<lparr>rh_notify := True\<rparr>"] rh_inv_frame [of "h\<lparr>rh_notify := True\<rparr>" h]
  by (simp add: rh_schedule_report_def Let_def)

lemma step_inv:
  assumes "rh_inv h" and "valid_input i" and "rh_step i h = Some (h', es)"
  shows "rh_inv h'"
proof (cases i)
  case (SetUnderObservation b)
  then show ?thesis using assms(1,3)
    by (auto simp: rh_set_under_observation_def rh_stop_timers_def Let_def split_beta
        handle_timers_frame rh_set_default_values_def rh_inv_def split: if_splits)
next
  case (SetValue v)
  have "rh_inv (h\<lparr>rh_current := v\<rparr>)" using assms(1) by (simp add: rh_inv_def)
  note schedule_report_inv [OF this]
  then show ?thesis using SetValue assms(1,3)
    by (auto simp: rh_set_value_def Let_def split_beta rh_inv_def split: if_splits)
next
  case (Trigger k)
  let ?h1 = "if find_idx (\<lambda>i. i = k) (rh_changed h) = None then h\<lparr>rh_changed := rh_changed h @ [k]\<rparr> else h"
  have "rh_inv (?h1\<lparr>rh_current := Fin 0, rh_last := Fin 1\<rparr>)"
    using assms(1) by (auto simp: rh_inv_def find_idx_None)
  from schedule_report_inv [OF this] show ?thesis
    using Trigger assms(3) by (auto simp: rh_set_notification_trigger_def Let_def split: if_splits)
next
  case (TimerExpired t)
  let ?a = "h\<lparr>rh_pmin_exceeded := True\<rparr>" and ?b = "h\<lparr>rh_pmax_exceeded := True\<rparr>"
  have i: "rh_inv ?a" "rh_inv ?b" using assms(1) by (simp_all add: rh_inv_def)
  have "h' \<in> {h, ?a, ?b, fst (rh_report ?a), fst (rh_report ?b)}"
  proof -
    have "h' = fst (rh_timer_expired t h)" using TimerExpired assms(3) by simp
    then show ?thesis by (cases t) (simp_all add: rh_timer_expired_def Let_def)
  qed
  then show ?thesis using i i [THEN report_inv] assms(1) by blast
next
  case (ParseQuery q t rt)
  then obtain s where "rh_parse_notification_attribute q t rt h = Some (s, h')" using assms(3) by auto
  then show ?thesis using assms(1) parse_frame rh_inv_frame [of h' h] by blast
next
  case (SetToken t n)
  then show ?thesis using assms
    by (cases t) (auto simp: rh_set_observation_token_def Let_def rh_inv_def)
qed (use assms in \<open>auto simp: rh_inv_def rh_add_observation_level_def rh_remove_observation_level_def
    rh_set_default_values_def\<close>)

lemma run_inv: "rh_inv h \<Longrightarrow> list_all valid_input is \<Longrightarrow> rh_run is h = Some (h', es) \<Longrightarrow> rh_inv h'"
proof (induction "is" arbitrary: h es)
  case (Cons i "is")
  obtain h1 e1 e2 where s: "rh_step i h = Some (h1, e1)" "rh_run is h1 = Some (h', e2)"
    using Cons.prems(3) by (auto simp: bind_eq_Some_conv)
  then show ?case using step_inv [OF Cons.prems(1) _ s(1)] Cons.IH [OF _ _ s(2)] Cons.prems(2) by simp
qed simp

section \<open>The minimum period\<close>

definition thresholds :: "report_handler \<Rightarrow> bool" where
  "thresholds h \<longleftrightarrow> attr_set h Lt \<or> attr_set h Gt \<or> attr_set h St"

text \<open>The state between two notifications while the \<open>pmin\<close> timer runs.\<close>

definition pmin_window :: "report_handler \<Rightarrow> bool" where
  "pmin_window h \<longleftrightarrow> attr_set h Pmin \<and> \<not> rh_pmin_exceeded h \<and> \<not> thresholds h"

fun window_input :: "rh_input \<Rightarrow> bool" where
  "window_input (SetValue v) \<longleftrightarrow> True"
| "window_input (Trigger i) \<longleftrightarrow> True"
| "window_input (TimerExpired t) \<longleftrightarrow> t \<noteq> PMinTimer"
| "window_input (SetToken t n) \<longleftrightarrow> True"
| "window_input (AddLevel l) \<longleftrightarrow> True"
| "window_input (RemoveLevel l) \<longleftrightarrow> True"
| "window_input _ \<longleftrightarrow> False"

lemma schedule_report_window:
  "attr_set h Pmin \<Longrightarrow> \<not> rh_pmin_exceeded h \<Longrightarrow> rh_schedule_report h = (h\<lparr>rh_notify := True\<rparr>, [])"
  by (simp add: rh_schedule_report_def Let_def)

lemma window_step:
  assumes "pmin_window h" and "window_input i" and "rh_step i h = Some (h', es)"
  shows "pmin_window h' \<and> notification_numbers es = []"
  using assms
  by (cases i) (auto simp: pmin_window_def thresholds_def rh_set_value_def rh_set_notification_trigger_def
      rh_timer_expired_def schedule_report_window Let_def rh_set_observation_token_def
      rh_add_observation_level_def rh_remove_observation_level_def
      split: if_splits timer_type.splits option.splits)

lemma window_run:
  "pmin_window h \<Longrightarrow> list_all window_input is \<Longrightarrow> rh_run is h = Some (h', es) \<Longrightarrow>
     pmin_window h' \<and> notification_numbers es = []"
proof (induction "is" arbitrary: h es)
  case (Cons i "is")
  obtain h1 e1 e2 where s: "rh_step i h = Some (h1, e1)" "rh_run is h1 = Some (h', e2)" "es = e1 @ e2"
    using Cons.prems(3) by (auto simp: bind_eq_Some_conv)
  then show ?case using window_step [OF Cons.prems(1) _ s(1)] Cons.IH [OF _ _ s(2)] Cons.prems(2) by simp
qed simp

text \<open>Whatever happens but the expiry of its timer and a reset of all attributes, nothing is sent while the timer of
  \<open>pmin\<close> is not stopped.\<close>

definition pmin_runs :: "report_handler \<Rightarrow> bool" where
  "pmin_runs h \<longleftrightarrow> attr_set h Pmin \<and> \<not> rh_pmin_exceeded h"

definition before_stop :: "report_event list \<Rightarrow> report_event list" where
  "before_stop es = takeWhile (\<lambda>e. e \<noteq> StopTimer PMinTimer) es"

lemma set_notification_attribute_pmin:
  "rh_set_notification_attribute q t rt h = Some (s, h') \<Longrightarrow> pmin_runs h \<Longrightarrow> pmin_runs h'"
  by (auto simp: rh_set_notification_attribute_def bind_eq_Some_conv Let_def pmin_runs_def flag_or_mono
      split: if_splits option.splits)

lemma set_options_pmin: "rh_set_options qs s0 t rt h = Some (s, h') \<Longrightarrow> pmin_runs h \<Longrightarrow> pmin_runs h'"
proof (induction qs s0 t rt h rule: rh_set_options.induct)
  case (2 q qs success type rt h)
  obtain s1 h1 where q: "rh_set_notification_attribute q type rt h = Some (s1, h1)"
    using 2(2) by (auto simp: bind_eq_Some_conv)
  note h1 = set_notification_attribute_pmin [OF q 2(3)]
  show ?case
  proof (cases s1)
    case True
    then have "rh_set_options qs True type rt h1 = Some (s, h')" using 2(2) q by simp
    then show ?thesis using 2(1) [OF q] True h1 by simp
  next
    case False
    then show ?thesis using 2(2) q h1 by simp
  qed
qed auto

lemma parse_pmin:
  assumes "rh_parse_notification_attribute q t rt h = Some (s, h')" and "pmin_runs h"
  shows "pmin_runs h'"
proof (cases "CHR ''&'' \<in> set q")
  case True
  then obtain success h1 where o: "rh_set_options (amp_options 5 q) False t rt h = Some (success, h1)"
    "success \<and> h' = h1 \<or> rh_attribute_state h' = rh_attribute_state h \<and> rh_pmin_exceeded h' = rh_pmin_exceeded h1"
    using assms(1) by (auto simp: rh_parse_notification_attribute_def bind_eq_Some_conv split: if_splits)
  then show ?thesis using set_options_pmin [OF o(1) assms(2)] assms(2) by (auto simp: pmin_runs_def)
next
  case False
  then show ?thesis using assms set_notification_attribute_pmin
    by (auto simp: rh_parse_notification_attribute_def bind_eq_Some_conv split: if_splits)
qed

lemma pmin_step:
  assumes "pmin_runs h" and "i \<noteq> TimerExpired PMinTimer" and "i \<noteq> SetDefaults" and "rh_step i h = Some (h', es)"
  shows "notification_numbers (before_stop es) = [] \<and> (StopTimer PMinTimer \<notin> set es \<longrightarrow> pmin_runs h')"
proof (cases i)
  case (ParseQuery q t rt)
  then show ?thesis using assms parse_pmin [of q t rt h] by (auto simp: before_stop_def)
qed (use assms in \<open>auto simp: pmin_runs_def before_stop_def rh_set_value_def rh_set_notification_trigger_def
      rh_set_under_observation_def rh_stop_timers_def rh_timer_expired_def schedule_report_window Let_def split_beta
      rh_set_observation_token_def rh_add_observation_level_def rh_remove_observation_level_def
      split: if_splits timer_type.splits option.splits\<close>)

lemma before_stop_append:
  "before_stop (xs @ ys) = (if StopTimer PMinTimer \<in> set xs then before_stop xs else xs @ before_stop ys)"
proof (cases "StopTimer PMinTimer \<in> set xs")
  case True
  then show ?thesis unfolding before_stop_def by (auto intro: takeWhile_append1)
next
  case False
  then have "takeWhile (\<lambda>e. e \<noteq> StopTimer PMinTimer) (xs @ ys) = xs @ takeWhile (\<lambda>e. e \<noteq> StopTimer PMinTimer) ys"
    by (intro takeWhile_append2) auto
  then show ?thesis using False by (simp add: before_stop_def)
qed

lemma before_stop_all: "StopTimer PMinTimer \<notin> set xs \<Longrightarrow> before_stop xs = xs"
  by (auto simp: before_stop_def takeWhile_eq_all_conv)

lemma pmin_run:
  "pmin_runs h \<Longrightarrow> TimerExpired PMinTimer \<notin> set is \<Longrightarrow> SetDefaults \<notin> set is \<Longrightarrow> rh_run is h = Some (h', es) \<Longrightarrow>
     notification_numbers (before_stop es) = []"
proof (induction "is" arbitrary: h es)
  case (Cons i "is")
  obtain h1 e1 e2 where s: "rh_step i h = Some (h1, e1)" "rh_run is h1 = Some (h', e2)" "es = e1 @ e2"
    using Cons.prems(4) by (auto simp: bind_eq_Some_conv)
  have i: "notification_numbers (before_stop e1) = []" "StopTimer PMinTimer \<notin> set e1 \<longrightarrow> pmin_runs h1"
    using pmin_step [OF Cons.prems(1) _ _ s(1)] Cons.prems(2,3) by auto
  then show ?case
    using Cons.IH [OF _ _ _ s(2)] Cons.prems(2,3) s(3) before_stop_all [of e1] by (auto simp: before_stop_append)
qed (simp add: before_stop_def)

lemma handle_timers_window:
  "attr_set h Pmin \<Longrightarrow> rh_pmin h \<noteq> rh_pmax h \<Longrightarrow>
     \<not> rh_pmin_exceeded (fst (rh_handle_timers h)) \<and>
     StartTimer PMinTimer (scast (rh_pmin h) * 1000) \<in> set (snd (rh_handle_timers h))"
  by (simp add: rh_handle_timers_def Let_def)

lemma handle_timers_pmax:
  "attr_set h Pmax \<Longrightarrow> sint (rh_pmax h) > 0 \<Longrightarrow>
     StartTimer PMaxTimer (scast (rh_pmax h) * 1000) \<in> set (snd (rh_handle_timers h))"
  by (simp add: rh_handle_timers_def Let_def)

lemma report_timers:
  "\<exists>h1 e1. rh_report h = (fst (rh_handle_timers h1)\<lparr>rh_last := rh_current h1\<rparr>, e1 @ snd (rh_handle_timers h1)) \<and>
     rh_attribute_state h1 = rh_attribute_state h \<and> rh_pmin h1 = rh_pmin h \<and> rh_pmax h1 = rh_pmax h"
  unfolding rh_report_def Let_def split_beta
  by (intro exI conjI, simp add: handle_timers_frame) simp_all

lemma report_starts_pmin:
  assumes "attr_set h Pmin" and "rh_pmin h \<noteq> rh_pmax h"
  shows "pmin_runs (fst (rh_report h)) \<and> rh_attribute_state (fst (rh_report h)) = rh_attribute_state h \<and>
    StartTimer PMinTimer (scast (rh_pmin h) * 1000) \<in> set (snd (rh_report h))"
proof -
  obtain h1 e1 where r: "rh_report h = (fst (rh_handle_timers h1)\<lparr>rh_last := rh_current h1\<rparr>, e1 @ snd (rh_handle_timers h1))"
    "rh_attribute_state h1 = rh_attribute_state h" "rh_pmin h1 = rh_pmin h" "rh_pmax h1 = rh_pmax h"
    using report_timers by blast
  then show ?thesis using assms handle_timers_window [of h1]
    by (simp add: pmin_runs_def handle_timers_frame)
qed

lemma report_restarts_pmax:
  assumes "attr_set h Pmax" and "sint (rh_pmax h) > 0"
  shows "StartTimer PMaxTimer (scast (rh_pmax h) * 1000) \<in> set (snd (rh_report h))"
proof -
  obtain h1 e1 where r: "rh_report h = (fst (rh_handle_timers h1)\<lparr>rh_last := rh_current h1\<rparr>, e1 @ snd (rh_handle_timers h1))"
    "rh_attribute_state h1 = rh_attribute_state h" "rh_pmin h1 = rh_pmin h" "rh_pmax h1 = rh_pmax h"
    using report_timers by blast
  then show ?thesis using assms handle_timers_pmax [of h1] by simp
qed

section \<open>Nothing is lost in the window\<close>

definition first_occurrences :: "'a list \<Rightarrow> 'a list" where
  "first_occurrences xs = rev (remdups (rev xs))"

lemma first_occurrences_snoc:
  "first_occurrences (xs @ [x]) = (if x \<in> set xs then first_occurrences xs else first_occurrences xs @ [x])"
  by (simp add: first_occurrences_def)

lemma set_first_occurrences [simp]: "set (first_occurrences xs) = set xs"
  by (simp add: first_occurrences_def)

lemma rh_run_append:
  "rh_run (xs @ ys) h = do { (h1, e1) \<leftarrow> rh_run xs h; (h2, e2) \<leftarrow> rh_run ys h1; Some (h2, e1 @ e2) }"
proof (induction xs arbitrary: h)
  case Nil
  then show ?case by (cases "rh_run ys h") auto
next
  case (Cons x xs)
  show ?case
  proof (cases "rh_step x h")
    case None
    then show ?thesis by simp
  next
    case (Some r)
    then show ?thesis by (cases r) (simp add: Cons.IH split_beta Option.bind_assoc)
  qed
qed

lemma trigger_window:
  assumes "pmin_window h"
  shows "rh_set_notification_trigger k h =
    (h\<lparr>rh_changed := (if k \<in> set (rh_changed h) then rh_changed h else rh_changed h @ [k]),
       rh_current := Fin 0, rh_last := Fin 1, rh_notify := True\<rparr>, [])"
  using assms
  by (auto simp: rh_set_notification_trigger_def schedule_report_window pmin_window_def Let_def find_idx_None)

lemma triggers_window:
  assumes "pmin_window h" and "rh_changed h = []"
  shows "\<exists>h'. rh_run (map Trigger ids) h = Some (h', []) \<and> pmin_window h' \<and>
    rh_changed h' = first_occurrences ids \<and> rh_observation_number h' = rh_observation_number h \<and>
    (ids \<noteq> [] \<longrightarrow> rh_notify h' \<and> rh_current h' = Fin 0 \<and> rh_last h' = Fin 1)"
proof (induction ids rule: rev_induct)
  case Nil
  then show ?case using assms by (simp add: first_occurrences_def)
next
  case (snoc k ids)
  then obtain h' where h': "rh_run (map Trigger ids) h = Some (h', [])" "pmin_window h'"
    "rh_changed h' = first_occurrences ids" "rh_observation_number h' = rh_observation_number h" by blast
  show ?case using h'
    by (auto simp: rh_run_append trigger_window first_occurrences_snoc pmin_window_def thresholds_def)
qed

section \<open>Refused queries\<close>

lemma fill20_short: "length s \<le> 20 \<Longrightarrow> \<exists>b. fill20 s = Some b \<and> (length s < 20 \<longrightarrow> NUL \<in> the ` set b)"
  by (auto simp: fill20_def mem_write_def intro!: image_eqI [where x = "Some NUL"])

lemma set_notification_attribute_short:
  assumes "length opt \<le> 19"
  shows "rh_set_notification_attribute opt t rt h \<noteq> None"
proof (cases "strstr_index CHR ''='' opt")
  case None
  obtain b where "fill20 (opt @ [NUL]) = Some b" using fill20_short [of "opt @ [NUL]"] assms by auto
  then show ?thesis using None by (auto simp: rh_set_notification_attribute_def Let_def split_beta)
next
  case (Some pos)
  have "length (take pos opt) \<le> 20" using assms by simp
  then obtain a where "fill20 (take pos opt) = Some a" using fill20_short by blast
  moreover have "length (drop (Suc pos) opt) < 20" using assms by simp
  then obtain v where "fill20 (drop (Suc pos) opt) = Some v" "NUL \<in> the ` set v"
    using fill20_short [of "drop (Suc pos) opt"] by force
  ultimately show ?thesis using Some by (auto simp: rh_set_notification_attribute_def Let_def split_beta)
qed

lemma set_options_short:
  "\<forall>q\<in>set qs. length q \<le> 19 \<Longrightarrow> rh_set_options qs s t rt h \<noteq> None"
proof (induction qs arbitrary: s h)
  case (Cons q qs)
  obtain s1 h1 where "rh_set_notification_attribute q t rt h = Some (s1, h1)"
    using set_notification_attribute_short [of q t rt h] Cons.prems by auto
  then show ?case using Cons.IH [of True h1] Cons.prems by (cases s1) simp_all
qed simp

lemma amp_options_short: "q \<in> set (amp_options k rest) \<Longrightarrow> length q \<le> 19"
  by (induction k rest rule: amp_options.induct) (auto split: option.splits if_splits)

definition rh_attributes ::
  "report_handler \<Rightarrow> u8 \<times> i32 \<times> i32 \<times> cfloat \<times> cfloat \<times> cfloat \<times> cfloat \<times> cfloat" where
  "rh_attributes h = (rh_attribute_state h, rh_pmin h, rh_pmax h, rh_gt h, rh_lt h, rh_st h,
     rh_high_step h, rh_low_step h)"

lemma parse_many:
  assumes "CHR ''&'' \<in> set query" and "\<bar>sint (rh_pmin h)\<bar> < 2 ^ 24" and "\<bar>sint (rh_pmax h)\<bar> < 2 ^ 24"
  shows "\<exists>success h1 h'. rh_set_options (amp_options 5 query) False t rt h = Some (success, h1) \<and>
    rh_parse_notification_attribute query t rt h = Some (success \<and> rh_check_attribute_validity h1, h') \<and>
    (if success then h' = h1 else rh_attributes h' = rh_attributes h)"
proof -
  obtain s h1 where o: "rh_set_options (amp_options 5 query) False t rt h = Some (s, h1)"
    using set_options_short [of "amp_options 5 query" False t rt h] amp_options_short by fastforce
  show ?thesis
    using assms o int_of_f_of_int by (auto simp: rh_parse_notification_attribute_def rh_attributes_def)
qed

section \<open>Properties\<close>

definition is_notification :: "report_event \<Rightarrow> bool" where
  "is_notification e = (case e of ObservationToBeSent _ _ _ \<Rightarrow> True | _ \<Rightarrow> False)"

definition notifications :: "report_event list \<Rightarrow> report_event list" where
  "notifications es = List.filter is_notification es"

lemma notifications_simps [simp]:
  "notifications [] = []" "notifications (e # es) = (if is_notification e then e # notifications es else notifications es)"
  "notifications (xs @ ys) = notifications xs @ notifications ys"
  "is_notification (ObservationToBeSent ids n so)" "\<not> is_notification (StartTimer t d)"
  "\<not> is_notification (StopTimer t)"
  by (simp_all add: notifications_def is_notification_def)

lemma handle_timers_no_notification [simp]: "notifications (snd (rh_handle_timers h)) = []"
  by (simp add: rh_handle_timers_def Let_def)

text \<open>The parser on a query of one option: each half of it has to fit its 20-byte buffer.\<close>

definition option_fits :: "string \<Rightarrow> bool" where
  "option_fits q \<longleftrightarrow> (case strstr_index CHR ''='' q of
     Some pos \<Rightarrow> pos \<le> 20 \<and> length q - Suc pos < 20 | None \<Rightarrow> length q < 20)"

lemma fill20_None: "fill20 s = None \<longleftrightarrow> length s > 20"
  by (auto simp: fill20_def mem_write_def)

lemma fill20_nul: "fill20 s = Some b \<Longrightarrow> no_nul s \<Longrightarrow> NUL \<in> the ` set b \<longleftrightarrow> length s < 20"
  by (auto simp: fill20_def mem_write_def no_nul_def image_Un image_image set_replicate_conv_if
      split: if_splits)

lemma strstr_index_Some: "strstr_index c q = Some pos \<Longrightarrow> pos < length q"
  unfolding strstr_index_def by (drule find_idx_SomeD) simp

lemma no_nul_drop: "no_nul q \<Longrightarrow> no_nul (drop n q)"
  unfolding no_nul_def using set_drop_subset by fastforce

lemma set_notification_attribute_None:
  assumes "no_nul q"
  shows "rh_set_notification_attribute q t rt h = None \<longleftrightarrow> \<not> option_fits q"
proof (cases "strstr_index CHR ''='' q")
  case None
  then show ?thesis using fill20_None [of "q @ [NUL]"]
    by (cases "fill20 (q @ [NUL])")
      (auto simp: rh_set_notification_attribute_def option_fits_def Let_def split_beta)
next
  case (Some pos)
  have p: "pos < length q" using Some by (rule strstr_index_Some)
  show ?thesis
  proof (cases "fill20 (take pos q)")
    case None
    then show ?thesis using Some p fill20_None [of "take pos q"]
      by (simp add: rh_set_notification_attribute_def option_fits_def)
  next
    case a: (Some a)
    then have l: "pos \<le> 20" using fill20_None [of "take pos q"] p by auto
    show ?thesis
    proof (cases "fill20 (drop (Suc pos) q)")
      case None
      then show ?thesis using Some a fill20_None [of "drop (Suc pos) q"]
        by (auto simp: rh_set_notification_attribute_def option_fits_def)
    next
      case (Some v)
      then show ?thesis
        using \<open>strstr_index _ q = Some pos\<close> a l fill20_nul [OF Some no_nul_drop [OF assms]]
        by (auto simp: rh_set_notification_attribute_def option_fits_def Let_def split_beta)
    qed
  qed
qed


fun safe_input :: "rh_input \<Rightarrow> bool" where
  "safe_input (ParseQuery q t rt) \<longleftrightarrow> CHR ''&'' \<notin> set q \<and> no_nul q \<and> option_fits q"
| "safe_input _ \<longleftrightarrow> True"

lemma parse_single:
  assumes "CHR ''&'' \<notin> set q" and "no_nul q"
  shows "rh_parse_notification_attribute q t rt h = None \<longleftrightarrow> \<not> option_fits q"
  using set_notification_attribute_None [OF assms(2), of t rt h] assms(1)
  by (auto simp: rh_parse_notification_attribute_def split_beta Option.bind_eq_None_conv)

lemma safe_step: "safe_input i \<Longrightarrow> \<exists>h' es. rh_step i h = Some (h', es)"
proof (cases i)
  case (ParseQuery q t rt)
  then show "safe_input i \<Longrightarrow> ?thesis" using parse_single [of q t rt h] by auto
qed auto

lemma safe_run: "list_all safe_input is \<Longrightarrow> \<exists>h' es. rh_run is h = Some (h', es)"
proof (induction "is" arbitrary: h)
  case (Cons i "is")
  obtain h1 e1 where "rh_step i h = Some (h1, e1)" using safe_step [of i h] Cons.prems by auto
  then show ?case using Cons.IH [of h1] Cons.prems by auto
qed simp

lemma window_run_total: "list_all window_input is \<Longrightarrow> \<exists>h' es. rh_run is h = Some (h', es)"
proof (rule safe_run)
  assume "list_all window_input is"
  moreover have "window_input i \<Longrightarrow> safe_input i" for i by (cases i) auto
  ultimately show "list_all safe_input is" by (auto simp: list_all_iff)
qed

lemma numbered_list:
  "numbered n ks m \<Longrightarrow> ks = map (\<lambda>i. n + of_nat (Suc i)) [0..<length ks] \<and> m = n + of_nat (length ks)"
  using numbered_nth [of n ks m] by (auto intro: nth_equalityI)

text \<open>C6: over any sequence of value changes, triggers, timer expiries, queries and
  observation requests that the code survives, the notifications handed to the observer carry the numbers
  that follow the handler's counter, one by one modulo 2 ^ 16, and a sequence whose queries are single
  options that fit the parser's buffers is survived.\<close>

theorem notifications_numbered:
  "(list_all safe_input is \<longrightarrow> rh_run is h \<noteq> None) \<and>
   (rh_run is h = Some (h', es) \<longrightarrow>
      notification_numbers es =
        map (\<lambda>i. rh_observation_number h + of_nat (Suc i)) [0..<length (notification_numbers es)] \<and>
      rh_observation_number h' = rh_observation_number h + of_nat (length (notification_numbers es)))"
  using safe_run [of "is" h] run_numbering [of "is" h h' es] numbered_list by blast

theorem notifications_numbered_witness:
  "\<exists>h' es. rh_run [SetUnderObservation True, Trigger 3, Trigger 4] rh_new = Some (h', es) \<and>
     notification_numbers es = [1, 2] \<and> rh_observation_number h' = 2"
proof -
  let ?is = "[SetUnderObservation True, Trigger 3, Trigger 4]"
  obtain h' es where r: "rh_run ?is rh_new = Some (h', es)"
    using notifications_numbered [of ?is rh_new undefined undefined] by auto
  moreover have "length (notification_numbers (snd (the (rh_run ?is rh_new)))) = 2" by code_simp
  then have "length (notification_numbers es) = 2" using r by simp
  ultimately show ?thesis
    using notifications_numbered [of ?is rh_new h' es] by (auto simp: rh_new_def numeral_2_eq_2 numeral_eq_Suc)
qed

text \<open>From a new handler on, whatever happens, the list of changed instances to be
  reported has no duplicates and the token is null exactly when its length is 0 and has that length otherwise,
  as long as a token is passed with no more than its real length.\<close>

lemma handler_invariant:
  assumes "list_all valid_input is" and "rh_run is rh_new = Some (h', es)"
  shows "distinct (rh_changed h') \<and> token_ok (rh_token h') (rh_token_length h')"
proof -
  have "rh_inv rh_new" by (simp add: rh_inv_def rh_new_def)
  from run_inv [OF this assms] show ?thesis by (simp add: rh_inv_def)
qed

lemma handler_invariant_witness:
  "distinct (rh_changed (fst (the (rh_run [ParseQuery ''pmin=10'' BT_Object OPAQUE, SetUnderObservation True,
      SetToken (Some [1, 2, 3]) 2, Trigger 3, Trigger 4, Trigger 3] rh_new))))"
proof -
  let ?is = "[ParseQuery ''pmin=10'' BT_Object OPAQUE, SetUnderObservation True,
      SetToken (Some [1, 2, 3]) 2, Trigger 3, Trigger 4, Trigger 3]"
  have "list_all safe_input ?is" by (simp add: option_fits_def strstr_index_def)
  then obtain h' es where "rh_run ?is rh_new = Some (h', es)" using safe_run by blast
  then show ?thesis using handler_invariant [of ?is h' es] by simp
qed

text \<open>The value that ends the wait: with \<open>gt\<close> alone, a value not above it stops the timer of \<open>pmin\<close>, so the
  next value above it is notified at once, however short the time since the last notification.\<close>

lemma threshold_ends_window:
  assumes "rh_attribute_state h = Pmin OR Gt" and "\<not> f_eq v (rh_last h)" and "\<not> f_lt (rh_gt h) v"
    and "f_lt (rh_gt h) w" and "\<not> f_eq w v"
  shows "\<exists>h' es. rh_run [SetValue v, SetValue w] h = Some (h', es) \<and>
    notification_numbers es = [rh_observation_number h + 1]"
proof -
  have "rh_step (SetValue v) h = Some (h\<lparr>rh_current := v, rh_notify := False, rh_last := v, rh_pmin_exceeded := True,
      rh_high_step := f_add v (rh_st h), rh_low_step := f_sub v (rh_st h)\<rparr>, [StopTimer PMinTimer])"
    using assms(1-3) by (simp add: rh_set_value_def rh_check_threshold_values_def rh_check_gt_lt_params_def)
  then show ?thesis
    using assms(1,4,5)
    by (simp add: rh_set_value_def rh_check_threshold_values_def rh_check_gt_lt_params_def rh_schedule_report_def
        rh_report_def Let_def split_beta rh_handle_timers_def)
qed

lemma threshold_ends_window_witness:
  "\<exists>h' es. rh_run [SetValue (Fin 1), SetValue (Fin 7)]
     (fst (rh_report (rh_new\<lparr>rh_attribute_state := Pmin OR Gt, rh_pmin := 10, rh_gt := Fin 5\<rparr>))) = Some (h', es) \<and>
     notification_numbers es = [1]"
  using threshold_ends_window [of "fst (rh_report (rh_new\<lparr>rh_attribute_state := Pmin OR Gt, rh_pmin := 10, rh_gt := Fin 5\<rparr>))"
      "Fin 1" "Fin 7"]
  by (simp add: rh_new_def rh_report_def rh_handle_timers_def f_eq_def)

lemma report_keeps:
  "rh_attribute_state (fst (rh_report h)) = rh_attribute_state h" "rh_gt (fst (rh_report h)) = rh_gt h"
  "rh_last (fst (rh_report h)) = rh_current h"
  by (simp_all add: rh_report_def rh_handle_timers_def Let_def)



text \<open>C7: triggers that arrive while the \<open>pmin\<close> timer runs send nothing, and when the timer
  expires one notification reports every changed instance once, in the order of the first triggers, under
  the next number; nothing is left to report.\<close>

theorem triggers_not_lost:
  assumes "pmin_window h" and "rh_changed h = []" and "ids \<noteq> []"
  shows "\<exists>h' es. rh_run (map Trigger ids @ [TimerExpired PMinTimer]) h = Some (h', es) \<and>
    notifications es = [ObservationToBeSent (first_occurrences ids) (rh_observation_number h + 1) False] \<and>
    rh_changed h' = [] \<and> \<not> rh_notify h'"
proof -
  obtain h1 where h1: "rh_run (map Trigger ids) h = Some (h1, [])" "rh_changed h1 = first_occurrences ids"
    "rh_observation_number h1 = rh_observation_number h" "rh_notify h1" "rh_current h1 = Fin 0" "rh_last h1 = Fin 1"
    using triggers_window [OF assms(1,2), of ids] assms(3) by blast
  then show ?thesis
    by (auto simp: rh_run_append rh_timer_expired_def rh_report_def Let_def split_beta handle_timers_frame f_eq_def)
qed

theorem triggers_not_lost_witness:
  "\<exists>h' es. rh_run [Trigger 3, Trigger 4, Trigger 3, TimerExpired PMinTimer]
       (rh_new\<lparr>rh_attribute_state := Pmin, rh_pmin := 10\<rparr>) = Some (h', es) \<and>
     notifications es = [ObservationToBeSent [3, 4] 1 False]"
proof -
  have "pmin_window (rh_new\<lparr>rh_attribute_state := Pmin, rh_pmin := 10\<rparr>)"
    by (simp add: pmin_window_def thresholds_def rh_new_def)
  from triggers_not_lost [OF this, of "[3, 4, 3]"] show ?thesis
    by (auto simp: rh_new_def first_occurrences_def)
qed

text \<open>C8: when the \<open>pmax\<close> timer expires and \<open>pmin\<close> is over or not set, exactly one notification
  with the next number is sent whether or not a value changed, and the timer starts again for \<open>pmax\<close> seconds;
  while \<open>pmin\<close> is running the expiry is only remembered.\<close>

theorem pmax_forces:
  "if rh_pmin_exceeded h \<or> \<not> attr_set h Pmin
   then (\<exists>so. notifications (snd (rh_timer_expired PMaxTimer h)) =
            [ObservationToBeSent (rh_changed h) (rh_observation_number h + 1) so]) \<and>
        rh_changed (fst (rh_timer_expired PMaxTimer h)) = [] \<and>
        (attr_set h Pmax \<and> sint (rh_pmax h) > 0 \<longrightarrow>
           StartTimer PMaxTimer (scast (rh_pmax h) * 1000) \<in> set (snd (rh_timer_expired PMaxTimer h)))
   else rh_timer_expired PMaxTimer h = (h\<lparr>rh_pmax_exceeded := True\<rparr>, [])"
  using report_restarts_pmax [of "h\<lparr>rh_pmax_exceeded := True\<rparr>"]
  by (auto simp: rh_timer_expired_def rh_report_def Let_def split_beta handle_timers_frame)

theorem pmax_forces_witness:
  "StartTimer PMaxTimer 30000 \<in> set (snd (rh_timer_expired PMaxTimer
     (rh_new\<lparr>rh_attribute_state := Pmax, rh_pmax := 30\<rparr>)))"
  using pmax_forces [of "rh_new\<lparr>rh_attribute_state := Pmax, rh_pmax := 30\<rparr>"] by (simp add: rh_new_def)

text \<open>A query of several options never overruns the parser's buffers; when one of its
  options is refused, every notification attribute is what it was before the query (for periods below 2 ^ 24,
  which survive the float the code saves them in), and when all are accepted they stay set, also when the
  consistency check that decides the answer fails.\<close>

lemma refused_query_restored:
  assumes "CHR ''&'' \<in> set query" and "\<bar>sint (rh_pmin h)\<bar> < 2 ^ 24" and "\<bar>sint (rh_pmax h)\<bar> < 2 ^ 24"
  shows "\<exists>success h1 h'. rh_set_options (amp_options 5 query) False t rt h = Some (success, h1) \<and>
    rh_parse_notification_attribute query t rt h = Some (success \<and> rh_check_attribute_validity h1, h') \<and>
    (if success then h' = h1 else rh_attributes h' = rh_attributes h)"
  by (rule parse_many [OF assms])

lemma refused_query_restored_witness:
  "\<exists>h'. rh_parse_notification_attribute ''pmin=10&size=3'' BT_Resource INTEGER rh_new = Some (False, h') \<and>
     rh_attributes h' = rh_attributes rh_new"
proof -
  have "map_option fst (rh_set_options (amp_options 5 ''pmin=10&size=3'') False BT_Resource INTEGER rh_new) = Some False"
    by code_simp
  then show ?thesis
    using refused_query_restored [of "''pmin=10&size=3''" rh_new BT_Resource INTEGER] by (auto simp: rh_new_def)
qed

text \<open>C28: a query that is one option overruns a 20-byte buffer of the parser, or is read past its
  end, exactly when it does not fit: a name longer than 20 characters, or a value of 20 characters or more.\<close>

theorem query_overflow:
  assumes "CHR ''&'' \<notin> set query" and "no_nul query"
  shows "rh_parse_notification_attribute query t rt h = None \<longleftrightarrow> \<not> option_fits query"
  by (rule parse_single [OF assms])

theorem query_overflow_witness:
  "rh_parse_notification_attribute ''pmin=00000000000000000001'' BT_Object OPAQUE rh_new = None"
  using query_overflow [of "''pmin=00000000000000000001''" BT_Object OPAQUE rh_new]
  by (simp add: option_fits_def strstr_index_def)

end
