(* ===== verification/TreeAccess.thy ===== *)
theory TreeAccess
  imports ObjectTree
begin

text \<open>
  Reading and updating a node of the tree, and the operations of \<open>M2MBase\<close> that go through its report
  handler. An operation on the report handler of a node turns the handler's calls into outputs of the
  tree: \<open>M2MBase::observation_to_be_sent\<close> forwards a notification to the observation handler of the
  object when there is one.
\<close>

section \<open>Nodes\<close>

fun get_base :: "node \<Rightarrow> lwm2m_object \<Rightarrow> base option" where
  "get_base NObj ob = Some (o_base ob)"
| "get_base (NInst i) ob =
     (if i < length (o_instances ob) then Some (oi_base (o_instances ob ! i)) else None)"
| "get_base (NRes i j) ob =
     (if i < length (o_instances ob) \<and> j < length (oi_resources (o_instances ob ! i))
      then Some (r_base (oi_resources (o_instances ob ! i) ! j)) else None)"
| "get_base (NRinst i j k) ob =
     (if i < length (o_instances ob) \<and> j < length (oi_resources (o_instances ob ! i)) \<and>
         k < length (r_instances (oi_resources (o_instances ob ! i) ! j))
      then Some (ri_base (r_instances (oi_resources (o_instances ob ! i) ! j) ! k)) else None)"

definition upd_inst :: "nat \<Rightarrow> (object_instance \<Rightarrow> object_instance) \<Rightarrow> lwm2m_object \<Rightarrow> lwm2m_object" where
  "upd_inst i f ob = ob\<lparr>o_instances := update_at i f (o_instances ob)\<rparr>"

definition upd_res :: "nat \<Rightarrow> (resource \<Rightarrow> resource) \<Rightarrow> object_instance \<Rightarrow> object_instance" where
  "upd_res j f oi = oi\<lparr>oi_resources := update_at j f (oi_resources oi)\<rparr>"

definition upd_rinst :: "nat \<Rightarrow> (resource_instance \<Rightarrow> resource_instance) \<Rightarrow> resource \<Rightarrow> resource" where
  "upd_rinst k f r = r\<lparr>r_instances := update_at k f (r_instances r)\<rparr>"

definition upd_o_base :: "(base \<Rightarrow> base) \<Rightarrow> lwm2m_object \<Rightarrow> lwm2m_object" where
  "upd_o_base f ob = ob\<lparr>o_base := f (o_base ob)\<rparr>"
definition upd_oi_base :: "(base \<Rightarrow> base) \<Rightarrow> object_instance \<Rightarrow> object_instance" where
  "upd_oi_base f oi = oi\<lparr>oi_base := f (oi_base oi)\<rparr>"
definition upd_r_base :: "(base \<Rightarrow> base) \<Rightarrow> resource \<Rightarrow> resource" where
  "upd_r_base f r = r\<lparr>r_base := f (r_base r)\<rparr>"
definition upd_ri_base :: "(base \<Rightarrow> base) \<Rightarrow> resource_instance \<Rightarrow> resource_instance" where
  "upd_ri_base f ri = ri\<lparr>ri_base := f (ri_base ri)\<rparr>"

fun upd_base :: "node \<Rightarrow> (base \<Rightarrow> base) \<Rightarrow> lwm2m_object \<Rightarrow> lwm2m_object" where
  "upd_base NObj f = upd_o_base f"
| "upd_base (NInst i) f = upd_inst i (upd_oi_base f)"
| "upd_base (NRes i j) f = upd_inst i (upd_res j (upd_r_base f))"
| "upd_base (NRinst i j k) f = upd_inst i (upd_res j (upd_rinst k (upd_ri_base f)))"

named_theorems upd_defs "definitions of the updates of a node"
declare upd_inst_def [upd_defs] upd_res_def [upd_defs] upd_rinst_def [upd_defs]
  upd_o_base_def [upd_defs] upd_oi_base_def [upd_defs] upd_r_base_def [upd_defs] upd_ri_base_def [upd_defs]

lemma get_upd_same [getset_simps]: "get_base n (upd_base n f ob) = map_option f (get_base n ob)"
  by (cases n) (auto simp: upd_defs nth_update_at)

lemma get_upd_other [getset_simps]: "m \<noteq> n \<Longrightarrow> get_base m (upd_base n f ob) = get_base m ob"
  by (cases n; cases m) (auto simp: upd_defs nth_update_at)

lemma upd_base_handler [getset_simps]: "o_handler (upd_base n f ob) = o_handler ob"
  by (cases n) (auto simp: upd_defs)

lemma upd_base_shape [getset_simps]:
  "length (o_instances (upd_base n f ob)) = length (o_instances ob)"
  "i < length (o_instances ob) \<Longrightarrow>
     length (oi_resources (o_instances (upd_base n f ob) ! i)) = length (oi_resources (o_instances ob ! i))"
  by (cases n; auto simp: upd_defs nth_update_at)+

text \<open>The nodes above a node, itself excluded.\<close>

fun parent_resource :: "node \<Rightarrow> node" where
  "parent_resource (NRinst i j k) = NRes i j"
| "parent_resource n = n"

fun parent_instance :: "node \<Rightarrow> node" where
  "parent_instance (NRinst i j k) = NInst i"
| "parent_instance (NRes i j) = NInst i"
| "parent_instance n = n"

section \<open>The report handler of a node\<close>

definition with_base :: "node \<Rightarrow> 'a \<Rightarrow> (base \<Rightarrow> 'a) \<Rightarrow> tree \<Rightarrow> 'a" where
  "with_base n d f t = (case get_base n (t_object t) of None \<Rightarrow> d | Some b \<Rightarrow> f b)"

definition tree_upd :: "node \<Rightarrow> (base \<Rightarrow> base) \<Rightarrow> tree \<Rightarrow> tree" where
  "tree_upd n f t = t\<lparr>t_object := upd_base n f (t_object t)\<rparr>"

definition emit :: "tree_output list \<Rightarrow> tree \<Rightarrow> tree" where
  "emit os t = t\<lparr>t_out := t_out t @ os\<rparr>"

fun forward_event :: "bool \<Rightarrow> node \<Rightarrow> report_event \<Rightarrow> tree_output list" where
  "forward_event handler n (ObservationToBeSent ids num so) =
     (if handler then [SendObservation n num ids so] else [])"
| "forward_event handler n (StartTimer tt d) = [TimerStarted n tt d]"
| "forward_event handler n (StopTimer tt) = [TimerStopped n tt]"

definition on_report ::
  "node \<Rightarrow> (report_handler \<Rightarrow> report_handler \<times> report_event list) \<Rightarrow> tree \<Rightarrow> tree" where
  "on_report n f t =
     with_base n t (\<lambda>b. case bs_report b of None \<Rightarrow> t
       | Some h \<Rightarrow> (let (h', es) = f h
           in emit (concat (map (forward_event (o_handler (t_object t)) n) es))
                (tree_upd n (\<lambda>b. b\<lparr>bs_report := Some h'\<rparr>) t))) t"

definition base_set_observation_handler :: "bool \<Rightarrow> tree \<Rightarrow> tree" where
  "base_set_observation_handler handler t = t\<lparr>t_object := (t_object t)\<lparr>o_handler := handler\<rparr>\<rparr>"

definition create_report_handler :: "node \<Rightarrow> tree \<Rightarrow> tree" where
  "create_report_handler n =
     tree_upd n (\<lambda>b. case bs_report b of None \<Rightarrow> b\<lparr>bs_report := Some rh_new\<rparr> | Some _ \<Rightarrow> b)"

definition base_set_under_observation :: "node \<Rightarrow> bool \<Rightarrow> bool \<Rightarrow> tree \<Rightarrow> tree" where
  "base_set_under_observation n observed handler t =
     (let t1 = on_report n (rh_set_under_observation observed) t;
          t2 = base_set_observation_handler handler t1
      in if handler then
           (if with_base n False (\<lambda>b. bs_base_type b \<noteq> BT_ResourceInstance) t2 then
              (let t3 = (if observed then create_report_handler n t2 else t2)
               in on_report n (rh_set_under_observation observed) t3)
            else t2)
         else tree_upd n (\<lambda>b. b\<lparr>bs_report := None\<rparr>) t2)"

text \<open>
  \<open>handle_observation_attribute\<close> of \<open>M2MBase\<close>, used by objects and object instances, of \<open>M2MResource\<close>
  and of \<open>M2MResourceInstance\<close>; only a resource passes its type to the parser.
\<close>

definition on_report_query ::
  "node \<Rightarrow> string \<Rightarrow> data_type \<Rightarrow> tree \<Rightarrow> (bool \<times> tree) option" where
  "on_report_query n query rt t = do {
     b \<leftarrow> get_base n (t_object t);
     h \<leftarrow> bs_report b;
     (success, h') \<leftarrow> rh_parse_notification_attribute query (bs_base_type b) rt h;
     let t1 = tree_upd n (\<lambda>b. b\<lparr>bs_report := Some h'\<rparr>) t;
     Some (success,
       if success then
         (if rh_under_observation h' then on_report n (rh_set_under_observation True) t1 else t1)
       else on_report n (\<lambda>h. (rh_set_default_values h, [])) t1) }"

definition base_handle_observation_attribute :: "node \<Rightarrow> string \<Rightarrow> tree \<Rightarrow> (bool \<times> tree) option" where
  "base_handle_observation_attribute n query t =
     on_report_query n query OPAQUE (create_report_handler n t)"

definition resource_instance_handle_observation_attribute ::
  "node \<Rightarrow> string \<Rightarrow> tree \<Rightarrow> (bool \<times> tree) option" where
  "resource_instance_handle_observation_attribute n query t = do {
     b \<leftarrow> get_base n (t_object t);
     on_report_query n query (bs_data_type b) (create_report_handler n t) }"

fun trigger_instances :: "nat \<Rightarrow> nat \<Rightarrow> nat \<Rightarrow> nat \<Rightarrow> tree \<Rightarrow> tree" where
  "trigger_instances i j k 0 t = t"
| "trigger_instances i j k (Suc m) t =
     trigger_instances i j (Suc k) m
       (if with_base (NRes i j) False base_is_under_observation t
        then on_report (NRinst i j k) (rh_set_notification_trigger 0) t else t)"

definition resource_handle_observation_attribute ::
  "nat \<Rightarrow> nat \<Rightarrow> string \<Rightarrow> tree \<Rightarrow> (bool \<times> tree) option" where
  "resource_handle_observation_attribute i j query t = do {
     b \<leftarrow> get_base (NRes i j) (t_object t);
     (success, t1) \<leftarrow> on_report_query (NRes i j) query (bs_data_type b) (create_report_handler (NRes i j) t);
     Some (success,
       if success
       then trigger_instances i j 0 (length (r_instances (oi_resources (o_instances (t_object t1) ! i) ! j))) t1
       else t1) }"

section \<open>Observation levels\<close>

text \<open>The overrides pass a level down the whole subtree.\<close>

definition ri_add_observation_level :: "u8 \<Rightarrow> resource_instance \<Rightarrow> resource_instance" where
  "ri_add_observation_level l = upd_ri_base (base_add_observation_level l)"

definition r_add_observation_level :: "u8 \<Rightarrow> resource \<Rightarrow> resource" where
  "r_add_observation_level l r =
     (let r1 = upd_r_base (base_add_observation_level l) r
      in r1\<lparr>r_instances := map (ri_add_observation_level l) (r_instances r1)\<rparr>)"

definition oi_add_observation_level :: "u8 \<Rightarrow> object_instance \<Rightarrow> object_instance" where
  "oi_add_observation_level l oi =
     (let oi1 = upd_oi_base (base_add_observation_level l) oi
      in oi1\<lparr>oi_resources := map (r_add_observation_level l) (oi_resources oi1)\<rparr>)"

definition o_add_observation_level :: "u8 \<Rightarrow> lwm2m_object \<Rightarrow> lwm2m_object" where
  "o_add_observation_level l ob =
     (let ob1 = upd_o_base (base_add_observation_level l) ob
      in ob1\<lparr>o_instances := map (oi_add_observation_level l) (o_instances ob1)\<rparr>)"

definition ri_remove_observation_level :: "u8 \<Rightarrow> resource_instance \<Rightarrow> resource_instance" where
  "ri_remove_observation_level l = upd_ri_base (base_remove_observation_level l)"

definition r_remove_observation_level :: "u8 \<Rightarrow> resource \<Rightarrow> resource" where
  "r_remove_observation_level l r =
     (let r1 = upd_r_base (base_remove_observation_level l) r
      in r1\<lparr>r_instances := map (ri_remove_observation_level l) (r_instances r1)\<rparr>)"

definition oi_remove_observation_level :: "u8 \<Rightarrow> object_instance \<Rightarrow> object_instance" where
  "oi_remove_observation_level l oi =
     (let oi1 = upd_oi_base (base_remove_observation_level l) oi
      in oi1\<lparr>oi_resources := map (r_remove_observation_level l) (oi_resources oi1)\<rparr>)"

definition o_remove_observation_level :: "u8 \<Rightarrow> lwm2m_object \<Rightarrow> lwm2m_object" where
  "o_remove_observation_level l ob =
     (let ob1 = upd_o_base (base_remove_observation_level l) ob
      in ob1\<lparr>o_instances := map (oi_remove_observation_level l) (o_instances ob1)\<rparr>)"

end
