(* ===== verification/ResourceBase.thy ===== *)
theory ResourceBase
  imports TreeAccess
begin

text \<open>
  The value of a resource or resource instance and the reports a change causes:
  \<open>M2MResourceBase\<close> of \<open>source/m2mresourcebase.cpp\<close> with \<open>notification_update\<close> of \<open>M2MObject\<close> and
  \<open>M2MObjectInstance\<close>. A value pointer with its length is an optional list of bytes; the stored copy
  carries a NUL after its last byte, so reading it as a C string stops at the end at the latest.
\<close>

section \<open>Reading a value\<close>

definition is_value_changed :: "u8 list option \<Rightarrow> nat \<Rightarrow> base \<Rightarrow> bool" where
  "is_value_changed value value_length b =
     (if value_length \<noteq> value_len b then True
      else if value \<noteq> None \<and> bs_value b = None then True
      else if bs_value b \<noteq> None \<and> value = None then True
      else (case (value, bs_value b) of
              (Some v, Some r) \<Rightarrow> take (value_len b) v \<noteq> take (value_len b) r
            | _ \<Rightarrow> False))"

definition res_get_value :: "base \<Rightarrow> u8 list option" where
  "res_get_value b =
     (case bs_value b of None \<Rightarrow> None | Some v \<Rightarrow> if length v > 0 then Some (alloc_string_copy v (length v)) else None)"

definition res_get_value_int :: "base \<Rightarrow> i64" where
  "res_get_value_int b =
     (case bs_value b of None \<Rightarrow> 0 | Some v \<Rightarrow> word_of_int (atoll (cstr (chars_of v))))"

definition res_get_value_string :: "base \<Rightarrow> string" where
  "res_get_value_string b = (case bs_value b of None \<Rightarrow> [] | Some v \<Rightarrow> chars_of v)"

section \<open>Reporting a change\<close>

definition object_notification_update :: "u16 \<Rightarrow> tree \<Rightarrow> tree" where
  "object_notification_update obj_instance_id t =
     (if with_base NObj False base_is_under_observation t
      then on_report NObj (rh_set_notification_trigger obj_instance_id) t else t)"

definition instance_notification_update :: "nat \<Rightarrow> u8 \<Rightarrow> tree \<Rightarrow> tree" where
  "instance_notification_update i level t =
     (let t1 = (if level AND O_Attribute = O_Attribute
                then object_notification_update (with_base (NInst i) 0 base_instance_id t) t else t)
      in if level AND OI_Attribute = OI_Attribute then
           (if with_base (NInst i) False base_is_under_observation t1
            then on_report (NInst i) (rh_set_notification_trigger 0) t1 else t1)
         else t1)"

fun inst_index :: "node \<Rightarrow> nat" where
  "inst_index (NInst i) = i"
| "inst_index (NRes i j) = i"
| "inst_index (NRinst i j k) = i"
| "inst_index NObj = 0"

definition node_level :: "node \<Rightarrow> tree \<Rightarrow> u8" where
  "node_level n t = with_base n obs_None base_observation_level t"

definition combined_level :: "node \<Rightarrow> tree \<Rightarrow> u8" where
  "combined_level n t =
     (node_level (parent_instance n) t OR node_level NObj t) OR node_level (parent_resource n) t OR node_level n t"

definition res_report :: "node \<Rightarrow> tree \<Rightarrow> tree" where
  "res_report n t =
     (let observation_level = node_level n t;
          level = combined_level n t;
          t1 = (if has_flag level O_Attribute \<or> has_flag level OI_Attribute
                then instance_notification_update (inst_index n) level t else t)
      in with_base n t1 (\<lambda>b.
           if bs_mode b = Dynamic \<and> has_flag level R_Attribute then
             (if bs_data_type b \<noteq> STRING \<and> observation_level \<noteq> obs_None then
                (if bs_observable b then
                   on_report n (rh_set_value (case bs_value b of
                       Some v \<Rightarrow> to_f32 (atof (cstr (chars_of v))) | None \<Rightarrow> Fin 0)) t1
                 else t1)
              else if bs_base_type b = BT_ResourceInstance then
                (if with_base (parent_resource n) False bs_observable t1 then
                   on_report (parent_resource n)
                     (rh_set_notification_trigger (with_base (parent_instance n) 0 base_instance_id t1)) t1
                 else t1)
              else t1)
           else if bs_mode b = Static then
             (if o_handler (t_object t1) then emit [ValueUpdated n] t1 else t1)
           else t1) t1)"

section \<open>Changing a value\<close>

definition res_clear_value :: "node \<Rightarrow> tree \<Rightarrow> tree" where
  "res_clear_value n t = res_report n (tree_upd n (\<lambda>b. b\<lparr>bs_value := None\<rparr>) t)"

definition res_set_value :: "node \<Rightarrow> u8 list option \<Rightarrow> nat \<Rightarrow> tree \<Rightarrow> tree \<times> bool" where
  "res_set_value n value value_length t =
     with_base n (t, False) (\<lambda>b.
       (let value_changed = is_value_changed value value_length b
        in case value of
             Some v \<Rightarrow>
               if value_length > 0 then
                 (let t1 = tree_upd n (\<lambda>b. b\<lparr>bs_value := Some (alloc_string_copy v value_length)\<rparr>) t
                  in (if value_changed then
                        (if bs_data_type b = STRING then
                           (if with_base n False base_is_under_observation t1
                            then on_report n (rh_set_notification_trigger 0) t1 else t1)
                         else res_report n t1)
                      else t1, True))
               else (t, False)
           | None \<Rightarrow> (t, False))) t"

definition res_set_value_int :: "node \<Rightarrow> i64 \<Rightarrow> tree \<Rightarrow> (tree \<times> bool) option" where
  "res_set_value_int n value t = do {
     buffer \<leftarrow> itoa_c (sint value);
     Some (res_set_value n (Some (bytes_of buffer)) (length buffer) t) }"

section \<open>What a write does\<close>

lemma on_report_get:
  "get_base m (t_object (on_report n f t)) =
     (if m = n then map_option (\<lambda>b. b\<lparr>bs_report := map_option (\<lambda>h. fst (f h)) (bs_report b)\<rparr>) (get_base m (t_object t))
      else get_base m (t_object t))"
proof (cases "get_base n (t_object t)")
  case None
  then show ?thesis by (auto simp: on_report_def with_base_def)
next
  case (Some b)
  have "b\<lparr>bs_report := None\<rparr> = b" if "bs_report b = None" using that by (cases b) simp
  then show ?thesis
    using Some
    by (cases "bs_report b")
      (auto simp: on_report_def with_base_def emit_def tree_upd_def getset_simps split_beta Let_def)
qed

text \<open>Everything of a node but its report handler.\<close>

definition frame_of :: "base \<Rightarrow> base" where
  "frame_of b = b\<lparr>bs_report := None\<rparr>"

definition node_frame :: "node \<Rightarrow> tree \<Rightarrow> base option" where
  "node_frame m t = map_option frame_of (get_base m (t_object t))"

lemma frame_of_value: "frame_of (b\<lparr>bs_value := v\<rparr>) = (frame_of b)\<lparr>bs_value := v\<rparr>"
  by (simp add: frame_of_def)

lemma frame_of_report: "frame_of (b\<lparr>bs_report := h\<rparr>) = frame_of b"
  by (simp add: frame_of_def)

lemma on_report_frame: "node_frame m (on_report n f t) = node_frame m t"
  by (simp add: node_frame_def on_report_get option.map_comp comp_def frame_of_report)

lemma emit_frame: "node_frame m (emit os t) = node_frame m t"
  by (simp add: node_frame_def emit_def)

lemma instance_notification_frame: "node_frame m (instance_notification_update i l t) = node_frame m t"
  by (simp add: instance_notification_update_def object_notification_update_def Let_def on_report_frame)

lemma with_base_frame: "(\<And>b. node_frame m (f b) = X) \<Longrightarrow> node_frame m d = X \<Longrightarrow> node_frame m (with_base n d f t) = X"
  by (simp add: with_base_def split: option.split)

lemma res_report_frame: "node_frame m (res_report n t) = node_frame m t"
  unfolding res_report_def Let_def
  by (rule with_base_frame) (simp_all add: on_report_frame emit_frame instance_notification_frame)

lemma tree_upd_frame_value:
  "node_frame m (tree_upd n (\<lambda>b. b\<lparr>bs_value := v\<rparr>) t) =
     (if m = n then map_option (\<lambda>b. b\<lparr>bs_value := v\<rparr>) (node_frame m t) else node_frame m t)"
  by (simp add: node_frame_def tree_upd_def getset_simps option.map_comp comp_def frame_of_value)

text \<open>A successful write changes the value of its node, and of no other node more than the report handler.\<close>

lemma res_set_value_frame:
  assumes "get_base n (t_object t) = Some b" and "0 < len"
  shows "node_frame m (fst (res_set_value n (Some v) len t)) =
      (if m = n then Some ((frame_of b)\<lparr>bs_value := Some (take len v)\<rparr>) else node_frame m t)"
    and "snd (res_set_value n (Some v) len t)"
proof -
  let ?t1 = "tree_upd n (\<lambda>b. b\<lparr>bs_value := Some (alloc_string_copy v len)\<rparr>) t"
  have b: "node_frame n t = Some (frame_of b)" using assms(1) by (simp add: node_frame_def)
  have "node_frame m (fst (res_set_value n (Some v) len t)) = node_frame m ?t1"
    using assms by (simp add: res_set_value_def with_base_def Let_def on_report_frame res_report_frame)
  then show "node_frame m (fst (res_set_value n (Some v) len t)) =
      (if m = n then Some ((frame_of b)\<lparr>bs_value := Some (take len v)\<rparr>) else node_frame m t)"
    using b by (simp add: tree_upd_frame_value alloc_string_copy_def)
  show "snd (res_set_value n (Some v) len t)"
    using assms by (simp add: res_set_value_def with_base_def Let_def)
qed

lemma res_clear_value_frame:
  assumes "get_base n (t_object t) = Some b"
  shows "node_frame m (res_clear_value n t) =
      (if m = n then Some ((frame_of b)\<lparr>bs_value := None\<rparr>) else node_frame m t)"
proof -
  have "node_frame n t = Some (frame_of b)" using assms by (simp add: node_frame_def)
  then show ?thesis by (simp add: res_clear_value_def res_report_frame tree_upd_frame_value)
qed

lemma is_value_changed_iff:
  assumes "len \<le> length v" and "0 < len"
  shows "is_value_changed (Some v) len b \<longleftrightarrow> bs_value b \<noteq> Some (take len v)"
  using assms by (auto simp: is_value_changed_def value_len_def split: option.splits)

section \<open>Properties\<close>

lemma node_frame_value: "map_option bs_value (get_base m (t_object t)) = map_option bs_value (node_frame m t)"
  by (simp add: node_frame_def option.map_comp comp_def frame_of_def)

lemma set_value_unchanged:
  assumes "get_base n (t_object t) = Some b" and "0 < len" and "len \<le> length v" and "bs_value b = Some (take len v)"
  shows "t_out (fst (res_set_value n (Some v) len t)) = t_out t \<and>
    get_base m (t_object (fst (res_set_value n (Some v) len t))) = get_base m (t_object t)"
proof -
  have "\<not> is_value_changed (Some v) len b" using is_value_changed_iff [of len v b] assms by simp
  then have "fst (res_set_value n (Some v) len t) = tree_upd n (\<lambda>b. b\<lparr>bs_value := Some (alloc_string_copy v len)\<rparr>) t"
    using assms by (simp add: res_set_value_def with_base_def Let_def)
  moreover have "b\<lparr>bs_value := Some (take len v)\<rparr> = b" using assms(4) by (cases b) simp
  ultimately show ?thesis using assms(1)
    by (cases "m = n") (simp_all add: tree_upd_def getset_simps alloc_string_copy_def)
qed

text \<open>Setting a non-empty value on a node of the tree succeeds, the node then has exactly these
  bytes, and every other node keeps everything but what its report handler records; writing the value a node
  already has changes no node at all and sends nothing.\<close>

lemma set_value_frame:
  assumes "get_base n (t_object t) = Some b" and "0 < len" and "len \<le> length v"
  shows "snd (res_set_value n (Some v) len t) \<and>
    node_frame n (fst (res_set_value n (Some v) len t)) = Some ((frame_of b)\<lparr>bs_value := Some (take len v)\<rparr>) \<and>
    (m \<noteq> n \<longrightarrow> node_frame m (fst (res_set_value n (Some v) len t)) = node_frame m t) \<and>
    (bs_value b = Some (take len v) \<longrightarrow>
       t_out (fst (res_set_value n (Some v) len t)) = t_out t \<and>
       get_base m (t_object (fst (res_set_value n (Some v) len t))) = get_base m (t_object t))"
  using res_set_value_frame [OF assms(1,2)] set_value_unchanged [OF assms] by simp

definition sample_tree :: tree where
  "sample_tree =
     (let b = base_new ''9'' Dynamic '''' ''9'' False False STRING BT_Object;
          i = (base_new '''' Dynamic '''' ''9/0'' False False STRING BT_ObjectInstance)
                \<lparr>bs_report := Some (rh_add_observation_level OI_Attribute rh_new)\<rparr>;
          r = (base_new ''1'' Dynamic '''' ''9/0/1'' False False INTEGER BT_Resource)
      in \<lparr>t_object = \<lparr>o_base = b,
            o_instances = [\<lparr>oi_base = i, oi_resources = [\<lparr>r_base = r, r_block = None, r_instances = [],
              r_delayed_response = False, r_delayed_token = None\<rparr>]\<rparr>],
            o_handler = True\<rparr>, t_out = []\<rparr>)"

lemma sample_tree_node: "get_base (NRes 0 0) (t_object sample_tree) =
    Some (base_new ''1'' Dynamic '''' ''9/0/1'' False False INTEGER BT_Resource)"
  by (simp add: sample_tree_def Let_def)

lemma set_value_frame_witness:
  "node_frame (NInst 0) (fst (res_set_value (NRes 0 0) (Some [49, 50, 0]) 2 sample_tree)) =
     node_frame (NInst 0) sample_tree"
  using set_value_frame [OF sample_tree_node, of 2 "[49, 50, 0]" "NInst 0"] by simp

text \<open>An integer set on a node of the tree, other than the least 64-bit one, is what
  \<open>get_value_int\<close> reads from it.\<close>

lemma int_value_roundtrip:
  assumes "get_base n (t_object t) = Some b" and "sint v \<noteq> - (2 ^ 63)"
  shows "\<exists>t' b'. res_set_value_int n v t = Some (t', True) \<and> get_base n (t_object t') = Some b' \<and>
    res_get_value_int b' = v"
proof -
  have "- (2 ^ 63) \<le> sint v" "sint v < 2 ^ 63" using sint_range_size [of v] by (simp_all add: word_size)
  then have a: "\<bar>sint v\<bar> < 2 ^ 63" using assms(2) by auto
  obtain s where s: "itoa_c (sint v) = Some s" "atoll s = sint v" "no_nul s" "s \<noteq> []"
    using itoa_c_eq [OF a] itoa_c_atoll_aux [OF a] dec_string_no_nul by (auto simp: dec_string_def)
  let ?r = "res_set_value n (Some (bytes_of s)) (length s) t"
  have l: "0 < length s" using s(4) by simp
  note f = res_set_value_frame(1) [OF assms(1) l, of n "bytes_of s"] res_set_value_frame(2) [OF assms(1) l, of "bytes_of s"]
  then obtain b' where b': "get_base n (t_object (fst ?r)) = Some b'" by (auto simp: node_frame_def)
  then have "bs_value b' = Some (bytes_of s)" using node_frame_value [of n "fst ?r"] f(1) by simp
  then have "res_get_value_int b' = v" using s(2,3) by (simp add: res_get_value_int_def comp_def)
  moreover have "res_set_value_int n v t = Some (fst ?r, True)"
    using f(2) s(1) by (simp add: res_set_value_int_def prod_eq_iff)
  ultimately show ?thesis using b' by blast
qed

lemma int_value_roundtrip_witness:
  "\<exists>t' b'. res_set_value_int (NRes 0 0) (- 42) sample_tree = Some (t', True) \<and>
     get_base (NRes 0 0) (t_object t') = Some b' \<and> res_get_value_int b' = - 42"
  by (rule int_value_roundtrip [OF sample_tree_node]) simp

end
