(* ===== verification/Objects.thy ===== *)
theory Objects
  imports ResourceBase Paths
begin

text \<open>
  Construction, lookup, creation and removal on the three levels of the tree:
  \<open>source/m2mobject.cpp\<close>, \<open>source/m2mobjectinstance.cpp\<close>, \<open>source/m2mresource.cpp\<close> and
  \<open>source/m2mresourceinstance.cpp\<close>. A function that returns the new child or null returns its position
  or \<open>None\<close>; a destructor returns the calls \<open>resource_to_be_deleted\<close> it makes when the object has an
  observation handler.
\<close>

section \<open>Constructors\<close>

definition object_new :: "string \<Rightarrow> string \<Rightarrow> bool \<Rightarrow> lwm2m_object" where
  "object_new object_name path external_blockwise_store =
     (let b = base_new object_name Dynamic [] path external_blockwise_store False OBJLINK BT_Object
      in \<lparr>o_base = (if base_name_id b \<noteq> -1 then b\<lparr>bs_content_type := COAP_CONTENT_OMA_TLV_TYPE\<rparr> else b),
          o_instances = [], o_handler = False\<rparr>)"

definition object_instance_new :: "string \<Rightarrow> string \<Rightarrow> bool \<Rightarrow> object_instance" where
  "object_instance_new resource_type path external_blockwise_store =
     \<lparr>oi_base = (base_new [] Dynamic resource_type path external_blockwise_store False OBJLINK BT_ObjectInstance)
                  \<lparr>bs_content_type := COAP_CONTENT_OMA_TLV_TYPE\<rparr>,
      oi_resources = []\<rparr>"

definition set_initial_value :: "u8 list option \<Rightarrow> u8 \<Rightarrow> base \<Rightarrow> base" where
  "set_initial_value value value_length b =
     (case value of None \<Rightarrow> b
      | Some v \<Rightarrow> if unat value_length > 0
                  then b\<lparr>bs_value := Some (alloc_string_copy v (unat value_length))\<rparr> else b)"

definition resource_new_value ::
  "string \<Rightarrow> mode \<Rightarrow> string \<Rightarrow> data_type \<Rightarrow> u8 list option \<Rightarrow> u8 \<Rightarrow> string \<Rightarrow> bool \<Rightarrow> bool \<Rightarrow> resource" where
  "resource_new_value name m resource_type type value value_length path multiple external =
     (let b0 = base_new name m resource_type path external multiple type BT_ResourceInstance;
          b1 = (set_initial_value value value_length b0)\<lparr>bs_base_type := BT_Resource\<rparr>;
          b2 = (base_set_operation GET_ALLOWED b1)\<lparr>bs_observable := False\<rparr>;
          b3 = (if multiple then b2\<lparr>bs_content_type := COAP_CONTENT_OMA_TLV_TYPE\<rparr> else b2)
      in \<lparr>r_base = b3, r_block = None, r_instances = [], r_delayed_response = False, r_delayed_token = None\<rparr>)"

definition resource_new ::
  "string \<Rightarrow> mode \<Rightarrow> string \<Rightarrow> data_type \<Rightarrow> bool \<Rightarrow> string \<Rightarrow> bool \<Rightarrow> bool \<Rightarrow> resource" where
  "resource_new name m resource_type type observable path multiple external =
     (let b1 = base_new name m resource_type path external multiple type BT_Resource;
          b2 = (base_set_operation GET_PUT_ALLOWED b1)\<lparr>bs_observable := observable\<rparr>;
          b3 = (if multiple then b2\<lparr>bs_content_type := COAP_CONTENT_OMA_TLV_TYPE\<rparr> else b2)
      in \<lparr>r_base = b3, r_block = None, r_instances = [], r_delayed_response = False, r_delayed_token = None\<rparr>)"

definition resource_of_params :: "base \<Rightarrow> resource" where
  "resource_of_params b =
     \<lparr>r_base = b, r_block = None, r_instances = [], r_delayed_response = False, r_delayed_token = None\<rparr>"

definition resource_instance_new_value ::
  "mode \<Rightarrow> string \<Rightarrow> data_type \<Rightarrow> u8 list option \<Rightarrow> u8 \<Rightarrow> string \<Rightarrow> bool \<Rightarrow> bool \<Rightarrow> resource_instance" where
  "resource_instance_new_value m resource_type type value value_length path external multiple =
     \<lparr>ri_base = set_initial_value value value_length
                 (base_new [] m resource_type path external multiple type BT_ResourceInstance),
      ri_block = None\<rparr>"

definition resource_instance_new ::
  "mode \<Rightarrow> string \<Rightarrow> data_type \<Rightarrow> string \<Rightarrow> bool \<Rightarrow> bool \<Rightarrow> resource_instance" where
  "resource_instance_new m resource_type type path external multiple =
     \<lparr>ri_base = base_new [] m resource_type path external multiple type BT_ResourceInstance,
      ri_block = None\<rparr>"

section \<open>Destructors\<close>

definition free_resources :: "bool \<Rightarrow> base \<Rightarrow> tree_output list" where
  "free_resources handler b = (if handler then [ResourceToBeDeleted (bs_path b)] else [])"

definition resource_delete :: "bool \<Rightarrow> resource \<Rightarrow> tree_output list" where
  "resource_delete handler r =
     concat (map (\<lambda>ri. free_resources handler (ri_base ri)) (r_instances r)) @ free_resources handler (r_base r)"

definition object_instance_delete :: "bool \<Rightarrow> object_instance \<Rightarrow> tree_output list" where
  "object_instance_delete handler oi =
     concat (map (resource_delete handler) (oi_resources oi)) @ free_resources handler (oi_base oi)"

definition object_delete :: "lwm2m_object \<Rightarrow> tree_output list" where
  "object_delete ob =
     concat (map (object_instance_delete (o_handler ob)) (o_instances ob)) @
     free_resources (o_handler ob) (o_base ob)"

section \<open>M2MObject\<close>

definition object_instance_of :: "u16 \<Rightarrow> lwm2m_object \<Rightarrow> nat option" where
  "object_instance_of inst_id ob = find_idx (\<lambda>oi. base_instance_id (oi_base oi) = inst_id) (o_instances ob)"

definition instance_count :: "lwm2m_object \<Rightarrow> u16" where
  "instance_count ob = of_nat (length (o_instances ob))"

definition object_name :: "lwm2m_object \<Rightarrow> string" where
  "object_name ob = (case base_name (o_base ob) of Some s \<Rightarrow> s | None \<Rightarrow> [])"

definition create_object_instance :: "u16 \<Rightarrow> lwm2m_object \<Rightarrow> lwm2m_object \<times> nat option" where
  "create_object_instance instance_id ob =
     (case object_instance_of instance_id ob of Some _ \<Rightarrow> (ob, None)
      | None \<Rightarrow>
        (case create_path_object (object_name ob) instance_id of None \<Rightarrow> (ob, None)
         | Some path \<Rightarrow>
             (let i0 = object_instance_new [] path False;
                  i1 = oi_add_observation_level (base_observation_level (o_base ob)) i0;
                  i2 = upd_oi_base (base_set_instance_id instance_id) i1;
                  i3 = (if base_name_id (o_base ob) \<noteq> -1
                        then upd_oi_base (\<lambda>b. b\<lparr>bs_content_type := COAP_CONTENT_OMA_TLV_TYPE\<rparr>) i2 else i2)
              in (ob\<lparr>o_instances := o_instances ob @ [i3]\<rparr>, Some (length (o_instances ob))))))"

definition remove_object_instance :: "u16 \<Rightarrow> lwm2m_object \<Rightarrow> lwm2m_object \<times> tree_output list \<times> bool" where
  "remove_object_instance inst_id ob =
     (case find_idx (\<lambda>oi. base_instance_id (oi_base oi) = inst_id) (o_instances ob) of
        None \<Rightarrow> (ob, [], False)
      | Some pos \<Rightarrow>
          (ob\<lparr>o_instances := remove_at pos (o_instances ob)\<rparr>,
           object_instance_delete (o_handler ob) (o_instances ob ! pos), True))"

section \<open>M2MResource\<close>

definition supports_multiple_instances :: "resource \<Rightarrow> bool" where
  "supports_multiple_instances r = bs_multiple (r_base r)"

definition resource_name :: "resource \<Rightarrow> string" where
  "resource_name r = (case base_name (r_base r) of Some s \<Rightarrow> s | None \<Rightarrow> [])"

definition resource_instance_of :: "u16 \<Rightarrow> resource \<Rightarrow> nat option" where
  "resource_instance_of inst_id r = find_idx (\<lambda>ri. base_instance_id (ri_base ri) = inst_id) (r_instances r)"

definition resource_instance_count :: "resource \<Rightarrow> u16" where
  "resource_instance_count r = of_nat (length (r_instances r))"

definition add_resource_instance :: "resource_instance \<Rightarrow> resource \<Rightarrow> resource" where
  "add_resource_instance ri r = r\<lparr>r_instances := r_instances r @ [ri]\<rparr>"

definition resource_remove_instance :: "bool \<Rightarrow> u16 \<Rightarrow> resource \<Rightarrow> resource \<times> tree_output list \<times> bool" where
  "resource_remove_instance handler inst_id r =
     (case find_idx (\<lambda>ri. base_instance_id (ri_base ri) = inst_id) (r_instances r) of
        None \<Rightarrow> (r, [], False)
      | Some pos \<Rightarrow>
          (r\<lparr>r_instances := remove_at pos (r_instances r)\<rparr>,
           free_resources handler (ri_base (r_instances r ! pos)), True))"

section \<open>M2MObjectInstance\<close>

definition resource_of :: "string \<Rightarrow> object_instance \<Rightarrow> nat option" where
  "resource_of name oi = find_idx (\<lambda>r. resource_name r = name) (oi_resources oi)"

definition resource_count :: "object_instance \<Rightarrow> u16" where
  "resource_count oi =
     foldl (\<lambda>count r. if supports_multiple_instances r then count + resource_instance_count r else count + 1)
       0 (oi_resources oi)"

definition resource_count_of :: "string \<Rightarrow> object_instance \<Rightarrow> u16" where
  "resource_count_of name oi =
     foldl (\<lambda>count r. if resource_name r = name then
                        (if supports_multiple_instances r then count + resource_instance_count r else count + 1)
                      else count)
       0 (oi_resources oi)"

definition push_resource :: "resource \<Rightarrow> object_instance \<Rightarrow> object_instance" where
  "push_resource r oi = oi\<lparr>oi_resources := oi_resources oi @ [r]\<rparr>"

definition create_static_resource_params :: "base \<Rightarrow> object_instance \<Rightarrow> object_instance \<times> nat option" where
  "create_static_resource_params s oi =
     (let name = (case base_name s of Some n \<Rightarrow> n | None \<Rightarrow> [])
      in if \<not> validate_string_length name 1 MAX_ALLOWED_STRING_LENGTH then (oi, None)
         else if resource_of name oi \<noteq> None then (oi, None)
         else (push_resource (r_add_observation_level (base_observation_level (oi_base oi)) (resource_of_params s)) oi,
               Some (length (oi_resources oi))))"

definition create_static_resource ::
  "string \<Rightarrow> string \<Rightarrow> string \<Rightarrow> data_type \<Rightarrow> u8 list option \<Rightarrow> u8 \<Rightarrow> bool \<Rightarrow> bool \<Rightarrow> object_instance \<Rightarrow>
     object_instance \<times> nat option" where
  "create_static_resource on name resource_type type value value_length multiple external oi =
     (if \<not> validate_string_length name 1 MAX_ALLOWED_STRING_LENGTH then (oi, None)
      else if resource_of name oi \<noteq> None then (oi, None)
      else (case create_path_instance on (base_instance_id (oi_base oi)) name of None \<Rightarrow> (oi, None)
         | Some path \<Rightarrow>
             (let r0 = resource_new_value name Static resource_type type value value_length path multiple external;
                  r1 = r_add_observation_level (base_observation_level (oi_base oi)) r0;
                  r2 = (if multiple then upd_r_base (\<lambda>b. b\<lparr>bs_content_type := COAP_CONTENT_OMA_TLV_TYPE\<rparr>) r1 else r1)
              in (push_resource r2 oi, Some (length (oi_resources oi))))))"

definition create_dynamic_resource ::
  "string \<Rightarrow> string \<Rightarrow> string \<Rightarrow> data_type \<Rightarrow> bool \<Rightarrow> bool \<Rightarrow> bool \<Rightarrow> object_instance \<Rightarrow>
     object_instance \<times> nat option" where
  "create_dynamic_resource on name resource_type type observable multiple external oi =
     (if \<not> validate_string_length name 1 MAX_ALLOWED_STRING_LENGTH then (oi, None)
      else if resource_of name oi \<noteq> None then (oi, None)
      else (case create_path_instance on (base_instance_id (oi_base oi)) name of None \<Rightarrow> (oi, None)
         | Some path \<Rightarrow>
             (let r0 = resource_new name Dynamic resource_type type observable path multiple external;
                  r1 = (if multiple then upd_r_base (\<lambda>b. b\<lparr>bs_content_type := COAP_CONTENT_OMA_TLV_TYPE\<rparr>) r0 else r0);
                  r2 = r_add_observation_level (base_observation_level (oi_base oi)) r1
              in (push_resource r2 oi, Some (length (oi_resources oi))))))"

text \<open>The part of the two \<open>create_*_resource_instance\<close> that adds the instance to its resource.\<close>

definition add_static_instance ::
  "string \<Rightarrow> u16 \<Rightarrow> string \<Rightarrow> data_type \<Rightarrow> u8 list option \<Rightarrow> u8 \<Rightarrow> bool \<Rightarrow> u16 \<Rightarrow> resource \<Rightarrow>
     resource \<times> nat option" where
  "add_static_instance on oid resource_type type value value_length external instance_id r =
     (if supports_multiple_instances r \<and> resource_instance_of instance_id r = None then
        (case create_path_resource on oid (resource_name r) instance_id of None \<Rightarrow> (r, None)
         | Some path \<Rightarrow>
             (let n0 = resource_instance_new_value Static resource_type type value value_length path external True;
                  n1 = upd_ri_base (base_set_operation GET_ALLOWED) n0;
                  n2 = upd_ri_base (base_set_instance_id instance_id) n1
              in (add_resource_instance n2 r, Some (length (r_instances r)))))
      else (r, None))"

definition add_dynamic_instance ::
  "string \<Rightarrow> u16 \<Rightarrow> string \<Rightarrow> data_type \<Rightarrow> bool \<Rightarrow> bool \<Rightarrow> u16 \<Rightarrow> resource \<Rightarrow> resource \<times> nat option" where
  "add_dynamic_instance on oid resource_type type observable external instance_id r =
     (if supports_multiple_instances r \<and> resource_instance_of instance_id r = None then
        (case create_path_resource on oid (resource_name r) instance_id of None \<Rightarrow> (r, None)
         | Some path \<Rightarrow>
             (let n0 = resource_instance_new Dynamic resource_type type path external True;
                  n1 = upd_ri_base (\<lambda>b. (base_set_operation GET_ALLOWED b)\<lparr>bs_observable := observable\<rparr>) n0;
                  n2 = upd_ri_base (base_set_instance_id instance_id) n1
              in (add_resource_instance n2 r, Some (length (r_instances r)))))
      else (r, None))"

definition at_resource ::
  "nat option \<Rightarrow> (resource \<Rightarrow> resource \<times> nat option) \<Rightarrow> object_instance \<Rightarrow>
     object_instance \<times> (nat \<times> nat) option" where
  "at_resource res f oi =
     (case res of None \<Rightarrow> (oi, None)
      | Some j \<Rightarrow>
          (let (r', k) = f (oi_resources oi ! j)
           in (upd_res j (\<lambda>_. r') oi, map_option (\<lambda>k. (j, k)) k)))"

definition create_static_resource_instance ::
  "string \<Rightarrow> string \<Rightarrow> string \<Rightarrow> data_type \<Rightarrow> u8 list option \<Rightarrow> u8 \<Rightarrow> u16 \<Rightarrow> bool \<Rightarrow> object_instance \<Rightarrow>
     object_instance \<times> (nat \<times> nat) option" where
  "create_static_resource_instance on name resource_type type value value_length instance_id external oi =
     (let oid = base_instance_id (oi_base oi) in
      if \<not> validate_string_length name 1 MAX_ALLOWED_STRING_LENGTH then (oi, None)
      else
        (let (oi1, res) =
               (case resource_of name oi of
                  Some j \<Rightarrow> (oi, Some j)
                | None \<Rightarrow>
                    (case create_path_instance on oid name of None \<Rightarrow> (oi, None)
                     | Some path \<Rightarrow>
                         (let r0 = resource_new_value name Static resource_type type value value_length path True external;
                              r1 = upd_r_base (\<lambda>b. (base_set_operation GET_ALLOWED b)
                                     \<lparr>bs_observable := False, bs_publish_uri := False\<rparr>) r0
                          in (push_resource r1 oi, Some (length (oi_resources oi))))))
         in at_resource res
              (add_static_instance on oid resource_type type value value_length external instance_id) oi1))"

definition create_dynamic_resource_instance ::
  "string \<Rightarrow> string \<Rightarrow> string \<Rightarrow> data_type \<Rightarrow> bool \<Rightarrow> u16 \<Rightarrow> bool \<Rightarrow> object_instance \<Rightarrow>
     object_instance \<times> (nat \<times> nat) option" where
  "create_dynamic_resource_instance on name resource_type type observable instance_id external oi =
     (let oid = base_instance_id (oi_base oi) in
      if \<not> validate_string_length name 1 MAX_ALLOWED_STRING_LENGTH then (oi, None)
      else
        (let (oi1, res) =
               (case resource_of name oi of
                  Some j \<Rightarrow> (oi, Some j)
                | None \<Rightarrow>
                    (case create_path_instance on oid name of None \<Rightarrow> (oi, None)
                     | Some path \<Rightarrow>
                         (let r0 = resource_new name Dynamic resource_type type False path True external;
                              r1 = upd_r_base (\<lambda>b. base_set_operation GET_ALLOWED (b\<lparr>bs_publish_uri := False\<rparr>)) r0
                          in (push_resource r1 oi, Some (length (oi_resources oi))))))
         in at_resource res
              (add_dynamic_instance on oid resource_type type observable external instance_id) oi1))"

definition remove_resource :: "bool \<Rightarrow> string \<Rightarrow> object_instance \<Rightarrow> object_instance \<times> tree_output list \<times> bool" where
  "remove_resource handler name oi =
     (case find_idx (\<lambda>r. resource_name r = name) (oi_resources oi) of
        None \<Rightarrow> (oi, [], False)
      | Some pos \<Rightarrow>
          (oi\<lparr>oi_resources := remove_at pos (oi_resources oi)\<rparr>,
           resource_delete handler (oi_resources oi ! pos), True))"

definition remove_resource_instance ::
  "bool \<Rightarrow> string \<Rightarrow> u16 \<Rightarrow> object_instance \<Rightarrow> object_instance \<times> tree_output list \<times> bool" where
  "remove_resource_instance handler name inst_id oi =
     (case resource_of name oi of None \<Rightarrow> (oi, [], False)
      | Some j \<Rightarrow>
          (let r = oi_resources oi ! j in
           if find_idx (\<lambda>ri. base_instance_id (ri_base ri) = inst_id) (r_instances r) = None then (oi, [], False)
           else
             (let (r1, es, success) = resource_remove_instance handler inst_id r;
                  oi1 = upd_res j (\<lambda>_. r1) oi
              in if resource_instance_count r1 = 0 then
                   (case find_idx (\<lambda>r. resource_name r = name) (oi_resources oi1) of
                      None \<Rightarrow> (oi1, es, success)
                    | Some pos \<Rightarrow> (oi1\<lparr>oi_resources := remove_at pos (oi_resources oi1)\<rparr>,
                                   es @ resource_delete handler r1, success))
                 else (oi1, es, success))))"

end
