(* ===== verification/TlvSerializer.thy ===== *)
theory TlvSerializer
  imports Objects
begin

text \<open>
  \<open>M2MTLVSerializer\<close> of \<open>source/m2mtlvserializer.cpp\<close>: the OMA-TLV form of resources and object
  instances. Every element is appended to a freshly allocated buffer, so a call takes the buffer so
  far (a null pointer is the empty list) and returns the longer one. \<open>malloc\<close> is an oracle \<open>alloc\<close> of
  the requested size, because the code handles its failure, and \<open>common_write_64_bit\<close> of the common
  library is the parameter \<open>wr64\<close>.
\<close>

abbreviation TYPE_RESOURCE :: u8 where "TYPE_RESOURCE \<equiv> 0xC0"
abbreviation TYPE_MULTIPLE_RESOURCE :: u8 where "TYPE_MULTIPLE_RESOURCE \<equiv> 0x80"
abbreviation TYPE_RESOURCE_INSTANCE :: u8 where "TYPE_RESOURCE_INSTANCE \<equiv> 0x40"
abbreviation TYPE_OBJECT_INSTANCE :: u8 where "TYPE_OBJECT_INSTANCE \<equiv> 0x00"
abbreviation ID16 :: u8 where "ID16 \<equiv> 0x20"
abbreviation LENGTH8 :: u8 where "LENGTH8 \<equiv> 0x08"
abbreviation LENGTH16 :: u8 where "LENGTH16 \<equiv> 0x10"
abbreviation LENGTH24 :: u8 where "LENGTH24 \<equiv> 0x18"

definition serialize_id :: "u16 \<Rightarrow> u8 list" where
  "serialize_id i =
     (if i > 255 then [ucast (drop_bit 8 (i AND 0xFF00)), ucast (i AND 0xFF)] else [ucast (i AND 0xFF)])"

definition serialize_length :: "u32 \<Rightarrow> u8 list" where
  "serialize_length len =
     (if len > 65535 then
        [ucast (drop_bit 16 (len AND 0xFF0000)), ucast (drop_bit 8 (len AND 0xFF00)), ucast (len AND 0xFF)]
      else if len > 255 then [ucast (drop_bit 8 (len AND 0xFF00)), ucast (len AND 0xFF)]
      else if len > 7 then [ucast (len AND 0xFF)]
      else [])"

definition tlv_type_byte :: "u8 \<Rightarrow> u16 \<Rightarrow> u32 \<Rightarrow> u8" where
  "tlv_type_byte type i len =
     type + (if i < 256 then 0 else ID16) +
     (if len < 8 then ucast len else if len < 256 then LENGTH8 else if len < 65536 then LENGTH16 else LENGTH24)"

definition serialize_TILV ::
  "(nat \<Rightarrow> bool) \<Rightarrow> u8 \<Rightarrow> u16 \<Rightarrow> u8 list \<Rightarrow> u8 list \<Rightarrow> u8 list option" where
  "serialize_TILV alloc type i value data =
     (let len = of_nat (length value);
          id_array = serialize_id i;
          length_array = serialize_length len
      in if alloc (length data + 1 + length id_array + length length_array + length value)
         then Some (data @ [tlv_type_byte type i len] @ id_array @ length_array @ value)
         else None)"

definition is_int_type :: "base \<Rightarrow> bool" where
  "is_int_type b \<longleftrightarrow> bs_data_type b = INTEGER \<or> bs_data_type b = BOOLEAN \<or> bs_data_type b = TIME"

definition serialize_TLV_binary_int ::
  "(nat \<Rightarrow> bool) \<Rightarrow> (i64 \<Rightarrow> u8 list) \<Rightarrow> base \<Rightarrow> u8 \<Rightarrow> u16 \<Rightarrow> u8 list \<Rightarrow> u8 list option" where
  "serialize_TLV_binary_int alloc wr64 b type i data =
     (let valueInt = res_get_value_int b;
          buffer = (if bs_data_type b = BOOLEAN then [ucast valueInt] else wr64 valueInt)
      in serialize_TILV alloc type i buffer data)"

definition value_bytes :: "base \<Rightarrow> u8 list" where
  "value_bytes b = (case bs_value b of None \<Rightarrow> [] | Some v \<Rightarrow> v)"

definition serialize_resource_instance ::
  "(nat \<Rightarrow> bool) \<Rightarrow> (i64 \<Rightarrow> u8 list) \<Rightarrow> u16 \<Rightarrow> resource_instance \<Rightarrow> u8 list \<Rightarrow> u8 list option" where
  "serialize_resource_instance alloc wr64 i ri data =
     (if is_int_type (ri_base ri)
      then serialize_TLV_binary_int alloc wr64 (ri_base ri) TYPE_RESOURCE_INSTANCE i data
      else serialize_TILV alloc TYPE_RESOURCE_INSTANCE i (value_bytes (ri_base ri)) data)"

fun serialize_instance_loop ::
  "(nat \<Rightarrow> bool) \<Rightarrow> (i64 \<Rightarrow> u8 list) \<Rightarrow> resource_instance list \<Rightarrow> u8 list \<Rightarrow> u8 list option" where
  "serialize_instance_loop alloc wr64 [] nested = Some nested"
| "serialize_instance_loop alloc wr64 (ri # ris) nested = do {
     nested' \<leftarrow> serialize_resource_instance alloc wr64 (base_instance_id (ri_base ri)) ri nested;
     serialize_instance_loop alloc wr64 ris nested' }"

definition serialize_multiple_resource ::
  "(nat \<Rightarrow> bool) \<Rightarrow> (i64 \<Rightarrow> u8 list) \<Rightarrow> resource \<Rightarrow> u8 list \<Rightarrow> u8 list option" where
  "serialize_multiple_resource alloc wr64 r data = do {
     nested \<leftarrow> serialize_instance_loop alloc wr64 (r_instances r) [];
     if base_name_id (r_base r) \<noteq> -1
     then serialize_TILV alloc TYPE_MULTIPLE_RESOURCE (word_of_int (base_name_id (r_base r))) nested data
     else None }"

definition serialize_resource ::
  "(nat \<Rightarrow> bool) \<Rightarrow> (i64 \<Rightarrow> u8 list) \<Rightarrow> resource \<Rightarrow> u8 list \<Rightarrow> u8 list option" where
  "serialize_resource alloc wr64 r data =
     (if base_name_id (r_base r) \<noteq> -1 then
        (if is_int_type (r_base r)
         then serialize_TLV_binary_int alloc wr64 (r_base r) TYPE_RESOURCE
                (word_of_int (base_name_id (r_base r))) data
         else serialize_TILV alloc TYPE_RESOURCE (word_of_int (base_name_id (r_base r)))
                (value_bytes (r_base r)) data)
      else None)"

definition serialize_res ::
  "(nat \<Rightarrow> bool) \<Rightarrow> (i64 \<Rightarrow> u8 list) \<Rightarrow> resource \<Rightarrow> u8 list \<Rightarrow> u8 list option" where
  "serialize_res alloc wr64 r data =
     (if base_name_id (r_base r) \<noteq> -1 then
        (if supports_multiple_instances r then serialize_multiple_resource alloc wr64 r data
         else serialize_resource alloc wr64 r data)
      else None)"

fun serialize_res_loop ::
  "(nat \<Rightarrow> bool) \<Rightarrow> (i64 \<Rightarrow> u8 list) \<Rightarrow> resource list \<Rightarrow> u8 list \<Rightarrow> u8 list option" where
  "serialize_res_loop alloc wr64 [] data = Some data"
| "serialize_res_loop alloc wr64 (r # rs) data = do {
     data' \<leftarrow> serialize_res alloc wr64 r data;
     serialize_res_loop alloc wr64 rs data' }"

text \<open>The flag \<open>valid\<close> is the second component; without it the buffer is null.\<close>

definition serialize_resources ::
  "(nat \<Rightarrow> bool) \<Rightarrow> (i64 \<Rightarrow> u8 list) \<Rightarrow> resource list \<Rightarrow> u8 list \<times> bool" where
  "serialize_resources alloc wr64 rs =
     (if find_idx (\<lambda>r. base_name_id (r_base r) = -1) rs \<noteq> None then ([], False)
      else (case serialize_res_loop alloc wr64 rs [] of None \<Rightarrow> ([], False) | Some data \<Rightarrow> (data, True)))"

text \<open>A failure leaves the buffer as it was: \<open>serialize_object_instances\<close> does not look at the result.\<close>

definition serialize_object_instance ::
  "(nat \<Rightarrow> bool) \<Rightarrow> (i64 \<Rightarrow> u8 list) \<Rightarrow> u16 \<Rightarrow> object_instance \<Rightarrow> u8 list \<Rightarrow> u8 list \<times> bool" where
  "serialize_object_instance alloc wr64 i oi data =
     (case serialize_resources alloc wr64 (oi_resources oi) of (resource_data, valid) \<Rightarrow>
        if valid then
          (case serialize_TILV alloc TYPE_OBJECT_INSTANCE i resource_data data of
             Some data' \<Rightarrow> (data', True) | None \<Rightarrow> (data, False))
        else (data, False))"

fun serialize_object_instances ::
  "(nat \<Rightarrow> bool) \<Rightarrow> (i64 \<Rightarrow> u8 list) \<Rightarrow> object_instance list \<Rightarrow> u8 list \<Rightarrow> u8 list" where
  "serialize_object_instances alloc wr64 [] data = data"
| "serialize_object_instances alloc wr64 (oi # ois) data =
     serialize_object_instances alloc wr64 ois
       (fst (serialize_object_instance alloc wr64 (base_instance_id (oi_base oi)) oi data))"

definition tlv_serialize_instances ::
  "(nat \<Rightarrow> bool) \<Rightarrow> (i64 \<Rightarrow> u8 list) \<Rightarrow> object_instance list \<Rightarrow> u8 list" where
  "tlv_serialize_instances alloc wr64 ois = serialize_object_instances alloc wr64 ois []"

definition tlv_serialize_resources ::
  "(nat \<Rightarrow> bool) \<Rightarrow> (i64 \<Rightarrow> u8 list) \<Rightarrow> resource list \<Rightarrow> u8 list" where
  "tlv_serialize_resources alloc wr64 rs = fst (serialize_resources alloc wr64 rs)"

definition tlv_serialize_resource ::
  "(nat \<Rightarrow> bool) \<Rightarrow> (i64 \<Rightarrow> u8 list) \<Rightarrow> resource \<Rightarrow> u8 list" where
  "tlv_serialize_resource alloc wr64 r = (case serialize_res alloc wr64 r [] of None \<Rightarrow> [] | Some d \<Rightarrow> d)"

end
