(* ===== verification/TlvDeserializer.thy ===== *)
theory TlvDeserializer
  imports TlvSerializer
begin

text \<open>
  \<open>M2MTLVDeserializer\<close> and \<open>TypeIdLength\<close> of \<open>source/m2mtlvdeserializer.cpp\<close>. A read of the payload
  at an offset is a checked read; the code does not compare offsets with the size before it reads, so
  a truncated payload gives \<open>None\<close> where the C++ reads past its end. A request runs twice over the
  payload, first to check and then to write. The state is the tree, because writing a value reports.
\<close>

section \<open>TypeIdLength\<close>

record type_id_length =
  til_offset :: nat
  til_type :: u8
  til_id :: u16
  til_length :: u32

definition rd :: "u8 list \<Rightarrow> nat \<Rightarrow> u8 option" where
  "rd tlv i = (if i < length tlv then Some (tlv ! i) else None)"

definition til_new :: "u8 list \<Rightarrow> nat \<Rightarrow> type_id_length option" where
  "til_new tlv offset = do {
     b \<leftarrow> rd tlv offset;
     Some \<lparr>til_offset = offset, til_type = b AND 0xC0, til_id = 0, til_length = 0\<rparr> }"

definition deserialise_id :: "u8 list \<Rightarrow> u8 \<Rightarrow> type_id_length \<Rightarrow> type_id_length option" where
  "deserialise_id tlv idLength t = do {
     b \<leftarrow> rd tlv (til_offset t);
     let t1 = t\<lparr>til_id := ucast b, til_offset := til_offset t + 1\<rparr>;
     if idLength = ID16 then do {
       c \<leftarrow> rd tlv (til_offset t1);
       Some (t1\<lparr>til_id := push_bit 8 (til_id t1) + ucast c, til_offset := til_offset t1 + 1\<rparr>) }
     else Some t1 }"

definition deserialise_length :: "u8 list \<Rightarrow> u8 \<Rightarrow> type_id_length \<Rightarrow> type_id_length option" where
  "deserialise_length tlv lengthType t = do {
     t1 \<leftarrow> (if lengthType > 0 then do {
              b \<leftarrow> rd tlv (til_offset t);
              Some (t\<lparr>til_length := ucast b, til_offset := til_offset t + 1\<rparr>) }
            else Some t);
     t2 \<leftarrow> (if lengthType > LENGTH8 then do {
              b \<leftarrow> rd tlv (til_offset t1);
              Some (t1\<lparr>til_length := push_bit 8 (til_length t1) + ucast b, til_offset := til_offset t1 + 1\<rparr>) }
            else Some t1);
     if lengthType > LENGTH16 then do {
       b \<leftarrow> rd tlv (til_offset t2);
       Some (t2\<lparr>til_length := push_bit 8 (til_length t2) + ucast b, til_offset := til_offset t2 + 1\<rparr>) }
     else Some t2 }"

definition til_deserialize :: "u8 list \<Rightarrow> type_id_length \<Rightarrow> type_id_length option" where
  "til_deserialize tlv t = do {
     b \<leftarrow> rd tlv (til_offset t);
     let idLength = b AND ID16;
     let lengthType = b AND LENGTH24;
     let t1 = (if lengthType = 0 then t\<lparr>til_length := ucast (b AND 0x07)\<rparr> else t);
     t2 \<leftarrow> deserialise_id tlv idLength (t1\<lparr>til_offset := til_offset t1 + 1\<rparr>);
     deserialise_length tlv lengthType t2 }"

definition til_read :: "u8 list \<Rightarrow> nat \<Rightarrow> type_id_length option" where
  "til_read tlv offset = do { t \<leftarrow> til_new tlv offset; til_deserialize tlv t }"

lemma rd_Some: "rd tlv i = Some b \<longleftrightarrow> i < length tlv \<and> b = tlv ! i"
  by (auto simp: rd_def)

lemma deserialise_id_offset: "deserialise_id tlv x t = Some t' \<Longrightarrow> til_offset t < til_offset t'"
  by (auto simp: deserialise_id_def bind_eq_Some_conv Let_def split: if_splits)

lemma deserialise_length_offset: "deserialise_length tlv x t = Some t' \<Longrightarrow> til_offset t \<le> til_offset t'"
  by (auto simp: deserialise_length_def bind_eq_Some_conv Let_def split: if_splits)

lemma til_read_offset: "til_read tlv offset = Some t \<Longrightarrow> offset < length tlv \<and> offset < til_offset t"
  unfolding til_read_def til_new_def til_deserialize_def
  by (auto simp: bind_eq_Some_conv Let_def rd_Some
      dest!: deserialise_id_offset deserialise_length_offset split: if_splits)

section \<open>Kinds of payloads\<close>

datatype tlv_error = TlvNone | TlvNotFound | TlvNotAllowed | TlvNotValid
datatype tlv_operation = TlvPut | TlvPost

definition tlv_is :: "u8 \<Rightarrow> u8 list option \<Rightarrow> bool option" where
  "tlv_is kind tlv =
     (case tlv of None \<Rightarrow> Some False
      | Some p \<Rightarrow> do { value \<leftarrow> rd p 0; Some (kind = value AND TYPE_RESOURCE) })"

definition is_object_instance :: "u8 list option \<Rightarrow> bool option" where
  "is_object_instance tlv = tlv_is TYPE_OBJECT_INSTANCE tlv"

definition is_resource :: "u8 list option \<Rightarrow> bool option" where
  "is_resource tlv = tlv_is TYPE_RESOURCE tlv"

definition is_multiple_resource :: "u8 list option \<Rightarrow> bool option" where
  "is_multiple_resource tlv = tlv_is TYPE_MULTIPLE_RESOURCE tlv"

definition is_resource_instance :: "u8 list option \<Rightarrow> bool option" where
  "is_resource_instance tlv = tlv_is TYPE_RESOURCE_INSTANCE tlv"

definition tlv_instance_id :: "u8 list \<Rightarrow> u16 option" where
  "tlv_instance_id tlv = map_option til_id (til_read tlv 0)"

section \<open>One element\<close>

abbreviation put_allowed :: "base \<Rightarrow> bool" where
  "put_allowed b \<equiv> bs_access b AND PUT_ALLOWED \<noteq> 0"

text \<open>Writing the bytes of the element to a node, or clearing it when there are none.\<close>

definition tlv_write :: "u8 list \<Rightarrow> type_id_length \<Rightarrow> node \<Rightarrow> tree \<Rightarrow> tree option" where
  "tlv_write tlv til n t =
     (if til_length til > 0 then
        (if til_offset til + unat (til_length til) \<le> length tlv
         then Some (fst (res_set_value n (Some (drop (til_offset til) tlv)) (unat (til_length til)) t))
         else None)
      else Some (res_clear_value n t))"

definition tree_inst :: "nat \<Rightarrow> tree \<Rightarrow> object_instance" where
  "tree_inst i t = o_instances (t_object t) ! i"

definition tree_res :: "nat \<Rightarrow> nat \<Rightarrow> tree \<Rightarrow> resource" where
  "tree_res i j t = oi_resources (tree_inst i t) ! j"

text \<open>
  The loops over the children stop at the first match when they write; when they check they stop at
  the first match that may not be written.
\<close>

definition tlv_resource_element ::
  "u8 list \<Rightarrow> type_id_length \<Rightarrow> nat \<Rightarrow> tlv_operation \<Rightarrow> bool \<Rightarrow> tree \<Rightarrow> (tlv_error \<times> tree) option" where
  "tlv_resource_element tlv til i op update_value t =
     (let rs = oi_resources (tree_inst i t);
          match = (\<lambda>r. base_name_id (r_base r) = uint (til_id til))
      in case find_idx match rs of
           Some j \<Rightarrow>
             if update_value then do { t1 \<leftarrow> tlv_write tlv til (NRes i j) t; Some (TlvNone, t1) }
             else Some (if find_idx (\<lambda>r. match r \<and> \<not> put_allowed (r_base r)) rs \<noteq> None
                        then TlvNotAllowed else TlvNone, t)
         | None \<Rightarrow>
             (case op of
                TlvPost \<Rightarrow> do {
                  name \<leftarrow> itoa_c (uint (til_id til));
                  let (oi, res) = create_dynamic_resource (object_name (t_object t)) name [] INTEGER True False False
                                    (tree_inst i t);
                  let t1 = t\<lparr>t_object := upd_inst i (\<lambda>_. oi) (t_object t)\<rparr>;
                  Some (TlvNone, case res of None \<Rightarrow> t1
                    | Some j \<Rightarrow> tree_upd (NRes i j) (base_set_operation GET_PUT_POST_DELETE_ALLOWED) t1) }
              | TlvPut \<Rightarrow> Some (TlvNotFound, t)))"

definition tlv_nested_element ::
  "u8 list \<Rightarrow> type_id_length \<Rightarrow> nat \<Rightarrow> nat \<Rightarrow> tlv_operation \<Rightarrow> bool \<Rightarrow> tree \<Rightarrow> (tlv_error \<times> tree) option" where
  "tlv_nested_element tlv til i j op update_value t =
     (let ris = r_instances (tree_res i j t);
          match = (\<lambda>ri. base_instance_id (ri_base ri) = til_id til \<and> til_type til = TYPE_RESOURCE_INSTANCE)
      in case find_idx match ris of
           Some k \<Rightarrow>
             if update_value then do { t1 \<leftarrow> tlv_write tlv til (NRinst i j k) t; Some (TlvNone, t1) }
             else Some (if find_idx (\<lambda>ri. match ri \<and> \<not> put_allowed (ri_base ri)) ris \<noteq> None
                        then TlvNotAllowed else TlvNone, t)
         | None \<Rightarrow>
             (case op of
                TlvPost \<Rightarrow>
                  (let (oi, res) = create_dynamic_resource_instance (object_name (t_object t))
                                     (resource_name (tree_res i j t)) [] INTEGER True (til_id til) False
                                     (tree_inst i t);
                       t1 = t\<lparr>t_object := upd_inst i (\<lambda>_. oi) (t_object t)\<rparr>
                   in Some (TlvNone, case res of None \<Rightarrow> t1
                        | Some (j', k) \<Rightarrow> tree_upd (NRinst i j' k) (base_set_operation GET_PUT_POST_DELETE_ALLOWED) t1))
              | TlvPut \<Rightarrow> Some (TlvNotFound, t)))"

definition tlv_instance_element ::
  "u8 list \<Rightarrow> type_id_length \<Rightarrow> nat \<Rightarrow> nat \<Rightarrow> tlv_operation \<Rightarrow> bool \<Rightarrow> tree \<Rightarrow> (tlv_error \<times> tree) option" where
  "tlv_instance_element tlv til i j op update_value t =
     (let ris = r_instances (tree_res i j t);
          match = (\<lambda>ri. base_instance_id (ri_base ri) = til_id til)
      in case find_idx match ris of
           Some k \<Rightarrow>
             if update_value then do { t1 \<leftarrow> tlv_write tlv til (NRinst i j k) t; Some (TlvNone, t1) }
             else Some (if find_idx (\<lambda>ri. match ri \<and> \<not> put_allowed (ri_base ri)) ris \<noteq> None
                        then TlvNotAllowed else TlvNone, t)
         | None \<Rightarrow> Some (case op of TlvPost \<Rightarrow> TlvNotAllowed | TlvPut \<Rightarrow> TlvNotFound, t))"

section \<open>The loops over a payload\<close>

definition til_next :: "type_id_length \<Rightarrow> nat" where
  "til_next til = til_offset til + unat (til_length til)"

lemma til_next_less: "til_read tlv offset = Some til \<Longrightarrow> length tlv - til_next til < length tlv - offset"
  unfolding til_next_def by (drule til_read_offset) linarith

text \<open>The overload with the object instance, called for a multiple resource inside an instance.\<close>

function deserialize_nested_instances ::
  "u8 list \<Rightarrow> nat \<Rightarrow> nat \<Rightarrow> nat \<Rightarrow> nat \<Rightarrow> tlv_operation \<Rightarrow> bool \<Rightarrow> tree \<Rightarrow> (tlv_error \<times> tree) option" where
  "deserialize_nested_instances tlv tlv_size offset i j op update_value t =
     (case til_read tlv offset of None \<Rightarrow> None
      | Some til \<Rightarrow>
          if til_type til = TYPE_MULTIPLE_RESOURCE \<or> til_type til = TYPE_RESOURCE_INSTANCE then
            (case tlv_nested_element tlv til i j op update_value t of None \<Rightarrow> None
             | Some (err, t1) \<Rightarrow>
                 if til_next til < tlv_size
                 then deserialize_nested_instances tlv tlv_size (til_next til) i j op update_value t1
                 else Some (err, t1))
          else Some (TlvNotValid, t))"
  by pat_completeness auto
termination
  by (relation "measure (\<lambda>(tlv, tlv_size, offset, i, j, op, update_value, t). length tlv - offset)")
    (auto intro: til_next_less)

text \<open>The overload without it, called for a write to a multiple resource itself.\<close>

function deserialize_instances ::
  "u8 list \<Rightarrow> nat \<Rightarrow> nat \<Rightarrow> nat \<Rightarrow> nat \<Rightarrow> tlv_operation \<Rightarrow> bool \<Rightarrow> tree \<Rightarrow> (tlv_error \<times> tree) option" where
  "deserialize_instances tlv tlv_size offset i j op update_value t =
     (case til_read tlv offset of None \<Rightarrow> None
      | Some til \<Rightarrow>
          if til_type til = TYPE_RESOURCE_INSTANCE then
            (case tlv_instance_element tlv til i j op update_value t of None \<Rightarrow> None
             | Some (err, t1) \<Rightarrow>
                 if til_next til < tlv_size
                 then deserialize_instances tlv tlv_size (til_next til) i j op update_value t1
                 else Some (err, t1))
          else Some (TlvNotValid, t))"
  by pat_completeness auto
termination
  by (relation "measure (\<lambda>(tlv, tlv_size, offset, i, j, op, update_value, t). length tlv - offset)")
    (auto intro: til_next_less)

fun deserialize_multiples ::
  "u8 list \<Rightarrow> nat \<Rightarrow> nat \<Rightarrow> nat \<Rightarrow> nat list \<Rightarrow> tlv_operation \<Rightarrow> bool \<Rightarrow> tlv_error \<Rightarrow> tree \<Rightarrow> (tlv_error \<times> tree) option" where
  "deserialize_multiples tlv tlv_size offset i [] op update_value err t = Some (err, t)"
| "deserialize_multiples tlv tlv_size offset i (j # js) op update_value err t = do {
     (err', t1) \<leftarrow> deserialize_nested_instances tlv tlv_size offset i j op update_value t;
     deserialize_multiples tlv tlv_size offset i js op update_value err' t1 }"

definition multiple_matches :: "u16 \<Rightarrow> object_instance \<Rightarrow> nat list" where
  "multiple_matches k oi =
     List.filter (\<lambda>j. supports_multiple_instances (oi_resources oi ! j) \<and>
                      base_name_id (r_base (oi_resources oi ! j)) = uint k)
       [0..<length (oi_resources oi)]"

function deserialize_resources_from ::
  "u8 list \<Rightarrow> nat \<Rightarrow> nat \<Rightarrow> nat \<Rightarrow> tlv_operation \<Rightarrow> bool \<Rightarrow> tree \<Rightarrow> (tlv_error \<times> tree) option" where
  "deserialize_resources_from tlv tlv_size offset i op update_value t =
     (case til_read tlv offset of None \<Rightarrow> None
      | Some til \<Rightarrow>
          if til_type til = TYPE_RESOURCE \<or> til_type til = TYPE_RESOURCE_INSTANCE \<or>
             til_type til = TYPE_MULTIPLE_RESOURCE then
            (case (if til_type til = TYPE_MULTIPLE_RESOURCE
                   then deserialize_multiples tlv tlv_size (til_offset til) i
                          (multiple_matches (til_id til) (tree_inst i t)) op update_value TlvNone t
                   else tlv_resource_element tlv til i op update_value t) of None \<Rightarrow> None
             | Some (err, t1) \<Rightarrow>
                 if til_next til < tlv_size
                 then deserialize_resources_from tlv tlv_size (til_next til) i op update_value t1
                 else Some (err, t1))
          else Some (TlvNotValid, t))"
  by pat_completeness auto
termination
  by (relation "measure (\<lambda>(tlv, tlv_size, offset, i, op, update_value, t). length tlv - offset)")
    (auto intro: til_next_less)

fun deserialize_in_instances ::
  "u8 list \<Rightarrow> nat \<Rightarrow> nat \<Rightarrow> nat list \<Rightarrow> tlv_operation \<Rightarrow> bool \<Rightarrow> tlv_error \<Rightarrow> tree \<Rightarrow> (tlv_error \<times> tree) option" where
  "deserialize_in_instances tlv tlv_size offset [] op update_value err t = Some (err, t)"
| "deserialize_in_instances tlv tlv_size offset (i # is) op update_value err t = do {
     (err', t1) \<leftarrow> deserialize_resources_from tlv tlv_size offset i op update_value t;
     deserialize_in_instances tlv tlv_size offset is op update_value err' t1 }"

definition instance_matches :: "u16 \<Rightarrow> lwm2m_object \<Rightarrow> nat list" where
  "instance_matches k ob =
     List.filter (\<lambda>i. base_instance_id (oi_base (o_instances ob ! i)) = k) [0..<length (o_instances ob)]"

function deserialize_object_instances_from ::
  "u8 list \<Rightarrow> nat \<Rightarrow> nat \<Rightarrow> tlv_operation \<Rightarrow> bool \<Rightarrow> tree \<Rightarrow> (tlv_error \<times> tree) option" where
  "deserialize_object_instances_from tlv tlv_size offset op update_value t =
     (case til_read tlv offset of None \<Rightarrow> None
      | Some til \<Rightarrow>
          if til_type til = TYPE_OBJECT_INSTANCE then
            (case deserialize_in_instances tlv tlv_size (til_offset til)
                    (instance_matches (til_id til) (t_object t)) op update_value TlvNone t of None \<Rightarrow> None
             | Some (err, t1) \<Rightarrow>
                 if til_next til < tlv_size
                 then deserialize_object_instances_from tlv tlv_size (til_next til) op update_value t1
                 else Some (err, t1))
          else Some (TlvNone, t))"
  by pat_completeness auto
termination
  by (relation "measure (\<lambda>(tlv, tlv_size, offset, op, update_value, t). length tlv - offset)")
    (auto intro: til_next_less)

section \<open>The entry points\<close>

text \<open>A checking pass, and a writing pass when the check reported no error.\<close>

definition two_passes :: "(bool \<Rightarrow> tree \<Rightarrow> (tlv_error \<times> tree) option) \<Rightarrow> tree \<Rightarrow> (tlv_error \<times> tree) option" where
  "two_passes pass t = do {
     (err, t1) \<leftarrow> pass False t;
     if err = TlvNone then pass True t1 else Some (err, t1) }"

definition deserialise_object_instances ::
  "u8 list option \<Rightarrow> nat \<Rightarrow> tlv_operation \<Rightarrow> tree \<Rightarrow> (tlv_error \<times> tree) option" where
  "deserialise_object_instances tlv tlv_size op t = do {
     b \<leftarrow> is_object_instance tlv;
     if b then two_passes (deserialize_object_instances_from (the tlv) tlv_size 0 op) t
     else Some (TlvNotValid, t) }"

definition deserialize_resources ::
  "u8 list option \<Rightarrow> nat \<Rightarrow> nat \<Rightarrow> tlv_operation \<Rightarrow> tree \<Rightarrow> (tlv_error \<times> tree) option" where
  "deserialize_resources tlv tlv_size i op t = do {
     r \<leftarrow> is_resource tlv;
     m \<leftarrow> is_multiple_resource tlv;
     if \<not> r \<and> \<not> m then Some (TlvNotValid, t)
     else two_passes (deserialize_resources_from (the tlv) tlv_size 0 i op) t }"

definition deserialize_resource_instances ::
  "u8 list option \<Rightarrow> nat \<Rightarrow> nat \<Rightarrow> nat \<Rightarrow> tlv_operation \<Rightarrow> tree \<Rightarrow> (tlv_error \<times> tree) option" where
  "deserialize_resource_instances tlv tlv_size i j op t = do {
     m \<leftarrow> is_multiple_resource tlv;
     if \<not> m then Some (TlvNotValid, t)
     else do {
       b \<leftarrow> rd (the tlv) 0;
       let o1 = (if b AND 0x20 = 0 then 2 else 3);
       let len = b AND 0x18;
       let offset = (if len = 0x08 then o1 + 1 else if len = 0x10 then o1 + 2
                     else if len = 0x18 then o1 + 3 else o1);
       two_passes (deserialize_instances (the tlv) tlv_size offset i j op) t } }"

end
