(* ===== verification/TlvSpec.thy ===== *)
theory TlvSpec
  imports TlvDeserializer
begin

text \<open>
  Reading back what the serializer writes: one element (type, number, length and value, for every
  width of number and length), a list of elements, and the resources of an instance. The second part
  states what a write request does to the tree.
\<close>

declare deserialize_nested_instances.simps [simp del] deserialize_instances.simps [simp del]
  deserialize_resources_from.simps [simp del] deserialize_object_instances_from.simps [simp del]

section \<open>Splitting a word into bytes\<close>

lemma byte_masks:
  "(0xFF :: 'a::len word) = mask 8" "(0xFF00 :: 'a word) = push_bit 8 (mask 8)"
  "(0xFF0000 :: 'a word) = push_bit 16 (mask 8)"
  by (simp_all add: mask_eq_exp_minus_1 push_bit_eq_mult)

lemma small_bits:
  assumes "unat (w :: 'a::len word) < 2 ^ k" and "bit w n"
  shows "n < k"
proof (rule ccontr)
  assume "\<not> n < k"
  then have "(2::nat) ^ k \<le> 2 ^ n" by (simp add: power_increasing)
  then have "unat w div 2 ^ n = 0" using assms(1) by (intro div_less) (rule less_le_trans)
  moreover have "bit (unat w) n" using assms(2) by (simp add: bit_unsigned_iff)
  ultimately show False by (simp add: bit_iff_odd)
qed

lemma join_byte:
  fixes i :: "'a::len word"
  assumes "LENGTH('a) \<ge> 8"
  shows "push_bit 8 (drop_bit 8 i) + ucast (ucast (i AND 0xFF) :: 8 word) = i"
proof -
  let ?a = "push_bit 8 (drop_bit 8 i)" and ?b = "ucast (ucast (i AND 0xFF) :: 8 word) :: 'a word"
  have "?a AND ?b = 0" unfolding byte_masks by (rule bit_word_eqI) (auto simp: bit_simps)
  then have "?a + ?b = ?a OR ?b" by (rule disjunctive_add_eq_or)
  also have "\<dots> = i" unfolding byte_masks
  proof (rule bit_word_eqI)
    fix n
    assume "n < LENGTH('a)"
    then show "bit (push_bit 8 (drop_bit 8 i) OR ucast (ucast (i AND mask 8) :: 8 word)) n = bit i n"
      by (cases "n < 8") (auto simp: bit_simps)
  qed
  finally show ?thesis .
qed

lemma split_byte1:
  fixes i :: "'a::len word"
  assumes "unat i < 2 ^ 8"
  shows "ucast (ucast (i AND 0xFF) :: 8 word) = i"
proof -
  have "bit i n \<Longrightarrow> n < 8" for n using small_bits [OF assms] .
  then show ?thesis unfolding byte_masks by (intro bit_word_eqI) (auto simp: bit_simps)
qed

lemma high_byte:
  fixes i :: "'a::len word"
  assumes "unat i < 2 ^ 16"
  shows "ucast (ucast (drop_bit 8 (i AND 0xFF00)) :: 8 word) = drop_bit 8 i"
proof -
  have b: "bit i (8 + n) \<Longrightarrow> n < 8" for n using small_bits [OF assms, of "8 + n"] by simp
  show ?thesis unfolding byte_masks
    by (rule bit_word_eqI) (auto simp: bit_simps dest: b bit_imp_le_length)
qed

lemma high_byte3:
  fixes i :: "32 word"
  assumes "unat i < 2 ^ 24"
  shows "push_bit 8 (ucast (ucast (drop_bit 16 (i AND 0xFF0000)) :: 8 word)) +
    ucast (ucast (drop_bit 8 (i AND 0xFF00)) :: 8 word) = drop_bit 8 i"
proof -
  have b: "bit i (16 + n) \<Longrightarrow> n < 8" for n using small_bits [OF assms, of "16 + n"] by simp
  have h: "ucast (ucast (drop_bit 16 (i AND 0xFF0000)) :: 8 word) = drop_bit 8 (drop_bit 8 i)"
    unfolding byte_masks by (rule bit_word_eqI) (fastforce simp: bit_simps dest: b)
  have l: "(ucast (drop_bit 8 (i AND 0xFF00)) :: 8 word) = ucast (drop_bit 8 i AND 0xFF)"
    unfolding byte_masks by (rule bit_word_eqI) (auto simp: bit_simps)
  show ?thesis unfolding h l by (rule join_byte) simp
qed

section \<open>One element\<close>

lemma type_byte:
  assumes "ty \<in> {0x00, 0x40, 0x80, 0xC0}" and "x \<in> {0, 0x20}"
    and "y \<in> {0, 1, 2, 3, 4, 5, 6, 7, 0x08, 0x10, 0x18}"
  shows "(ty + x + y) AND 0xC0 = (ty :: u8)" and "(ty + x + y) AND 0x20 = x"
    and "(ty + x + y) AND 0x18 = y AND 0x18" and "(ty + x + y) AND 0x07 = y AND 0x07"
  using assms by (elim insertE emptyE; simp)+


text \<open>The bytes of one element.\<close>

definition tlv_hdr :: "u8 \<Rightarrow> u16 \<Rightarrow> nat \<Rightarrow> u8 list" where
  "tlv_hdr ty i n = [tlv_type_byte ty i (of_nat n)] @ serialize_id i @ serialize_length (of_nat n)"

definition tlv_enc :: "u8 \<Rightarrow> u16 \<Rightarrow> u8 list \<Rightarrow> u8 list" where
  "tlv_enc ty i v = tlv_hdr ty i (length v) @ v"

definition tlv_header_length :: "u16 \<Rightarrow> nat \<Rightarrow> nat" where
  "tlv_header_length i n =
     1 + (if unat i < 256 then 1 else 2) + (if n < 8 then 0 else if n < 256 then 1 else if n < 65536 then 2 else 3)"

lemma serialize_TILV_enc:
  "serialize_TILV alloc ty i v data = Some data' \<Longrightarrow> data' = data @ tlv_enc ty i v"
  by (auto simp: serialize_TILV_def tlv_enc_def tlv_hdr_def Let_def split: if_splits)

lemma rd_append [simp]:
  "rd (xs @ ys) (length xs) = rd ys 0"
  "rd (xs @ ys) (Suc (length xs)) = rd ys 1"
  "rd (xs @ ys) (Suc (Suc (length xs))) = rd ys 2"
  "rd (xs @ ys) (Suc (Suc (Suc (length xs)))) = rd ys 3"
  "rd (xs @ ys) (Suc (Suc (Suc (Suc (length xs))))) = rd ys 4"
  "rd (xs @ ys) (Suc (Suc (Suc (Suc (Suc (length xs)))))) = rd ys 5"
  by (auto simp: rd_def nth_append)

lemma rd_Cons: "rd (x # xs) n = (if n = 0 then Some x else rd xs (n - 1))"
  by (cases n) (auto simp: rd_def)

lemma len_word:
  assumes "n < 2 ^ 24"
  shows "unat (of_nat n :: u32) = n"
proof -
  have "take_bit LENGTH(32) n = n" by (rule take_bit_nat_eq_self) (use assms in simp)
  then show ?thesis by (simp only: unsigned_of_nat of_nat_id)
qed

lemma deserialise_id_enc:
  assumes "til_offset t = length data"
  shows "deserialise_id (data @ serialize_id i @ rest) (if i < 256 then 0 else ID16) t =
    Some (t\<lparr>til_id := i, til_offset := length data + length (serialize_id i)\<rparr>)"
proof (cases "i < 256")
  case True
  then have "unat i < 2 ^ 8" "\<not> i > 255" by (simp_all add: word_less_nat_alt)
  then show ?thesis using assms True split_byte1 [of i]
    by (simp add: deserialise_id_def serialize_id_def rd_Cons Let_def)
next
  case False
  then have "i > 255" by (simp add: word_less_nat_alt)
  moreover have "unat i < 2 ^ 16" using unsigned_less [of i, where ?'a = nat] by simp
  ultimately show ?thesis using assms False high_byte [of i] join_byte [of i]
    by (simp add: deserialise_id_def serialize_id_def rd_Cons Let_def)
qed

definition length_type :: "u32 \<Rightarrow> u8" where
  "length_type len = (if len < 8 then 0 else if len < 256 then LENGTH8 else if len < 65536 then LENGTH16 else LENGTH24)"

lemma deserialise_length_enc:
  assumes "til_offset t = length data" and "unat len < 2 ^ 24" and "len < 8 \<Longrightarrow> til_length t = len"
  shows "deserialise_length (data @ serialize_length len @ rest) (length_type len) t =
    Some (t\<lparr>til_length := len, til_offset := length data + length (serialize_length len)\<rparr>)"
proof -
  consider "unat len < 8" | "8 \<le> unat len" "unat len < 256" | "256 \<le> unat len" "unat len < 65536"
    | "65536 \<le> unat len" by linarith
  then show ?thesis
  proof cases
    case 1
    then have "len < 8" "\<not> len > 7" "\<not> len > 255" "\<not> len > 65535" by (simp_all add: word_less_nat_alt)
    then show ?thesis using assms
      by (cases t) (simp add: deserialise_length_def serialize_length_def length_type_def)
  next
    case 2
    then have c: "\<not> len < 8" "len < 256" "len > 7" "\<not> len > 255" "\<not> len > 65535"
      by (simp_all add: word_less_nat_alt)
    have "unat len < 2 ^ 8" using 2 by simp
    then show ?thesis using assms c split_byte1 [of len]
      by (simp add: deserialise_length_def serialize_length_def length_type_def rd_Cons)
  next
    case 3
    then have c: "\<not> len < 8" "\<not> len < 256" "len < 65536" "len > 255" "\<not> len > 65535"
      by (simp_all add: word_less_nat_alt)
    have "unat len < 2 ^ 16" using 3 by simp
    then show ?thesis using assms c high_byte [of len] join_byte [of len]
      by (simp add: deserialise_length_def serialize_length_def length_type_def rd_Cons)
  next
    case 4
    then have c: "\<not> len < 8" "\<not> len < 256" "\<not> len < 65536" "len > 65535"
      by (simp_all add: word_less_nat_alt)
    show ?thesis using assms c high_byte3 [of len] join_byte [of len]
      by (simp add: deserialise_length_def serialize_length_def length_type_def rd_Cons)
  qed
qed

lemma type_byte_fields:
  assumes "ty \<in> {0x00, 0x40, 0x80, 0xC0}"
  shows "tlv_type_byte ty i len AND 0xC0 = ty"
    and "tlv_type_byte ty i len AND 0x20 = (if i < 256 then 0 else 0x20)"
    and "tlv_type_byte ty i len AND 0x18 = length_type len"
    and "len < 8 \<Longrightarrow> ucast (tlv_type_byte ty i len AND 0x07) = len"
proof -
  define x :: u8 where "x = (if i < 256 then 0 else 0x20)"
  define y :: u8 where "y = (if len < 8 then ucast len else length_type len)"
  have x: "x \<in> {0, 0x20}" by (simp add: x_def)
  have small: "ucast len \<in> {0, 1, 2, 3, 4, 5, 6, 7 :: u8} \<and> ucast (ucast len AND 0x07 :: u8) = len \<and>
      (ucast len :: u8) AND 0x18 = 0" if "len < 8"
  proof -
    have "unat len < 8" using that by (simp add: word_less_nat_alt)
    then obtain k where k: "k < 8" "len = of_nat k" by (metis of_nat_unat ucast_id)
    then have "k = 0 \<or> k = 1 \<or> k = 2 \<or> k = 3 \<or> k = 4 \<or> k = 5 \<or> k = 6 \<or> k = 7" by arith
    then show ?thesis using k(2) by (elim disjE) simp_all
  qed
  have y: "y \<in> {0, 1, 2, 3, 4, 5, 6, 7, 0x08, 0x10, 0x18}"
    using small by (auto simp: y_def length_type_def)
  have b: "tlv_type_byte ty i len = ty + x + y"
    by (simp add: tlv_type_byte_def x_def y_def length_type_def)
  show "tlv_type_byte ty i len AND 0xC0 = ty" "tlv_type_byte ty i len AND 0x20 = (if i < 256 then 0 else 0x20)"
    unfolding b using type_byte(1,2) [OF assms x y] by (simp_all add: x_def)
  show "tlv_type_byte ty i len AND 0x18 = length_type len"
    unfolding b type_byte(3) [OF assms x y] using small by (auto simp: y_def length_type_def)
  show "len < 8 \<Longrightarrow> ucast (tlv_type_byte ty i len AND 0x07) = len"
    unfolding b type_byte(4) [OF assms x y] using small by (simp add: y_def)
qed


lemma tlv_hdr_length:
  assumes "n < 2 ^ 24"
  shows "length (tlv_hdr ty i n) = tlv_header_length i n"
  using len_word [OF assms]
  by (simp add: tlv_hdr_def tlv_header_length_def serialize_id_def serialize_length_def word_less_nat_alt)

lemma til_read_hdr:
  assumes "ty \<in> {0x00, 0x40, 0x80, 0xC0}" and "n < 2 ^ 24"
  shows "til_read (data @ tlv_hdr ty i n @ rest) (length data) =
    Some \<lparr>til_offset = length data + length (tlv_hdr ty i n), til_type = ty, til_id = i,
          til_length = of_nat n\<rparr>"
proof -
  let ?len = "of_nat n :: u32"
  let ?b = "tlv_type_byte ty i ?len"
  note f = type_byte_fields [OF assms(1), where i = i and len = ?len]
  have u: "unat ?len = n" using assms(2) by (rule len_word)
  let ?p = "data @ [?b]"
  let ?q = "?p @ serialize_id i"
  let ?r = "serialize_length ?len @ rest"
  have all: "data @ tlv_hdr ty i n @ rest = ?p @ serialize_id i @ ?r" by (simp add: tlv_hdr_def)
  have r0: "rd (?p @ serialize_id i @ ?r) (length data) = Some ?b" by (simp add: rd_Cons)
  let ?l0 = "if length_type ?len = 0 then ucast (?b AND 0x07) else 0 :: u32"
  let ?t = "\<lparr>til_offset = length ?p, til_type = ty, til_id = 0, til_length = ?l0\<rparr>"
  have small: "?len < 8 \<Longrightarrow> ?l0 = ?len" using f(4) by (simp add: length_type_def)
  have d1: "deserialise_id (?p @ serialize_id i @ ?r) (if i < 256 then 0 else ID16) ?t =
      Some (?t\<lparr>til_id := i, til_offset := length ?p + length (serialize_id i)\<rparr>)"
    by (rule deserialise_id_enc) simp
  have d2: "deserialise_length (?q @ serialize_length ?len @ rest) (length_type ?len)
        (?t\<lparr>til_id := i, til_offset := length ?p + length (serialize_id i)\<rparr>) =
      Some (?t\<lparr>til_id := i, til_offset := length ?q + length (serialize_length ?len), til_length := ?len\<rparr>)"
    using assms(2) u small by (subst deserialise_length_enc) simp_all
  have h: "length ?q + length (serialize_length ?len) = length data + length (tlv_hdr ty i n)"
    by (simp add: tlv_hdr_def)
  have "til_read (?p @ serialize_id i @ ?r) (length data) =
      Some (?t\<lparr>til_id := i, til_offset := length ?q + length (serialize_length ?len), til_length := ?len\<rparr>)"
    using r0 d1 d2 f(1,2,3)
    by (simp add: til_read_def til_new_def til_deserialize_def Let_def split: if_splits)
  then show ?thesis unfolding all h by simp
qed

section \<open>A payload as a list of elements\<close>

type_synonym tlv_element = "u8 \<times> u16 \<times> u8 list"

fun enc_element :: "tlv_element \<Rightarrow> u8 list" where
  "enc_element (ty, i, v) = tlv_enc ty i v"

definition enc_payload :: "tlv_element list \<Rightarrow> u8 list" where
  "enc_payload es = concat (map enc_element es)"

fun element_ok :: "tlv_element \<Rightarrow> bool" where
  "element_ok (ty, i, v) \<longleftrightarrow> ty \<in> {0x00, 0x40, 0x80, 0xC0} \<and> length v < 2 ^ 24"

text \<open>The elements of a payload from an offset on, by the reader of the code.\<close>

function tlv_elements :: "u8 list \<Rightarrow> nat \<Rightarrow> tlv_element list option" where
  "tlv_elements tlv offset =
     (if offset < length tlv then
        (case til_read tlv offset of None \<Rightarrow> None
         | Some til \<Rightarrow>
             if til_next til \<le> length tlv then
               map_option ((#) (til_type til, til_id til,
                     take (unat (til_length til)) (drop (til_offset til) tlv)))
                 (tlv_elements tlv (til_next til))
             else None)
      else Some [])"
  by pat_completeness auto
termination
  by (relation "measure (\<lambda>(tlv, offset). length tlv - offset)") (auto intro: til_next_less)

declare tlv_elements.simps [simp del]

lemma enc_payload_Cons: "enc_payload (e # es) = enc_element e @ enc_payload es"
  by (simp add: enc_payload_def)

lemma til_read_element:
  assumes "element_ok (ty, i, v)"
  shows "\<exists>til. til_read (data @ enc_element (ty, i, v) @ rest) (length data) = Some til \<and>
    til_type til = ty \<and> til_id til = i \<and> unat (til_length til) = length v \<and>
    til_next til = length data + length (enc_element (ty, i, v)) \<and>
    drop (til_offset til) (data @ enc_element (ty, i, v) @ rest) = v @ rest \<and>
    (til_length til > 0 \<longleftrightarrow> v \<noteq> []) \<and> til_offset til + length v = til_next til"
proof -
  have n: "length v < 2 ^ 24" and ty: "ty \<in> {0x00, 0x40, 0x80, 0xC0}" using assms by auto
  have u: "unat (of_nat (length v) :: u32) = length v" using n by (rule len_word)
  have z: "(of_nat (length v) :: u32) > 0 \<longleftrightarrow> v \<noteq> []" using u by (simp add: word_less_nat_alt)
  show ?thesis using til_read_hdr [OF ty n, of data i "v @ rest"] u z
    by (auto simp: tlv_enc_def til_next_def)
qed

lemma tlv_elements_payload:
  "\<forall>e\<in>set es. element_ok e \<Longrightarrow> tlv_elements (data @ enc_payload es) (length data) = Some es"
proof (induction es arbitrary: data)
  case Nil
  then show ?case by (simp add: tlv_elements.simps [of data] enc_payload_def)
next
  case (Cons e es)
  obtain ty i v where e: "e = (ty, i, v)" by (cases e) auto
  let ?d = "data @ enc_element e"
  obtain til where til: "til_read (data @ enc_element e @ enc_payload es) (length data) = Some til"
    "til_type til = ty" "til_id til = i" "unat (til_length til) = length v" "til_next til = length ?d"
    "drop (til_offset til) (data @ enc_element e @ enc_payload es) = v @ enc_payload es"
    using til_read_element [of ty i v data "enc_payload es"] Cons.prems unfolding e by auto
  have ne: "enc_element e \<noteq> []" by (simp add: e tlv_enc_def tlv_hdr_def)
  have "tlv_elements (?d @ enc_payload es) (length ?d) = Some es" using Cons.IH [of ?d] Cons.prems by simp
  then show ?case using til ne
    by (simp add: tlv_elements.simps [of "data @ _"] enc_payload_Cons e)
qed

section \<open>What the serializer writes\<close>

definition int_bytes :: "(i64 \<Rightarrow> u8 list) \<Rightarrow> base \<Rightarrow> u8 list" where
  "int_bytes wr64 b =
     (if is_int_type b then (if bs_data_type b = BOOLEAN then [ucast (res_get_value_int b)]
                             else wr64 (res_get_value_int b))
      else value_bytes b)"

definition rinst_element :: "(i64 \<Rightarrow> u8 list) \<Rightarrow> resource_instance \<Rightarrow> tlv_element" where
  "rinst_element wr64 ri = (TYPE_RESOURCE_INSTANCE, base_instance_id (ri_base ri), int_bytes wr64 (ri_base ri))"

definition res_element :: "(i64 \<Rightarrow> u8 list) \<Rightarrow> resource \<Rightarrow> tlv_element" where
  "res_element wr64 r =
     (if supports_multiple_instances r
      then (TYPE_MULTIPLE_RESOURCE, word_of_int (base_name_id (r_base r)),
            enc_payload (map (rinst_element wr64) (r_instances r)))
      else (TYPE_RESOURCE, word_of_int (base_name_id (r_base r)), int_bytes wr64 (r_base r)))"

lemma serialize_TILV_ok: "\<forall>n. alloc n \<Longrightarrow> serialize_TILV alloc ty i v data = Some (data @ tlv_enc ty i v)"
  by (simp add: serialize_TILV_def tlv_enc_def tlv_hdr_def Let_def)

lemma serialize_resource_instance_eq:
  "\<forall>n. alloc n \<Longrightarrow> serialize_resource_instance alloc wr64 (base_instance_id (ri_base ri)) ri data =
     Some (data @ enc_element (rinst_element wr64 ri))"
  by (simp add: serialize_resource_instance_def serialize_TLV_binary_int_def serialize_TILV_ok
      rinst_element_def int_bytes_def Let_def)

lemma serialize_instance_loop_eq:
  "\<forall>n. alloc n \<Longrightarrow> serialize_instance_loop alloc wr64 ris data =
     Some (data @ enc_payload (map (rinst_element wr64) ris))"
proof (induction ris arbitrary: data)
  case Nil
  then show ?case by (simp add: enc_payload_def)
next
  case (Cons ri ris)
  then show ?case by (simp add: serialize_resource_instance_eq enc_payload_Cons)
qed

lemma serialize_res_eq:
  assumes "\<forall>n. alloc n" and "base_name_id (r_base r) \<noteq> -1"
  shows "serialize_res alloc wr64 r data = Some (data @ enc_element (res_element wr64 r))"
  using assms
  by (simp add: serialize_res_def serialize_multiple_resource_def serialize_resource_def
      serialize_instance_loop_eq serialize_TLV_binary_int_def serialize_TILV_ok res_element_def int_bytes_def Let_def)

lemma serialize_res_loop_eq:
  "\<forall>n. alloc n \<Longrightarrow> \<forall>r\<in>set rs. base_name_id (r_base r) \<noteq> -1 \<Longrightarrow>
     serialize_res_loop alloc wr64 rs data = Some (data @ enc_payload (map (res_element wr64) rs))"
proof (induction rs arbitrary: data)
  case Nil
  then show ?case by (simp add: enc_payload_def)
next
  case (Cons r rs)
  then show ?case by (simp add: serialize_res_eq enc_payload_Cons)
qed

lemma serialize_resources_eq:
  assumes "\<forall>n. alloc n" and "\<forall>r\<in>set rs. base_name_id (r_base r) \<noteq> -1"
  shows "serialize_resources alloc wr64 rs = (enc_payload (map (res_element wr64) rs), True)"
  using serialize_res_loop_eq [OF assms, of wr64 "[]"] assms(2)
  by (simp add: serialize_resources_def find_idx_None)

lemma serialize_object_instances_eq:
  assumes "\<forall>n. alloc n"
  shows "serialize_object_instances alloc wr64 ois data = data @
    enc_payload (map (\<lambda>oi. (TYPE_OBJECT_INSTANCE, base_instance_id (oi_base oi),
        enc_payload (map (res_element wr64) (oi_resources oi))))
      (List.filter (\<lambda>oi. \<forall>r\<in>set (oi_resources oi). base_name_id (r_base r) \<noteq> -1) ois))"
proof (induction ois arbitrary: data)
  case Nil
  then show ?case by (simp add: enc_payload_def)
next
  case (Cons oi ois)
  show ?case
  proof (cases "\<forall>r\<in>set (oi_resources oi). base_name_id (r_base r) \<noteq> -1")
    case True
    then show ?thesis using assms Cons
      by (simp add: serialize_object_instance_def serialize_resources_eq serialize_TILV_ok enc_payload_Cons)
  next
    case False
    then have "find_idx (\<lambda>r. base_name_id (r_base r) = -1) (oi_resources oi) \<noteq> None"
      by (auto simp: find_idx_None)
    then show ?thesis using False Cons
      by (auto simp: serialize_object_instance_def serialize_resources_def)
  qed
qed

section \<open>Properties\<close>

lemma tlv_elements_enc: "\<forall>e\<in>set es. element_ok e \<Longrightarrow> tlv_elements (enc_payload es) 0 = Some es"
  using tlv_elements_payload [of es "[]"] by simp

definition instance_element :: "(i64 \<Rightarrow> u8 list) \<Rightarrow> object_instance \<Rightarrow> tlv_element" where
  "instance_element wr64 oi =
     (TYPE_OBJECT_INSTANCE, base_instance_id (oi_base oi), enc_payload (map (res_element wr64) (oi_resources oi)))"

definition numeric_names :: "resource list \<Rightarrow> bool" where
  "numeric_names rs \<longleftrightarrow> list_all (\<lambda>r. base_name_id (r_base r) \<noteq> -1) rs"

text \<open>The bytes \<open>common_write_64_bit\<close> of the CoAP library is documented to write: most significant first.\<close>

definition big_endian64 :: "i64 \<Rightarrow> u8 list" where
  "big_endian64 v = map (\<lambda>k. ucast (drop_bit (8 * (7 - k)) v)) [0..<8]"

text \<open>C4: the TLV of a list of resources, read back element by element by the code's own
  reader, is one element per resource in order, with its type, number and value, and the value of a multiple
  resource reads back as one element per instance, for values below 2 ^ 24 bytes; \<open>alloc\<close> is the allocator and
  \<open>wr64\<close> the CoAP library's integer writer.\<close>

theorem tlv_resources_roundtrip:
  assumes "\<forall>n. alloc n" and "numeric_names rs"
    and "\<forall>r\<in>set rs. element_ok (res_element wr64 r) \<and> list_all (\<lambda>ri. element_ok (rinst_element wr64 ri)) (r_instances r)"
  shows "tlv_elements (tlv_serialize_resources alloc wr64 rs) 0 = Some (map (res_element wr64) rs) \<and>
    (\<forall>r\<in>set rs. supports_multiple_instances r \<longrightarrow>
       tlv_elements (snd (snd (res_element wr64 r))) 0 = Some (map (rinst_element wr64) (r_instances r)))"
proof -
  have n: "\<forall>r\<in>set rs. base_name_id (r_base r) \<noteq> -1" using assms(2) by (simp add: numeric_names_def list_all_iff)
  have "tlv_serialize_resources alloc wr64 rs = enc_payload (map (res_element wr64) rs)"
    by (simp add: tlv_serialize_resources_def serialize_resources_eq [OF assms(1) n])
  moreover have "\<forall>e\<in>set (map (res_element wr64) rs). element_ok e" using assms(3) by simp
  moreover have "\<forall>e\<in>set (map (rinst_element wr64) (r_instances r)). element_ok e" if "r \<in> set rs" for r
    using assms(3) that by (simp add: list_all_iff)
  moreover have "snd (snd (res_element wr64 r)) = enc_payload (map (rinst_element wr64) (r_instances r))"
    if "supports_multiple_instances r" for r using that by (simp add: res_element_def)
  ultimately show ?thesis using tlv_elements_enc by auto
qed

definition sample_resource :: resource where
  "sample_resource = resource_new_value ''5700'' Dynamic '''' INTEGER (Some [49, 50]) 2 ''3303/0/5700'' False False"

theorem tlv_resources_roundtrip_witness:
  "tlv_elements (tlv_serialize_resources (\<lambda>n. True) big_endian64 [sample_resource]) 0 =
     Some [(TYPE_RESOURCE, 5700, [0, 0, 0, 0, 0, 0, 0, 12])]"
proof -
  have e: "res_element big_endian64 sample_resource = (TYPE_RESOURCE, 5700, [0, 0, 0, 0, 0, 0, 0, 12])" by code_simp
  moreover have "numeric_names [sample_resource]" by code_simp
  moreover have "r_instances sample_resource = []" by code_simp
  ultimately show ?thesis
    using tlv_resources_roundtrip [of "\<lambda>n. True" "[sample_resource]" big_endian64] by simp
qed

text \<open>The TLV of a list of object instances reads back as one element per instance, in
  order, with the TLV of its resources as value; an instance with a resource whose name is not a number is
  silently left out.\<close>

lemma tlv_instances_roundtrip:
  assumes "\<forall>n. alloc n" and "\<forall>oi\<in>set ois. element_ok (instance_element wr64 oi)"
  shows "tlv_elements (tlv_serialize_instances alloc wr64 ois) 0 =
    Some (map (instance_element wr64) (List.filter (\<lambda>oi. numeric_names (oi_resources oi)) ois))"
proof -
  have "instance_element wr64 = (\<lambda>oi. (TYPE_OBJECT_INSTANCE, base_instance_id (oi_base oi),
      enc_payload (map (res_element wr64) (oi_resources oi))))"
    by (rule ext) (simp add: instance_element_def)
  then have "tlv_serialize_instances alloc wr64 ois =
      enc_payload (map (instance_element wr64) (List.filter (\<lambda>oi. numeric_names (oi_resources oi)) ois))"
    using serialize_object_instances_eq [OF assms(1), of wr64 ois "[]"]
    by (simp add: tlv_serialize_instances_def numeric_names_def list_all_iff)
  moreover have "\<forall>e\<in>set (map (instance_element wr64) (List.filter (\<lambda>oi. numeric_names (oi_resources oi)) ois)). element_ok e"
    using assms(2) by simp
  ultimately show ?thesis using tlv_elements_enc by simp
qed

definition sample_instances :: "object_instance list" where
  "sample_instances =
     (let oi = (\<lambda>k rs. (upd_oi_base (base_set_instance_id k) (object_instance_new '''' '''' False))\<lparr>oi_resources := rs\<rparr>)
      in [oi 0 [sample_resource], oi 1 [resource_new ''name'' Dynamic '''' STRING False '''' False False], oi 2 []])"

lemma tlv_instances_roundtrip_witness:
  "map_option (map (\<lambda>(ty, k, v). k)) (tlv_elements (tlv_serialize_instances (\<lambda>n. True) big_endian64 sample_instances) 0) =
     Some [0, 2]"
proof -
  have "map (\<lambda>oi. length (snd (snd (instance_element big_endian64 oi)))) sample_instances = [12, 3, 0]" by code_simp
  then have "\<forall>n\<in>set (map (\<lambda>oi. length (snd (snd (instance_element big_endian64 oi)))) sample_instances). n < 2 ^ 24" by simp
  then have "\<forall>oi\<in>set sample_instances. element_ok (instance_element big_endian64 oi)"
    by (simp add: instance_element_def)
  moreover have "map (\<lambda>oi. fst (snd (instance_element big_endian64 oi)))
      (List.filter (\<lambda>oi. numeric_names (oi_resources oi)) sample_instances) = [0, 2]" by code_simp
  ultimately show ?thesis
    using tlv_instances_roundtrip [of "\<lambda>n. True" sample_instances big_endian64]
    by (simp add: comp_def split_beta)
qed

end
