(* ===== verification/ObjectsSpec.thy ===== *)
theory ObjectsSpec
  imports Objects
begin

text \<open>
  The object tree keeps its keys distinct: instance numbers in an object, names in an instance,
  instance numbers in a multiple resource. The three levels are interpretations of the interface
  \<open>keyed_store\<close>, so what a lookup returns after a creation or a removal is proved once. The rest
  relates counting, removal and the notices of deletion.
\<close>

section \<open>The three levels as keyed stores\<close>

lemma push_inject [simp]:
  "push_resource a oi = push_resource b oi \<longleftrightarrow> a = b"
  "add_resource_instance c r = add_resource_instance d r \<longleftrightarrow> c = d"
  by (auto simp: push_resource_def add_resource_instance_def dest: arg_cong [of _ _ oi_resources]
      arg_cong [of _ _ r_instances])

lemma o_instances_inject [simp]:
  "ob\<lparr>o_instances := xs\<rparr> = ob\<lparr>o_instances := ys\<rparr> \<longleftrightarrow> xs = ys" for ob :: lwm2m_object
  by (auto dest: arg_cong [of _ _ o_instances])

lemma create_object_instance_new:
  "object_instance_of k ob = None \<Longrightarrow>
     \<exists>e. base_instance_id (oi_base e) = k \<and> oi_resources e = [] \<and>
       create_object_instance k ob = (ob\<lparr>o_instances := o_instances ob @ [e]\<rparr>, Some (length (o_instances ob)))"
  using create_path_object_Some [of "object_name ob" k]
  by (auto simp: create_object_instance_def Let_def upd_defs base_set_instance_id_def base_instance_id_def
      oi_add_observation_level_def object_instance_new_def)

interpretation oinst: keyed_store o_instances "\<lambda>oi. base_instance_id (oi_base oi)" "\<lambda>_ _. True"
  "\<lambda>ob k. object_instance_of k ob" "\<lambda>ob k. fst (create_object_instance k ob)"
  "\<lambda>ob k. (fst (remove_object_instance k ob), snd (snd (remove_object_instance k ob)))"
proof
  fix ob k i
  show "object_instance_of k ob = find_idx (\<lambda>e. base_instance_id (oi_base e) = k) (o_instances ob)"
    by (simp add: object_instance_of_def)
  show "object_instance_of k ob = None \<Longrightarrow> \<exists>e. base_instance_id (oi_base e) = k \<and>
      o_instances (fst (create_object_instance k ob)) = o_instances ob @ [e]"
    using create_object_instance_new [of k ob] by auto
  show "\<not> True \<or> object_instance_of k ob \<noteq> None \<Longrightarrow> fst (create_object_instance k ob) = ob"
    by (auto simp: create_object_instance_def)
  show "object_instance_of k ob = Some i \<Longrightarrow>
      o_instances (fst (fst (remove_object_instance k ob), snd (snd (remove_object_instance k ob)))) =
        remove_at i (o_instances ob) \<and>
      snd (fst (remove_object_instance k ob), snd (snd (remove_object_instance k ob)))"
    by (simp add: remove_object_instance_def object_instance_of_def)
  show "object_instance_of k ob = None \<Longrightarrow>
      (fst (remove_object_instance k ob), snd (snd (remove_object_instance k ob))) = (ob, False)"
    by (simp add: remove_object_instance_def object_instance_of_def)
qed

lemma r_base_levels [simp]:
  "bs_ident (base_add_observation_level l b) = bs_ident b"
  "bs_multiple (base_add_observation_level l b) = bs_multiple b"
  "bs_ident (base_set_operation a b) = bs_ident b"
  "bs_multiple (base_set_operation a b) = bs_multiple b"
  "bs_ident (set_initial_value v n b) = bs_ident b"
  "bs_multiple (set_initial_value v n b) = bs_multiple b"
  by (simp_all add: base_add_observation_level_def base_set_operation_def set_initial_value_def split: option.split)

lemma create_dynamic_resource_new:
  assumes "validate_string_length k 1 MAX_ALLOWED_STRING_LENGTH" and "resource_of k oi = None"
  shows "\<exists>e. resource_name e = k \<and> r_instances e = [] \<and> supports_multiple_instances e = multiple \<and>
    create_dynamic_resource on k rt ty obs multiple ext oi = (push_resource e oi, Some (length (oi_resources oi)))"
proof -
  have "k \<noteq> []" using assms(1) by (auto simp: validate_string_length_def)
  then show ?thesis
    using assms create_path_instance_Some [of on "base_instance_id (oi_base oi)" k]
    by (auto simp: create_dynamic_resource_def Let_def upd_defs resource_name_def base_name_def
        r_add_observation_level_def resource_new_def base_new_def supports_multiple_instances_def)
qed

lemma create_static_resource_new:
  assumes "validate_string_length k 1 MAX_ALLOWED_STRING_LENGTH" and "resource_of k oi = None"
  shows "\<exists>e. resource_name e = k \<and> r_instances e = [] \<and> supports_multiple_instances e = multiple \<and>
    create_static_resource on k rt ty v n multiple ext oi = (push_resource e oi, Some (length (oi_resources oi)))"
proof -
  have "k \<noteq> []" using assms(1) by (auto simp: validate_string_length_def)
  then show ?thesis
    using assms create_path_instance_Some [of on "base_instance_id (oi_base oi)" k]
    by (auto simp: create_static_resource_def Let_def upd_defs resource_name_def base_name_def
        r_add_observation_level_def resource_new_value_def base_new_def supports_multiple_instances_def)
qed

lemma remove_resource_laws:
  "resource_of k oi = Some i \<Longrightarrow> remove_resource h k oi =
     (oi\<lparr>oi_resources := remove_at i (oi_resources oi)\<rparr>, resource_delete h (oi_resources oi ! i), True)"
  "resource_of k oi = None \<Longrightarrow> remove_resource h k oi = (oi, [], False)"
  by (simp_all add: remove_resource_def resource_of_def)

interpretation dres: keyed_store oi_resources resource_name
  "\<lambda>_ k. validate_string_length k 1 MAX_ALLOWED_STRING_LENGTH"
  "\<lambda>oi k. resource_of k oi" "\<lambda>oi k. fst (create_dynamic_resource on k rt ty obs multiple ext oi)"
  "\<lambda>oi k. (fst (remove_resource h k oi), snd (snd (remove_resource h k oi)))"
  for on rt ty obs multiple ext h
proof
  fix oi k i
  show "resource_of k oi = find_idx (\<lambda>e. resource_name e = k) (oi_resources oi)"
    by (simp add: resource_of_def)
  show "validate_string_length k 1 MAX_ALLOWED_STRING_LENGTH \<Longrightarrow> resource_of k oi = None \<Longrightarrow>
      \<exists>e. resource_name e = k \<and>
        oi_resources (fst (create_dynamic_resource on k rt ty obs multiple ext oi)) = oi_resources oi @ [e]"
    using create_dynamic_resource_new [of k oi multiple on rt ty obs ext] by (auto simp: push_resource_def)
  show "\<not> validate_string_length k 1 MAX_ALLOWED_STRING_LENGTH \<or> resource_of k oi \<noteq> None \<Longrightarrow>
      fst (create_dynamic_resource on k rt ty obs multiple ext oi) = oi"
    by (auto simp: create_dynamic_resource_def)
qed (simp_all add: remove_resource_laws)

interpretation sres: keyed_store oi_resources resource_name
  "\<lambda>_ k. validate_string_length k 1 MAX_ALLOWED_STRING_LENGTH"
  "\<lambda>oi k. resource_of k oi" "\<lambda>oi k. fst (create_static_resource on k rt ty v n multiple ext oi)"
  "\<lambda>oi k. (fst (remove_resource h k oi), snd (snd (remove_resource h k oi)))"
  for on rt ty v n multiple ext h
proof
  fix oi k i
  show "resource_of k oi = find_idx (\<lambda>e. resource_name e = k) (oi_resources oi)"
    by (simp add: resource_of_def)
  show "validate_string_length k 1 MAX_ALLOWED_STRING_LENGTH \<Longrightarrow> resource_of k oi = None \<Longrightarrow>
      \<exists>e. resource_name e = k \<and>
        oi_resources (fst (create_static_resource on k rt ty v n multiple ext oi)) = oi_resources oi @ [e]"
    using create_static_resource_new [of k oi multiple on rt ty v n ext] by (auto simp: push_resource_def)
  show "\<not> validate_string_length k 1 MAX_ALLOWED_STRING_LENGTH \<or> resource_of k oi \<noteq> None \<Longrightarrow>
      fst (create_static_resource on k rt ty v n multiple ext oi) = oi"
    by (auto simp: create_static_resource_def)
qed (simp_all add: remove_resource_laws)

lemma add_dynamic_instance_new:
  assumes "supports_multiple_instances r" and "resource_instance_of k r = None"
  shows "\<exists>e. base_instance_id (ri_base e) = k \<and>
    add_dynamic_instance on oid rt ty obs ext k r = (add_resource_instance e r, Some (length (r_instances r)))"
  using assms create_path_resource_Some [of on oid "resource_name r" k]
  by (auto simp: add_dynamic_instance_def Let_def upd_defs base_set_instance_id_def base_instance_id_def)

lemma add_static_instance_new:
  assumes "supports_multiple_instances r" and "resource_instance_of k r = None"
  shows "\<exists>e. base_instance_id (ri_base e) = k \<and>
    add_static_instance on oid rt ty v n ext k r = (add_resource_instance e r, Some (length (r_instances r)))"
  using assms create_path_resource_Some [of on oid "resource_name r" k]
  by (auto simp: add_static_instance_def Let_def upd_defs base_set_instance_id_def base_instance_id_def)

lemma resource_remove_instance_laws:
  "resource_instance_of k r = Some i \<Longrightarrow> resource_remove_instance h k r =
     (r\<lparr>r_instances := remove_at i (r_instances r)\<rparr>, free_resources h (ri_base (r_instances r ! i)), True)"
  "resource_instance_of k r = None \<Longrightarrow> resource_remove_instance h k r = (r, [], False)"
  by (simp_all add: resource_remove_instance_def resource_instance_of_def)

interpretation rinst: keyed_store r_instances "\<lambda>ri. base_instance_id (ri_base ri)"
  "\<lambda>r _. supports_multiple_instances r" "\<lambda>r k. resource_instance_of k r"
  "\<lambda>r k. fst (add_dynamic_instance on oid rt ty obs ext k r)"
  "\<lambda>r k. (fst (resource_remove_instance h k r), snd (snd (resource_remove_instance h k r)))"
  for on oid rt ty obs ext h
proof
  fix r k i
  show "resource_instance_of k r = find_idx (\<lambda>e. base_instance_id (ri_base e) = k) (r_instances r)"
    by (simp add: resource_instance_of_def)
  show "supports_multiple_instances r \<Longrightarrow> resource_instance_of k r = None \<Longrightarrow>
      \<exists>e. base_instance_id (ri_base e) = k \<and>
        r_instances (fst (add_dynamic_instance on oid rt ty obs ext k r)) = r_instances r @ [e]"
    using add_dynamic_instance_new [of r k on oid rt ty obs ext] by (auto simp: add_resource_instance_def)
  show "\<not> supports_multiple_instances r \<or> resource_instance_of k r \<noteq> None \<Longrightarrow>
      fst (add_dynamic_instance on oid rt ty obs ext k r) = r"
    by (auto simp: add_dynamic_instance_def)
qed (simp_all add: resource_remove_instance_laws)

interpretation srinst: keyed_store r_instances "\<lambda>ri. base_instance_id (ri_base ri)"
  "\<lambda>r _. supports_multiple_instances r" "\<lambda>r k. resource_instance_of k r"
  "\<lambda>r k. fst (add_static_instance on oid rt ty v n ext k r)"
  "\<lambda>r k. (fst (resource_remove_instance h k r), snd (snd (resource_remove_instance h k r)))"
  for on oid rt ty v n ext h
proof
  fix r k i
  show "resource_instance_of k r = find_idx (\<lambda>e. base_instance_id (ri_base e) = k) (r_instances r)"
    by (simp add: resource_instance_of_def)
  show "supports_multiple_instances r \<Longrightarrow> resource_instance_of k r = None \<Longrightarrow>
      \<exists>e. base_instance_id (ri_base e) = k \<and>
        r_instances (fst (add_static_instance on oid rt ty v n ext k r)) = r_instances r @ [e]"
    using add_static_instance_new [of r k on oid rt ty v n ext] by (auto simp: add_resource_instance_def)
  show "\<not> supports_multiple_instances r \<or> resource_instance_of k r \<noteq> None \<Longrightarrow>
      fst (add_static_instance on oid rt ty v n ext k r) = r"
    by (auto simp: add_static_instance_def)
qed (simp_all add: resource_remove_instance_laws)

section \<open>Distinct keys\<close>

definition resource_wf :: "resource \<Rightarrow> bool" where
  "resource_wf r \<longleftrightarrow> distinct (map (\<lambda>ri. base_instance_id (ri_base ri)) (r_instances r)) \<and>
     (supports_multiple_instances r \<or> r_instances r = [])"

definition oi_wf :: "object_instance \<Rightarrow> bool" where
  "oi_wf oi \<longleftrightarrow> distinct (map resource_name (oi_resources oi)) \<and> list_all resource_wf (oi_resources oi)"

definition o_wf :: "lwm2m_object \<Rightarrow> bool" where
  "o_wf ob \<longleftrightarrow> distinct (map (\<lambda>oi. base_instance_id (oi_base oi)) (o_instances ob)) \<and>
     list_all oi_wf (o_instances ob)"

lemma resource_of_None: "resource_of k oi = None \<longleftrightarrow> k \<notin> resource_name ` set (oi_resources oi)"
  by (auto simp: resource_of_def find_idx_None)

lemma resource_of_Some: "resource_of k oi = Some j \<Longrightarrow> j < length (oi_resources oi) \<and> resource_name (oi_resources oi ! j) = k"
  by (auto simp: resource_of_def dest: find_idx_SomeD)

lemma push_wf:
  "oi_wf oi \<Longrightarrow> resource_of (resource_name r) oi = None \<Longrightarrow> resource_wf r \<Longrightarrow> oi_wf (push_resource r oi)"
  by (auto simp: oi_wf_def push_resource_def resource_of_None)

lemma map_update_const:
  "j < length xs \<Longrightarrow> k y = k (xs ! j) \<Longrightarrow> map k (update_at j (\<lambda>_. y) xs) = map k xs"
  by (auto simp: update_at_def map_update list_update_same_conv)

lemma upd_res_wf:
  assumes "oi_wf oi" and "j < length (oi_resources oi)" and "resource_wf r"
    and "resource_name r = resource_name (oi_resources oi ! j)"
  shows "oi_wf (upd_res j (\<lambda>_. r) oi)"
proof -
  have "map resource_name (update_at j (\<lambda>_. r) (oi_resources oi)) = map resource_name (oi_resources oi)"
    using assms(2,4) by (rule map_update_const)
  moreover have "list_all resource_wf (update_at j (\<lambda>_. r) (oi_resources oi))"
    using assms(1,3) by (auto simp: oi_wf_def list_all_length nth_update_at)
  ultimately show ?thesis using assms(1) by (simp add: oi_wf_def upd_res_def)
qed

lemma remove_at_wf:
  "oi_wf oi \<Longrightarrow> oi_wf (oi\<lparr>oi_resources := remove_at i (oi_resources oi)\<rparr>)"
  using set_remove_at_subset [of i "oi_resources oi"]
  by (auto simp: oi_wf_def map_remove_at distinct_remove_at list_all_iff)

lemma create_dynamic_resource_wf: "oi_wf oi \<Longrightarrow> oi_wf (fst (create_dynamic_resource on k rt ty obs m ext oi))"
proof (cases "validate_string_length k 1 MAX_ALLOWED_STRING_LENGTH \<and> resource_of k oi = None")
  case True
  then obtain e where "resource_name e = k" "r_instances e = []"
    "create_dynamic_resource on k rt ty obs m ext oi = (push_resource e oi, Some (length (oi_resources oi)))"
    using create_dynamic_resource_new by blast
  then show "oi_wf oi \<Longrightarrow> ?thesis" using True by (auto intro!: push_wf simp: resource_wf_def)
next
  case False
  then show "oi_wf oi \<Longrightarrow> ?thesis" by (auto simp: create_dynamic_resource_def)
qed

lemma create_static_resource_wf: "oi_wf oi \<Longrightarrow> oi_wf (fst (create_static_resource on k rt ty v n m ext oi))"
proof (cases "validate_string_length k 1 MAX_ALLOWED_STRING_LENGTH \<and> resource_of k oi = None")
  case True
  then obtain e where "resource_name e = k" "r_instances e = []"
    "create_static_resource on k rt ty v n m ext oi = (push_resource e oi, Some (length (oi_resources oi)))"
    using create_static_resource_new by blast
  then show "oi_wf oi \<Longrightarrow> ?thesis" using True by (auto intro!: push_wf simp: resource_wf_def)
next
  case False
  then show "oi_wf oi \<Longrightarrow> ?thesis" by (auto simp: create_static_resource_def)
qed

lemma add_instance_wf:
  assumes "resource_wf r"
  shows "resource_wf (fst (add_dynamic_instance on oid rt ty obs ext k r))"
    and "resource_wf (fst (add_static_instance on oid rt ty v n ext k r))"
    and "resource_name (fst (add_dynamic_instance on oid rt ty obs ext k r)) = resource_name r"
    and "resource_name (fst (add_static_instance on oid rt ty v n ext k r)) = resource_name r"
proof -
  have "distinct (rinst.keys r)" using assms by (simp add: resource_wf_def rinst.keys_def)
  from rinst.create_distinct [OF this, of on oid rt ty obs ext k]
    srinst.create_distinct [of r on oid rt ty v n ext k] this
  have d: "distinct (map (\<lambda>ri. base_instance_id (ri_base ri)) (r_instances (fst (add_dynamic_instance on oid rt ty obs ext k r))))"
    "distinct (map (\<lambda>ri. base_instance_id (ri_base ri)) (r_instances (fst (add_static_instance on oid rt ty v n ext k r))))"
    by (simp_all add: rinst.keys_def srinst.keys_def)
  have b: "r_base (fst (add_dynamic_instance on oid rt ty obs ext k r)) = r_base r"
    "r_base (fst (add_static_instance on oid rt ty v n ext k r)) = r_base r"
    by (simp_all add: add_dynamic_instance_def add_static_instance_def add_resource_instance_def Let_def split: option.split)
  show "resource_wf (fst (add_dynamic_instance on oid rt ty obs ext k r))"
    using assms d(1) b(1)
    by (auto simp: resource_wf_def supports_multiple_instances_def add_dynamic_instance_def)
  show "resource_wf (fst (add_static_instance on oid rt ty v n ext k r))"
    using assms d(2) b(2)
    by (auto simp: resource_wf_def supports_multiple_instances_def add_static_instance_def)
  show "resource_name (fst (add_dynamic_instance on oid rt ty obs ext k r)) = resource_name r"
    "resource_name (fst (add_static_instance on oid rt ty v n ext k r)) = resource_name r"
    using b by (simp_all add: resource_name_def)
qed

lemma at_resource_wf:
  assumes "oi_wf oi" and "\<And>j. res = Some j \<Longrightarrow> j < length (oi_resources oi)"
    and "\<And>r. resource_wf r \<Longrightarrow> resource_wf (fst (f r)) \<and> resource_name (fst (f r)) = resource_name r"
  shows "oi_wf (fst (at_resource res f oi))"
proof (cases res)
  case (Some j)
  then have j: "j < length (oi_resources oi)" using assms(2) by simp
  then have "resource_wf (oi_resources oi ! j)" using assms(1) by (simp add: oi_wf_def list_all_length)
  then show ?thesis using Some j assms(1,3)
    by (auto simp: at_resource_def Let_def split_beta intro!: upd_res_wf)
qed (simp add: at_resource_def assms(1))

lemma create_dynamic_resource_instance_wf:
  assumes "oi_wf oi"
  shows "oi_wf (fst (create_dynamic_resource_instance on name rt ty obs k ext oi))"
proof (cases "validate_string_length name 1 MAX_ALLOWED_STRING_LENGTH")
  case True
  then have ne: "name \<noteq> []" by (auto simp: validate_string_length_def)
  let ?f = "add_dynamic_instance on (base_instance_id (oi_base oi)) rt ty obs ext k"
  show ?thesis
  proof (cases "resource_of name oi")
    case (Some j)
    have "oi_wf (fst (at_resource (Some j) ?f oi))"
      using resource_of_Some [OF Some] assms by (intro at_resource_wf) (auto simp: add_instance_wf)
    then show ?thesis using True Some by (simp add: create_dynamic_resource_instance_def Let_def)
  next
    case None
    obtain p where p: "create_path_instance on (base_instance_id (oi_base oi)) name = Some p"
      using create_path_instance_Some by blast
    define e where "e = upd_r_base (\<lambda>b. base_set_operation GET_ALLOWED (b\<lparr>bs_publish_uri := False\<rparr>))
      (resource_new name Dynamic rt ty False p True ext)"
    have e: "resource_name e = name" "resource_wf e"
      using ne by (auto simp: e_def resource_new_def base_new_def upd_defs resource_name_def base_name_def
          resource_wf_def Let_def)
    have w: "oi_wf (push_resource e oi)" using assms None e by (intro push_wf) auto
    have "oi_wf (fst (at_resource (Some (length (oi_resources oi))) ?f (push_resource e oi)))"
      using w by (intro at_resource_wf) (auto simp: add_instance_wf push_resource_def)
    then show ?thesis using True None p by (simp add: create_dynamic_resource_instance_def Let_def e_def)
  qed
next
  case False
  then show ?thesis using assms by (simp add: create_dynamic_resource_instance_def Let_def)
qed

lemma create_static_resource_instance_wf:
  assumes "oi_wf oi"
  shows "oi_wf (fst (create_static_resource_instance on name rt ty v n k ext oi))"
proof (cases "validate_string_length name 1 MAX_ALLOWED_STRING_LENGTH")
  case True
  then have ne: "name \<noteq> []" by (auto simp: validate_string_length_def)
  let ?f = "add_static_instance on (base_instance_id (oi_base oi)) rt ty v n ext k"
  show ?thesis
  proof (cases "resource_of name oi")
    case (Some j)
    have "oi_wf (fst (at_resource (Some j) ?f oi))"
      using resource_of_Some [OF Some] assms by (intro at_resource_wf) (auto simp: add_instance_wf)
    then show ?thesis using True Some by (simp add: create_static_resource_instance_def Let_def)
  next
    case None
    obtain p where p: "create_path_instance on (base_instance_id (oi_base oi)) name = Some p"
      using create_path_instance_Some by blast
    define e where "e = upd_r_base (\<lambda>b. (base_set_operation GET_ALLOWED b)\<lparr>bs_observable := False, bs_publish_uri := False\<rparr>)
      (resource_new_value name Static rt ty v n p True ext)"
    have e: "resource_name e = name" "resource_wf e"
      using ne by (auto simp: e_def resource_new_value_def base_new_def upd_defs resource_name_def base_name_def
          resource_wf_def Let_def)
    have w: "oi_wf (push_resource e oi)" using assms None e by (intro push_wf) auto
    have "oi_wf (fst (at_resource (Some (length (oi_resources oi))) ?f (push_resource e oi)))"
      using w by (intro at_resource_wf) (auto simp: add_instance_wf push_resource_def)
    then show ?thesis using True None p by (simp add: create_static_resource_instance_def Let_def e_def)
  qed
next
  case False
  then show ?thesis using assms by (simp add: create_static_resource_instance_def Let_def)
qed

lemma remove_resource_wf: "oi_wf oi \<Longrightarrow> oi_wf (fst (remove_resource h k oi))"
  by (cases "resource_of k oi") (simp_all add: remove_resource_laws remove_at_wf)

lemma resource_remove_instance_wf:
  assumes "resource_wf r"
  shows "resource_wf (fst (resource_remove_instance h k r))"
    and "resource_name (fst (resource_remove_instance h k r)) = resource_name r"
proof -
  show "resource_name (fst (resource_remove_instance h k r)) = resource_name r"
    by (cases "resource_instance_of k r") (simp_all add: resource_remove_instance_laws resource_name_def)
  show "resource_wf (fst (resource_remove_instance h k r))"
  proof (cases "resource_instance_of k r")
    case (Some i)
    then have "r_instances r \<noteq> []" by (auto simp: resource_instance_of_def)
    then show ?thesis using assms Some
      by (auto simp: resource_remove_instance_laws resource_wf_def map_remove_at distinct_remove_at
          supports_multiple_instances_def)
  qed (simp add: resource_remove_instance_laws assms)
qed

lemma remove_resource_instance_wf:
  assumes "oi_wf oi"
  shows "oi_wf (fst (remove_resource_instance h name k oi))"
proof (cases "resource_of name oi")
  case (Some j)
  then have j: "j < length (oi_resources oi)" using resource_of_Some by blast
  then have "resource_wf (oi_resources oi ! j)" using assms by (simp add: oi_wf_def list_all_length)
  then have "oi_wf (upd_res j (\<lambda>_. fst (resource_remove_instance h k (oi_resources oi ! j))) oi)"
    using assms j by (intro upd_res_wf) (simp_all add: resource_remove_instance_wf)
  then have w: "oi_wf (upd_res j (\<lambda>_. fst (resource_remove_instance h k (oi_resources oi ! j))) oi)" (is "oi_wf ?oi1") .
  have "fst (remove_resource_instance h name k oi) \<in>
      insert oi (insert ?oi1 (range (\<lambda>pos. ?oi1\<lparr>oi_resources := remove_at pos (oi_resources ?oi1)\<rparr>)))"
    using Some by (simp add: remove_resource_instance_def Let_def split_beta split: option.split)
  then show ?thesis using assms w remove_at_wf [OF w] by (elim insertE rangeE) simp_all
qed (simp add: remove_resource_instance_def assms)

lemma create_object_instance_wf: "o_wf ob \<Longrightarrow> o_wf (fst (create_object_instance k ob))"
proof (cases "object_instance_of k ob")
  case None
  then obtain e where "base_instance_id (oi_base e) = k" "oi_resources e = []"
    "create_object_instance k ob = (ob\<lparr>o_instances := o_instances ob @ [e]\<rparr>, Some (length (o_instances ob)))"
    using create_object_instance_new by blast
  then show "o_wf ob \<Longrightarrow> ?thesis" using None
    by (auto simp: o_wf_def oi_wf_def object_instance_of_def find_idx_None)
qed (simp add: create_object_instance_def)

lemma remove_object_instance_wf: "o_wf ob \<Longrightarrow> o_wf (fst (remove_object_instance k ob))"
proof (cases "find_idx (\<lambda>oi. base_instance_id (oi_base oi) = k) (o_instances ob)")
  case (Some i)
  then show "o_wf ob \<Longrightarrow> ?thesis"
    using set_remove_at_subset [of i "o_instances ob"]
    by (auto simp: remove_object_instance_def o_wf_def map_remove_at distinct_remove_at list_all_iff)
qed (simp add: remove_object_instance_def)

section \<open>Removing the last instance of a resource\<close>

lemma remove_resource_instance_eq:
  assumes "oi_wf oi" and "resource_of name oi = Some j" and "resource_instance_of k (oi_resources oi ! j) = Some p"
    and "length (r_instances (oi_resources oi ! j)) < 2 ^ 16"
  shows "oi_resources (fst (remove_resource_instance h name k oi)) =
    (let r = oi_resources oi ! j in
     if length (r_instances r) = 1 then remove_at j (oi_resources oi)
     else (oi_resources oi)[j := r\<lparr>r_instances := remove_at p (r_instances r)\<rparr>])"
proof -
  let ?r = "oi_resources oi ! j"
  let ?r1 = "?r\<lparr>r_instances := remove_at p (r_instances ?r)\<rparr>"
  note j = resource_of_Some [OF assms(2)]
  have p: "p < length (r_instances ?r)" using assms(3) by (auto simp: resource_instance_of_def dest: find_idx_SomeD)
  have n: "resource_name ?r1 = name" using j by (simp add: resource_name_def)
  have keys: "map resource_name (update_at j (\<lambda>_. ?r1) (oi_resources oi)) = map resource_name (oi_resources oi)"
    using j n by (intro map_update_const) auto
  have f: "find_idx (\<lambda>r. resource_name r = name) (oi_resources (upd_res j (\<lambda>_. ?r1) oi)) = Some j"
    using assms(2) find_idx_map_keys [OF keys, of "\<lambda>k. k = name"] by (simp add: upd_res_def resource_of_def)
  have c: "resource_instance_count ?r1 = 0 \<longleftrightarrow> length (r_instances ?r) = 1"
  proof -
    have l: "length (r_instances ?r1) < 2 ^ LENGTH(16)" using p assms(4) by simp
    have "unat (resource_instance_count ?r1) = length (r_instances ?r1)"
      unfolding resource_instance_count_def unsigned_of_nat using l by (simp add: take_bit_nat_eq_self)
    then have "resource_instance_count ?r1 = 0 \<longleftrightarrow> length (r_instances ?r) - 1 = 0"
      using p unat_eq_zero [of "resource_instance_count ?r1"] by simp
    then show ?thesis using p by auto
  qed
  have u: "update_at j (\<lambda>_. ?r1) (oi_resources oi) = (oi_resources oi)[j := ?r1]" using j by (simp add: update_at_def)
  have d: "remove_at j ((oi_resources oi)[j := ?r1]) = remove_at j (oi_resources oi)" by (simp add: remove_at_def)
  have i: "find_idx (\<lambda>ri. base_instance_id (ri_base ri) = k) (r_instances ?r) = Some p"
    using assms(3) by (simp add: resource_instance_of_def)
  show ?thesis
    using assms(2) i f c d
    by (simp add: remove_resource_instance_def resource_remove_instance_laws(1) [OF assms(3)] Let_def u upd_res_def)
qed

section \<open>The tree as a machine\<close>

datatype instance_op =
    CreateStatic string data_type "u8 list option" u8 bool
  | CreateDynamic string data_type bool bool
  | CreateStaticInstance string data_type "u8 list option" u8 u16
  | CreateDynamicInstance string data_type bool u16
  | RemoveResource string
  | RemoveResourceInstance string u16

fun instance_step :: "string \<Rightarrow> bool \<Rightarrow> instance_op \<Rightarrow> object_instance \<Rightarrow> object_instance" where
  "instance_step on h (CreateStatic name ty v n multiple) oi = fst (create_static_resource on name [] ty v n multiple False oi)"
| "instance_step on h (CreateDynamic name ty obs multiple) oi = fst (create_dynamic_resource on name [] ty obs multiple False oi)"
| "instance_step on h (CreateStaticInstance name ty v n k) oi = fst (create_static_resource_instance on name [] ty v n k False oi)"
| "instance_step on h (CreateDynamicInstance name ty obs k) oi = fst (create_dynamic_resource_instance on name [] ty obs k False oi)"
| "instance_step on h (RemoveResource name) oi = fst (remove_resource h name oi)"
| "instance_step on h (RemoveResourceInstance name k) oi = fst (remove_resource_instance h name k oi)"

datatype object_op = CreateInstance u16 | RemoveInstance u16 | OnInstance u16 instance_op

fun object_step :: "object_op \<Rightarrow> lwm2m_object \<Rightarrow> lwm2m_object" where
  "object_step (CreateInstance k) ob = fst (create_object_instance k ob)"
| "object_step (RemoveInstance k) ob = fst (remove_object_instance k ob)"
| "object_step (OnInstance k op) ob =
     (case object_instance_of k ob of None \<Rightarrow> ob
      | Some i \<Rightarrow> upd_inst i (instance_step (object_name ob) (o_handler ob) op) ob)"

lemma instance_step_wf: "oi_wf oi \<Longrightarrow> oi_wf (instance_step on h op oi)"
  by (cases op) (simp_all add: create_static_resource_wf create_dynamic_resource_wf create_static_resource_instance_wf
      create_dynamic_resource_instance_wf remove_resource_wf remove_resource_instance_wf)

lemma instance_step_base: "oi_base (instance_step on h op oi) = oi_base oi"
  by (cases op) (auto simp: create_static_resource_def create_dynamic_resource_def push_resource_def Let_def
      create_static_resource_instance_def create_dynamic_resource_instance_def at_resource_def upd_res_def
      remove_resource_def remove_resource_instance_def split_beta split: option.splits)

lemma upd_inst_wf:
  assumes "o_wf ob" and "\<And>oi. oi_wf oi \<Longrightarrow> oi_wf (f oi)" and "\<And>oi. oi_base (f oi) = oi_base oi"
  shows "o_wf (upd_inst i f ob)"
proof -
  have "map (\<lambda>oi. base_instance_id (oi_base oi)) (update_at i f (o_instances ob)) =
      map (\<lambda>oi. base_instance_id (oi_base oi)) (o_instances ob)"
    using assms(3) by (intro map_update_at_same) simp
  moreover have "list_all oi_wf (update_at i f (o_instances ob))"
    using assms(1,2) by (auto simp: o_wf_def list_all_length nth_update_at)
  ultimately show ?thesis using assms(1) by (simp add: o_wf_def upd_inst_def)
qed

lemma object_step_wf: "o_wf ob \<Longrightarrow> o_wf (object_step op ob)"
  by (cases op) (auto simp: create_object_instance_wf remove_object_instance_wf instance_step_wf instance_step_base
      intro!: upd_inst_wf split: option.split)

lemma object_new_wf: "o_wf (object_new name path external)"
  by (simp add: o_wf_def object_new_def Let_def)

lemma fold_object_step_wf: "o_wf ob \<Longrightarrow> o_wf (fold object_step ops ob)"
  by (induction ops arbitrary: ob) (auto simp: object_step_wf)

section \<open>Properties\<close>

text \<open>C5: whatever instances, resources and resource instances are created and removed in whatever
  order, a new object never has two instances with one number, an instance never two resources with one
  name, and a resource never two instances with one number or any when it is not a multiple resource.\<close>

theorem object_tree_keys: "o_wf (fold object_step ops (object_new name path external))"
  by (rule fold_object_step_wf) (rule object_new_wf)

text \<open>Creating an instance whose number is taken changes nothing; otherwise the new one is
  found at the end and every other lookup is as before. Removing reports whether there was such an instance,
  which is not found afterwards, while exactly the others still are.\<close>

lemma object_instance_store:
  assumes "o_wf ob"
  shows "(if object_instance_of k ob = None
       then object_instance_of k (fst (create_object_instance k ob)) = Some (length (o_instances ob)) \<and>
            snd (create_object_instance k ob) = Some (length (o_instances ob)) \<and>
            (m \<noteq> k \<longrightarrow> object_instance_of m (fst (create_object_instance k ob)) = object_instance_of m ob)
       else create_object_instance k ob = (ob, None)) \<and>
    (snd (snd (remove_object_instance k ob)) \<longleftrightarrow> object_instance_of k ob \<noteq> None) \<and>
    object_instance_of k (fst (remove_object_instance k ob)) = None \<and>
    (m \<noteq> k \<longrightarrow> (object_instance_of m (fst (remove_object_instance k ob)) = None \<longleftrightarrow> object_instance_of m ob = None))"
proof -
  have d: "distinct (oinst.keys ob)" using assms by (simp add: o_wf_def oinst.keys_def)
  show ?thesis
    using oinst.lookup_create [where s = ob and k = k] oinst.lookup_create_other [where s = ob and k = k and k' = m]
      create_object_instance_new [of k ob] oinst.lookup_remove [OF d, where k = k]
      oinst.lookup_remove_other_None [OF d, where k' = m and k = k] oinst.remove_reports [where s = ob and k = k]
    by (auto simp: create_object_instance_def split: option.splits)
qed

lemma object_instance_store_witness:
  "object_instance_of 4 (fst (remove_object_instance 4 (fst (create_object_instance 4 (object_new ''3'' ''3'' False))))) = None"
proof -
  have "o_wf (fold object_step [CreateInstance 4] (object_new ''3'' ''3'' False))"
    by (rule fold_object_step_wf) (rule object_new_wf)
  then show ?thesis using object_instance_store [of "fst (create_object_instance 4 (object_new ''3'' ''3'' False))" 4] by simp
qed


text \<open>In an instance, a dynamic or static resource is created exactly when its name has 1 to 64
  characters and is free; it is then found under its name and every other lookup is as before. Removing
  reports whether the name was there and removes that resource and no other.\<close>

lemma resource_store:
  assumes "oi_wf oi"
  shows "(if validate_string_length name 1 MAX_ALLOWED_STRING_LENGTH \<and> resource_of name oi = None
       then resource_of name (fst (create_dynamic_resource on name rt ty obs multiple ext oi)) = Some (length (oi_resources oi)) \<and>
            resource_of name (fst (create_static_resource on name rt ty v n multiple ext oi)) = Some (length (oi_resources oi))
       else create_dynamic_resource on name rt ty obs multiple ext oi = (oi, None) \<and>
            create_static_resource on name rt ty v n multiple ext oi = (oi, None)) \<and>
    (other \<noteq> name \<longrightarrow>
       resource_of other (fst (create_dynamic_resource on name rt ty obs multiple ext oi)) = resource_of other oi \<and>
       resource_of other (fst (create_static_resource on name rt ty v n multiple ext oi)) = resource_of other oi) \<and>
    (snd (snd (remove_resource h name oi)) \<longleftrightarrow> resource_of name oi \<noteq> None) \<and>
    resource_of name (fst (remove_resource h name oi)) = None \<and>
    (other \<noteq> name \<longrightarrow> (resource_of other (fst (remove_resource h name oi)) = None \<longleftrightarrow> resource_of other oi = None))"
proof -
  have d: "distinct (dres.keys oi)" using assms by (simp add: oi_wf_def dres.keys_def)
  show ?thesis
    using dres.lookup_create [where s = oi and k = name] sres.lookup_create [where s = oi and k = name]
      dres.lookup_create_other [where s = oi and k = name and k' = other]
      sres.lookup_create_other [where s = oi and k = name and k' = other]
      dres.lookup_remove [OF d, where k = name] dres.lookup_remove_other_None [OF d, where k' = other and k = name]
      dres.remove_reports [where s = oi and k = name]
    by (auto simp: create_dynamic_resource_def create_static_resource_def)
qed

lemma new_instance_wf: "oi_wf (object_instance_new rt path external)"
  by (simp add: oi_wf_def object_instance_new_def Let_def)

lemma resource_store_witness:
  "resource_of ''1'' (fst (create_dynamic_resource ''3'' ''1'' [] INTEGER True False False
     (object_instance_new [] ''3/0'' False))) = Some 0"
proof -
  have e: "oi_resources (object_instance_new [] ''3/0'' False) = []" by (simp add: object_instance_new_def Let_def)
  then have "resource_of ''1'' (object_instance_new [] ''3/0'' False) = None" by (simp add: resource_of_def)
  moreover have "validate_string_length ''1'' 1 MAX_ALLOWED_STRING_LENGTH" by (simp add: validate_string_length_def)
  ultimately show ?thesis
    using resource_store [OF new_instance_wf [of "[]" "''3/0''" False], where name = "''1''"] e by simp
qed

text \<open>Removing an instance of a multiple resource removes the resource too when it
  was the last one, and otherwise leaves the resource with its other instances and every other resource as
  it was; a resource or instance that does not exist is reported and nothing changes.\<close>

lemma remove_instance_of_resource:
  assumes "oi_wf oi" and "\<forall>r\<in>set (oi_resources oi). length (r_instances r) < 2 ^ 16"
  shows "case resource_of name oi of
      None \<Rightarrow> remove_resource_instance h name k oi = (oi, [], False)
    | Some j \<Rightarrow> (case resource_instance_of k (oi_resources oi ! j) of
          None \<Rightarrow> remove_resource_instance h name k oi = (oi, [], False)
        | Some p \<Rightarrow>
            snd (snd (remove_resource_instance h name k oi)) \<and>
            oi_resources (fst (remove_resource_instance h name k oi)) =
              (if length (r_instances (oi_resources oi ! j)) = 1 then remove_at j (oi_resources oi)
               else (oi_resources oi)[j := (oi_resources oi ! j)
                 \<lparr>r_instances := remove_at p (r_instances (oi_resources oi ! j))\<rparr>]))"
proof (cases "resource_of name oi")
  case None
  then show ?thesis by (simp add: remove_resource_instance_def)
next
  case (Some j)
  then have j: "j < length (oi_resources oi)" using resource_of_Some by blast
  show ?thesis
  proof (cases "resource_instance_of k (oi_resources oi ! j)")
    case None
    then show ?thesis using Some by (simp add: remove_resource_instance_def resource_instance_of_def)
  next
    case p: (Some p)
    have "length (r_instances (oi_resources oi ! j)) < 2 ^ 16" using assms(2) j by auto
    note remove_resource_instance_eq [OF assms(1) Some p this, of h]
    moreover have "snd (snd (remove_resource_instance h name k oi))"
      using Some p by (auto simp: remove_resource_instance_def resource_instance_of_def resource_remove_instance_def
          Let_def split: option.split)
    ultimately show ?thesis using Some p by (simp add: Let_def)
  qed
qed

definition sample_instance :: object_instance where
  "sample_instance = fst (create_dynamic_resource_instance ''3'' ''1'' [] INTEGER True 0 False
     (object_instance_new [] ''3/0'' False))"

lemma remove_instance_of_resource_witness:
  "oi_resources (fst (remove_resource_instance True ''1'' 0 sample_instance)) = []"
proof -
  have "oi_wf sample_instance"
    unfolding sample_instance_def by (rule create_dynamic_resource_instance_wf) (rule new_instance_wf)
  moreover have "resource_of ''1'' sample_instance = Some 0" by code_simp
  moreover have "resource_instance_of 0 (oi_resources sample_instance ! 0) = Some 0" by code_simp
  moreover have l: "map (\<lambda>r. length (r_instances r)) (oi_resources sample_instance) = [1]" by code_simp
  then obtain r where "oi_resources sample_instance = [r]" "length (r_instances r) = 1" by auto
  ultimately show ?thesis
    using remove_instance_of_resource [where oi = sample_instance and name = "''1''" and h = True and k = 0]
    by (simp add: remove_at_def)
qed

end
