(* ===== verification/TlvWrite.thy ===== *)
theory TlvWrite
  imports TlvSpec ObjectsSpec
begin

text \<open>
  What a TLV write does to the resources of an object instance. The offsets and the recursion of the
  deserializer are related to a fold over the elements of the payload: for a payload of plain
  resources that exist, the outcome of the checking pass is that of its last element alone, and the
  writing pass stores every element, whatever the operations its resource allows.
\<close>

section \<open>Keys survive a write\<close>

definition res_keys :: "nat \<Rightarrow> tree \<Rightarrow> (int \<times> u8) list" where
  "res_keys i t = map (\<lambda>r. (base_name_id (r_base r), bs_access (r_base r))) (oi_resources (tree_inst i t))"

definition valid_inst :: "nat \<Rightarrow> tree \<Rightarrow> bool" where
  "valid_inst i t \<longleftrightarrow> i < length (o_instances (t_object t))"

definition node_key :: "base \<Rightarrow> int \<times> u8" where
  "node_key b = (base_name_id b, bs_access b)"

lemma node_key_frame: "node_key (frame_of b) = node_key b" "node_key (b\<lparr>bs_value := v\<rparr>) = node_key b"
  by (simp_all add: node_key_def frame_of_def base_name_id_def)

lemma node_frame_key: "map_option node_key (node_frame m t) = map_option node_key (get_base m (t_object t))"
  by (simp add: node_frame_def option.map_comp comp_def node_key_frame)

lemma valid_inst_base: "valid_inst i t \<longleftrightarrow> get_base (NInst i) (t_object t) \<noteq> None"
  by (simp add: valid_inst_def)

lemma res_keys_nth:
  assumes "valid_inst i t"
  shows "map_option node_key (get_base (NRes i j) (t_object t)) =
    (if j < length (res_keys i t) then Some (res_keys i t ! j) else None)"
  using assms by (simp add: res_keys_def valid_inst_def tree_inst_def node_key_def)

lemma res_keys_eqI:
  assumes "valid_inst i t" and "valid_inst i t'"
    and "\<And>j. map_option node_key (get_base (NRes i j) (t_object t')) = map_option node_key (get_base (NRes i j) (t_object t))"
  shows "res_keys i t' = res_keys i t"
proof (rule nth_equalityI)
  have k: "(if j < length (res_keys i t') then Some (res_keys i t' ! j) else None) =
      (if j < length (res_keys i t) then Some (res_keys i t ! j) else None)" for j
    using assms(3) [of j] res_keys_nth [OF assms(1)] res_keys_nth [OF assms(2)] by simp
  have "\<not> length (res_keys i t) < length (res_keys i t')" using k [of "length (res_keys i t)"] by auto
  moreover have "\<not> length (res_keys i t') < length (res_keys i t)" using k [of "length (res_keys i t')"] by auto
  ultimately show "length (res_keys i t') = length (res_keys i t)" by simp
  then show "res_keys i t' ! j = res_keys i t ! j" if "j < length (res_keys i t')" for j
    using k [of j] that by simp
qed

definition write_value :: "node \<Rightarrow> u8 list \<Rightarrow> tree \<Rightarrow> tree" where
  "write_value n v t =
     (if v \<noteq> [] then fst (res_set_value n (Some v) (length v) t) else res_clear_value n t)"

definition stored :: "u8 list \<Rightarrow> u8 list option" where
  "stored v = (if v = [] then None else Some v)"

lemma write_value_frame:
  assumes "get_base n (t_object t) = Some b"
  shows "node_frame m (write_value n v t) =
    (if m = n then Some ((frame_of b)\<lparr>bs_value := stored v\<rparr>) else node_frame m t)"
  using res_set_value_frame(1) [OF assms, of "length v" m v] res_clear_value_frame [OF assms, of m]
  by (cases "v = []"; cases "m = n") (simp_all add: write_value_def stored_def)

lemma write_value_key:
  assumes "get_base n (t_object t) \<noteq> None"
  shows "map_option node_key (get_base m (t_object (write_value n v t))) =
    map_option node_key (get_base m (t_object t))"
proof -
  obtain b where b: "get_base n (t_object t) = Some b" using assms by auto
  have "map_option node_key (node_frame m (write_value n v t)) = map_option node_key (node_frame m t)"
    using write_value_frame [OF b, of m v] b by (auto simp: node_key_frame node_frame_def)
  then show ?thesis by (simp add: node_frame_key)
qed

lemma write_value_keys:
  assumes "valid_inst i t" and "j < length (res_keys i t)"
  shows "valid_inst i (write_value (NRes i j) v t)"
    and "res_keys i (write_value (NRes i j) v t) = res_keys i t"
proof -
  have n: "get_base (NRes i j) (t_object t) \<noteq> None"
    using assms by (simp add: valid_inst_def res_keys_def tree_inst_def)
  show v: "valid_inst i (write_value (NRes i j) v t)"
    using write_value_key [OF n, of "NInst i" v] assms(1)
    unfolding valid_inst_base by (metis option.map_disc_iff)
  show "res_keys i (write_value (NRes i j) v t) = res_keys i t"
    using assms(1) v write_value_key [OF n] by (rule res_keys_eqI)
qed

section \<open>One element\<close>

definition target :: "nat \<Rightarrow> u16 \<Rightarrow> tree \<Rightarrow> nat option" where
  "target i k t = find_idx (\<lambda>(n, a). n = uint k) (res_keys i t)"

definition writable :: "nat \<Rightarrow> u16 \<Rightarrow> tree \<Rightarrow> bool" where
  "writable i k t \<longleftrightarrow> find_idx (\<lambda>(n, a). n = uint k \<and> a AND PUT_ALLOWED = 0) (res_keys i t) = None"

definition write_element :: "nat \<Rightarrow> u16 \<times> u8 list \<Rightarrow> tree \<Rightarrow> tree" where
  "write_element i kv t =
     (case target i (fst kv) t of None \<Rightarrow> t | Some j \<Rightarrow> write_value (NRes i j) (snd kv) t)"

lemma target_eq: "target i k t = find_idx (\<lambda>r. base_name_id (r_base r) = uint k) (oi_resources (tree_inst i t))"
  by (simp add: target_def res_keys_def find_idx_map split_beta)

lemma writable_eq:
  "writable i k t \<longleftrightarrow> find_idx (\<lambda>r. base_name_id (r_base r) = uint k \<and> \<not> put_allowed (r_base r))
     (oi_resources (tree_inst i t)) = None"
  by (simp add: writable_def res_keys_def find_idx_map split_beta)

lemma tlv_write_eq:
  assumes "unat (til_length til) = length v" and "drop (til_offset til) tlv = v @ rest"
    and "til_offset til + length v \<le> length tlv" and "get_base n (t_object t) \<noteq> None"
  shows "tlv_write tlv til n t = Some (write_value n v t)"
proof -
  have "til_length til > 0 \<longleftrightarrow> v \<noteq> []" using assms(1) by (simp add: word_less_nat_alt)
  moreover have "fst (res_set_value n (Some (v @ rest)) (length v) t) = fst (res_set_value n (Some v) (length v) t)"
  proof -
    have "is_value_changed (Some (v @ rest)) (length v) b = is_value_changed (Some v) (length v) b" for b
      by (auto simp: is_value_changed_def value_len_def split: option.splits)
    moreover have "alloc_string_copy (v @ rest) (length v) = alloc_string_copy v (length v)"
      by (simp add: alloc_string_copy_def)
    ultimately show ?thesis unfolding res_set_value_def by (simp only: option.case)
  qed
  ultimately show ?thesis using assms by (simp add: tlv_write_def write_value_def)
qed

lemma resource_element_check:
  assumes "til_id til = k" and "target i k t \<noteq> None"
  shows "tlv_resource_element tlv til i op False t =
    Some (if writable i k t then TlvNone else TlvNotAllowed, t)"
  using assms by (auto simp: tlv_resource_element_def Let_def target_eq writable_eq split: option.split)

lemma target_node:
  assumes "valid_inst i t" and "target i k t = Some j"
  shows "j < length (res_keys i t)" and "get_base (NRes i j) (t_object t) \<noteq> None"
  using assms find_idx_SomeD [of _ "res_keys i t" j]
  by (auto simp: target_def valid_inst_def res_keys_def tree_inst_def)

lemma resource_element_write:
  assumes "valid_inst i t" and "til_id til = k" and "target i k t = Some j"
    and "unat (til_length til) = length v" and "drop (til_offset til) tlv = v @ rest"
    and "til_offset til + length v \<le> length tlv"
  shows "tlv_resource_element tlv til i op True t = Some (TlvNone, write_element i (k, v) t)"
proof -
  have "tlv_write tlv til (NRes i j) t = Some (write_value (NRes i j) v t)"
    by (rule tlv_write_eq [OF assms(4-6) target_node(2) [OF assms(1,3)]])
  then show ?thesis using assms(2,3) by (simp add: tlv_resource_element_def Let_def target_eq write_element_def)
qed

lemma write_element_keys:
  assumes "valid_inst i t"
  shows "valid_inst i (write_element i kv t)" and "res_keys i (write_element i kv t) = res_keys i t"
  using assms write_value_keys [OF assms] target_node(1) [OF assms]
  by (auto simp: write_element_def split: option.split)

lemma write_elements_keys:
  "valid_inst i t \<Longrightarrow> valid_inst i (fold (write_element i) es t) \<and> res_keys i (fold (write_element i) es t) = res_keys i t"
  by (induction es arbitrary: t) (auto simp: write_element_keys)

section \<open>A payload of plain resources\<close>

definition plain :: "u16 \<times> u8 list \<Rightarrow> tlv_element" where
  "plain kv = (TYPE_RESOURCE, fst kv, snd kv)"

definition plain_payload :: "(u16 \<times> u8 list) list \<Rightarrow> u8 list" where
  "plain_payload es = enc_payload (map plain es)"

lemma plain_payload_Cons: "plain_payload (kv # es) = enc_element (plain kv) @ plain_payload es"
  by (simp add: plain_payload_def enc_payload_Cons)

lemma plain_payload_empty: "plain_payload es = [] \<longleftrightarrow> es = []"
  by (cases es) (auto simp: plain_payload_def enc_payload_def plain_def tlv_enc_def tlv_hdr_def)

lemma plain_read:
  assumes "length (snd kv) < 2 ^ 24"
  shows "\<exists>til. til_read (data @ enc_element (plain kv) @ rest) (length data) = Some til \<and>
    til_type til = TYPE_RESOURCE \<and> til_id til = fst kv \<and> unat (til_length til) = length (snd kv) \<and>
    til_next til = length data + length (enc_element (plain kv)) \<and>
    drop (til_offset til) (data @ enc_element (plain kv) @ rest) = snd kv @ rest \<and>
    til_offset til + length (snd kv) = til_next til"
proof -
  have "element_ok (TYPE_RESOURCE, fst kv, snd kv)" using assms by (cases kv) simp
  from til_read_element [OF this, of data rest] show ?thesis unfolding plain_def by blast
qed

lemma check_pass:
  assumes "es \<noteq> []" and "\<forall>kv\<in>set es. length (snd kv) < 2 ^ 24 \<and> target i (fst kv) t \<noteq> None"
  shows "deserialize_resources_from (data @ plain_payload es) (length (data @ plain_payload es)) (length data) i op False t =
    Some (if writable i (fst (last es)) t then TlvNone else TlvNotAllowed, t)"
  using assms
proof (induction es arbitrary: data)
  case (Cons kv es)
  let ?d = "data @ enc_element (plain kv)"
  let ?tlv = "?d @ plain_payload es"
  obtain til where til: "til_read ?tlv (length data) = Some til" "til_type til = TYPE_RESOURCE"
    "til_id til = fst kv" "til_next til = length ?d"
    using plain_read [of kv data "plain_payload es"] Cons.prems by auto
  have el: "tlv_resource_element ?tlv til i op False t =
      Some (if writable i (fst kv) t then TlvNone else TlvNotAllowed, t)"
    using til(3) Cons.prems by (intro resource_element_check) auto
  show ?case
  proof (cases "es = []")
    case True
    then show ?thesis using til el
      by (simp add: plain_payload_Cons deserialize_resources_from.simps plain_payload_def enc_payload_def)
  next
    case False
    then have "deserialize_resources_from ?tlv (length ?tlv) (length ?d) i op False t =
        Some (if writable i (fst (last es)) t then TlvNone else TlvNotAllowed, t)"
      using Cons.IH [of ?d] Cons.prems by simp
    moreover have "length ?d < length ?tlv" using False by (simp add: plain_payload_empty)
    ultimately have "deserialize_resources_from ?tlv (length ?tlv) (length data) i op False t =
        Some (if writable i (fst (last es)) t then TlvNone else TlvNotAllowed, t)"
      using til el by (subst deserialize_resources_from.simps) simp
    then show ?thesis using False by (simp add: plain_payload_Cons)
  qed
qed simp

lemma write_pass:
  assumes "valid_inst i t" and "es \<noteq> []"
    and "\<forall>kv\<in>set es. length (snd kv) < 2 ^ 24 \<and> target i (fst kv) t \<noteq> None"
  shows "deserialize_resources_from (data @ plain_payload es) (length (data @ plain_payload es)) (length data) i op True t =
    Some (TlvNone, fold (write_element i) es t)"
  using assms
proof (induction es arbitrary: data t)
  case (Cons kv es)
  let ?d = "data @ enc_element (plain kv)"
  let ?tlv = "?d @ plain_payload es"
  let ?t1 = "write_element i kv t"
  obtain til where til: "til_read ?tlv (length data) = Some til" "til_type til = TYPE_RESOURCE"
    "til_id til = fst kv" "unat (til_length til) = length (snd kv)" "til_next til = length ?d"
    "drop (til_offset til) ?tlv = snd kv @ plain_payload es" "til_offset til + length (snd kv) = til_next til"
    using plain_read [of kv data "plain_payload es"] Cons.prems by auto
  obtain j where j: "target i (fst kv) t = Some j" using Cons.prems by auto
  have "til_offset til + length (snd kv) \<le> length ?tlv" using til(5,7) by simp
  then have el: "tlv_resource_element ?tlv til i op True t = Some (TlvNone, ?t1)"
    using resource_element_write [OF Cons.prems(1) til(3) j til(4,6)] by simp
  show ?case
  proof (cases "es = []")
    case True
    then show ?thesis using til el
      by (simp add: plain_payload_Cons deserialize_resources_from.simps plain_payload_def enc_payload_def)
  next
    case False
    have k: "valid_inst i ?t1" "res_keys i ?t1 = res_keys i t"
      using write_element_keys [OF Cons.prems(1)] by auto
    then have "target i m ?t1 = target i m t" for m by (simp add: target_def)
    then have "deserialize_resources_from ?tlv (length ?tlv) (length ?d) i op True ?t1 =
        Some (TlvNone, fold (write_element i) es ?t1)"
      using Cons.IH [of ?t1 ?d] Cons.prems False k(1) by simp
    moreover have "length ?d < length ?tlv" using False by (simp add: plain_payload_empty)
    ultimately have "deserialize_resources_from ?tlv (length ?tlv) (length data) i op True t =
        Some (TlvNone, fold (write_element i) es ?t1)"
      using til el by (subst deserialize_resources_from.simps) simp
    then show ?thesis by (simp add: plain_payload_Cons)
  qed
qed simp

lemma tlv_is_plain:
  assumes "es \<noteq> []"
  shows "is_resource (Some (plain_payload es)) = Some True" and "is_multiple_resource (Some (plain_payload es)) = Some False"
proof -
  obtain kv es' where es: "es = kv # es'" using assms by (cases es) auto
  have "rd (plain_payload es) 0 = Some (tlv_type_byte TYPE_RESOURCE (fst kv) (of_nat (length (snd kv))))"
    unfolding es plain_payload_Cons plain_def by (cases kv) (simp add: tlv_enc_def tlv_hdr_def rd_Cons)
  then show "is_resource (Some (plain_payload es)) = Some True"
    "is_multiple_resource (Some (plain_payload es)) = Some False"
    by (simp_all add: is_resource_def is_multiple_resource_def tlv_is_def type_byte_fields(1))
qed

lemma deserialize_plain:
  assumes "valid_inst i t" and "es \<noteq> []"
    and "\<forall>kv\<in>set es. length (snd kv) < 2 ^ 24 \<and> target i (fst kv) t \<noteq> None"
  shows "deserialize_resources (Some (plain_payload es)) (length (plain_payload es)) i op t =
    Some (if writable i (fst (last es)) t then (TlvNone, fold (write_element i) es t) else (TlvNotAllowed, t))"
  using check_pass [OF assms(2,3), of "[]" op] write_pass [OF assms, of "[]" op] tlv_is_plain [OF assms(2)]
  by (simp add: deserialize_resources_def two_passes_def)

section \<open>The values after a write\<close>

lemma write_element_node:
  assumes "valid_inst i t" and "target i (fst kv) t = Some j" and "get_base m (t_object t) = Some b"
  shows "node_frame m (write_element i kv t) =
    Some (if m = NRes i j then (frame_of b)\<lparr>bs_value := stored (snd kv)\<rparr> else frame_of b)"
proof -
  obtain c where c: "get_base (NRes i j) (t_object t) = Some c" using target_node(2) [OF assms(1,2)] by auto
  show ?thesis using write_value_frame [OF c, of m "snd kv"] assms(2,3) c
    by (auto simp: write_element_def node_frame_def)
qed

definition node_value :: "node \<Rightarrow> tree \<Rightarrow> u8 list option option" where
  "node_value n t = map_option bs_value (get_base n (t_object t))"

lemma node_value_frame: "node_value n t = map_option bs_value (node_frame n t)"
  by (simp add: node_value_def node_frame_def option.map_comp comp_def frame_of_def)

lemma write_element_value:
  assumes "valid_inst i t" and "target i (fst kv) t = Some j"
  shows "node_value m (write_element i kv t) = (if m = NRes i j then Some (stored (snd kv)) else node_value m t)"
proof -
  obtain c where c: "get_base (NRes i j) (t_object t) = Some c" using target_node(2) [OF assms] by auto
  show ?thesis using write_value_frame [OF c, of m "snd kv"] assms(2)
    by (simp add: write_element_def node_value_frame)
qed

text \<open>The value of the last element with the number of a resource, or what was there.\<close>

fun last_write :: "nat \<Rightarrow> tree \<Rightarrow> nat \<Rightarrow> (u16 \<times> u8 list) list \<Rightarrow> u8 list option option \<Rightarrow> u8 list option option" where
  "last_write i t j [] v = v"
| "last_write i t j (kv # es) v =
     last_write i t j es (if target i (fst kv) t = Some j then Some (stored (snd kv)) else v)"

lemma write_elements_value:
  assumes "valid_inst i t" and "\<forall>kv\<in>set es. target i (fst kv) t \<noteq> None"
  shows "node_value (NRes i j) (fold (write_element i) es t) = last_write i t j es (node_value (NRes i j) t)"
proof -
  have "valid_inst i t' \<Longrightarrow> res_keys i t' = res_keys i t \<Longrightarrow> \<forall>kv\<in>set es. target i (fst kv) t \<noteq> None \<Longrightarrow>
      node_value (NRes i j) (fold (write_element i) es t') = last_write i t j es (node_value (NRes i j) t')" for t'
  proof (induction es arbitrary: t')
    case (Cons kv es)
    have tg: "target i (fst kv) t' = target i (fst kv) t" using Cons.prems(2) by (simp add: target_def)
    obtain j' where j': "target i (fst kv) t' = Some j'" using Cons.prems(3) tg by auto
    show ?case
      using Cons.IH [of "write_element i kv t'"] write_element_keys [OF Cons.prems(1), of kv] Cons.prems
        write_element_value [OF Cons.prems(1) j', of "NRes i j"] tg j' by auto
  qed simp
  then show ?thesis using assms by blast
qed


section \<open>Properties\<close>

text \<open>C3: a TLV write of existing plain resources to an object instance is answered by its last
  element alone: when the resource of the last element may be written every element is stored, those of
  read-only resources too, and otherwise nothing is and the write is refused.\<close>

theorem tlv_write_last_decides:
  assumes "valid_inst i t" and "es \<noteq> []"
    and "\<forall>kv\<in>set es. length (snd kv) < 2 ^ 24 \<and> target i (fst kv) t \<noteq> None"
  shows "deserialize_resources (Some (plain_payload es)) (length (plain_payload es)) i op t =
    Some (if writable i (fst (last es)) t then (TlvNone, fold (write_element i) es t) else (TlvNotAllowed, t))"
  by (rule deserialize_plain [OF assms])

definition sample_object :: lwm2m_object where
  "sample_object =
     (let ob = fst (create_object_instance 0 (object_new ''9'' ''9'' False));
          oi = o_instances ob ! 0;
          o1 = fst (create_static_resource ''9'' ''1'' [] STRING (Some [65]) 1 False False oi);
          o2 = fst (create_dynamic_resource ''9'' ''2'' [] INTEGER False False False o1);
          o3 = upd_res 1 (upd_r_base (base_set_operation GET_PUT_ALLOWED)) o2
      in ob\<lparr>o_instances := [o3]\<rparr>)"

definition sample_state :: tree where
  "sample_state = \<lparr>t_object = sample_object, t_out = []\<rparr>"

lemma sample_state_inst: "valid_inst 0 sample_state"
proof -
  have "length (o_instances (t_object sample_state)) = 1" by code_simp
  then show ?thesis by (simp add: valid_inst_def)
qed

lemma sample_state_targets: "target 0 1 sample_state = Some 0" "target 0 2 sample_state = Some 1"
  by code_simp+

lemma sample_state_writable: "\<not> writable 0 1 sample_state" "writable 0 2 sample_state"
  by code_simp+

theorem tlv_write_last_decides_witness:
  "deserialize_resources (Some (plain_payload [(1, [66]), (2, [67])])) (length (plain_payload [(1, [66]), (2, [67])]))
     0 TlvPut sample_state = Some (TlvNone, fold (write_element 0) [(1, [66]), (2, [67])] sample_state)"
  using tlv_write_last_decides [OF sample_state_inst, of "[(1, [66]), (2, [67])]" TlvPut] sample_state_targets
    sample_state_writable by simp

text \<open>C31: after an accepted TLV write of existing plain resources each resource of the instance holds
  the value of the last element with its number, no value when that element is empty, and its old value when
  the payload does not name it.\<close>

theorem tlv_write_values:
  assumes "valid_inst i t" and "es \<noteq> []"
    and "\<forall>kv\<in>set es. length (snd kv) < 2 ^ 24 \<and> target i (fst kv) t \<noteq> None"
    and "writable i (fst (last es)) t"
  shows "\<exists>t'. deserialize_resources (Some (plain_payload es)) (length (plain_payload es)) i op t = Some (TlvNone, t') \<and>
    (\<forall>j. node_value (NRes i j) t' = last_write i t j es (node_value (NRes i j) t)) \<and>
    res_keys i t' = res_keys i t"
  using deserialize_plain [OF assms(1-3)] write_elements_value [OF assms(1), of es] assms(3,4)
    write_elements_keys [OF assms(1), of es] by auto

theorem tlv_write_values_witness:
  "\<exists>t'. deserialize_resources (Some (plain_payload [(1, [66]), (2, [67]), (2, [68, 69])]))
       (length (plain_payload [(1, [66]), (2, [67]), (2, [68, 69])])) 0 TlvPut sample_state = Some (TlvNone, t') \<and>
     node_value (NRes 0 0) t' = Some (Some [66]) \<and> node_value (NRes 0 1) t' = Some (Some [68, 69])"
proof -
  have "node_value (NRes 0 1) sample_state = Some None" by code_simp
  then show ?thesis
    using tlv_write_values [OF sample_state_inst, of "[(1, [66]), (2, [67]), (2, [68, 69])]" TlvPut] sample_state_targets
      sample_state_writable by (auto simp: stored_def)
qed

section \<open>Payloads shorter than they say\<close>

lemma truncated_read:
  assumes "length v < n" and "n < 2 ^ 24"
  shows "til_read (tlv_hdr TYPE_RESOURCE k n @ v) 0 =
    Some \<lparr>til_offset = length (tlv_hdr TYPE_RESOURCE k n), til_type = TYPE_RESOURCE, til_id = k, til_length = of_nat n\<rparr>"
  using til_read_hdr [of TYPE_RESOURCE n "[]" k v] assms(2) by simp

text \<open>C32: a TLV write whose element announces more bytes than the payload holds, for a
  resource that may be written, makes the deserializer read past the end of the payload: the length is not
  checked against the size of the payload.\<close>

theorem tlv_truncated_overread:
  assumes "length v < n" and "n < 2 ^ 24" and "target i k t \<noteq> None" and "writable i k t"
  shows "deserialize_resources (Some (tlv_hdr TYPE_RESOURCE k n @ v)) (length (tlv_hdr TYPE_RESOURCE k n @ v)) i op t = None"
proof -
  let ?tlv = "tlv_hdr TYPE_RESOURCE k n @ v"
  let ?til = "\<lparr>til_offset = length (tlv_hdr TYPE_RESOURCE k n), til_type = TYPE_RESOURCE, til_id = k, til_length = of_nat n\<rparr>"
  have u: "unat (of_nat n :: u32) = n" using assms(2) by (rule len_word)
  then have pos: "(0 :: u32) < of_nat n" using assms(1) by (simp add: word_less_nat_alt)
  have r: "til_read ?tlv 0 = Some ?til" using assms(1,2) by (rule truncated_read)
  have nx: "\<not> til_next ?til < length ?tlv" using assms(1) u by (simp add: til_next_def)
  have check: "tlv_resource_element ?tlv ?til i op False t = Some (TlvNone, t)"
    using resource_element_check [of ?til k i t ?tlv op] assms(3,4) by simp
  have wr: "tlv_resource_element ?tlv ?til i op True t = None"
    using assms(1,3) u pos by (auto simp: tlv_resource_element_def Let_def target_eq tlv_write_def split: option.split)
  have "rd ?tlv 0 = Some (tlv_type_byte TYPE_RESOURCE k (of_nat n))" by (simp add: tlv_hdr_def rd_Cons)
  then have k: "is_resource (Some ?tlv) = Some True" "is_multiple_resource (Some ?tlv) = Some False"
    by (simp_all add: is_resource_def is_multiple_resource_def tlv_is_def type_byte_fields(1))
  have "deserialize_resources_from ?tlv (length ?tlv) 0 i op False t = Some (TlvNone, t)"
    using r check nx by (subst deserialize_resources_from.simps) simp
  moreover have "deserialize_resources_from ?tlv (length ?tlv) 0 i op True t = None"
    using r wr by (subst deserialize_resources_from.simps) simp
  ultimately show ?thesis using k by (simp add: deserialize_resources_def two_passes_def)
qed

theorem tlv_truncated_overread_witness:
  "deserialize_resources (Some (tlv_hdr TYPE_RESOURCE 2 200 @ [1])) (length (tlv_hdr TYPE_RESOURCE 2 200 @ [1 :: u8]))
     0 TlvPut sample_state = None"
  by (rule tlv_truncated_overread) (simp_all add: sample_state_targets sample_state_writable)

section \<open>Integers written as TLV\<close>

text \<open>An integer below 2 ^ 56 that the code's own serializer would write for a resource
  (eight bytes, most significant first), sent back as a TLV write, is stored as these bytes, which
  \<open>get_value_int\<close> then reads as 0, whatever the integer is.\<close>

lemma tlv_integer_not_read_back:
  assumes "valid_inst i t" and "target i k t = Some j" and "writable i k t"
    and "0 \<le> sint v" and "sint v < 2 ^ 56"
  shows "\<exists>t' b. deserialize_resources (Some (plain_payload [(k, big_endian64 v)]))
      (length (plain_payload [(k, big_endian64 v)])) i op t = Some (TlvNone, t') \<and>
    get_base (NRes i j) (t_object t') = Some b \<and> bs_value b = Some (big_endian64 v) \<and> res_get_value_int b = 0"
proof -
  have "big_endian64 v = map (\<lambda>m. ucast (drop_bit (8 * (7 - m)) v)) (0 # [1..<8])"
    unfolding big_endian64_def by (simp add: upt_rec)
  then obtain bs where h: "big_endian64 v = ucast (drop_bit 56 v) # bs" by simp
  have "unat v < 2 ^ 56"
  proof -
    have "take_bit LENGTH(64) (sint v) = sint v" by (rule take_bit_int_eq_self) (use assms(4,5) in auto)
    then have "uint v = sint v" by (simp only: uint_sint)
    then show ?thesis using assms(5) by (simp add: unat_eq_nat_uint nat_less_iff)
  qed
  then have "drop_bit 56 v = 0" using small_bits [of v 56] by (intro bit_word_eqI) (auto simp: bit_simps)
  then have z: "big_endian64 v = 0 # bs" using h by simp
  have l: "length (big_endian64 v) < 2 ^ 24" by (simp add: big_endian64_def)
  let ?es = "[(k, big_endian64 v)]"
  have n: "\<forall>kv\<in>set ?es. length (snd kv) < 2 ^ 24 \<and> target i (fst kv) t \<noteq> None" using l assms(2) by simp
  have d: "deserialize_resources (Some (plain_payload ?es)) (length (plain_payload ?es)) i op t =
      Some (TlvNone, fold (write_element i) ?es t)" using deserialize_plain [OF assms(1) _ n] assms(3) by simp
  have "node_value (NRes i j) (fold (write_element i) ?es t) = Some (Some (big_endian64 v))"
    using write_elements_value [OF assms(1), of ?es j] assms(2) z by (simp add: stored_def)
  then obtain b where b: "get_base (NRes i j) (t_object (fold (write_element i) ?es t)) = Some b"
    "bs_value b = Some (big_endian64 v)" by (auto simp: node_value_def)
  have "char_of_byte 0 = NUL" by (simp add: char_of_byte_def char_of_def)
  then have "res_get_value_int b = 0" using b(2) z
    by (simp add: res_get_value_int_def cstr_def atoll_def strto_signed_def strtol_parse_def clamp_def)
  then show ?thesis using d b by blast
qed

lemma tlv_integer_not_read_back_witness:
  "\<exists>t' b. deserialize_resources (Some (plain_payload [(2, big_endian64 1000)]))
      (length (plain_payload [(2, big_endian64 1000)])) 0 TlvPut sample_state = Some (TlvNone, t') \<and>
    get_base (NRes 0 1) (t_object t') = Some b \<and> bs_value b = Some (big_endian64 1000) \<and> res_get_value_int b = 0"
  by (rule tlv_integer_not_read_back [OF sample_state_inst sample_state_targets(2) sample_state_writable(2)]) simp_all

section \<open>A new instance in the wrong resource\<close>

text \<open>
  The loop over the instances of a multiple resource is given the size of the whole payload, so it goes
  on into the elements of the next multiple resource: a POST of two multiple resources with one instance
  each leaves the first with an extra instance that has the number of the second element.
\<close>

definition two_multiples :: tree where
  "two_multiples =
     (let ob = fst (create_object_instance 0 (object_new ''9'' ''9'' False));
          o1 = fst (create_dynamic_resource ''9'' ''1'' [] STRING False True False (o_instances ob ! 0));
          o2 = fst (create_dynamic_resource ''9'' ''2'' [] STRING False True False o1)
      in \<lparr>t_object = ob\<lparr>o_instances := [o2]\<rparr>, t_out = []\<rparr>)"

definition two_multiples_payload :: "u8 list" where
  "two_multiples_payload =
     enc_payload [(TYPE_MULTIPLE_RESOURCE, 1, enc_payload [(TYPE_RESOURCE_INSTANCE, 0, [65])]),
                  (TYPE_MULTIPLE_RESOURCE, 2, enc_payload [(TYPE_RESOURCE_INSTANCE, 0, [66])])]"

lemma tlv_post_spurious_instance:
  "map_option (\<lambda>(e, t). (e, map (\<lambda>r. map (\<lambda>ri. base_instance_id (ri_base ri)) (r_instances r))
       (oi_resources (tree_inst 0 t))))
     (deserialize_resources (Some two_multiples_payload) (length two_multiples_payload) 0 TlvPost two_multiples) =
   Some (TlvNone, [[0, 2], [0]])"
  by code_simp

end
