(* ===== verification/Requests.thy ===== *)
theory Requests
  imports TlvSerializer TlvDeserializer BlockMessage
begin

text \<open>
  The request handlers of the four kinds of nodes: \<open>handle_get_request\<close>, \<open>handle_put_request\<close> and
  \<open>handle_post_request\<close> of \<open>M2MObject\<close>, \<open>M2MObjectInstance\<close>, \<open>M2MResource\<close> and \<open>M2MResourceBase\<close>. The CoAP library
  builds the responses and their option lists, so both are parameters of an environment, with the allocator and the
  64-bit writer of the TLV serializer and the block-wise callbacks of the application. A handler
  returns the response or null, what it did besides (a function executed, a message sent, a block delivered), the flag
  \<open>execute_value_updated\<close> and the tree; a null pointer it reads makes it \<open>None\<close>.
\<close>

section \<open>Responses\<close>

datatype coap_status = STATUS_OK | BLOCKWISE_MSG_RECEIVING | BLOCKWISE_MSG_RECEIVED | STATUS_OTHER nat

datatype coap_msg_type = TYPE_CONFIRMABLE | TYPE_NON_CONFIRMABLE | TYPE_ACKNOWLEDGEMENT | TYPE_RESET

record coap_response =
  rs_code :: coap_code
  rs_type :: coap_msg_type
  rs_id :: u16
  rs_status :: coap_status
  rs_content_format :: int
  rs_token :: "u8 list option"
  rs_payload :: "u8 list option"
  rs_options :: "coap_options option"

datatype request_output =
    Executed node "u8 list option"
  | MessageSent coap_response
  | BlockDelivered node block_message

record coap_env =
  env_build :: "coap_msg option \<Rightarrow> coap_code \<Rightarrow> coap_response option"
  env_options :: "coap_response \<Rightarrow> coap_options option"
  env_alloc :: "nat \<Rightarrow> bool"
  env_wr64 :: "i64 \<Rightarrow> u8 list"
  env_incoming :: "node \<Rightarrow> bool"
  env_outgoing :: "node \<Rightarrow> (string \<Rightarrow> u8 list option) option"

type_synonym answer = "coap_response option \<times> bool \<times> request_output list \<times> tree"

definition COAP_CT_NONE :: int where "COAP_CT_NONE = -1"

definition finish :: "coap_code \<Rightarrow> coap_response option \<Rightarrow> tree \<Rightarrow> answer" where
  "finish code r t = (map_option (\<lambda>r. r\<lparr>rs_code := code\<rparr>) r, False, [], t)"

definition node_allows :: "node \<Rightarrow> u8 \<Rightarrow> tree \<Rightarrow> bool" where
  "node_allows n opr t = with_base n False (\<lambda>b. bs_access b AND opr \<noteq> 0) t"

text \<open>The content type of a request: its own, or TLV where the node prefers it, or 0.\<close>

definition content_type_of :: "coap_msg \<Rightarrow> int" where
  "content_type_of req = (if cm_content_format req \<noteq> COAP_CT_NONE
     then uint (word_of_int (cm_content_format req) :: u16) else 0)"

definition request_content_type :: "node \<Rightarrow> coap_msg \<Rightarrow> tree \<Rightarrow> int" where
  "request_content_type n req t =
     (if cm_content_format req = COAP_CT_NONE \<and>
         with_base n False (\<lambda>b. bs_content_type b = COAP_CONTENT_OMA_TLV_TYPE) t
      then COAP_CONTENT_OMA_TLV_TYPE else content_type_of req)"

definition answer_content_type :: "node \<Rightarrow> int \<Rightarrow> coap_response \<Rightarrow> tree \<Rightarrow> coap_response \<times> tree" where
  "answer_content_type n ct r t =
     (if rs_content_format r = COAP_CT_NONE
      then (r\<lparr>rs_content_format := ct\<rparr>, tree_upd n (\<lambda>b. b\<lparr>bs_content_type := uint (word_of_int ct :: u8)\<rparr>) t)
      else (r, t))"

definition payload_of :: "u8 list \<Rightarrow> u8 list option" where
  "payload_of data = (if data = [] then None else Some data)"

definition options_with_max_age :: "coap_env \<Rightarrow> node \<Rightarrow> coap_response \<Rightarrow> tree \<Rightarrow> coap_response option" where
  "options_with_max_age env n r t = do {
     opts \<leftarrow> env_options env r;
     Some (r\<lparr>rs_options := Some (opts\<lparr>opt_max_age := with_base n 0 bs_max_age t\<rparr>)\<rparr>) }"

section \<open>Observations\<close>

text \<open>What starting and stopping an observation does to a node and those below it.\<close>

definition on_object :: "(lwm2m_object \<Rightarrow> lwm2m_object) \<Rightarrow> tree \<Rightarrow> tree" where
  "on_object f t = t\<lparr>t_object := f (t_object t)\<rparr>"

definition on_instances_of :: "nat \<Rightarrow> nat \<Rightarrow> (resource_instance \<Rightarrow> resource_instance) \<Rightarrow> tree \<Rightarrow> tree" where
  "on_instances_of i j f = on_object (upd_inst i (upd_res j (\<lambda>r. r\<lparr>r_instances := map f (r_instances r)\<rparr>)))"

definition start_observation :: "bool \<Rightarrow> bool \<Rightarrow> node \<Rightarrow> tree \<Rightarrow> tree" where
  "start_observation handler multiple n t =
     (case n of
        NObj \<Rightarrow> on_object (o_add_observation_level O_Attribute) (base_set_under_observation n True handler t)
      | NInst i \<Rightarrow> on_object (upd_inst i (oi_add_observation_level OI_Attribute)) (base_set_under_observation n True handler t)
      | NRes i j \<Rightarrow>
          (if multiple then
             tree_upd n (base_add_observation_level R_Attribute) (base_set_under_observation n True handler
               (on_instances_of i j (ri_add_observation_level R_Attribute) t))
           else tree_upd n (base_add_observation_level R_Attribute) (base_set_under_observation n True handler t))
      | NRinst i j k \<Rightarrow>
          tree_upd n (base_add_observation_level R_Attribute) (base_set_under_observation n True handler t))"

definition stop_observation :: "bool \<Rightarrow> node \<Rightarrow> tree \<Rightarrow> tree" where
  "stop_observation multiple n t =
     (let t1 = base_set_under_observation n False False t
      in case n of
        NObj \<Rightarrow> on_object (o_remove_observation_level O_Attribute) t1
      | NInst i \<Rightarrow> on_object (upd_inst i (oi_remove_observation_level OI_Attribute)) t1
      | NRes i j \<Rightarrow>
          (if multiple then on_instances_of i j (ri_remove_observation_level R_Attribute)
             (tree_upd n (base_remove_observation_level R_Attribute) t1)
           else tree_upd n (base_remove_observation_level R_Attribute) t1)
      | NRinst i j k \<Rightarrow> tree_upd n (base_remove_observation_level R_Attribute) t1)"

definition START_OBSERVATION :: u8 where "START_OBSERVATION = 0"
definition STOP_OBSERVATION :: u8 where "STOP_OBSERVATION = 1"

text \<open>
  The observe option of a GET: a new code for the response or none, the response, the tree. The option has 32 bits, of
  which 8 select the action and all must be 0 to start.
\<close>

definition observe_request ::
  "bool \<Rightarrow> bool \<Rightarrow> node \<Rightarrow> coap_msg \<Rightarrow> coap_response \<Rightarrow> tree \<Rightarrow> coap_code option \<times> coap_response \<times> tree" where
  "observe_request handler multiple n req r t =
     (case cm_options req of None \<Rightarrow> (None, r, t)
      | Some opts \<Rightarrow>
          if opt_observe opts = -1 then (None, r, t)
          else if with_base n False bs_observable t then
            (let observe_option = (word_of_int (opt_observe opts) :: u8);
                 number = (word_of_int (opt_observe opts) :: u32)
             in if observe_option = START_OBSERVATION then
                  (let (r1, t1) = (if number = 0
                         then (let t0 = start_observation handler multiple n t
                               in (r\<lparr>rs_options := map_option (\<lambda>opts. opts\<lparr>opt_observe :=
                                      with_base n 0 (\<lambda>b. uint (base_observation_number b)) t0\<rparr>) (rs_options r)\<rparr>, t0))
                         else (r, t));
                       t2 = (case cm_token req of None \<Rightarrow> t1
                             | Some token \<Rightarrow> tree_upd n (base_set_observation_token token (of_nat (length token))) t1)
                   in (Some COAP_MSG_CODE_RESPONSE_CONTENT, r1, t2))
                else if observe_option = STOP_OBSERVATION
                then (Some COAP_MSG_CODE_RESPONSE_CONTENT, r, stop_observation multiple n t)
                else (Some COAP_MSG_CODE_RESPONSE_CONTENT, r, t))
          else (Some COAP_MSG_CODE_RESPONSE_METHOD_NOT_ALLOWED, r, t))"

definition code_or :: "coap_code \<Rightarrow> coap_code option \<Rightarrow> coap_code" where
  "code_or code c = (case c of None \<Rightarrow> code | Some c \<Rightarrow> c)"

section \<open>GET\<close>

definition object_handle_get :: "coap_env \<Rightarrow> bool \<Rightarrow> coap_msg option \<Rightarrow> tree \<Rightarrow> answer option" where
  "object_handle_get env handler header t =
     (let response = env_build env header COAP_MSG_CODE_RESPONSE_CONTENT in
      case header of None \<Rightarrow> Some (finish COAP_MSG_CODE_RESPONSE_METHOD_NOT_ALLOWED response t)
      | Some req \<Rightarrow>
          if \<not> node_allows NObj GET_ALLOWED t
          then Some (finish COAP_MSG_CODE_RESPONSE_METHOD_NOT_ALLOWED response t)
          else (case response of None \<Rightarrow> Some (finish COAP_MSG_CODE_RESPONSE_CONTENT None t)
            | Some r \<Rightarrow> do {
                let ct = request_content_type NObj req t;
                let (r1, t1) = answer_content_type NObj ct r t;
                let data = (if ct = COAP_CONTENT_OMA_TLV_TYPE
                   then tlv_serialize_instances (env_alloc env) (env_wr64 env) (o_instances (t_object t1)) else []);
                r2 \<leftarrow> options_with_max_age env NObj (r1\<lparr>rs_payload := payload_of data\<rparr>) t1;
                if data \<noteq> [] then
                  (let (c, r3, t2) = observe_request handler False NObj req r2 t1
                   in Some (finish (code_or COAP_MSG_CODE_RESPONSE_CONTENT c) (Some r3) t2))
                else Some (finish COAP_MSG_CODE_RESPONSE_UNSUPPORTED_CONTENT_FORMAT (Some r2) t1) }))"

definition instance_handle_get :: "coap_env \<Rightarrow> bool \<Rightarrow> nat \<Rightarrow> coap_msg option \<Rightarrow> tree \<Rightarrow> answer option" where
  "instance_handle_get env handler i header t =
     (let response = env_build env header COAP_MSG_CODE_RESPONSE_CONTENT in
      case header of None \<Rightarrow> Some (finish COAP_MSG_CODE_RESPONSE_METHOD_NOT_ALLOWED response t)
      | Some req \<Rightarrow>
          if \<not> node_allows (NInst i) GET_ALLOWED t
          then Some (finish COAP_MSG_CODE_RESPONSE_METHOD_NOT_ALLOWED response t)
          else (case response of None \<Rightarrow> Some (finish COAP_MSG_CODE_RESPONSE_CONTENT None t)
            | Some r \<Rightarrow> do {
                let ct = request_content_type (NInst i) req t;
                let (r1, t1) = answer_content_type (NInst i) ct r t;
                let data = (if ct = COAP_CONTENT_OMA_TLV_TYPE
                   then tlv_serialize_resources (env_alloc env) (env_wr64 env) (oi_resources (tree_inst i t1)) else []);
                let r2 = r1\<lparr>rs_payload := payload_of data\<rparr>;
                if data \<noteq> [] then do {
                  r3 \<leftarrow> options_with_max_age env (NInst i) r2 t1;
                  let (c, r4, t2) = observe_request handler False (NInst i) req r3 t1;
                  Some (finish (code_or COAP_MSG_CODE_RESPONSE_CONTENT c) (Some r4) t2) }
                else Some (finish COAP_MSG_CODE_RESPONSE_UNSUPPORTED_CONTENT_FORMAT (Some r2) t1) }))"

fun node_block :: "node \<Rightarrow> tree \<Rightarrow> block_message option" where
  "node_block (NRes i j) t = r_block (tree_res i j t)"
| "node_block (NRinst i j k) t = ri_block (r_instances (tree_res i j t) ! k)"
| "node_block n t = None"

fun upd_block :: "node \<Rightarrow> block_message \<Rightarrow> tree \<Rightarrow> tree" where
  "upd_block (NRes i j) b t = on_object (upd_inst i (upd_res j (\<lambda>r. r\<lparr>r_block := Some b\<rparr>))) t"
| "upd_block (NRinst i j k) b t = on_object (upd_inst i (upd_res j (upd_rinst k (\<lambda>ri. ri\<lparr>ri_block := Some b\<rparr>)))) t"
| "upd_block n b t = t"

text \<open>\<open>M2MResourceBase::handle_get_request\<close>, of resources without instances and of resource instances.\<close>

definition value_payload :: "coap_env \<Rightarrow> node \<Rightarrow> coap_msg \<Rightarrow> tree \<Rightarrow> u8 list option" where
  "value_payload env n req t =
     (case node_block n t of
        Some b \<Rightarrow>
          if bm_is_block_message b then
            (case env_outgoing env n of None \<Rightarrow> None
             | Some callback \<Rightarrow> callback (case cm_uri_path req of None \<Rightarrow> [] | Some p \<Rightarrow> p))
          else with_base n None res_get_value t
      | None \<Rightarrow> with_base n None res_get_value t)"

definition value_content_type :: "base \<Rightarrow> int" where
  "value_content_type b = (if bs_data_type b = OPAQUE then COAP_CONTENT_OMA_OPAQUE_TYPE else 0)"

definition resource_base_handle_get :: "coap_env \<Rightarrow> bool \<Rightarrow> node \<Rightarrow> coap_msg option \<Rightarrow> tree \<Rightarrow> answer option" where
  "resource_base_handle_get env handler n header t =
     (let response = env_build env header COAP_MSG_CODE_RESPONSE_CONTENT in
      case header of None \<Rightarrow> Some (finish COAP_MSG_CODE_RESPONSE_METHOD_NOT_ALLOWED response t)
      | Some req \<Rightarrow>
          if \<not> node_allows n GET_ALLOWED t
          then Some (finish COAP_MSG_CODE_RESPONSE_METHOD_NOT_ALLOWED response t)
          else (case response of None \<Rightarrow> Some (finish COAP_MSG_CODE_RESPONSE_CONTENT None t)
            | Some r \<Rightarrow> do {
                let r1 = r\<lparr>rs_content_format := with_base n 0 value_content_type t, rs_payload := value_payload env n req t\<rparr>;
                r2 \<leftarrow> options_with_max_age env n r1 t;
                let (c, r3, t1) = observe_request handler False n req r2 t;
                Some (finish (code_or COAP_MSG_CODE_RESPONSE_CONTENT c) (Some r3) t1) }))"

definition resource_handle_get :: "coap_env \<Rightarrow> bool \<Rightarrow> nat \<Rightarrow> nat \<Rightarrow> coap_msg option \<Rightarrow> tree \<Rightarrow> answer option" where
  "resource_handle_get env handler i j header t =
     (if \<not> supports_multiple_instances (tree_res i j t) then resource_base_handle_get env handler (NRes i j) header t
      else
        (let response = env_build env header COAP_MSG_CODE_RESPONSE_CONTENT in
         case header of None \<Rightarrow> Some (finish COAP_MSG_CODE_RESPONSE_CONTENT response t)
         | Some req \<Rightarrow>
             if \<not> node_allows (NRes i j) GET_ALLOWED t
             then Some (finish COAP_MSG_CODE_RESPONSE_METHOD_NOT_ALLOWED response t)
             else (case response of None \<Rightarrow> Some (finish COAP_MSG_CODE_RESPONSE_CONTENT None t)
               | Some r \<Rightarrow> do {
                   let ct = request_content_type (NRes i j) req t;
                   let (r1, t1) = answer_content_type (NRes i j) ct r t;
                   let tlv = (ct = COAP_CONTENT_OMA_TLV_TYPE);
                   let data = (if tlv then tlv_serialize_resource (env_alloc env) (env_wr64 env) (tree_res i j t1) else []);
                   let code = (if tlv then COAP_MSG_CODE_RESPONSE_CONTENT
                     else COAP_MSG_CODE_RESPONSE_UNSUPPORTED_CONTENT_FORMAT);
                   r2 \<leftarrow> options_with_max_age env (NRes i j) (r1\<lparr>rs_payload := payload_of data\<rparr>) t1;
                   let (c, r3, t2) = observe_request handler True (NRes i j) req r2 t1;
                   Some (finish (code_or code c) (Some r3) t2) })))"

end
