(* ===== verification/RequestWrites.thy ===== *)
theory RequestWrites
  imports Requests
begin

text \<open>
  PUT and POST on the four kinds of nodes, after \<open>source/m2mobject.cpp\<close>,
  \<open>source/m2mobjectinstance.cpp\<close>, \<open>source/m2mresource.cpp\<close> and \<open>source/m2mresourcebase.cpp\<close>.
\<close>

section \<open>PUT\<close>

definition answer_code :: "coap_code \<Rightarrow> coap_response option \<Rightarrow> bool \<Rightarrow> request_output list \<Rightarrow> tree \<Rightarrow> answer" where
  "answer_code code r updated out t = (map_option (\<lambda>r. r\<lparr>rs_code := code\<rparr>) r, updated, out, t)"

definition uri_query :: "coap_msg \<Rightarrow> string option" where
  "uri_query req = (case cm_options req of None \<Rightarrow> None | Some opts \<Rightarrow> map_option cstr (opt_uri_query opts))"

definition query_code :: "bool \<Rightarrow> coap_code" where
  "query_code success =
     (if success then COAP_MSG_CODE_RESPONSE_CHANGED else COAP_MSG_CODE_RESPONSE_BAD_REQUEST)"

fun tlv_error_code :: "coap_code \<Rightarrow> tlv_error \<Rightarrow> coap_code" where
  "tlv_error_code success TlvNone = success"
| "tlv_error_code success TlvNotFound = COAP_MSG_CODE_RESPONSE_NOT_FOUND"
| "tlv_error_code success TlvNotAllowed = COAP_MSG_CODE_RESPONSE_METHOD_NOT_ALLOWED"
| "tlv_error_code success TlvNotValid = COAP_MSG_CODE_RESPONSE_BAD_REQUEST"

definition object_handle_put :: "coap_env \<Rightarrow> coap_msg option \<Rightarrow> tree \<Rightarrow> answer option" where
  "object_handle_put env header t =
     (let response = env_build env header COAP_MSG_CODE_RESPONSE_CHANGED in
      case header of None \<Rightarrow> Some (finish COAP_MSG_CODE_RESPONSE_METHOD_NOT_ALLOWED response t)
      | Some req \<Rightarrow>
          (case uri_query req of
             None \<Rightarrow> Some (finish COAP_MSG_CODE_RESPONSE_BAD_REQUEST response t)
           | Some query \<Rightarrow> do {
               (success, t1) \<leftarrow> base_handle_observation_attribute NObj query t;
               Some (finish (query_code success) response t1) }))"

definition instance_handle_put :: "coap_env \<Rightarrow> bool \<Rightarrow> nat \<Rightarrow> coap_msg option \<Rightarrow> tree \<Rightarrow> answer option" where
  "instance_handle_put env handler i header t =
     (let response = env_build env header COAP_MSG_CODE_RESPONSE_CHANGED in
      case header of None \<Rightarrow> Some (finish COAP_MSG_CODE_RESPONSE_METHOD_NOT_ALLOWED response t)
      | Some req \<Rightarrow>
          (case uri_query req of
             Some query \<Rightarrow> do {
               (success, t1) \<leftarrow> base_handle_observation_attribute (NInst i) query t;
               Some (finish (query_code success) response t1) }
           | None \<Rightarrow>
               if \<not> node_allows (NInst i) PUT_ALLOWED t
               then Some (finish COAP_MSG_CODE_RESPONSE_METHOD_NOT_ALLOWED response t)
               else if (if response = None \<and> cm_content_format req \<noteq> COAP_CT_NONE then 0
                        else request_content_type (NInst i) req t) \<noteq> COAP_CONTENT_OMA_TLV_TYPE
               then Some (finish COAP_MSG_CODE_RESPONSE_UNSUPPORTED_CONTENT_FORMAT response t)
               else (case cm_payload req of
                   None \<Rightarrow> Some (finish COAP_MSG_CODE_RESPONSE_CHANGED response t)
                 | Some payload \<Rightarrow> do {
                     (error, t1) \<leftarrow> deserialize_resources (Some payload) (length payload) i TlvPut t;
                     Some (finish (tlv_error_code COAP_MSG_CODE_RESPONSE_CHANGED error) response
                       (if error = TlvNone \<and> handler then emit [ValueUpdated (NInst i)] t1 else t1)) })))"

text \<open>The value of a PUT on a resource without instances or a resource instance, with blocks.\<close>

definition put_block :: "coap_env \<Rightarrow> node \<Rightarrow> coap_msg \<Rightarrow> coap_response \<Rightarrow> tree \<Rightarrow>
    (coap_response \<times> request_output list \<times> tree) option" where
  "put_block env n req r t =
     (case node_block n t of None \<Rightarrow> None
      | Some b \<Rightarrow>
          (let b1 = bm_set_message_info (Some req) b
           in if \<not> bm_is_block_message b1 then None
              else
                (let out = (if env_incoming env n then [BlockDelivered n b1] else []);
                     last = bm_is_last_block b1;
                     b2 = (if last then bm_clear_values b1 else b1);
                     b3 = (if bm_error_code b2 \<noteq> ErrorNone then bm_clear_values b2 else b2)
                 in Some (r\<lparr>rs_status := (if last then BLOCKWISE_MSG_RECEIVED else BLOCKWISE_MSG_RECEIVING)\<rparr>,
                      out, upd_block n b3 t))))"

definition put_value :: "coap_env \<Rightarrow> node \<Rightarrow> coap_msg \<Rightarrow> coap_response \<Rightarrow> tree \<Rightarrow>
    coap_response \<times> request_output list \<times> tree" where
  "put_value env n req r t =
     (case put_block env n req r t of
        Some res \<Rightarrow> res
      | None \<Rightarrow>
          (let t1 = (case node_block n t of None \<Rightarrow> t
                     | Some b \<Rightarrow> upd_block n (bm_set_message_info (Some req) b) t)
           in (r, [], fst (res_set_value n (cm_payload req) (payload_len req) t1))))"

definition node_handle_query :: "node \<Rightarrow> string \<Rightarrow> tree \<Rightarrow> (bool \<times> tree) option" where
  "node_handle_query n query t =
     (case n of
        NRes i j \<Rightarrow> resource_handle_observation_attribute i j query t
      | NRinst i j k \<Rightarrow> resource_instance_handle_observation_attribute n query t
      | _ \<Rightarrow> base_handle_observation_attribute n query t)"

definition resource_base_handle_put :: "coap_env \<Rightarrow> bool \<Rightarrow> node \<Rightarrow> coap_msg option \<Rightarrow> tree \<Rightarrow> answer option" where
  "resource_base_handle_put env handler n header t =
     (case (header, env_build env header COAP_MSG_CODE_RESPONSE_CHANGED) of
        (Some req, Some r) \<Rightarrow>
          (case uri_query req of
             Some query \<Rightarrow> do {
               (success, t1) \<leftarrow> node_handle_query n query t;
               Some (finish (query_code success) (Some r) t1) }
           | None \<Rightarrow>
               if \<not> node_allows n PUT_ALLOWED t
               then Some (finish COAP_MSG_CODE_RESPONSE_METHOD_NOT_ALLOWED (Some r) t)
               else if content_type_of req = COAP_CONTENT_OMA_TLV_TYPE
               then Some (finish COAP_MSG_CODE_RESPONSE_UNSUPPORTED_CONTENT_FORMAT (Some r) t)
               else (let (r1, out, t1) = put_value env n req r t
                     in Some (answer_code COAP_MSG_CODE_RESPONSE_CHANGED (Some r1)
                          (cm_payload req \<noteq> None \<and> handler) out t1)))
      | (_, response) \<Rightarrow> Some (finish COAP_MSG_CODE_RESPONSE_METHOD_NOT_ALLOWED response t))"

definition resource_handle_put ::
  "coap_env \<Rightarrow> bool \<Rightarrow> nat \<Rightarrow> nat \<Rightarrow> coap_msg option \<Rightarrow> tree \<Rightarrow> answer option" where
  "resource_handle_put env handler i j header t =
     (if \<not> supports_multiple_instances (tree_res i j t) then resource_base_handle_put env handler (NRes i j) header t
      else
        (let response = env_build env header COAP_MSG_CODE_RESPONSE_CHANGED in
         case header of None \<Rightarrow> Some (finish COAP_MSG_CODE_RESPONSE_METHOD_NOT_ALLOWED response t)
         | Some req \<Rightarrow>
             (case uri_query req of
                Some query \<Rightarrow> do {
                  (success, t1) \<leftarrow> node_handle_query (NRes i j) query t;
                  Some (finish (query_code success) response t1) }
              | None \<Rightarrow>
                  if \<not> node_allows (NRes i j) PUT_ALLOWED t
                  then Some (finish COAP_MSG_CODE_RESPONSE_METHOD_NOT_ALLOWED response t)
                  else if request_content_type (NRes i j)
                      (if response = None then req\<lparr>cm_content_format := COAP_CT_NONE\<rparr> else req) t
                    \<noteq> COAP_CONTENT_OMA_TLV_TYPE
                  then Some (finish COAP_MSG_CODE_RESPONSE_UNSUPPORTED_CONTENT_FORMAT response t)
                  else do {
                    (error, t1) \<leftarrow> deserialize_resource_instances (cm_payload req) (payload_len req) i j TlvPut t;
                    Some (answer_code (tlv_error_code COAP_MSG_CODE_RESPONSE_CHANGED error) response
                      (error = TlvNone \<and> handler) [] t1) })))"

section \<open>POST\<close>

definition MAX_UNINT_16_COUNT :: nat where "MAX_UNINT_16_COUNT = 65535"

text \<open>The first free instance number from a number on.\<close>

function first_free_instance :: "nat \<Rightarrow> lwm2m_object \<Rightarrow> nat option" where
  "first_free_instance instance_id ob =
     (if instance_id > MAX_UNINT_16_COUNT then None
      else if object_instance_of (of_nat instance_id) ob = None then Some instance_id
      else first_free_instance (Suc instance_id) ob)"
  by auto
termination by (relation "measure (\<lambda>(k, ob). Suc MAX_UNINT_16_COUNT - k)") auto

declare first_free_instance.simps [simp del]

definition tree_create_object_instance :: "u16 \<Rightarrow> tree \<Rightarrow> tree \<times> nat option" where
  "tree_create_object_instance instance_id t =
     (let (ob, i) = create_object_instance instance_id (t_object t) in (t\<lparr>t_object := ob\<rparr>, i))"

definition MAX_OBJECT_PATH_NAME :: nat where
  "MAX_OBJECT_PATH_NAME = 255 + 1 + 5 + 1 + 5 + 1"

text \<open>The location of a new instance; without room for it the option stays empty.\<close>

definition object_location :: "string \<Rightarrow> u16 \<Rightarrow> string option" where
  "object_location name instance_id = do {
     let n = MAX_OBJECT_PATH_NAME;
     p0 \<leftarrow> sb_new n;
     if \<not> ensure_space n (length name + (1 + 5 + 1)) p0 then None
     else do {
       p1 \<leftarrow> sb_or_same (sb_append_cstr n name p0);
       p2 \<leftarrow> sb_or_same (sb_append_char n CHR ''/'' p1);
       p3 \<leftarrow> sb_or_same (sb_append_int n instance_id p2);
       sb_str p3 } }"

definition with_location :: "coap_env \<Rightarrow> string option \<Rightarrow> coap_response \<Rightarrow> coap_response" where
  "with_location env location r =
     r\<lparr>rs_options := map_option (\<lambda>opts. case location of None \<Rightarrow> opts
         | Some l \<Rightarrow> opts\<lparr>opt_location_path := Some l\<rparr>) (env_options env r)\<rparr>"

definition object_post_instance ::
  "coap_env \<Rightarrow> bool \<Rightarrow> u8 list \<Rightarrow> u16 \<Rightarrow> bool \<Rightarrow> coap_response option \<Rightarrow> tree \<Rightarrow> answer option" where
  "object_post_instance env handler payload instance_id is_obj_instance response t = do {
     let (t1, obj_instance) = tree_create_object_instance instance_id t;
     let t2 = (case obj_instance of None \<Rightarrow> t1
       | Some i \<Rightarrow> tree_upd (NInst i) (base_set_operation GET_PUT_ALLOWED) t1);
     (error, t3) \<leftarrow>
       (if is_obj_instance then deserialise_object_instances (Some payload) (length payload) TlvPost t2
        else (case obj_instance of None \<Rightarrow> Some (TlvNotValid, t2)
          | Some i \<Rightarrow> do {
              r \<leftarrow> is_resource (Some payload);
              m \<leftarrow> is_multiple_resource (Some payload);
              if r \<or> m then deserialize_resources (Some payload) (length payload) i TlvPost t2
              else Some (TlvNotValid, t2) }));
     if error = TlvNone then do {
       r \<leftarrow> response;
       Some (answer_code COAP_MSG_CODE_RESPONSE_CREATED
         (Some (with_location env (object_location (object_name (t_object t3)) instance_id) r)) handler [] t3) }
     else Some (finish (tlv_error_code COAP_MSG_CODE_RESPONSE_CREATED error) response t3) }"

definition object_handle_post :: "coap_env \<Rightarrow> bool \<Rightarrow> coap_msg option \<Rightarrow> tree \<Rightarrow> answer option" where
  "object_handle_post env handler header t =
     (let response = env_build env header COAP_MSG_CODE_RESPONSE_CHANGED in
      case header of None \<Rightarrow> Some (finish COAP_MSG_CODE_RESPONSE_METHOD_NOT_ALLOWED response t)
      | Some req \<Rightarrow>
          if \<not> node_allows NObj POST_ALLOWED t
          then Some (finish COAP_MSG_CODE_RESPONSE_METHOD_NOT_ALLOWED response t)
          else (case cm_payload req of
            None \<Rightarrow> Some (finish COAP_MSG_CODE_RESPONSE_BAD_REQUEST response t)
          | Some payload \<Rightarrow>
              if (if response = None \<and> cm_content_format req \<noteq> COAP_CT_NONE then 0
                  else request_content_type NObj req t) \<noteq> COAP_CONTENT_OMA_TLV_TYPE
              then Some (finish COAP_MSG_CODE_RESPONSE_UNSUPPORTED_CONTENT_FORMAT response t)
              else (case first_free_instance 0 (t_object t) of
                  None \<Rightarrow> Some (finish COAP_MSG_CODE_RESPONSE_METHOD_NOT_ALLOWED response t)
                | Some free \<Rightarrow> do {
                    is_obj_instance \<leftarrow> is_object_instance (Some payload);
                    instance_id \<leftarrow> (if is_obj_instance then tlv_instance_id payload else Some (of_nat free));
                    if is_obj_instance \<and> object_instance_of instance_id (t_object t) \<noteq> None
                    then Some (finish COAP_MSG_CODE_RESPONSE_BAD_REQUEST response t)
                    else object_post_instance env handler payload instance_id is_obj_instance response t })))"

definition instance_handle_post :: "coap_env \<Rightarrow> bool \<Rightarrow> nat \<Rightarrow> coap_msg option \<Rightarrow> tree \<Rightarrow> answer option" where
  "instance_handle_post env handler i header t =
     (let response = env_build env header COAP_MSG_CODE_RESPONSE_CHANGED in
      case header of None \<Rightarrow> Some (finish COAP_MSG_CODE_RESPONSE_METHOD_NOT_ALLOWED response t)
      | Some req \<Rightarrow>
          if \<not> node_allows (NInst i) POST_ALLOWED t
          then Some (finish COAP_MSG_CODE_RESPONSE_METHOD_NOT_ALLOWED response t)
          else if (if response = None \<and> cm_content_format req \<noteq> COAP_CT_NONE then 0
                   else request_content_type (NInst i) req t) \<noteq> COAP_CONTENT_OMA_TLV_TYPE
          then Some (finish COAP_MSG_CODE_RESPONSE_UNSUPPORTED_CONTENT_FORMAT response t)
          else do {
            (error, t1) \<leftarrow> deserialize_resources (cm_payload req) (payload_len req) i TlvPost t;
            payload \<leftarrow> cm_payload req;
            instance_id \<leftarrow> tlv_instance_id payload;
            case error of
              TlvNone \<Rightarrow> do {
                r \<leftarrow> response;
                (case env_options env r of
                   None \<Rightarrow> Some (answer_code COAP_MSG_CODE_RESPONSE_CREATED (Some (r\<lparr>rs_options := None\<rparr>)) handler [] t1)
                 | Some opts \<Rightarrow> do {
                     (fits, path) \<leftarrow> build_path_3 (object_name (t_object t1))
                       (with_base (NInst i) 0 base_instance_id t1) instance_id;
                     if fits
                     then Some (answer_code COAP_MSG_CODE_RESPONSE_CREATED
                       (Some (r\<lparr>rs_options := Some (opts\<lparr>opt_location_path := Some path\<rparr>)\<rparr>)) handler [] t1)
                     else Some (answer_code COAP_MSG_CODE_RESPONSE_INTERNAL_SERVER_ERROR
                       (Some (r\<lparr>rs_options := Some opts\<rparr>)) handler [] t1) }) }
            | TlvNotFound \<Rightarrow> Some (finish COAP_MSG_CODE_RESPONSE_CHANGED response t1)
            | _ \<Rightarrow> Some (finish (tlv_error_code COAP_MSG_CODE_RESPONSE_CREATED error) response t1) })"

text \<open>A delayed response keeps the token and acknowledges; the value is sent later.\<close>

definition set_delayed_token :: "nat \<Rightarrow> nat \<Rightarrow> u8 list \<Rightarrow> tree \<Rightarrow> tree" where
  "set_delayed_token i j token = on_object (upd_inst i (upd_res j (\<lambda>r. r\<lparr>r_delayed_token := Some token\<rparr>)))"

definition execute_value :: "coap_msg \<Rightarrow> u8 list option" where
  "execute_value req = (if cm_payload req \<noteq> None \<and> content_type_of req = 0 then cm_payload req else None)"

definition resource_handle_post :: "coap_env \<Rightarrow> nat \<Rightarrow> nat \<Rightarrow> coap_msg option \<Rightarrow> tree \<Rightarrow> answer option" where
  "resource_handle_post env i j header t =
     (let response = env_build env header COAP_MSG_CODE_RESPONSE_CHANGED; n = NRes i j in
      case header of None \<Rightarrow> Some (finish COAP_MSG_CODE_RESPONSE_METHOD_NOT_ALLOWED response t)
      | Some req \<Rightarrow>
          if \<not> node_allows n POST_ALLOWED t
          then Some (finish COAP_MSG_CODE_RESPONSE_METHOD_NOT_ALLOWED response t)
          else if cm_payload req \<noteq> None \<and> content_type_of req \<noteq> 0
          then Some (finish COAP_MSG_CODE_RESPONSE_UNSUPPORTED_CONTENT_FORMAT response t)
          else do {
            r \<leftarrow> response;
            if r_delayed_response (tree_res i j t) then
              (let ack = r\<lparr>rs_type := TYPE_ACKNOWLEDGEMENT, rs_code := COAP_MSG_CODE_EMPTY, rs_id := cm_id req\<rparr>
               in case cm_token req of
                    Some (b # bs) \<Rightarrow> Some (Some ack, False, [MessageSent ack, Executed n (execute_value req)],
                      set_delayed_token i j (b # bs) t)
                  | _ \<Rightarrow> Some (Some ack, False, [Executed n (execute_value req)], t))
            else Some (answer_code COAP_MSG_CODE_RESPONSE_CHANGED
              (Some (r\<lparr>rs_payload := with_base n None res_get_value t\<rparr>)) False [Executed n (execute_value req)] t) })"

section \<open>Dispatch\<close>

text \<open>
  The virtual calls of \<open>M2MNsdlInterface::resource_callback\<close>. \<open>M2MResourceInstance\<close> does not override the
  POST of \<open>M2MBase\<close>, which is not called for it.
\<close>

definition handle_get :: "coap_env \<Rightarrow> bool \<Rightarrow> node \<Rightarrow> coap_msg option \<Rightarrow> tree \<Rightarrow> answer option" where
  "handle_get env handler n header t =
     (case n of
        NObj \<Rightarrow> object_handle_get env handler header t
      | NInst i \<Rightarrow> instance_handle_get env handler i header t
      | NRes i j \<Rightarrow> resource_handle_get env handler i j header t
      | NRinst i j k \<Rightarrow> resource_base_handle_get env handler n header t)"

definition handle_put :: "coap_env \<Rightarrow> bool \<Rightarrow> node \<Rightarrow> coap_msg option \<Rightarrow> tree \<Rightarrow> answer option" where
  "handle_put env handler n header t =
     (case n of
        NObj \<Rightarrow> object_handle_put env header t
      | NInst i \<Rightarrow> instance_handle_put env handler i header t
      | NRes i j \<Rightarrow> resource_handle_put env handler i j header t
      | NRinst i j k \<Rightarrow> resource_base_handle_put env handler n header t)"

definition handle_post :: "coap_env \<Rightarrow> bool \<Rightarrow> node \<Rightarrow> coap_msg option \<Rightarrow> tree \<Rightarrow> answer option" where
  "handle_post env handler n header t =
     (case n of
        NObj \<Rightarrow> object_handle_post env handler header t
      | NInst i \<Rightarrow> instance_handle_post env handler i header t
      | NRes i j \<Rightarrow> resource_handle_post env i j header t
      | NRinst i j k \<Rightarrow> Some (None, False, [], t))"

end
