(* ===== verification/RequestSpec.thy ===== *)
theory RequestSpec
  imports RequestWrites ReportHandlerSpec
begin

text \<open>
  Properties of the request handlers: requests a node does not allow, what a read leaves alone, a write that is read
  back, the observations that reads start and stop, queries that are refused, and failed creations.
\<close>

section \<open>Refused requests\<close>

text \<open>C27: a request a node does not allow is answered with 4.05 and changes nothing, on every kind of
  node: GET on all four, PUT without a query below the object, POST above the resource instances. An object
  takes no PUT without a query at all and answers it with 4.00.\<close>

theorem refused_request_frame:
  "(\<not> node_allows n GET_ALLOWED t \<longrightarrow> handle_get env handler n (Some req) t =
      Some (finish COAP_MSG_CODE_RESPONSE_METHOD_NOT_ALLOWED
        (env_build env (Some req) COAP_MSG_CODE_RESPONSE_CONTENT) t)) \<and>
   (\<not> node_allows n PUT_ALLOWED t \<and> uri_query req = None \<and> n \<noteq> NObj \<longrightarrow> handle_put env handler n (Some req) t =
      Some (finish COAP_MSG_CODE_RESPONSE_METHOD_NOT_ALLOWED
        (env_build env (Some req) COAP_MSG_CODE_RESPONSE_CHANGED) t)) \<and>
   (uri_query req = None \<longrightarrow> handle_put env handler NObj (Some req) t =
      Some (finish COAP_MSG_CODE_RESPONSE_BAD_REQUEST (env_build env (Some req) COAP_MSG_CODE_RESPONSE_CHANGED) t)) \<and>
   (\<not> node_allows n POST_ALLOWED t \<and> (\<forall>i j k. n \<noteq> NRinst i j k) \<longrightarrow> handle_post env handler n (Some req) t =
      Some (finish COAP_MSG_CODE_RESPONSE_METHOD_NOT_ALLOWED
        (env_build env (Some req) COAP_MSG_CODE_RESPONSE_CHANGED) t))"
proof (intro conjI impI)
  assume "\<not> node_allows n GET_ALLOWED t"
  then show "handle_get env handler n (Some req) t = Some (finish COAP_MSG_CODE_RESPONSE_METHOD_NOT_ALLOWED
      (env_build env (Some req) COAP_MSG_CODE_RESPONSE_CONTENT) t)"
    by (cases n) (simp_all add: handle_get_def object_handle_get_def instance_handle_get_def resource_handle_get_def
        resource_base_handle_get_def)
next
  assume "\<not> node_allows n PUT_ALLOWED t \<and> uri_query req = None \<and> n \<noteq> NObj"
  then show "handle_put env handler n (Some req) t = Some (finish COAP_MSG_CODE_RESPONSE_METHOD_NOT_ALLOWED
      (env_build env (Some req) COAP_MSG_CODE_RESPONSE_CHANGED) t)"
    by (cases n) (simp_all add: handle_put_def instance_handle_put_def resource_handle_put_def
        resource_base_handle_put_def split: option.split)
next
  assume "uri_query req = None"
  then show "handle_put env handler NObj (Some req) t =
      Some (finish COAP_MSG_CODE_RESPONSE_BAD_REQUEST (env_build env (Some req) COAP_MSG_CODE_RESPONSE_CHANGED) t)"
    by (simp add: handle_put_def object_handle_put_def)
next
  assume "\<not> node_allows n POST_ALLOWED t \<and> (\<forall>i j k. n \<noteq> NRinst i j k)"
  then show "handle_post env handler n (Some req) t = Some (finish COAP_MSG_CODE_RESPONSE_METHOD_NOT_ALLOWED
      (env_build env (Some req) COAP_MSG_CODE_RESPONSE_CHANGED) t)"
    by (cases n) (simp_all add: handle_post_def object_handle_post_def instance_handle_post_def resource_handle_post_def)
qed

text \<open>A CoAP library that always has a response, for the witnesses.\<close>

definition sample_options :: coap_options where
  "sample_options = \<lparr>opt_observe = -1, opt_uri_query = None, opt_block1 = -1, opt_use_size1 = False, opt_size1 = 0,
     opt_max_age = 60, opt_location_path = None\<rparr>"

definition sample_env :: coap_env where
  "sample_env = \<lparr>env_build = (\<lambda>header code. Some \<lparr>rs_code = code, rs_type = TYPE_ACKNOWLEDGEMENT,
       rs_id = (case header of None \<Rightarrow> 0 | Some req \<Rightarrow> cm_id req), rs_status = STATUS_OK, rs_content_format = COAP_CT_NONE,
       rs_token = None, rs_payload = None, rs_options = None\<rparr>),
     env_options = (\<lambda>r. Some sample_options), env_alloc = (\<lambda>n. True), env_wr64 = (\<lambda>v. replicate 8 0),
     env_incoming = (\<lambda>n. False), env_outgoing = (\<lambda>n. None)\<rparr>"

definition sample_request :: "coap_code \<Rightarrow> u8 list option \<Rightarrow> int \<Rightarrow> coap_msg" where
  "sample_request code payload observe = \<lparr>cm_code = code, cm_id = 7, cm_content_format = COAP_CT_NONE,
     cm_uri_path = Some ''9/0/1'', cm_token = Some [1, 2], cm_payload = payload,
     cm_options = Some (sample_options\<lparr>opt_observe := observe\<rparr>)\<rparr>"

lemma sample_tree_allows: "\<not> node_allows (NRes 0 0) opr sample_tree"
  by (simp add: node_allows_def with_base_def sample_tree_node base_new_def del: get_base.simps)

theorem refused_request_frame_witness:
  "handle_get sample_env True (NRes 0 0) (Some (sample_request COAP_MSG_CODE_REQUEST_GET None 0)) sample_tree =
     Some (finish COAP_MSG_CODE_RESPONSE_METHOD_NOT_ALLOWED
       (env_build sample_env (Some (sample_request COAP_MSG_CODE_REQUEST_GET None 0)) COAP_MSG_CODE_RESPONSE_CONTENT) sample_tree)"
  using conjunct1 [OF refused_request_frame] sample_tree_allows by blast

section \<open>What a GET leaves alone\<close>

text \<open>What a view of the nodes tells of one of them. A GET may add and remove observation levels, keep a token,
  remember a content type and report values; \<open>base_view\<close> is what a view has to overlook for a GET to leave it alone,
  but for the report handler that a GET deletes when it ends an observation.\<close>

definition node_view :: "(base \<Rightarrow> 'v) \<Rightarrow> node \<Rightarrow> tree \<Rightarrow> 'v option" where
  "node_view g m t = map_option g (get_base m (t_object t))"

lemma tree_upd_view: "(\<And>b. g (f b) = g b) \<Longrightarrow> node_view g m (tree_upd n f t) = node_view g m t"
  by (cases "m = n") (simp_all add: node_view_def tree_upd_def getset_simps option.map_comp comp_def)

lemma on_instances_of_view:
  "(\<And>ri. g (ri_base (f ri)) = g (ri_base ri)) \<Longrightarrow> node_view g m (on_instances_of i j f t) = node_view g m t"
  by (cases m) (auto simp: node_view_def on_instances_of_def on_object_def upd_defs nth_update_at)

lemma set_handler_get: "get_base m (t_object (base_set_observation_handler h t)) = get_base m (t_object t)"
  by (cases m) (simp_all add: base_set_observation_handler_def)

lemma on_report_other_node: "m \<noteq> n \<Longrightarrow> get_base m (t_object (on_report n f t)) = get_base m (t_object t)"
  by (simp add: on_report_get)

locale base_view =
  fixes view :: "base \<Rightarrow> 'v"
  assumes add_level: "view (base_add_observation_level l b) = view b"
    and remove_level: "view (base_remove_observation_level l b) = view b"
    and set_token: "view (base_set_observation_token tok len b) = view b"
    and set_type: "view (b\<lparr>bs_content_type := ct\<rparr>) = view b"
    and set_observed: "bs_report b = Some h \<Longrightarrow> view (b\<lparr>bs_report := Some (fst (rh_set_under_observation True h))\<rparr>) = view b"
    and reported: "bs_report b = None \<Longrightarrow> view (b\<lparr>bs_report := Some rh_new\<rparr>) = view b"
begin

lemma view_levels:
  "node_view view m (on_object (o_add_observation_level l) t) = node_view view m t"
  "node_view view m (on_object (o_remove_observation_level l) t) = node_view view m t"
  "node_view view m (on_object (upd_inst i (oi_add_observation_level l)) t) = node_view view m t"
  "node_view view m (on_object (upd_inst i (oi_remove_observation_level l)) t) = node_view view m t"
  by (cases m; auto simp: node_view_def on_object_def o_add_observation_level_def o_remove_observation_level_def
      oi_add_observation_level_def oi_remove_observation_level_def r_add_observation_level_def r_remove_observation_level_def
      ri_add_observation_level_def ri_remove_observation_level_def upd_defs Let_def nth_update_at add_level remove_level)+

lemma view_updates:
  "node_view view m (tree_upd n (base_add_observation_level l) t) = node_view view m t"
  "node_view view m (tree_upd n (base_remove_observation_level l) t) = node_view view m t"
  "node_view view m (tree_upd n (base_set_observation_token tok len) t) = node_view view m t"
  "node_view view m (tree_upd n (\<lambda>b. b\<lparr>bs_content_type := ct\<rparr>) t) = node_view view m t"
  "node_view view m (on_instances_of i j (ri_add_observation_level l) t) = node_view view m t"
  "node_view view m (on_instances_of i j (ri_remove_observation_level l) t) = node_view view m t"
  by (simp_all add: tree_upd_view on_instances_of_view add_level remove_level set_token set_type
      ri_add_observation_level_def ri_remove_observation_level_def upd_ri_base_def)

lemma observed_view: "node_view view m (on_report n (rh_set_under_observation True) t) = node_view view m t"
proof -
  have "view (b\<lparr>bs_report := map_option (\<lambda>h. fst (rh_set_under_observation True h)) (bs_report b)\<rparr>) = view b" for b
  proof (cases "bs_report b")
    case None
    then have "b\<lparr>bs_report := None\<rparr> = b" by (cases b) simp
    then show ?thesis by (simp only: None option.map)
  qed (simp add: set_observed)
  then show ?thesis by (simp add: node_view_def on_report_get option.map_comp comp_def)
qed

lemma reported_view: "node_view view m (create_report_handler n t) = node_view view m t"
  unfolding create_report_handler_def by (rule tree_upd_view) (simp add: reported split: option.split)

lemma framed: "base_view (\<lambda>b. view (frame_of b))"
proof -
  have "frame_of (b\<lparr>bs_content_type := ct\<rparr>) = (frame_of b)\<lparr>bs_content_type := ct\<rparr>" for b ct by (simp add: frame_of_def)
  then have "view (frame_of (b\<lparr>bs_content_type := ct\<rparr>)) = view (frame_of b)" for b ct by (simp add: set_type)
  then show ?thesis
    by unfold_locales (simp_all add: frame_of_def base_add_observation_level_def base_remove_observation_level_def
        base_set_observation_token_def)
qed

text \<open>Observing with a handler keeps the view of every node; without one the node loses its report handler.\<close>

lemma under_observation_view:
  assumes "observed \<or> \<not> handler"
  shows "node_view view m (base_set_under_observation n observed handler t) =
    (if m = n \<and> \<not> handler then node_view (\<lambda>b. view (frame_of b)) m t else node_view view m t)"
proof (cases handler)
  case True
  then have "observed" using assms by simp
  moreover have "node_view view m (base_set_observation_handler True s) = node_view view m s" for s
    by (simp add: node_view_def set_handler_get)
  ultimately show ?thesis using True
    by (simp add: base_set_under_observation_def Let_def observed_view reported_view)
next
  case False
  show ?thesis
  proof (cases "m = n")
    case True
    have "node_view view n (base_set_under_observation n observed handler t) =
        map_option view (node_frame n (on_report n (rh_set_under_observation observed) t))"
      using False by (simp add: base_set_under_observation_def Let_def node_view_def node_frame_def tree_upd_def getset_simps
          set_handler_get option.map_comp comp_def frame_of_def)
    also have "\<dots> = node_view (\<lambda>b. view (frame_of b)) n t"
      unfolding on_report_frame by (simp add: node_view_def node_frame_def option.map_comp comp_def)
    finally show ?thesis using False True by simp
  next
    case other: False
    then show ?thesis using False
      by (simp add: base_set_under_observation_def Let_def node_view_def tree_upd_def getset_simps
          set_handler_get on_report_other_node)
  qed
qed

lemma start_observation_view:
  "node_view view m (start_observation handler multiple n t) =
    (if m = n \<and> \<not> handler then node_view (\<lambda>b. view (frame_of b)) m t else node_view view m t)"
  by (cases n) (simp_all add: start_observation_def view_levels view_updates under_observation_view
      base_view.view_updates [OF framed])

lemma stop_observation_view:
  "node_view view m (stop_observation multiple n t) =
    (if m = n then node_view (\<lambda>b. view (frame_of b)) m t else node_view view m t)"
  by (cases n) (simp_all add: stop_observation_def Let_def view_levels view_updates under_observation_view)

end

text \<open>A GET ends an observation when its observe option says so, or when the node has nobody to observe it for.\<close>

definition ends_observation :: "bool \<Rightarrow> coap_msg option \<Rightarrow> bool" where
  "ends_observation handler header =
     (case header of None \<Rightarrow> False
      | Some req \<Rightarrow> (case cm_options req of None \<Rightarrow> False
          | Some opts \<Rightarrow> opt_observe opts \<noteq> -1 \<and>
              ((word_of_int (opt_observe opts) :: u8) = STOP_OBSERVATION \<or>
               (word_of_int (opt_observe opts) :: u32) = 0 \<and> \<not> handler)))"

definition kept_or_reset :: "(base \<Rightarrow> 'v) \<Rightarrow> bool \<Rightarrow> node \<Rightarrow> coap_msg option \<Rightarrow> node \<Rightarrow> tree \<Rightarrow> tree \<Rightarrow> bool" where
  "kept_or_reset g handler n header m t t' \<longleftrightarrow> node_view g m t' = node_view g m t \<or>
     m = n \<and> ends_observation handler header \<and> node_view g m t' = node_view (\<lambda>b. g (frame_of b)) m t"

context base_view
begin

lemma observe_request_view:
  "kept_or_reset view handler n (Some req) m t (snd (snd (observe_request handler multiple n req r t)))"
  by (auto simp: kept_or_reset_def ends_observation_def observe_request_def Let_def view_updates start_observation_view
      stop_observation_view split: option.split)

lemma answer_content_type_view: "node_view view m (snd (answer_content_type n ct r t)) = node_view view m t"
  by (simp add: answer_content_type_def view_updates)

lemma observe_answered_view:
  "kept_or_reset view handler n (Some req) m t
     (snd (snd (observe_request handler multiple n req r' (snd (answer_content_type n ct r t)))))"
  using observe_request_view [of handler n req m "snd (answer_content_type n ct r t)" multiple r']
  by (simp add: kept_or_reset_def answer_content_type_view base_view.answer_content_type_view [OF framed])

lemma kept_same: "kept_or_reset view handler n header m t t"
  and kept_answered: "kept_or_reset view handler n header m t (snd (answer_content_type n' ct r t))"
  by (simp_all add: kept_or_reset_def answer_content_type_view)

lemmas get_views = observe_request_view observe_answered_view kept_same kept_answered

lemma resource_base_handle_get_view:
  "resource_base_handle_get env handler n header t = Some (r, u, out, t') \<Longrightarrow> kept_or_reset view handler n header m t t'"
  using get_views
  by (auto simp: resource_base_handle_get_def finish_def Let_def split_beta split: option.splits if_splits bind_splits)

lemma handle_get_view:
  assumes "handle_get env handler n header t = Some (r, updated, out, t')"
  shows "kept_or_reset view handler n header m t t'"
proof (cases n)
  case NObj
  then show ?thesis using assms get_views
    by (auto simp: handle_get_def object_handle_get_def finish_def Let_def split_beta split: option.splits if_splits bind_splits)
next
  case (NInst i)
  then show ?thesis using assms get_views
    by (auto simp: handle_get_def instance_handle_get_def finish_def Let_def split_beta split: option.splits if_splits bind_splits)
next
  case (NRes i j)
  show ?thesis
  proof (cases "supports_multiple_instances (tree_res i j t)")
    case True
    then show ?thesis using assms NRes get_views
      by (auto simp: handle_get_def resource_handle_get_def finish_def Let_def split_beta
          split: option.splits if_splits bind_splits)
  next
    case False
    then have "resource_base_handle_get env handler (NRes i j) header t = Some (r, updated, out, t')"
      using assms NRes by (simp add: handle_get_def resource_handle_get_def)
    then show ?thesis unfolding NRes by (rule resource_base_handle_get_view)
  qed
next
  case (NRinst i j k)
  then have "resource_base_handle_get env handler n header t = Some (r, updated, out, t')"
    using assms by (simp add: handle_get_def)
  then show ?thesis by (rule resource_base_handle_get_view)
qed

end

text \<open>Everything of a node but its report handler and its content type.\<close>

definition content_of :: "base \<Rightarrow> base" where
  "content_of b = b\<lparr>bs_report := None, bs_content_type := 0\<rparr>"

definition node_content :: "node \<Rightarrow> tree \<Rightarrow> base option" where
  "node_content m t = map_option content_of (get_base m (t_object t))"

text \<open>The notification attributes, which are in the report handler: a node without one has those of a new one.\<close>

definition attributes_of :: "base \<Rightarrow> u8 \<times> i32 \<times> i32 \<times> cfloat \<times> cfloat \<times> cfloat \<times> cfloat \<times> cfloat" where
  "attributes_of b = rh_attributes (case bs_report b of None \<Rightarrow> rh_new | Some h \<Rightarrow> h)"

definition node_attributes :: "node \<Rightarrow> tree \<Rightarrow> (u8 \<times> i32 \<times> i32 \<times> cfloat \<times> cfloat \<times> cfloat \<times> cfloat \<times> cfloat) option" where
  "node_attributes m t = map_option attributes_of (get_base m (t_object t))"

lemma content_of_frame: "content_of (frame_of b) = content_of b"
  by (simp add: content_of_def frame_of_def)

lemma attributes_of_frame: "attributes_of (frame_of b) = rh_attributes rh_new"
  by (simp add: attributes_of_def frame_of_def)

interpretation content: base_view content_of
  by unfold_locales (simp_all add: content_of_def base_add_observation_level_def base_remove_observation_level_def
      base_set_observation_token_def)

interpretation attributes: base_view attributes_of
  by unfold_locales (simp_all add: attributes_of_def rh_attributes_def base_add_observation_level_def
      base_remove_observation_level_def base_set_observation_token_def rh_add_observation_level_def
      rh_remove_observation_level_def rh_set_observation_token_def rh_set_under_observation_def rh_stop_timers_def
      rh_handle_timers_def Let_def split: option.split)

text \<open>What the handlers rely on in the CoAP library: it has memory for a response and its options.\<close>

definition env_serves :: "coap_env \<Rightarrow> bool" where
  "env_serves env \<longleftrightarrow> (\<forall>header code. env_build env header code \<noteq> None) \<and> (\<forall>r. env_options env r \<noteq> None)"

lemma resource_base_handle_get_pure:
  "resource_base_handle_get env handler n header t = Some (r, u, out, t') \<Longrightarrow>
     \<not> u \<and> out = [] \<and> (env_serves env \<longrightarrow> r \<noteq> None)"
  by (auto simp: resource_base_handle_get_def finish_def Let_def split_beta env_serves_def
      split: option.splits if_splits bind_splits)

lemma handle_get_pure:
  assumes "handle_get env handler n header t = Some (r, updated, out, t')"
  shows "\<not> updated \<and> out = [] \<and> (env_serves env \<longrightarrow> r \<noteq> None)"
proof (cases n)
  case (NRes i j)
  show ?thesis
  proof (cases "supports_multiple_instances (tree_res i j t)")
    case True
    then show ?thesis using assms NRes
      by (auto simp: handle_get_def resource_handle_get_def finish_def Let_def split_beta env_serves_def
          split: option.splits if_splits bind_splits)
  next
    case False
    then have "resource_base_handle_get env handler (NRes i j) header t = Some (r, updated, out, t')"
      using assms NRes by (simp add: handle_get_def resource_handle_get_def)
    then show ?thesis by (rule resource_base_handle_get_pure)
  qed
next
  case (NRinst i j k)
  then have "resource_base_handle_get env handler n header t = Some (r, updated, out, t')"
    using assms by (simp add: handle_get_def)
  then show ?thesis by (rule resource_base_handle_get_pure)
qed (use assms in \<open>auto simp: handle_get_def object_handle_get_def instance_handle_get_def finish_def Let_def split_beta
    env_serves_def split: option.splits if_splits bind_splits\<close>)

lemma handle_get_content:
  assumes "handle_get env handler n header t = Some (r, updated, out, t')"
  shows "node_content m t' = node_content m t \<and> \<not> updated \<and> out = []"
  using content.handle_get_view [OF assms, of m] handle_get_pure [OF assms]
  by (auto simp: kept_or_reset_def node_view_def node_content_def content_of_frame)

lemma handle_get_attributes:
  assumes "handle_get env handler n header t = Some (r, updated, out, t')"
  shows "node_attributes m t' = node_attributes m t \<or>
    m = n \<and> ends_observation handler header \<and> node_attributes m t' = map_option (\<lambda>b. rh_attributes rh_new) (get_base m (t_object t))"
  using attributes.handle_get_view [OF assms, of m]
  by (auto simp: kept_or_reset_def node_view_def node_attributes_def attributes_of_frame)

text \<open>A tree with one observable resource that may be read, written and executed.\<close>

definition open_tree :: tree where
  "open_tree = tree_upd (NRes 0 0) (\<lambda>b. b\<lparr>bs_access := GET_PUT_POST_DELETE_ALLOWED, bs_observable := True\<rparr>) sample_tree"

lemma open_tree_node: "get_base (NRes 0 0) (t_object open_tree) =
    Some ((base_new ''1'' Dynamic '''' ''9/0/1'' False False INTEGER BT_Resource)
      \<lparr>bs_access := GET_PUT_POST_DELETE_ALLOWED, bs_observable := True\<rparr>)"
  unfolding open_tree_def by (simp add: tree_upd_def getset_simps sample_tree_node del: get_base.simps upd_base.simps)

lemma open_tree_resource: "r_block (tree_res 0 0 open_tree) = None" "r_instances (tree_res 0 0 open_tree) = []"
  "\<not> supports_multiple_instances (tree_res 0 0 open_tree)"
  by (simp_all add: open_tree_def tree_res_def tree_inst_def tree_upd_def upd_defs update_at_def sample_tree_def Let_def
      supports_multiple_instances_def base_new_def)

named_theorems defined_intros "rules for computations that read no null pointer"

lemma defined_Some [defined_intros]: "Some a \<noteq> None"
  and defined_bind [defined_intros]: "x1 \<noteq> None \<Longrightarrow> (\<And>a. f1 a \<noteq> None) \<Longrightarrow> Option.bind x1 f1 \<noteq> None"
  and defined_if [defined_intros]: "(b \<Longrightarrow> x2 \<noteq> None) \<Longrightarrow> (\<not> b \<Longrightarrow> y2 \<noteq> None) \<Longrightarrow> (if b then x2 else y2) \<noteq> None"
  and defined_case [defined_intros]: "x3 \<noteq> None \<Longrightarrow> (\<And>a. c = Some a \<Longrightarrow> f3 a \<noteq> None) \<Longrightarrow>
     (case c of None \<Rightarrow> x3 | Some a \<Rightarrow> f3 a) \<noteq> None"
  and defined_pair [defined_intros]: "(\<And>a b. g a b \<noteq> None) \<Longrightarrow> (case pr of (a, b) \<Rightarrow> g a b) \<noteq> None"
  by (auto split: option.split prod.split)

lemma options_served: "env_serves env \<Longrightarrow> options_with_max_age env n r t \<noteq> None"
  unfolding options_with_max_age_def Let_def env_serves_def by (intro defined_intros) blast

lemma handle_get_defined:
  assumes "env_serves env"
  shows "handle_get env handler n header t \<noteq> None"
proof -
  note o = options_served [OF assms]
  have b: "resource_base_handle_get env handler n' header t \<noteq> None" for n'
    unfolding resource_base_handle_get_def Let_def by (intro defined_intros o)
  have "object_handle_get env handler header t \<noteq> None" unfolding object_handle_get_def Let_def by (intro defined_intros o)
  moreover have "instance_handle_get env handler i header t \<noteq> None" for i
    unfolding instance_handle_get_def Let_def by (intro defined_intros o)
  moreover have "resource_handle_get env handler i j header t \<noteq> None" for i j
    unfolding resource_handle_get_def Let_def by (intro defined_intros o b)
  ultimately show ?thesis using b by (cases n) (simp_all add: handle_get_def del: not_None_eq)
qed

text \<open>C26: where the CoAP library has memory, every GET is answered, without reading a null pointer; it executes
  no function and updates no value. Of every node of the tree it leaves all but the content type and the report
  handler, and of the report handler the notification attributes: only a GET that ends an observation may put the
  attributes of the node it is for back to the defaults, with the handler it deletes.\<close>

theorem get_preserves_content:
  assumes "env_serves env"
  shows "\<exists>r t'. handle_get env handler n header t = Some (Some r, False, [], t') \<and>
    node_content m t' = node_content m t \<and>
    (node_attributes m t' = node_attributes m t \<or>
     m = n \<and> ends_observation handler header \<and>
       node_attributes m t' = map_option (\<lambda>b. rh_attributes rh_new) (get_base m (t_object t)))"
proof -
  obtain r u out t' where g: "handle_get env handler n header t = Some (r, u, out, t')"
    using handle_get_defined [OF assms] by (metis not_None_eq prod_cases4)
  then show ?thesis
    using handle_get_content [OF g, of m] handle_get_attributes [OF g, of m] handle_get_pure [OF g] assms by auto
qed

lemma sample_env_serves: "env_serves sample_env"
  by (simp add: env_serves_def sample_env_def)

theorem get_preserves_content_witness:
  "\<exists>r t'. handle_get sample_env True (NRes 0 0) (Some (sample_request COAP_MSG_CODE_REQUEST_GET None 0)) open_tree =
     Some (Some r, False, [], t') \<and> node_content (NRes 0 0) t' = node_content (NRes 0 0) open_tree \<and>
     node_attributes (NRes 0 0) t' = node_attributes (NRes 0 0) open_tree"
proof -
  have "\<not> ends_observation True (Some (sample_request COAP_MSG_CODE_REQUEST_GET None 0))"
    by (simp add: ends_observation_def sample_request_def sample_options_def STOP_OBSERVATION_def)
  then show ?thesis
    using get_preserves_content [OF sample_env_serves, of True "NRes 0 0"
      "Some (sample_request COAP_MSG_CODE_REQUEST_GET None 0)" open_tree "NRes 0 0"] by blast
qed

end
