(* ===== verification/RequestFlows.thy ===== *)
theory RequestFlows
  imports RequestSpec ObjectsSpec
begin

text \<open>
  Requests in sequence: a value that is written and read back, an observation that is started, served and
  stopped, a refused query, and creations that fail.
\<close>

section \<open>Blocks and kinds under updates\<close>

lemma update_at_nth: "update_at i f xs ! m = (if i = m \<and> i < length xs then f (xs ! m) else xs ! m)"
  by (auto simp: update_at_def)

text \<open>What an update of the value or the report handler of a node keeps.\<close>

definition resource_shape :: "nat \<Rightarrow> nat \<Rightarrow> tree \<Rightarrow>
    (block_message option \<times> bool) \<times> bool \<times> u8 list option \<times> bool" where
  "resource_shape i j t = ((r_block (tree_res i j t), bs_multiple (r_base (tree_res i j t))),
     r_delayed_response (tree_res i j t), r_delayed_token (tree_res i j t), o_handler (t_object t))"

lemma tree_upd_shape:
  "(\<And>b. bs_multiple (f b) = bs_multiple b) \<Longrightarrow> resource_shape i j (tree_upd n f t) = resource_shape i j t"
  by (cases n) (auto simp: resource_shape_def tree_res_def tree_inst_def tree_upd_def upd_defs update_at_nth)

lemma emit_shape: "resource_shape i j (emit es t) = resource_shape i j t"
  by (simp add: resource_shape_def tree_res_def tree_inst_def emit_def)

lemma on_report_shape: "resource_shape i j (on_report n f t) = resource_shape i j t"
  by (auto simp: on_report_def with_base_def Let_def split_beta emit_shape tree_upd_shape split: option.split)

lemma notification_shape: "resource_shape i j (instance_notification_update k l t) = resource_shape i j t"
  by (simp add: instance_notification_update_def object_notification_update_def Let_def on_report_shape)

lemma with_base_shape:
  "(\<And>b. resource_shape i j (f b) = x) \<Longrightarrow> resource_shape i j d = x \<Longrightarrow> resource_shape i j (with_base n d f t) = x"
  by (simp add: with_base_def split: option.split)

lemma res_report_shape: "resource_shape i j (res_report n t) = resource_shape i j t"
  unfolding res_report_def Let_def
  by (rule with_base_shape) (simp_all add: on_report_shape emit_shape notification_shape)

lemma res_set_value_shape: "resource_shape i j (fst (res_set_value n v len t)) = resource_shape i j t"
  by (auto simp: res_set_value_def with_base_def Let_def on_report_shape res_report_shape tree_upd_shape split: option.split)

section \<open>A value that is written and read back\<close>

lemma env_built: "env_serves env \<Longrightarrow> \<exists>r. env_build env header code = Some r"
  by (simp add: env_serves_def)

lemma observe_request_payload: "rs_payload (fst (snd (observe_request handler multiple n req r t))) = rs_payload r"
  by (simp add: observe_request_def Let_def split: option.split)

lemma options_payload: "options_with_max_age env n r t = Some r' \<Longrightarrow> rs_payload r' = rs_payload r"
  by (auto simp: options_with_max_age_def split: bind_splits)

definition simple_resource :: "nat \<Rightarrow> nat \<Rightarrow> tree \<Rightarrow> bool" where
  "simple_resource i j t \<longleftrightarrow> fst (resource_shape i j t) = (None, False)"

lemma get_simple_resource:
  assumes "simple_resource i j t" and "env_serves env" and "node_allows (NRes i j) GET_ALLOWED t"
  shows "\<exists>r t'. handle_get env handler (NRes i j) (Some req) t = Some (Some r, False, [], t') \<and>
    rs_payload r = with_base (NRes i j) None res_get_value t"
proof -
  obtain r0 where r0: "env_build env (Some req) COAP_MSG_CODE_RESPONSE_CONTENT = Some r0"
    using env_built [OF assms(2)] by blast
  let ?r1 = "r0\<lparr>rs_content_format := with_base (NRes i j) 0 value_content_type t,
    rs_payload := value_payload env (NRes i j) req t\<rparr>"
  obtain r2 where r2: "options_with_max_age env (NRes i j) ?r1 t = Some r2"
    using options_served [OF assms(2), of "NRes i j" ?r1 t] by blast
  have v: "value_payload env (NRes i j) req t = with_base (NRes i j) None res_get_value t"
    using assms(1) by (simp add: value_payload_def simple_resource_def resource_shape_def)
  have m: "\<not> supports_multiple_instances (tree_res i j t)"
    using assms(1) by (simp add: simple_resource_def resource_shape_def supports_multiple_instances_def)
  show ?thesis using m r0 r2 assms(3) options_payload [OF r2] observe_request_payload v
    by (simp add: handle_get_def resource_handle_get_def resource_base_handle_get_def Let_def split_beta finish_def)
qed

lemma put_simple_resource:
  assumes "simple_resource i j t" and "env_serves env" and "node_allows (NRes i j) PUT_ALLOWED t"
    and "uri_query req = None" and "content_type_of req \<noteq> COAP_CONTENT_OMA_TLV_TYPE" and "cm_payload req = Some v"
  shows "\<exists>r. handle_put env handler (NRes i j) (Some req) t =
    Some (Some r, handler, [], fst (res_set_value (NRes i j) (Some v) (length v) t)) \<and>
    rs_code r = COAP_MSG_CODE_RESPONSE_CHANGED"
proof -
  obtain r0 where r0: "env_build env (Some req) COAP_MSG_CODE_RESPONSE_CHANGED = Some r0"
    using env_built [OF assms(2)] by blast
  have m: "\<not> supports_multiple_instances (tree_res i j t)" "node_block (NRes i j) t = None"
    using assms(1) by (simp_all add: simple_resource_def resource_shape_def supports_multiple_instances_def)
  show ?thesis using m r0 assms(3-6)
    by (simp add: handle_put_def resource_handle_put_def resource_base_handle_put_def put_value_def put_block_def
        answer_code_def payload_len_def)
qed

text \<open>C24: a non-empty value that is put on a resource without instances and without block-wise transfer
  is accepted with 2.04 and is the payload of every GET that follows; no other node changes in more than
  what its report handler records.\<close>

theorem put_get_roundtrip:
  assumes "env_serves env" and "simple_resource i j t" and "get_base (NRes i j) (t_object t) = Some b"
    and "bs_access b AND PUT_ALLOWED \<noteq> 0" and "bs_access b AND GET_ALLOWED \<noteq> 0"
    and "uri_query req = None" and "content_type_of req \<noteq> COAP_CONTENT_OMA_TLV_TYPE"
    and "cm_payload req = Some v" and "v \<noteq> []"
  shows "\<exists>r t' r' t''. handle_put env handler (NRes i j) (Some req) t = Some (Some r, handler, [], t') \<and>
    rs_code r = COAP_MSG_CODE_RESPONSE_CHANGED \<and> (m \<noteq> NRes i j \<longrightarrow> node_frame m t' = node_frame m t) \<and>
    handle_get env handler (NRes i j) (Some get) t' = Some (Some r', False, [], t'') \<and> rs_payload r' = Some v"
proof -
  let ?n = "NRes i j"
  let ?t' = "fst (res_set_value ?n (Some v) (length v) t)"
  have v: "0 < length v" using assms(9) by simp
  have f: "node_frame m ?t' = (if m = ?n then Some ((frame_of b)\<lparr>bs_value := Some v\<rparr>) else node_frame m t)" for m
    using res_set_value_frame(1) [OF assms(3) v, of m v] by simp
  obtain b' where b': "get_base ?n (t_object ?t') = Some b'" "frame_of b' = (frame_of b)\<lparr>bs_value := Some v\<rparr>"
    using f [of ?n] by (auto simp: node_frame_def simp del: get_base.simps)
  have val: "bs_value b' = Some v" "bs_access b' = bs_access b"
    using arg_cong [OF b'(2), of bs_value] arg_cong [OF b'(2), of bs_access] by (simp_all add: frame_of_def)
  have "simple_resource i j ?t'" using assms(2) by (simp add: simple_resource_def res_set_value_shape)
  moreover have "node_allows ?n GET_ALLOWED ?t'" using b'(1) val assms(5)
    by (simp add: node_allows_def with_base_def del: get_base.simps)
  ultimately obtain r' t'' where g: "handle_get env handler ?n (Some get) ?t' = Some (Some r', False, [], t'')"
      "rs_payload r' = with_base ?n None res_get_value ?t'"
    using get_simple_resource [OF _ assms(1)] by blast
  have "with_base ?n None res_get_value ?t' = Some v" using b'(1) val v
    by (simp add: with_base_def res_get_value_def alloc_string_copy_def del: get_base.simps)
  moreover have "node_allows ?n PUT_ALLOWED t" using assms(3,4)
    by (simp add: node_allows_def with_base_def del: get_base.simps)
  from put_simple_resource [OF assms(2,1) this assms(6,7,8)] obtain r where
    "handle_put env handler ?n (Some req) t = Some (Some r, handler, [], ?t')" "rs_code r = COAP_MSG_CODE_RESPONSE_CHANGED"
    by blast
  ultimately show ?thesis using f g by auto
qed

lemma open_tree_simple: "simple_resource 0 0 open_tree"
  using open_tree_resource by (simp add: simple_resource_def resource_shape_def supports_multiple_instances_def)

theorem put_get_roundtrip_witness:
  "\<exists>r t' r' t''. handle_put sample_env True (NRes 0 0) (Some (sample_request COAP_MSG_CODE_REQUEST_PUT (Some [52, 50]) 0)) open_tree =
      Some (Some r, True, [], t') \<and> rs_code r = COAP_MSG_CODE_RESPONSE_CHANGED \<and>
     (NObj \<noteq> NRes 0 0 \<longrightarrow> node_frame NObj t' = node_frame NObj open_tree) \<and>
     handle_get sample_env True (NRes 0 0) (Some (sample_request COAP_MSG_CODE_REQUEST_GET None 0)) t' =
       Some (Some r', False, [], t'') \<and> rs_payload r' = Some [52, 50]"
  by (rule put_get_roundtrip [OF sample_env_serves open_tree_simple open_tree_node])
    (simp_all add: sample_request_def uri_query_def sample_options_def content_type_of_def)

section \<open>An observation that is stopped\<close>

definition is_notification :: "tree_output \<Rightarrow> bool" where
  "is_notification out = (case out of SendObservation n k ids so \<Rightarrow> True | _ \<Rightarrow> False)"

definition notifications_sent :: "tree \<Rightarrow> tree_output list" where
  "notifications_sent t = List.filter is_notification (t_out t)"

text \<open>No more notifications, and still no handler to send them to.\<close>

definition silent :: "tree \<Rightarrow> tree \<Rightarrow> bool" where
  "silent t t' \<longleftrightarrow> notifications_sent t' = notifications_sent t \<and> \<not> o_handler (t_object t')"

lemma silent_trans: "silent t t1 \<Longrightarrow> silent t1 t2 \<Longrightarrow> silent t t2"
  by (simp add: silent_def)

lemma silent_refl: "\<not> o_handler (t_object t) \<Longrightarrow> silent t t"
  by (simp add: silent_def)

lemma silent_upd: "\<not> o_handler (t_object t) \<Longrightarrow> silent t (tree_upd n f t)"
  by (simp add: silent_def notifications_sent_def tree_upd_def upd_base_handler)

lemma forward_silent: "List.filter is_notification (forward_event False n e) = []"
  by (cases e) (simp_all add: is_notification_def)

lemma silent_on_report: "\<not> o_handler (t_object t) \<Longrightarrow> silent t (on_report n f t)"
  by (auto simp: silent_def notifications_sent_def on_report_def with_base_def tree_upd_def emit_def upd_base_handler
      filter_concat comp_def forward_silent Let_def split_beta split: option.split)

lemma silent_notification_update: "\<not> o_handler (t_object t) \<Longrightarrow> silent t (instance_notification_update i l t)"
proof -
  assume h: "\<not> o_handler (t_object t)"
  have o: "silent t (object_notification_update k t)" for k
    using h by (simp add: object_notification_update_def silent_on_report silent_refl)
  have i: "silent t1 (if c then on_report n f t1 else t1)" if "silent t t1" for t1 c n f
    using that silent_on_report [of t1 n f] by (simp add: silent_def)
  have c: "silent t (if l AND O_Attribute = O_Attribute
      then object_notification_update (with_base (NInst i) 0 base_instance_id t) t else t)"
    using h o by (simp add: silent_refl)
  show ?thesis unfolding instance_notification_update_def Let_def
    using c silent_trans [OF c i [OF c]] by presburger
qed

lemma with_base_silent: "(\<And>b. silent t (f b)) \<Longrightarrow> silent t d \<Longrightarrow> silent t (with_base n d f t0)"
  by (simp add: with_base_def split: option.split)

lemma silent_res_report: "\<not> o_handler (t_object t) \<Longrightarrow> silent t (res_report n t)"
proof -
  assume h: "\<not> o_handler (t_object t)"
  let ?t1 = "if has_flag (combined_level n t) O_Attribute \<or> has_flag (combined_level n t) OI_Attribute
    then instance_notification_update (inst_index n) (combined_level n t) t else t"
  have t1: "silent t ?t1" using h silent_notification_update by (simp add: silent_refl)
  have r: "silent t (on_report m f ?t1)" for m f
    using silent_trans [OF t1 silent_on_report] t1 by (simp add: silent_def)
  have e: "\<not> o_handler (t_object ?t1)" using t1 by (simp add: silent_def)
  show ?thesis unfolding res_report_def Let_def
  proof (rule with_base_silent)
    fix b
    show "silent t (if bs_mode b = Dynamic \<and> has_flag (combined_level n t) R_Attribute then
             (if bs_data_type b \<noteq> STRING \<and> node_level n t \<noteq> obs_None then
                (if bs_observable b then
                   on_report n (rh_set_value (case bs_value b of
                       Some v \<Rightarrow> to_f32 (atof (cstr (chars_of v))) | None \<Rightarrow> Fin 0)) ?t1
                 else ?t1)
              else if bs_base_type b = BT_ResourceInstance then
                (if with_base (parent_resource n) False bs_observable ?t1 then
                   on_report (parent_resource n)
                     (rh_set_notification_trigger (with_base (parent_instance n) 0 base_instance_id ?t1)) ?t1
                 else ?t1)
              else ?t1)
           else if bs_mode b = Static then
             (if o_handler (t_object ?t1) then emit [ValueUpdated n] ?t1 else ?t1)
           else ?t1)"
      using t1 r e by presburger
  qed (rule t1)
qed

lemma silent_set_value: "\<not> o_handler (t_object t) \<Longrightarrow> silent t (fst (res_set_value n v len t))"
proof -
  assume h: "\<not> o_handler (t_object t)"
  have u: "silent t (tree_upd n f t)" for f using h by (rule silent_upd)
  have h1: "\<not> o_handler (t_object (tree_upd n f t))" for f using h by (simp add: tree_upd_def upd_base_handler)
  have r: "silent t (res_report n (tree_upd n f t))" "silent t (on_report n g (tree_upd n f t))" for f g
    using silent_trans [OF u silent_res_report [OF h1]] silent_trans [OF u silent_on_report [OF h1]] by blast+
  show ?thesis using u r silent_refl [OF h]
    by (simp add: res_set_value_def with_base_def Let_def split: option.split)
qed

lemma silent_set_values:
  "\<not> o_handler (t_object t) \<Longrightarrow> silent t (fold (\<lambda>(n, v). \<lambda>t. fst (res_set_value n (Some v) (length v) t)) changes t)"
proof (induction changes arbitrary: t)
  case (Cons c cs)
  obtain n v where c: "c = (n, v)" by (cases c)
  have s: "silent t (fst (res_set_value n (Some v) (length v) t))" using Cons.prems by (rule silent_set_value)
  then show ?case using silent_trans [OF s Cons.IH] by (simp add: c silent_def)
qed (simp add: silent_refl)

lemma stop_observation_handler: "\<not> o_handler (t_object (stop_observation multiple n t))"
  by (cases n) (simp_all add: stop_observation_def base_set_under_observation_def base_set_observation_handler_def Let_def
      on_object_def on_instances_of_def tree_upd_def upd_base_handler o_remove_observation_level_def upd_defs)

text \<open>C25: when the server stops the observation of one resource, no node of the whole object
  sends a notification any more, whatever values are set afterwards and whichever of them are still under
  observation: stopping takes the observation handler away from the object all of them share.\<close>

theorem cancel_silences_others:
  assumes "env_serves env" and "simple_resource i j t" and "get_base (NRes i j) (t_object t) = Some b"
    and "bs_access b AND GET_ALLOWED \<noteq> 0" and "bs_observable b"
    and "cm_options req = Some opts" and "opt_observe opts = 1"
  shows "\<exists>r t'. handle_get env True (NRes i j) (Some req) t = Some (Some r, False, [], t') \<and>
    notifications_sent (fold (\<lambda>(n, v). \<lambda>t. fst (res_set_value n (Some v) (length v) t)) changes t') =
      notifications_sent t'"
proof -
  let ?n = "NRes i j"
  obtain r0 where r0: "env_build env (Some req) COAP_MSG_CODE_RESPONSE_CONTENT = Some r0"
    using env_built [OF assms(1)] by blast
  let ?r1 = "r0\<lparr>rs_content_format := with_base ?n 0 value_content_type t, rs_payload := value_payload env ?n req t\<rparr>"
  obtain r2 where r2: "options_with_max_age env ?n ?r1 t = Some r2"
    using options_served [OF assms(1), of ?n ?r1 t] by blast
  have m: "\<not> supports_multiple_instances (tree_res i j t)"
    using assms(2) by (simp add: simple_resource_def resource_shape_def supports_multiple_instances_def)
  have a: "node_allows ?n GET_ALLOWED t" "with_base ?n False bs_observable t"
    using assms(3-5) by (simp_all add: node_allows_def with_base_def del: get_base.simps)
  have "observe_request True False ?n req r2 t = (Some COAP_MSG_CODE_RESPONSE_CONTENT, r2, stop_observation False ?n t)"
    using a(2) assms(6,7) by (simp add: observe_request_def START_OBSERVATION_def STOP_OBSERVATION_def)
  then have "\<exists>r. handle_get env True ?n (Some req) t = Some (Some r, False, [], stop_observation False ?n t)"
    using m r0 r2 a(1)
    by (simp add: handle_get_def resource_handle_get_def resource_base_handle_get_def Let_def finish_def)
  then show ?thesis using silent_set_values [OF stop_observation_handler] unfolding silent_def by blast
qed

theorem cancel_silences_others_witness:
  "\<exists>r t'. handle_get sample_env True (NRes 0 0) (Some (sample_request COAP_MSG_CODE_REQUEST_GET None 1)) open_tree =
      Some (Some r, False, [], t') \<and>
     notifications_sent (fold (\<lambda>(n, v). \<lambda>t. fst (res_set_value n (Some v) (length v) t)) [(NInst 0, [49])] t') =
       notifications_sent t'"
  by (rule cancel_silences_others [OF sample_env_serves open_tree_simple open_tree_node, where opts = "sample_options\<lparr>opt_observe := 1\<rparr>"])
    (simp_all add: sample_request_def)

section \<open>An observation that is started and served\<close>

lemma new_handler_observed:
  "rh_set_under_observation True rh_new = (rh_new\<lparr>rh_under_observation := True\<rparr>, [StopTimer PMinTimer, StopTimer PMaxTimer])"
  by (simp add: rh_set_under_observation_def rh_stop_timers_def rh_handle_timers_def rh_new_def)

text \<open>The report handler of a resource once its observation has started.\<close>

definition observing :: "u8 list \<Rightarrow> report_handler" where
  "observing token = rh_set_observation_token (Some token) (of_nat (length token))
     (rh_new\<lparr>rh_under_observation := True, rh_level := R_Attribute\<rparr>)"

lemma on_report_handler: "o_handler (t_object (on_report n f t)) = o_handler (t_object t)"
  by (simp add: on_report_def with_base_def tree_upd_def emit_def upd_base_handler Let_def split_beta split: option.split)

lemma start_observation_resource:
  assumes "get_base (NRes i j) (t_object t) = Some b" and "bs_report b = None" and "bs_base_type b = BT_Resource"
  shows "get_base (NRes i j) (t_object (start_observation True False (NRes i j) t)) =
      Some (b\<lparr>bs_report := Some (rh_new\<lparr>rh_under_observation := True, rh_level := R_Attribute\<rparr>)\<rparr>)"
    and "o_handler (t_object (start_observation True False (NRes i j) t))"
proof -
  let ?n = "NRes i j"
  let ?t2 = "t\<lparr>t_object := (t_object t)\<lparr>o_handler := True\<rparr>\<rparr>"
  have g2: "get_base ?n (t_object ?t2) = Some b" using assms(1) by (auto split: if_splits)
  have r: "on_report ?n (rh_set_under_observation True) t = t"
    using assms(1,2) by (simp add: on_report_def with_base_def del: get_base.simps)
  have u: "base_set_under_observation ?n True True t =
      on_report ?n (rh_set_under_observation True) (create_report_handler ?n ?t2)"
    using g2 assms(3) by (simp add: base_set_under_observation_def r base_set_observation_handler_def with_base_def
        Let_def del: get_base.simps)
  have c: "get_base ?n (t_object (create_report_handler ?n ?t2)) = Some (b\<lparr>bs_report := Some rh_new\<rparr>)"
    using g2 assms(2) by (simp add: create_report_handler_def tree_upd_def getset_simps del: get_base.simps upd_base.simps)
  have s: "get_base ?n (t_object (base_set_under_observation ?n True True t)) =
      Some (b\<lparr>bs_report := Some (rh_new\<lparr>rh_under_observation := True\<rparr>)\<rparr>)"
    unfolding u on_report_get using c by (simp add: new_handler_observed del: get_base.simps)
  show "get_base ?n (t_object (start_observation True False ?n t)) =
      Some (b\<lparr>bs_report := Some (rh_new\<lparr>rh_under_observation := True, rh_level := R_Attribute\<rparr>)\<rparr>)"
    using s by (simp add: start_observation_def tree_upd_def getset_simps base_add_observation_level_def
        rh_add_observation_level_def rh_new_def del: get_base.simps upd_base.simps)
  show "o_handler (t_object (start_observation True False ?n t))"
    by (simp add: start_observation_def u tree_upd_def upd_base_handler on_report_handler create_report_handler_def
        del: upd_base.simps)
qed

lemma observing_simps:
  "rh_current (observing token) = Fin 0" "rh_last (observing token) = Fin (-1)" "rh_attribute_state (observing token) = 0"
  "rh_changed (observing token) = []" "rh_observation_number (observing token) = 0" "rh_level (observing token) = R_Attribute"
  by (simp_all add: observing_def rh_set_observation_token_def rh_new_def Let_def)

lemma observing_set_value:
  assumes "f \<noteq> Fin (-1)"
  shows "ObservationToBeSent [] 1 False \<in> set (snd (rh_set_value f (observing token)))"
proof -
  have e: "\<not> f_eq f (Fin (-1))" using assms by (simp add: f_eq_def)
  show ?thesis using e observing_simps
    by (simp add: rh_set_value_def rh_check_threshold_values_def rh_check_gt_lt_params_def rh_schedule_report_def
        rh_report_def Let_def split_beta)
qed

lemma report_reaches:
  assumes "get_base n (t_object t) = Some b" and "bs_report b = Some h" and "o_handler (t_object t)"
    and "ObservationToBeSent ids k so \<in> set (snd (f h))"
  shows "SendObservation n k ids so \<in> set (drop (length (t_out t)) (t_out (on_report n f t)))"
  using assms by (force simp: on_report_def with_base_def tree_upd_def emit_def Let_def split_beta)

lemma on_report_out: "\<exists>xs. t_out (on_report n f t) = t_out t @ xs"
  by (auto simp: on_report_def with_base_def tree_upd_def emit_def Let_def split_beta split: option.split)

lemma on_report_other_out:
  assumes "n \<noteq> m"
  shows "\<exists>xs. t_out (on_report n f t) = t_out t @ xs \<and> (\<forall>k ids so. SendObservation m k ids so \<notin> set xs)"
proof -
  have "SendObservation m k ids so \<notin> set (forward_event h n e)" for k ids so h e
    using assms by (cases e) simp_all
  then show ?thesis
    by (auto simp: on_report_def with_base_def tree_upd_def emit_def Let_def split_beta split: option.split)
qed

text \<open>What a report on the levels above a resource leaves of it, and that it notifies of none of its values.\<close>

definition resource_kept :: "nat \<Rightarrow> nat \<Rightarrow> tree \<Rightarrow> tree \<Rightarrow> bool" where
  "resource_kept i j t t' \<longleftrightarrow> get_base (NRes i j) (t_object t') = get_base (NRes i j) (t_object t) \<and>
     o_handler (t_object t') = o_handler (t_object t) \<and>
     (\<exists>xs. t_out t' = t_out t @ xs \<and> (\<forall>k ids so. SendObservation (NRes i j) k ids so \<notin> set xs))"

lemma resource_kept_refl: "resource_kept i j t t"
  by (simp add: resource_kept_def)

lemma resource_kept_trans: "resource_kept i j t t1 \<Longrightarrow> resource_kept i j t1 t2 \<Longrightarrow> resource_kept i j t t2"
  unfolding resource_kept_def by (elim conjE exE) auto

lemma resource_kept_report: "n \<noteq> NRes i j \<Longrightarrow> resource_kept i j t (on_report n f t)"
  using on_report_other_out [of n "NRes i j" f t] by (simp add: resource_kept_def on_report_get on_report_handler del: get_base.simps)

lemma resource_kept_update: "resource_kept i j t (instance_notification_update k l t)"
proof -
  have o: "resource_kept i j t (object_notification_update m t)" for m
    by (simp add: object_notification_update_def resource_kept_report resource_kept_refl)
  have i: "resource_kept i j t1 (if c then on_report (NInst k) f t1 else t1)" for t1 c f
    by (simp add: resource_kept_report resource_kept_refl)
  have c: "resource_kept i j t (if l AND O_Attribute = O_Attribute
      then object_notification_update (with_base (NInst k) 0 base_instance_id t) t else t)"
    using o by (simp add: resource_kept_refl)
  show ?thesis unfolding instance_notification_update_def Let_def
    using c resource_kept_trans [OF c i] by presburger
qed

text \<open>A new value of a resource of a number type goes through its report handler, when those above it have been told.\<close>

lemma observed_value_report:
  assumes "get_base (NRes i j) (t_object t) = Some b" and "bs_report b = Some (observing token)"
    and "bs_mode b = Dynamic" and "bs_data_type b \<noteq> STRING" and "bs_observable b" and "v \<noteq> []" and "bs_value b \<noteq> Some v"
  shows "\<exists>t2. resource_kept i j (tree_upd (NRes i j) (\<lambda>b. b\<lparr>bs_value := Some v\<rparr>) t) t2 \<and>
    get_base (NRes i j) (t_object t2) = Some (b\<lparr>bs_value := Some v\<rparr>) \<and> o_handler (t_object t2) = o_handler (t_object t) \<and>
    fst (res_set_value (NRes i j) (Some v) (length v) t) =
      on_report (NRes i j) (rh_set_value (to_f32 (atof (cstr (chars_of v))))) t2"
proof -
  let ?n = "NRes i j"
  let ?t1 = "tree_upd ?n (\<lambda>b. b\<lparr>bs_value := Some v\<rparr>) t"
  let ?b1 = "b\<lparr>bs_value := Some v\<rparr>"
  have v: "0 < length v" using assms(6) by simp
  have "is_value_changed (Some v) (length v) b" using is_value_changed_iff [of "length v" v b] v assms(7) by simp
  then have set: "fst (res_set_value ?n (Some v) (length v) t) = res_report ?n ?t1"
    using assms(1,4) v by (simp add: res_set_value_def with_base_def Let_def alloc_string_copy_def del: get_base.simps)
  have g1: "get_base ?n (t_object ?t1) = Some ?b1" "o_handler (t_object ?t1) = o_handler (t_object t)"
    using assms(1) by (simp_all add: tree_upd_def getset_simps upd_base_handler del: get_base.simps upd_base.simps)
  have lv: "node_level ?n ?t1 = R_Attribute"
    using g1(1) assms(2) by (simp add: node_level_def with_base_def base_observation_level_def observing_simps
        del: get_base.simps)
  have fl: "has_flag (combined_level ?n ?t1) R_Attribute"
    unfolding combined_level_def lv using flag_or_mono [OF flag_or_self] by (metis or.commute)
  define t2 where "t2 = (if has_flag (combined_level ?n ?t1) O_Attribute \<or> has_flag (combined_level ?n ?t1) OI_Attribute
    then instance_notification_update i (combined_level ?n ?t1) ?t1 else ?t1)"
  have k: "resource_kept i j ?t1 t2" unfolding t2_def using resource_kept_update resource_kept_refl by presburger
  then have g2: "get_base ?n (t_object t2) = Some ?b1" "o_handler (t_object t2) = o_handler (t_object t)"
    using g1 by (simp_all add: resource_kept_def del: get_base.simps)
  have "fst (res_set_value ?n (Some v) (length v) t) = on_report ?n (rh_set_value (to_f32 (atof (cstr (chars_of v))))) t2"
    unfolding set res_report_def Let_def inst_index.simps t2_def [symmetric] with_base_def g2(1)
    using fl lv assms(3-5) by simp
  then show ?thesis using k g2 by (intro exI [of _ t2] conjI)
qed

lemma observed_value_set:
  assumes "get_base (NRes i j) (t_object t) = Some b" and "bs_report b = Some (observing token)" and "o_handler (t_object t)"
    and "bs_mode b = Dynamic" and "bs_data_type b \<noteq> STRING" and "bs_observable b"
    and "v \<noteq> []" and "bs_value b \<noteq> Some v" and "to_f32 (atof (cstr (chars_of v))) \<noteq> Fin (-1)"
  shows "SendObservation (NRes i j) 1 [] False \<in>
      set (drop (length (t_out t)) (t_out (fst (res_set_value (NRes i j) (Some v) (length v) t)))) \<and>
    get_base (NRes i j) (t_object (fst (res_set_value (NRes i j) (Some v) (length v) t))) =
      Some (b\<lparr>bs_value := Some v,
        bs_report := Some (fst (rh_set_value (to_f32 (atof (cstr (chars_of v)))) (observing token)))\<rparr>)"
proof -
  let ?n = "NRes i j" and ?f = "rh_set_value (to_f32 (atof (cstr (chars_of v))))"
  obtain t2 where t2: "resource_kept i j (tree_upd ?n (\<lambda>b. b\<lparr>bs_value := Some v\<rparr>) t) t2"
    "get_base ?n (t_object t2) = Some (b\<lparr>bs_value := Some v\<rparr>)" "o_handler (t_object t2)"
    "fst (res_set_value ?n (Some v) (length v) t) = on_report ?n ?f t2"
    using observed_value_report [OF assms(1,2,4-8)] assms(3) by blast
  have "SendObservation ?n 1 [] False \<in> set (drop (length (t_out t2)) (t_out (on_report ?n ?f t2)))"
    by (rule report_reaches [OF t2(2) _ t2(3)]) (use assms(2) observing_set_value [OF assms(9)] in simp_all)
  moreover obtain xs where "t_out t2 = t_out t @ xs" using t2(1) by (auto simp: resource_kept_def tree_upd_def)
  ultimately have "SendObservation ?n 1 [] False \<in> set (drop (length (t_out t)) (t_out (on_report ?n ?f t2)))"
    by (metis append_eq_conv_conj drop_drop in_set_dropD length_append add.commute)
  moreover have "get_base ?n (t_object (on_report ?n ?f t2)) =
      Some (b\<lparr>bs_value := Some v, bs_report := Some (fst (?f (observing token)))\<rparr>)"
    using t2(2) assms(2) by (simp add: on_report_get del: get_base.simps)
  ultimately show ?thesis unfolding t2(4) by blast
qed

text \<open>The value -1 is the one a new report handler takes for reported already: it asks for no notification.\<close>

lemma observed_value_missed:
  assumes "get_base (NRes i j) (t_object t) = Some b" and "bs_report b = Some (observing token)"
    and "bs_mode b = Dynamic" and "bs_data_type b \<noteq> STRING" and "bs_observable b" and "v \<noteq> []" and "bs_value b \<noteq> Some v"
    and "to_f32 (atof (cstr (chars_of v))) = Fin (-1)"
  shows "SendObservation (NRes i j) k ids so \<notin>
    set (drop (length (t_out t)) (t_out (fst (res_set_value (NRes i j) (Some v) (length v) t))))"
proof -
  let ?n = "NRes i j" and ?f = "rh_set_value (to_f32 (atof (cstr (chars_of v))))"
  obtain t2 where t2: "resource_kept i j (tree_upd ?n (\<lambda>b. b\<lparr>bs_value := Some v\<rparr>) t) t2"
    "get_base ?n (t_object t2) = Some (b\<lparr>bs_value := Some v\<rparr>)"
    "fst (res_set_value ?n (Some v) (length v) t) = on_report ?n ?f t2"
    using observed_value_report [OF assms(1-7)] by blast
  have "snd (?f (observing token)) = []"
    unfolding assms(8) by (simp add: rh_set_value_def Let_def observing_simps f_eq_def)
  then have "t_out (on_report ?n ?f t2) = t_out t2"
    using t2(2) assms(2) by (simp add: on_report_def with_base_def tree_upd_def emit_def Let_def split_beta)
  moreover obtain xs where "t_out t2 = t_out t @ xs" "\<forall>k ids so. SendObservation ?n k ids so \<notin> set xs"
    using t2(1) by (auto simp: resource_kept_def tree_upd_def)
  ultimately show ?thesis unfolding t2(3) by simp
qed

text \<open>A new text triggers the report handler directly, whatever it reads as.\<close>

lemma observed_text_set:
  assumes "get_base (NRes i j) (t_object t) = Some b" and "bs_report b = Some (observing token)" and "o_handler (t_object t)"
    and "bs_data_type b = STRING" and "v \<noteq> []" and "bs_value b \<noteq> Some v"
  shows "SendObservation (NRes i j) 1 [0] False \<in>
      set (drop (length (t_out t)) (t_out (fst (res_set_value (NRes i j) (Some v) (length v) t)))) \<and>
    get_base (NRes i j) (t_object (fst (res_set_value (NRes i j) (Some v) (length v) t))) =
      Some (b\<lparr>bs_value := Some v, bs_report := Some (fst (rh_set_notification_trigger 0 (observing token)))\<rparr>)"
proof -
  let ?n = "NRes i j" and ?f = "rh_set_notification_trigger 0"
  let ?t1 = "tree_upd ?n (\<lambda>b. b\<lparr>bs_value := Some v\<rparr>) t"
  have v: "0 < length v" using assms(5) by simp
  have g1: "get_base ?n (t_object ?t1) = Some (b\<lparr>bs_value := Some v\<rparr>)" "o_handler (t_object ?t1)" "t_out ?t1 = t_out t"
    using assms(1,3) by (simp_all add: tree_upd_def getset_simps upd_base_handler del: get_base.simps upd_base.simps)
  have "is_value_changed (Some v) (length v) b" using is_value_changed_iff [of "length v" v b] v assms(6) by simp
  moreover have "with_base ?n False base_is_under_observation ?t1"
    using g1(1) assms(2) by (simp add: with_base_def base_is_under_observation_def observing_def rh_set_observation_token_def
        Let_def del: get_base.simps)
  ultimately have set: "fst (res_set_value ?n (Some v) (length v) t) = on_report ?n ?f ?t1"
    using assms(1,4) v by (simp add: res_set_value_def with_base_def [of _ "(t, False)"] Let_def alloc_string_copy_def
        del: get_base.simps)
  have "ObservationToBeSent [0] 1 False \<in> set (snd (?f (observing token)))"
    by (simp add: rh_set_notification_trigger_def rh_schedule_report_def rh_report_def Let_def split_beta observing_simps f_eq_def)
  then have "SendObservation ?n 1 [0] False \<in> set (drop (length (t_out ?t1)) (t_out (on_report ?n ?f ?t1)))"
    by (intro report_reaches [OF g1(1) _ g1(2)]) (use assms(2) in simp_all)
  then show ?thesis unfolding set using g1 assms(2) by (simp add: on_report_get del: get_base.simps)
qed

lemma observe_starts:
  assumes "env_serves env" and "simple_resource i j t" and "get_base (NRes i j) (t_object t) = Some b"
    and "bs_access b AND GET_ALLOWED \<noteq> 0" and "bs_observable b" and "bs_report b = None" and "bs_base_type b = BT_Resource"
    and "cm_options req = Some opts" and "opt_observe opts = 0" and "cm_token req = Some token"
  shows "\<exists>r t'. handle_get env True (NRes i j) (Some req) t = Some (Some r, False, [], t') \<and>
    map_option opt_observe (rs_options r) = Some 0 \<and>
    get_base (NRes i j) (t_object t') = Some (b\<lparr>bs_report := Some (observing token)\<rparr>) \<and> o_handler (t_object t')"
proof -
  let ?n = "NRes i j"
  obtain r0 where r0: "env_build env (Some req) COAP_MSG_CODE_RESPONSE_CONTENT = Some r0"
    using env_built [OF assms(1)] by blast
  let ?r1 = "r0\<lparr>rs_content_format := with_base ?n 0 value_content_type t, rs_payload := value_payload env ?n req t\<rparr>"
  obtain r2 where r2: "options_with_max_age env ?n ?r1 t = Some r2"
    using options_served [OF assms(1), of ?n ?r1 t] by blast
  have m: "\<not> supports_multiple_instances (tree_res i j t)"
    using assms(2) by (simp add: simple_resource_def resource_shape_def supports_multiple_instances_def)
  have a: "node_allows ?n GET_ALLOWED t" "with_base ?n False bs_observable t"
    using assms(3-5) by (simp_all add: node_allows_def with_base_def del: get_base.simps)
  let ?t0 = "start_observation True False ?n t"
  let ?t1 = "tree_upd ?n (base_set_observation_token token (of_nat (length token))) ?t0"
  note s = start_observation_resource [OF assms(3,6,7)]
  have number: "with_base ?n 0 (\<lambda>b. uint (base_observation_number b)) ?t0 = 0"
    using s(1) by (simp add: with_base_def base_observation_number_def rh_new_def del: get_base.simps)
  let ?r3 = "r2\<lparr>rs_options := map_option (\<lambda>opts. opts\<lparr>opt_observe := 0\<rparr>) (rs_options r2)\<rparr>"
  have "observe_request True False ?n req r2 t = (Some COAP_MSG_CODE_RESPONSE_CONTENT, ?r3, ?t1)"
    using a(2) assms(8-10) number by (simp add: observe_request_def START_OBSERVATION_def Let_def)
  then have get: "handle_get env True ?n (Some req) t =
      Some (Some (?r3\<lparr>rs_code := COAP_MSG_CODE_RESPONSE_CONTENT\<rparr>), False, [], ?t1)"
    using m r0 r2 a(1)
    by (simp add: handle_get_def resource_handle_get_def resource_base_handle_get_def Let_def finish_def code_or_def)
  let ?b = "b\<lparr>bs_report := Some (observing token)\<rparr>"
  have g: "get_base ?n (t_object ?t1) = Some ?b"
    using s(1) by (simp add: tree_upd_def getset_simps base_set_observation_token_def observing_def
        del: get_base.simps upd_base.simps)
  have h: "o_handler (t_object ?t1)" using s(2) by (simp add: tree_upd_def upd_base_handler del: upd_base.simps)
  have "map_option opt_observe (rs_options ?r3) = Some 0"
    using r2 by (auto simp: options_with_max_age_def split: bind_splits)
  then show ?thesis using get g h by auto
qed

text \<open>A GET that observes a dynamic, observable resource of a number type for the first time is
  answered with observe number 0 and stores the token; the next value set on it, if it differs, is sent to the
  server at once under number 1. One value is the exception: -1, which the report handler takes for the value it
  has last reported.\<close>

lemma observe_notifies:
  assumes "env_serves env" and "simple_resource i j t" and "get_base (NRes i j) (t_object t) = Some b"
    and "bs_access b AND GET_ALLOWED \<noteq> 0" and "bs_observable b" and "bs_report b = None"
    and "bs_base_type b = BT_Resource" and "bs_mode b = Dynamic" and "bs_data_type b \<noteq> STRING"
    and "cm_options req = Some opts" and "opt_observe opts = 0" and "cm_token req = Some token"
    and "v \<noteq> []" and "bs_value b \<noteq> Some v" and "to_f32 (atof (cstr (chars_of v))) \<noteq> Fin (-1)"
  shows "\<exists>r t'. handle_get env True (NRes i j) (Some req) t = Some (Some r, False, [], t') \<and>
    map_option opt_observe (rs_options r) = Some 0 \<and>
    map_option bs_report (get_base (NRes i j) (t_object t')) = Some (Some (observing token)) \<and>
    SendObservation (NRes i j) 1 [] False \<in>
      set (drop (length (t_out t')) (t_out (fst (res_set_value (NRes i j) (Some v) (length v) t'))))"
proof -
  obtain r t' where s: "handle_get env True (NRes i j) (Some req) t = Some (Some r, False, [], t')"
    "map_option opt_observe (rs_options r) = Some 0"
    "get_base (NRes i j) (t_object t') = Some (b\<lparr>bs_report := Some (observing token)\<rparr>)" "o_handler (t_object t')"
    using observe_starts [OF assms(1-7) assms(10-12)] by blast
  then have "SendObservation (NRes i j) 1 [] False \<in>
      set (drop (length (t_out t')) (t_out (fst (res_set_value (NRes i j) (Some v) (length v) t'))))"
    using observed_value_set [OF s(3) _ s(4)] assms(8,9,5,13-15) by simp
  then show ?thesis using s by auto
qed

lemma observe_notifies_witness:
  "\<exists>r t'. handle_get sample_env True (NRes 0 0) (Some (sample_request COAP_MSG_CODE_REQUEST_GET None 0)) open_tree =
      Some (Some r, False, [], t') \<and> map_option opt_observe (rs_options r) = Some 0 \<and>
     map_option bs_report (get_base (NRes 0 0) (t_object t')) = Some (Some (observing [1, 2])) \<and>
     SendObservation (NRes 0 0) 1 [] False \<in>
       set (drop (length (t_out t')) (t_out (fst (res_set_value (NRes 0 0) (Some [55]) (length [55 :: u8]) t'))))"
proof -
  have "to_f32 (atof (cstr (chars_of [55]))) \<noteq> Fin (-1)" by code_simp
  then show ?thesis
    by (intro observe_notifies [OF sample_env_serves open_tree_simple open_tree_node, where opts = "sample_options\<lparr>opt_observe := 0\<rparr>"])
      (simp_all add: sample_request_def base_new_def)
qed

section \<open>Refused queries\<close>

lemma on_report_same:
  "get_base n (t_object t) = Some b \<Longrightarrow> bs_report b = Some h \<Longrightarrow>
     get_base n (t_object (on_report n f t)) = Some (b\<lparr>bs_report := Some (fst (f h))\<rparr>)"
  by (simp add: on_report_get del: get_base.simps)

text \<open>A PUT with a query the report handler refuses is answered with 4.00 and leaves the node
  with the default attributes: what was set by earlier, valid queries is lost, although the parser has
  put it back (\<open>refused_query_restored\<close>).\<close>

lemma invalid_query_resets:
  assumes "env_serves env" and "simple_resource i j t" and "get_base (NRes i j) (t_object t) = Some b"
    and "bs_report b = Some h" and "uri_query req = Some query"
    and "rh_parse_notification_attribute query (bs_base_type b) (bs_data_type b) h = Some (False, h')"
  shows "\<exists>r t'. handle_put env handler (NRes i j) (Some req) t = Some (Some r, False, [], t') \<and>
    rs_code r = COAP_MSG_CODE_RESPONSE_BAD_REQUEST \<and>
    map_option bs_report (get_base (NRes i j) (t_object t')) = Some (Some (rh_set_default_values h')) \<and>
    rh_attribute_state (rh_set_default_values h') = 0 \<and> rh_pmin (rh_set_default_values h') = 1 \<and>
    rh_pmax (rh_set_default_values h') = -1"
proof -
  let ?n = "NRes i j"
  obtain r0 where r0: "env_build env (Some req) COAP_MSG_CODE_RESPONSE_CHANGED = Some r0"
    using env_built [OF assms(1)] by blast
  have m: "\<not> supports_multiple_instances (tree_res i j t)"
    using assms(2) by (simp add: simple_resource_def resource_shape_def supports_multiple_instances_def)
  have c: "get_base ?n (t_object (create_report_handler ?n t)) = Some b"
    using assms(3,4) by (simp add: create_report_handler_def tree_upd_def getset_simps del: get_base.simps upd_base.simps)
  let ?t1 = "tree_upd ?n (\<lambda>b. b\<lparr>bs_report := Some h'\<rparr>) (create_report_handler ?n t)"
  let ?t2 = "on_report ?n (\<lambda>h. (rh_set_default_values h, [])) ?t1"
  have "node_handle_query ?n query t = Some (False, ?t2)"
    using assms(3,4,6) c
    by (simp add: node_handle_query_def resource_handle_observation_attribute_def on_report_query_def del: get_base.simps)
  then have put: "handle_put env handler ?n (Some req) t =
      Some (Some (r0\<lparr>rs_code := COAP_MSG_CODE_RESPONSE_BAD_REQUEST\<rparr>), False, [], ?t2)"
    using m r0 assms(5) by (simp add: handle_put_def resource_handle_put_def resource_base_handle_put_def finish_def query_code_def)
  have "get_base ?n (t_object ?t1) = Some (b\<lparr>bs_report := Some h'\<rparr>)"
    using c by (simp add: tree_upd_def getset_simps del: get_base.simps upd_base.simps)
  from on_report_same [OF this, of h'] put show ?thesis by (auto simp: rh_set_default_values_def simp del: get_base.simps)
qed

lemma invalid_query_resets_witness:
  "\<exists>r t'. handle_put sample_env True (NRes 0 0) (Some ((sample_request COAP_MSG_CODE_REQUEST_PUT None 0)
        \<lparr>cm_options := Some (sample_options\<lparr>opt_uri_query := Some ''x=1''\<rparr>)\<rparr>))
       (tree_upd (NRes 0 0) (\<lambda>b. b\<lparr>bs_report := Some (rh_new\<lparr>rh_pmin := 30\<rparr>)\<rparr>) open_tree) = Some (Some r, False, [], t') \<and>
     rs_code r = COAP_MSG_CODE_RESPONSE_BAD_REQUEST"
proof -
  let ?h = "rh_new\<lparr>rh_pmin := 30\<rparr>"
  let ?t = "tree_upd (NRes 0 0) (\<lambda>b. b\<lparr>bs_report := Some ?h\<rparr>) open_tree"
  let ?b = "(base_new ''1'' Dynamic '''' ''9/0/1'' False False INTEGER BT_Resource)
    \<lparr>bs_access := GET_PUT_POST_DELETE_ALLOWED, bs_observable := True, bs_report := Some ?h\<rparr>"
  have t: "simple_resource 0 0 ?t" using open_tree_simple by (simp add: simple_resource_def tree_upd_shape)
  have g: "get_base (NRes 0 0) (t_object ?t) = Some ?b"
    using open_tree_node by (simp add: tree_upd_def getset_simps del: get_base.simps upd_base.simps)
  have "map_option fst (rh_parse_notification_attribute ''x=1'' BT_Resource INTEGER ?h) = Some False"
    by code_simp
  then obtain h' where p: "rh_parse_notification_attribute ''x=1'' (bs_base_type ?b) (bs_data_type ?b) ?h = Some (False, h')"
    by (auto simp: base_new_def)
  have "uri_query ((sample_request COAP_MSG_CODE_REQUEST_PUT None 0)
        \<lparr>cm_options := Some (sample_options\<lparr>opt_uri_query := Some ''x=1''\<rparr>)\<rparr>) = Some ''x=1''"
    by (simp add: uri_query_def cstr_def)
  from invalid_query_resets [OF sample_env_serves t g _ this p, of True] show ?thesis by auto
qed

section \<open>Creations that fail\<close>

lemma first_free_unused: "first_free_instance k ob = Some n \<Longrightarrow> object_instance_of (of_nat n) ob = None"
proof (induction k ob rule: first_free_instance.induct)
  case (1 k ob)
  then show ?case by (auto simp: first_free_instance.simps [of k ob] split: if_splits)
qed

text \<open>A POST on an object whose payload is neither an object instance nor a resource is
  answered with 4.00, but the instance created for it, with the first free number, stays in the object.\<close>

lemma failed_create_leaves_instance:
  assumes "node_allows NObj POST_ALLOWED t" and "cm_payload req = Some payload" and "payload \<noteq> []"
    and "hd payload AND TYPE_RESOURCE = TYPE_RESOURCE_INSTANCE" and "env_serves env"
    and "request_content_type NObj req t = COAP_CONTENT_OMA_TLV_TYPE" and "first_free_instance 0 (t_object t) = Some free"
  shows "\<exists>r t'. handle_post env handler NObj (Some req) t = Some (Some r, False, [], t') \<and>
    rs_code r = COAP_MSG_CODE_RESPONSE_BAD_REQUEST \<and>
    length (o_instances (t_object t')) = Suc (length (o_instances (t_object t))) \<and>
    base_instance_id (oi_base (last (o_instances (t_object t')))) = of_nat free"
proof -
  obtain r0 where r0: "env_build env (Some req) COAP_MSG_CODE_RESPONSE_CHANGED = Some r0"
    using env_built [OF assms(5)] by blast
  obtain b p where p: "payload = b # p" using assms(3) by (cases payload) auto
  have k: "b AND TYPE_RESOURCE = TYPE_RESOURCE_INSTANCE" using assms(4) p by simp
  have kinds: "is_object_instance (Some payload) = Some False" "is_resource (Some payload) = Some False"
    "is_multiple_resource (Some payload) = Some False"
    using k by (simp_all add: is_object_instance_def is_resource_def is_multiple_resource_def tlv_is_def rd_def p)
  obtain e where e: "base_instance_id (oi_base e) = of_nat free" "create_object_instance (of_nat free) (t_object t) =
      ((t_object t)\<lparr>o_instances := o_instances (t_object t) @ [e]\<rparr>, Some (length (o_instances (t_object t))))"
    using create_object_instance_new [OF first_free_unused [OF assms(7)]] by blast
  let ?i = "length (o_instances (t_object t))"
  let ?t1 = "t\<lparr>t_object := (t_object t)\<lparr>o_instances := o_instances (t_object t) @ [e]\<rparr>\<rparr>"
  let ?t2 = "tree_upd (NInst ?i) (base_set_operation GET_PUT_ALLOWED) ?t1"
  have "object_post_instance env handler payload (of_nat free) False (Some r0) t =
      Some (finish COAP_MSG_CODE_RESPONSE_BAD_REQUEST (Some r0) ?t2)"
    by (simp add: object_post_instance_def tree_create_object_instance_def e(2) kinds)
  then have "handle_post env handler NObj (Some req) t = Some (finish COAP_MSG_CODE_RESPONSE_BAD_REQUEST (Some r0) ?t2)"
    using assms(1,2,6,7) r0 kinds(1) by (simp add: handle_post_def object_handle_post_def)
  moreover have "o_instances (t_object ?t2) = o_instances (t_object t) @ [upd_oi_base (base_set_operation GET_PUT_ALLOWED) e]"
    by (simp add: tree_upd_def upd_inst_def update_at_def)
  moreover have "base_instance_id (base_set_operation opr b) = base_instance_id b" for opr b
    by (simp add: base_set_operation_def base_instance_id_def)
  ultimately show ?thesis using e(1) by (simp add: finish_def upd_oi_base_def)
qed

definition creatable_tree :: tree where
  "creatable_tree = tree_upd NObj (\<lambda>b. b\<lparr>bs_access := GET_PUT_POST_DELETE_ALLOWED,
     bs_content_type := COAP_CONTENT_OMA_TLV_TYPE\<rparr>) sample_tree"

lemma failed_create_leaves_instance_witness:
  "\<exists>r t'. handle_post sample_env True NObj (Some (sample_request COAP_MSG_CODE_REQUEST_POST (Some [0x40, 0]) (-1))) creatable_tree =
      Some (Some r, False, [], t') \<and> rs_code r = COAP_MSG_CODE_RESPONSE_BAD_REQUEST \<and>
     length (o_instances (t_object t')) = Suc (length (o_instances (t_object creatable_tree))) \<and>
     base_instance_id (oi_base (last (o_instances (t_object t')))) = of_nat 1"
proof -
  have ids: "map (\<lambda>oi. base_instance_id (oi_base oi)) (o_instances (t_object creatable_tree)) = [0]"
    by (simp add: creatable_tree_def tree_upd_def upd_defs sample_tree_def Let_def base_new_def base_instance_id_def)
  have f: "object_instance_of 0 (t_object creatable_tree) = Some 0" "object_instance_of 1 (t_object creatable_tree) = None"
    using ids by (auto simp: object_instance_of_def find_idx_map [symmetric, where P = "\<lambda>k. k = _" and f = "\<lambda>oi. base_instance_id (oi_base oi)"])
  have free: "first_free_instance 0 (t_object creatable_tree) = Some 1"
    using f by (simp add: first_free_instance.simps [of 0] first_free_instance.simps [of "Suc 0"] MAX_UNINT_16_COUNT_def)
  have a: "node_allows NObj POST_ALLOWED creatable_tree" "request_content_type NObj
      (sample_request COAP_MSG_CODE_REQUEST_POST (Some [0x40, 0]) (-1)) creatable_tree = COAP_CONTENT_OMA_TLV_TYPE"
    by (simp_all add: node_allows_def with_base_def creatable_tree_def tree_upd_def upd_defs sample_request_def
        request_content_type_def)
  show ?thesis
    by (rule failed_create_leaves_instance [OF a(1) _ _ _ sample_env_serves a(2) free, where payload = "[0x40, 0]"])
      (simp_all add: sample_request_def)
qed

text \<open>A POST on an object instance that allows it and prefers TLV, without a payload and a content
  type, reads the instance number through the null pointer of the payload.\<close>

lemma post_without_payload:
  assumes "node_allows (NInst i) POST_ALLOWED t" and "cm_payload req = None" and "env_serves env"
    and "request_content_type (NInst i) req t = COAP_CONTENT_OMA_TLV_TYPE"
  shows "handle_post env handler (NInst i) (Some req) t = None"
proof -
  obtain r0 where r0: "env_build env (Some req) COAP_MSG_CODE_RESPONSE_CHANGED = Some r0"
    using env_built [OF assms(3)] by blast
  then show ?thesis using assms(1,2,4)
    by (simp add: handle_post_def instance_handle_post_def deserialize_resources_def is_resource_def
        is_multiple_resource_def tlv_is_def)
qed

lemma post_without_payload_witness:
  "handle_post sample_env True (NInst 0) (Some (sample_request COAP_MSG_CODE_REQUEST_POST None (-1)))
     (tree_upd (NInst 0) (\<lambda>b. b\<lparr>bs_access := POST_ALLOWED, bs_content_type := COAP_CONTENT_OMA_TLV_TYPE\<rparr>) sample_tree) = None"
  by (rule post_without_payload [OF _ _ sample_env_serves])
    (simp_all add: node_allows_def with_base_def tree_upd_def upd_defs update_at_def sample_tree_def Let_def sample_request_def
      request_content_type_def COAP_CT_NONE_def)

end
