(* ===== verification/InterfaceState.thy ===== *)
theory InterfaceState
  imports StringBuffer BaseTypes "HOL-Library.State_Monad"
begin

text \<open>
  The state of \<open>M2MInterfaceImpl\<close> (\<open>source/include/m2minterfaceimpl.h\<close>), the events of
  \<open>source/include/eventdata.h\<close>, and the calls the class makes on its collaborators: the observer of the
  application, the connection handler, the NSDL interface and the timers. A collaborator may call back
  before it returns. Its answers are a script in the state: the next reply holds the result of the next call and the
  inputs the collaborator delivers during it. Code is a program of the state monad; \<open>go\<close> is
  the part of a program that is run by the interpreter at the end of the theory InterfaceImpl.
\<close>

section \<open>Enumerations\<close>

datatype fsm_state =
    STATE_IDLE
  | STATE_BOOTSTRAP
  | STATE_BOOTSTRAP_ADDRESS_RESOLVED
  | STATE_BOOTSTRAP_RESOURCE_CREATED
  | STATE_BOOTSTRAP_WAIT
  | STATE_BOOTSTRAPPED
  | STATE_REGISTER
  | STATE_REGISTER_ADDRESS_RESOLVED
  | STATE_REGISTERED
  | STATE_UPDATE_REGISTRATION
  | STATE_UNREGISTER
  | STATE_UNREGISTERED
  | STATE_SENDING_COAP_DATA
  | STATE_COAP_DATA_SENT
  | STATE_COAP_DATA_RECEIVED
  | STATE_PROCESSING_COAP_DATA
  | STATE_COAP_DATA_PROCESSED
  | STATE_WAITING

datatype m2m_error =
    NoError
  | AlreadyExists
  | BootstrapFailed
  | InvalidParameters
  | NotRegistered
  | Timeout
  | NetworkError
  | ResponseParseFailed
  | UnknownError
  | MemoryFail
  | NotAllowed
  | SecureConnectionFailed
  | DnsResolvingFailed

fun m2m_error_code :: "m2m_error \<Rightarrow> u8" where
  "m2m_error_code NoError = 0"
| "m2m_error_code AlreadyExists = 1"
| "m2m_error_code BootstrapFailed = 2"
| "m2m_error_code InvalidParameters = 3"
| "m2m_error_code NotRegistered = 4"
| "m2m_error_code Timeout = 5"
| "m2m_error_code NetworkError = 6"
| "m2m_error_code ResponseParseFailed = 7"
| "m2m_error_code UnknownError = 8"
| "m2m_error_code MemoryFail = 9"
| "m2m_error_code NotAllowed = 10"
| "m2m_error_code SecureConnectionFailed = 11"
| "m2m_error_code DnsResolvingFailed = 12"

text \<open>\<open>M2MConnectionHandler::ConnectionError\<close>, which shares its numbers with the errors above.\<close>

abbreviation SSL_CONNECTION_ERROR :: u8 where "SSL_CONNECTION_ERROR \<equiv> 1"
abbreviation SOCKET_READ_ERROR :: u8 where "SOCKET_READ_ERROR \<equiv> 2"
abbreviation SOCKET_SEND_ERROR :: u8 where "SOCKET_SEND_ERROR \<equiv> 3"
abbreviation SOCKET_ABORT :: u8 where "SOCKET_ABORT \<equiv> 4"
abbreviation DNS_RESOLVING_ERROR :: u8 where "DNS_RESOLVING_ERROR \<equiv> 5"
abbreviation SSL_HANDSHAKE_ERROR :: u8 where "SSL_HANDSHAKE_ERROR \<equiv> 6"

datatype binding_mode = NOT_SET | UDP | UDP_QUEUE | SMS | SMS_QUEUE | UDP_SMS_QUEUE | TCP | TCP_QUEUE

datatype network_stack =
    Uninitialized | LwIP_IPv4 | LwIP_IPv6 | Reserved | Nanostack_IPv6 | ATWINC_IPv4 | UnknownStack

datatype address_kind = ADDRESS_IPV4 | ADDRESS_IPV6

datatype server_kind = BootstrapServer | LWM2MServer

datatype reconnection_state = NoReconnection | WithUpdate | FullRegistration

datatype interface_timer = QueueSleepTimer | RetryTimer | BootstrapFlowTimer | RegistrationFlowTimer

section \<open>Data passed around\<close>

text \<open>
  What the code reads of a security object: its address, kind, server address and security mode; of a socket
  address: stack, bytes and port. Objects to register and server objects are addresses.
\<close>

record security =
  sec_object :: nat
  sec_kind :: server_kind
  sec_uri :: string
  sec_mode :: int

abbreviation NoSecurity :: int where "NoSecurity \<equiv> 3"

record socket_address =
  sa_stack :: network_stack
  sa_address :: "u8 list"
  sa_port :: u16

datatype event_data =
    SecurityData "security option"
  | RegisterData "security option" "nat list"
  | UpdateRegisterData "security option" u32 "nat list"
  | ResolvedAddressData socket_address u16
  | ReceivedData "u8 list" socket_address

section \<open>Inputs, replies and outputs\<close>

datatype interface_input =
    CallBootstrap "security option"
  | CallRegister "security option" "nat list"
  | CallUpdate "security option" u32 "nat list"
  | CallUnregister
  | CallSetSleepHandler bool
  | OnCoapMessageReady "u8 list"
  | OnClientRegistered nat
  | OnRegistrationUpdated nat
  | OnRegistrationError m2m_error bool
  | OnClientUnregistered
  | OnBootstrapDone "security option"
  | OnBootstrapWait "security option"
  | OnBootstrapError
  | OnCoapDataProcessed
  | OnValueUpdated "(nat \<times> base_type) option"
  | OnDataAvailable "u8 list" socket_address
  | OnSocketError u8 bool
  | OnAddressReady socket_address server_kind u16
  | OnDataSent
  | OnTimerExpired interface_timer

datatype reply = Reply bool "interface_input list"

datatype interface_output =
    ObserverError m2m_error
  | ObserverRegistered "security option" nat
  | ObserverUpdated "security option" nat
  | ObserverUnregistered "security option"
  | ObserverBootstrapDone "security option"
  | ObserverValueUpdated nat base_type
  | SleepHandler
  | StopListening
  | StartListening
  | BindConnection u16
  | ResolveServerAddress string u16 server_kind "security option"
  | SendData "u8 list"
  | NsdlStopTimers
  | NsdlCreateList "nat list"
  | NsdlCreateBootstrapResource "address_kind option" "u8 list" u16 string
  | NsdlSetServerAddress "u8 list" u16 address_kind
  | NsdlSendRegister
  | NsdlSendUpdate u32
  | NsdlSendUnregister
  | NsdlProcessData "u8 list" "address_kind option" "u8 list" u16
  | StartInterfaceTimer interface_timer int
  | StopInterfaceTimer interface_timer

section \<open>State\<close>

text \<open>
  \<open>if_undefined\<close> is set where the C++ has undefined behaviour, \<open>if_exhausted\<close> when the interpreter ran out
  of fuel.
\<close>

record interface =
  if_event_data :: "event_data option"
  if_flow_timer :: bool
  if_server_port :: u16
  if_listen_port :: u16
  if_endpoint_name :: string
  if_domain :: string
  if_server_ip_address :: string
  if_register_server :: "security option"
  if_callback_handler :: bool
  if_event_ignored :: bool
  if_event_generated :: bool
  if_reconnecting :: bool
  if_retry_timer_expired :: bool
  if_bootstrapped :: bool
  if_current_state :: fsm_state
  if_retry_count :: nat
  if_binding_mode :: binding_mode
  if_reconnection_state :: reconnection_state
  if_security :: "security option"
  if_replies :: "reply list"
  if_out :: "interface_output list"
  if_undefined :: bool
  if_exhausted :: bool

definition uses_tcp :: "binding_mode \<Rightarrow> bool" where
  "uses_tcp m \<longleftrightarrow> m = TCP \<or> m = TCP_QUEUE"

definition uses_queue :: "binding_mode \<Rightarrow> bool" where
  "uses_queue m \<longleftrightarrow> m = UDP_QUEUE \<or> m = TCP_QUEUE \<or> m = SMS_QUEUE \<or> m = UDP_SMS_QUEUE"

definition interface_new :: "string \<Rightarrow> u16 \<Rightarrow> string \<Rightarrow> binding_mode \<Rightarrow> reply list \<Rightarrow> interface" where
  "interface_new ep_name listen_port dmn m script =
     \<lparr>if_event_data = None, if_flow_timer = uses_tcp m, if_server_port = 0, if_listen_port = listen_port,
      if_endpoint_name = ep_name, if_domain = dmn, if_server_ip_address = [], if_register_server = None,
      if_callback_handler = False, if_event_ignored = False, if_event_generated = False,
      if_reconnecting = False, if_retry_timer_expired = False, if_bootstrapped = True,
      if_current_state = STATE_IDLE, if_retry_count = 0, if_binding_mode = m,
      if_reconnection_state = NoReconnection, if_security = None, if_replies = script,
      if_out = [BindConnection listen_port], if_undefined = False, if_exhausted = False\<rparr>"

section \<open>Programs\<close>

type_synonym 'a prog = "(interface, 'a) state"

datatype interface_call = Engine | Inputs "interface_input list"

type_synonym runner = "interface_call \<Rightarrow> unit prog"

definition modify :: "(interface \<Rightarrow> interface) \<Rightarrow> unit prog" where
  "modify f = State (\<lambda>s. ((), f s))"

definition read :: "(interface \<Rightarrow> 'a) \<Rightarrow> 'a prog" where
  "read f = State (\<lambda>s. (f s, s))"

definition skip :: "unit prog" where
  "skip = State_Monad.return ()"

definition when_do :: "bool \<Rightarrow> unit prog \<Rightarrow> unit prog" where
  "when_do b p = (if b then p else skip)"

lemma run_prog_simps [simp]:
  "run_state (modify f) s = ((), f s)" "run_state (read g) s = (g s, s)" "run_state skip s = ((), s)"
  "run_state (when_do b p) s = (if b then run_state p s else ((), s))"
  by (simp_all add: modify_def read_def skip_def when_do_def)

text \<open>A call on the timers, which only records it, and a call on any other collaborator.\<close>

definition emit_output :: "interface_output \<Rightarrow> unit prog" where
  "emit_output out = modify (\<lambda>s. s\<lparr>if_out := if_out s @ [out]\<rparr>)"

definition next_reply :: "reply prog" where
  "next_reply = State (\<lambda>s. case if_replies s of [] \<Rightarrow> (Reply True [], s) | r # rs \<Rightarrow> (r, s\<lparr>if_replies := rs\<rparr>))"

fun reply_result :: "reply \<Rightarrow> bool" where
  "reply_result (Reply b is) = b"

fun reply_inputs :: "reply \<Rightarrow> interface_input list" where
  "reply_inputs (Reply b is) = is"

definition call_out :: "runner \<Rightarrow> interface_output \<Rightarrow> bool prog" where
  "call_out go out = do {
     emit_output out;
     r \<leftarrow> next_reply;
     go (Inputs (reply_inputs r));
     State_Monad.return (reply_result r) }"

text \<open>A call whose result the code does not look at.\<close>

definition call_ignore :: "runner \<Rightarrow> interface_output \<Rightarrow> unit prog" where
  "call_ignore go out = do { b \<leftarrow> call_out go out; skip }"

end
