(* ===== verification/InterfaceImpl.thy ===== *)
theory InterfaceImpl
  imports InterfaceState
begin

text \<open>
  The operations of \<open>M2MInterfaceImpl\<close> (\<open>source/m2minterfaceimpl.cpp\<close>): the state functions, the
  state engine with its nested events, the transition maps of the calls of the application, and the callbacks
  of the NSDL interface, the connection handler and the timers. Strings are taken at the level of
  their contents. The configuration is the default one (3 reconnections, 5 seconds, looping).
\<close>

definition RECONNECTION_COUNT :: nat where "RECONNECTION_COUNT = 3"

definition RECONNECTION_INTERVAL :: nat where "RECONNECTION_INTERVAL = 5"

definition MINIMUM_REGISTRATION_TIME :: u32 where "MINIMUM_REGISTRATION_TIME = 60"

section \<open>Server addresses\<close>

text \<open>\<open>substr\<close>, \<open>find_last_of\<close> and \<open>compare(0, n, text) == 0\<close> on the contents of a string.\<close>

definition string_substr :: "nat \<Rightarrow> nat \<Rightarrow> string \<Rightarrow> string" where
  "string_substr pos n s = (if pos \<le> length s then take n (drop pos s) else [])"

definition string_find_last :: "char \<Rightarrow> string \<Rightarrow> int" where
  "string_find_last c s = (case last_index c s of None \<Rightarrow> -1 | Some i \<Rightarrow> int i)"

lemma find_last_append: "c \<notin> set t \<Longrightarrow> string_find_last c (s @ c # t) = int (length s)"
proof -
  assume c: "c \<notin> set t"
  have "last_index c (s @ [c]) = Some (length s)" by (induction s) simp_all
  then show ?thesis using last_index_append_notin [OF c, of "s @ [c]"] by (simp add: string_find_last_def)
qed

lemma find_last_none: "c \<notin> set s \<Longrightarrow> string_find_last c s = -1"
  using last_index_None [of c s] by (simp add: string_find_last_def)

lemma find_last_neg: "string_find_last c s = -1 \<longleftrightarrow> c \<notin> set s"
  by (simp add: string_find_last_def last_index_None [symmetric] split: option.split)

definition starts_with :: "string \<Rightarrow> string \<Rightarrow> bool" where
  "starts_with s t \<longleftrightarrow> take (length t) s = t"

definition process_address :: "string \<Rightarrow> string \<times> u16 \<Rightarrow> string \<times> u16" where
  "process_address server_address old =
     (let colon_found = string_find_last CHR '':'' server_address
      in if colon_found \<noteq> -1 then
           (let ip = string_substr 0 (nat colon_found) server_address;
                port = word_of_int (atoi (string_substr (nat colon_found + 1)
                         (length server_address - length ip) server_address));
                bracket = string_find_last CHR '']'' ip
            in if starts_with ip ''['' then
                 (if bracket = -1 then ([], port) else (string_substr 1 (nat (bracket - 1)) ip, port))
               else if bracket \<noteq> -1 then ([], port) else (ip, port))
         else old)"

text \<open>The scheme a security object may use: \<open>coaps\<close> needs a security mode, other schemes are refused.\<close>

definition scheme_of :: "security \<Rightarrow> string" where
  "scheme_of sec =
     (if starts_with (sec_uri sec) ''coap://'' then ''coap://''
      else if starts_with (sec_uri sec) ''coaps://'' then (if sec_mode sec \<noteq> NoSecurity then ''coaps://'' else [])
      else [])"

definition address_of :: "security \<Rightarrow> string" where
  "address_of sec = string_substr (length (scheme_of sec)) (length (sec_uri sec) - length (scheme_of sec)) (sec_uri sec)"

fun address_kind_of :: "network_stack \<Rightarrow> address_kind option" where
  "address_kind_of LwIP_IPv4 = Some ADDRESS_IPV4"
| "address_kind_of LwIP_IPv6 = Some ADDRESS_IPV6"
| "address_kind_of Nanostack_IPv6 = Some ADDRESS_IPV6"
| "address_kind_of _ = None"

section \<open>Events\<close>

definition internal_event :: "runner \<Rightarrow> fsm_state \<Rightarrow> event_data option \<Rightarrow> unit prog" where
  "internal_event go new_state data = do {
     modify (\<lambda>s. s\<lparr>if_event_data := data, if_event_generated := True, if_current_state := new_state\<rparr>);
     go Engine }"

definition external_event :: "runner \<Rightarrow> fsm_state option \<Rightarrow> event_data option \<Rightarrow> unit prog" where
  "external_event go new_state data =
     (case new_state of
        None \<Rightarrow> modify (\<lambda>s. s\<lparr>if_event_ignored := True\<rparr>)
      | Some st \<Rightarrow> internal_event go st data)"

definition restart_flow_timer :: "interface_timer \<Rightarrow> unit prog" where
  "restart_flow_timer t = do {
     exists_timer \<leftarrow> read if_flow_timer;
     when_do exists_timer (do {
       emit_output (StopInterfaceTimer RegistrationFlowTimer);
       emit_output (StartInterfaceTimer t (int (RECONNECTION_COUNT * RECONNECTION_INTERVAL * 8 * 1000))) }) }"

definition stop_flow_timer :: "unit prog" where
  "stop_flow_timer = do {
     exists_timer \<leftarrow> read if_flow_timer;
     when_do exists_timer (emit_output (StopInterfaceTimer RegistrationFlowTimer)) }"

section \<open>State functions\<close>

definition state_idle :: "runner \<Rightarrow> unit prog" where
  "state_idle go = call_ignore go NsdlStopTimers"

definition give_up :: "runner \<Rightarrow> m2m_error \<Rightarrow> unit prog" where
  "give_up go e = do { internal_event go STATE_IDLE None; call_ignore go (ObserverError e) }"

definition resolve_with :: "runner \<Rightarrow> interface_timer \<Rightarrow> server_kind \<Rightarrow> security \<Rightarrow> m2m_error prog" where
  "resolve_with go t kind sec =
     (if scheme_of sec \<noteq> [] then do {
        ip \<leftarrow> read if_server_ip_address;
        port \<leftarrow> read if_server_port;
        let (ip', port') = process_address (address_of sec) (ip, port);
        modify (\<lambda>s. s\<lparr>if_server_ip_address := ip', if_server_port := port'\<rparr>);
        if ip' \<noteq> [] then do {
          restart_flow_timer t;
          call_ignore go (ResolveServerAddress ip' port' kind (Some sec));
          State_Monad.return NoError }
        else State_Monad.return InvalidParameters }
      else State_Monad.return InvalidParameters)"

text \<open>A new connection to the server whose address is known.\<close>

definition reconnect_start :: "runner \<Rightarrow> unit prog" where
  "reconnect_start go = do {
     modify (\<lambda>s. s\<lparr>if_listen_port := 0\<rparr>);
     call_ignore go StopListening }"

definition reconnect_resolve :: "runner \<Rightarrow> interface_timer \<Rightarrow> server_kind \<Rightarrow> unit prog" where
  "reconnect_resolve go t kind = do {
     listen_port \<leftarrow> read if_listen_port;
     call_ignore go (BindConnection listen_port);
     restart_flow_timer t;
     ip \<leftarrow> read if_server_ip_address;
     port \<leftarrow> read if_server_port;
     sec \<leftarrow> read if_security;
     call_ignore go (ResolveServerAddress ip port kind sec) }"

definition state_bootstrap :: "runner \<Rightarrow> event_data option \<Rightarrow> unit prog" where
  "state_bootstrap go data = do {
     modify (\<lambda>s. s\<lparr>if_bootstrapped := False\<rparr>);
     security \<leftarrow> read if_security;
     case security of
       None \<Rightarrow> do {
         error \<leftarrow> (case data of
           Some (SecurityData obj) \<Rightarrow> do {
             modify (\<lambda>s. s\<lparr>if_security := obj\<rparr>);
             case obj of
               None \<Rightarrow> State_Monad.return InvalidParameters
             | Some sec \<Rightarrow>
                 if sec_kind sec = BootstrapServer then resolve_with go BootstrapFlowTimer BootstrapServer sec
                 else State_Monad.return InvalidParameters }
         | _ \<Rightarrow> State_Monad.return InvalidParameters);
         when_do (error \<noteq> NoError) (give_up go error) }
     | Some sec \<Rightarrow> do {
         reconnect_start go;
         reconnect_resolve go BootstrapFlowTimer BootstrapServer } }"

text \<open>
  The endpoint name of the bootstrap request: the name, and the domain when there is one, in a buffer of
  \<open>MAX_PATH_SIZE\<close> bytes. The check before the domain counts the name, which is in the buffer already, again.
\<close>

definition MAX_PATH_SIZE :: nat where
  "MAX_PATH_SIZE = (MAX_NAME_SIZE * 2) + (MAX_INSTANCE_SIZE * 2) + 3 + 1"

definition bootstrap_endpoint_name :: "string \<Rightarrow> string \<Rightarrow> string option" where
  "bootstrap_endpoint_name ep dmn =
     (if length ep + 1 > MAX_PATH_SIZE then None
      else if dmn = [] then Some ep
      else if length ep + 1 + length dmn + 1 > MAX_PATH_SIZE - length ep then None
      else Some (ep @ ''@'' @ dmn))"

definition state_bootstrap_address_resolved :: "runner \<Rightarrow> event_data option \<Rightarrow> unit prog" where
  "state_bootstrap_address_resolved go data =
     (case data of
        Some (ResolvedAddressData addr port) \<Rightarrow> do {
          call_ignore go StartListening;
          ep \<leftarrow> read if_endpoint_name;
          dmn \<leftarrow> read if_domain;
          case bootstrap_endpoint_name ep dmn of
            None \<Rightarrow> call_ignore go (ObserverError InvalidParameters)
          | Some new_ep_name \<Rightarrow> do {
              ok \<leftarrow> call_out go (NsdlCreateBootstrapResource (address_kind_of (sa_stack addr)) (sa_address addr) port new_ep_name);
              if ok then internal_event go STATE_BOOTSTRAP_RESOURCE_CREATED None
              else give_up go InvalidParameters } }
      | Some _ \<Rightarrow> modify (\<lambda>s. s\<lparr>if_undefined := True\<rparr>)
      | None \<Rightarrow> skip)"

text \<open>
  The cast to \<open>M2MRegisterData\<close> is wrong for the data of a registration update: the object it reads is at the
  same place in both classes, the list of objects is not.
\<close>

definition register_object_list :: "runner \<Rightarrow> event_data \<Rightarrow> bool prog" where
  "register_object_list go data =
     (case data of
        RegisterData obj objects \<Rightarrow> call_out go (NsdlCreateList objects)
      | _ \<Rightarrow> do { modify (\<lambda>s. s\<lparr>if_undefined := True\<rparr>); State_Monad.return False })"

fun event_object :: "event_data \<Rightarrow> security option" where
  "event_object (SecurityData obj) = obj"
| "event_object (RegisterData obj objects) = obj"
| "event_object (UpdateRegisterData obj lifetime objects) = obj"
| "event_object _ = None"

definition state_register :: "runner \<Rightarrow> event_data option \<Rightarrow> unit prog" where
  "state_register go data = do {
     security \<leftarrow> read if_security;
     case security of
       None \<Rightarrow> do {
         error \<leftarrow> (case data of
           None \<Rightarrow> State_Monad.return InvalidParameters
         | Some event \<Rightarrow> do {
             modify (\<lambda>s. s\<lparr>if_security := event_object event\<rparr>);
             case event_object event of
               None \<Rightarrow> State_Monad.return InvalidParameters
             | Some sec \<Rightarrow>
                 if sec_kind sec = LWM2MServer then do {
                   ok \<leftarrow> register_object_list go event;
                   if ok then resolve_with go RegistrationFlowTimer LWM2MServer sec
                   else State_Monad.return InvalidParameters }
                 else State_Monad.return InvalidParameters });
         when_do (error \<noteq> NoError) (give_up go error) }
     | Some sec \<Rightarrow> do {
         reconnect_start go;
         (case data of None \<Rightarrow> skip | Some event \<Rightarrow> do { ok \<leftarrow> register_object_list go event; skip });
         reconnect_resolve go RegistrationFlowTimer LWM2MServer } }"

definition state_register_address_resolved :: "runner \<Rightarrow> event_data option \<Rightarrow> unit prog" where
  "state_register_address_resolved go data =
     (case data of
        Some (ResolvedAddressData addr port) \<Rightarrow> do {
          call_ignore go StartListening;
          call_ignore go (NsdlSetServerAddress (sa_address addr) port
            (case address_kind_of (sa_stack addr) of None \<Rightarrow> ADDRESS_IPV6 | Some k \<Rightarrow> k));
          reconnection \<leftarrow> read if_reconnection_state;
          if reconnection = WithUpdate then internal_event go STATE_UPDATE_REGISTRATION None
          else do {
            ok \<leftarrow> call_out go NsdlSendRegister;
            when_do (\<not> ok) (give_up go InvalidParameters) } }
      | Some _ \<Rightarrow> modify (\<lambda>s. s\<lparr>if_undefined := True\<rparr>)
      | None \<Rightarrow> skip)"

definition clear_reconnection :: "interface \<Rightarrow> interface" where
  "clear_reconnection s = s\<lparr>if_retry_count := 0, if_reconnecting := False, if_reconnection_state := NoReconnection\<rparr>"

definition state_registered :: "unit prog" where
  "state_registered = modify clear_reconnection"

definition send_update_or_register :: "runner \<Rightarrow> u32 \<Rightarrow> unit prog" where
  "send_update_or_register go lifetime = do {
     success \<leftarrow> call_out go (NsdlSendUpdate lifetime);
     reconnection \<leftarrow> read if_reconnection_state;
     when_do (\<not> success \<and> reconnection = WithUpdate) (do {
       modify (\<lambda>s. s\<lparr>if_reconnection_state := FullRegistration\<rparr>);
       ok \<leftarrow> call_out go NsdlSendRegister;
       when_do (\<not> ok) (give_up go InvalidParameters) }) }"

definition state_update_registration :: "runner \<Rightarrow> event_data option \<Rightarrow> unit prog" where
  "state_update_registration go data =
     (case data of
        None \<Rightarrow> send_update_or_register go 0
      | Some (UpdateRegisterData obj lifetime objects) \<Rightarrow> do {
          when_do (objects \<noteq> []) (call_ignore go (NsdlCreateList objects));
          send_update_or_register go lifetime }
      | Some _ \<Rightarrow> modify (\<lambda>s. s\<lparr>if_undefined := True\<rparr>))"

definition state_unregister :: "runner \<Rightarrow> unit prog" where
  "state_unregister go = do {
     internal_event go STATE_SENDING_COAP_DATA None;
     ok \<leftarrow> call_out go NsdlSendUnregister;
     when_do (\<not> ok) (give_up go NotRegistered) }"

definition state_unregistered :: "runner \<Rightarrow> unit prog" where
  "state_unregistered go = internal_event go STATE_IDLE None"

definition state_sending_coap_data :: "runner \<Rightarrow> unit prog" where
  "state_sending_coap_data go = internal_event go STATE_WAITING None"

definition state_coap_data_sent :: "runner \<Rightarrow> unit prog" where
  "state_coap_data_sent go = internal_event go STATE_WAITING None"

definition state_coap_data_received :: "runner \<Rightarrow> event_data option \<Rightarrow> unit prog" where
  "state_coap_data_received go data =
     (case data of
        Some (ReceivedData bytes addr) \<Rightarrow> do {
          internal_event go STATE_PROCESSING_COAP_DATA None;
          ok \<leftarrow> call_out go (NsdlProcessData bytes (address_kind_of (sa_stack addr)) (sa_address addr) (sa_port addr));
          when_do (\<not> ok) (call_ignore go (ObserverError ResponseParseFailed)) }
      | Some _ \<Rightarrow> modify (\<lambda>s. s\<lparr>if_undefined := True\<rparr>)
      | None \<Rightarrow> skip)"

definition state_processing_coap_data :: "runner \<Rightarrow> unit prog" where
  "state_processing_coap_data go = internal_event go STATE_WAITING None"

definition state_coap_data_processed :: "runner \<Rightarrow> unit prog" where
  "state_coap_data_processed go = internal_event go STATE_WAITING None"

definition state_function :: "runner \<Rightarrow> fsm_state \<Rightarrow> event_data option \<Rightarrow> unit prog" where
  "state_function go current_state data =
     (case current_state of
        STATE_IDLE \<Rightarrow> state_idle go
      | STATE_BOOTSTRAP \<Rightarrow> state_bootstrap go data
      | STATE_BOOTSTRAP_ADDRESS_RESOLVED \<Rightarrow> state_bootstrap_address_resolved go data
      | STATE_BOOTSTRAP_RESOURCE_CREATED \<Rightarrow> skip
      | STATE_BOOTSTRAP_WAIT \<Rightarrow> skip
      | STATE_BOOTSTRAPPED \<Rightarrow> skip
      | STATE_REGISTER \<Rightarrow> state_register go data
      | STATE_REGISTER_ADDRESS_RESOLVED \<Rightarrow> state_register_address_resolved go data
      | STATE_REGISTERED \<Rightarrow> state_registered
      | STATE_UPDATE_REGISTRATION \<Rightarrow> state_update_registration go data
      | STATE_UNREGISTER \<Rightarrow> state_unregister go
      | STATE_UNREGISTERED \<Rightarrow> state_unregistered go
      | STATE_SENDING_COAP_DATA \<Rightarrow> state_sending_coap_data go
      | STATE_COAP_DATA_SENT \<Rightarrow> state_coap_data_sent go
      | STATE_COAP_DATA_RECEIVED \<Rightarrow> state_coap_data_received go data
      | STATE_PROCESSING_COAP_DATA \<Rightarrow> state_processing_coap_data go
      | STATE_COAP_DATA_PROCESSED \<Rightarrow> state_coap_data_processed go
      | STATE_WAITING \<Rightarrow> skip)"

text \<open>The loop of \<open>state_engine\<close>: the last call of the runner is its next round.\<close>

definition state_engine :: "runner \<Rightarrow> unit prog" where
  "state_engine go = do {
     generated \<leftarrow> read if_event_generated;
     when_do generated (do {
       data \<leftarrow> read if_event_data;
       modify (\<lambda>s. s\<lparr>if_event_data := None, if_event_generated := False\<rparr>);
       current_state \<leftarrow> read if_current_state;
       state_function go current_state data;
       go Engine }) }"

section \<open>Calls of the application\<close>

fun bootstrap_transition :: "fsm_state \<Rightarrow> fsm_state option" where
  "bootstrap_transition STATE_IDLE = Some STATE_BOOTSTRAP"
| "bootstrap_transition _ = None"

fun register_transition :: "fsm_state \<Rightarrow> fsm_state option" where
  "register_transition STATE_IDLE = Some STATE_REGISTER"
| "register_transition STATE_BOOTSTRAPPED = Some STATE_REGISTER"
| "register_transition STATE_REGISTERED = Some STATE_REGISTER"
| "register_transition STATE_WAITING = Some STATE_REGISTER"
| "register_transition _ = None"

fun unregister_transition :: "fsm_state \<Rightarrow> fsm_state option" where
  "unregister_transition STATE_REGISTERED = Some STATE_UNREGISTER"
| "unregister_transition STATE_UPDATE_REGISTRATION = Some STATE_UNREGISTER"
| "unregister_transition STATE_WAITING = Some STATE_UNREGISTER"
| "unregister_transition _ = None"

fun update_transition :: "fsm_state \<Rightarrow> fsm_state option" where
  "update_transition STATE_IDLE = Some STATE_REGISTER"
| "update_transition STATE_REGISTERED = Some STATE_UPDATE_REGISTRATION"
| "update_transition STATE_WAITING = Some STATE_UPDATE_REGISTRATION"
| "update_transition _ = None"

text \<open>What the operations do when their event was ignored; an update stays silent while reconnecting.\<close>

definition report_ignored :: "runner \<Rightarrow> bool \<Rightarrow> unit prog" where
  "report_ignored go silent_when_reconnecting = do {
     ignored \<leftarrow> read if_event_ignored;
     when_do ignored (do {
       modify (\<lambda>s. s\<lparr>if_event_ignored := False\<rparr>);
       reconnecting \<leftarrow> read if_reconnecting;
       when_do (\<not> (silent_when_reconnecting \<and> reconnecting)) (call_ignore go (ObserverError NotAllowed)) }) }"

definition application_event :: "runner \<Rightarrow> bool \<Rightarrow> fsm_state option \<Rightarrow> event_data option \<Rightarrow> unit prog" where
  "application_event go silent new_state data = do {
     external_event go new_state data;
     report_ignored go silent }"

definition interface_bootstrap :: "runner \<Rightarrow> security option \<Rightarrow> unit prog" where
  "interface_bootstrap go sec =
     (if sec = None then call_ignore go (ObserverError InvalidParameters)
      else do {
        st \<leftarrow> read if_current_state;
        application_event go False (bootstrap_transition st) (Some (SecurityData sec)) })"

definition interface_register_object :: "runner \<Rightarrow> security option \<Rightarrow> nat list \<Rightarrow> unit prog" where
  "interface_register_object go sec objects =
     (if sec = None then call_ignore go (ObserverError InvalidParameters)
      else do {
        modify (\<lambda>s. s\<lparr>if_register_server := sec\<rparr>);
        st \<leftarrow> read if_current_state;
        application_event go False (register_transition st) (Some (RegisterData sec objects)) })"

definition start_register_update :: "runner \<Rightarrow> security option \<Rightarrow> u32 \<Rightarrow> nat list \<Rightarrow> unit prog" where
  "start_register_update go sec lifetime objects = do {
     when_do (lifetime \<noteq> 0 \<and> lifetime < MINIMUM_REGISTRATION_TIME) (call_ignore go (ObserverError InvalidParameters));
     reconnecting \<leftarrow> read if_reconnecting;
     when_do (\<not> reconnecting) (do {
       modify (\<lambda>s. s\<lparr>if_reconnection_state := WithUpdate\<rparr>);
       st \<leftarrow> read if_current_state;
       application_event go True (update_transition st) (Some (UpdateRegisterData sec lifetime objects)) }) }"

definition interface_unregister_object :: "runner \<Rightarrow> unit prog" where
  "interface_unregister_object go = do {
     st \<leftarrow> read if_current_state;
     application_event go False (unregister_transition st) None }"


section \<open>Callbacks\<close>

definition interface_coap_message_ready :: "runner \<Rightarrow> u8 list \<Rightarrow> unit prog" where
  "interface_coap_message_ready go bytes = do {
     st \<leftarrow> read if_current_state;
     when_do (st \<noteq> STATE_IDLE) (do {
       internal_event go STATE_SENDING_COAP_DATA None;
       ok \<leftarrow> call_out go (SendData bytes);
       when_do (\<not> ok) (do {
         internal_event go STATE_IDLE None;
         reconnecting \<leftarrow> read if_reconnecting;
         when_do (\<not> reconnecting) (call_ignore go (ObserverError NetworkError)) }) }) }"

definition interface_client_registered :: "runner \<Rightarrow> nat \<Rightarrow> unit prog" where
  "interface_client_registered go server = do {
     modify (\<lambda>s. s\<lparr>if_retry_count := 0\<rparr>);
     stop_flow_timer;
     internal_event go STATE_REGISTERED None;
     sec \<leftarrow> read if_register_server;
     call_ignore go (ObserverRegistered sec server) }"

definition interface_registration_updated :: "runner \<Rightarrow> nat \<Rightarrow> unit prog" where
  "interface_registration_updated go server = do {
     internal_event go STATE_REGISTERED None;
     sec \<leftarrow> read if_register_server;
     call_ignore go (ObserverUpdated sec server) }"

definition socket_error_of_code :: "u8 \<Rightarrow> m2m_error" where
  "socket_error_of_code code =
     (if code = SSL_CONNECTION_ERROR then SecureConnectionFailed
      else if code = DNS_RESOLVING_ERROR then DnsResolvingFailed
      else if code = SOCKET_READ_ERROR then NetworkError
      else if code = SOCKET_SEND_ERROR then NetworkError
      else if code = SSL_HANDSHAKE_ERROR then SecureConnectionFailed
      else if code = SOCKET_ABORT then NetworkError
      else NoError)"

definition retry_time :: "nat \<Rightarrow> int" where
  "retry_time count = int (RECONNECTION_INTERVAL * RECONNECTION_COUNT * count * 1000)"

definition count_retry :: "runner \<Rightarrow> m2m_error \<Rightarrow> unit prog" where
  "count_retry go error = do {
     count \<leftarrow> read if_retry_count;
     if count < RECONNECTION_COUNT then modify (\<lambda>s. s\<lparr>if_retry_count := count + 1\<rparr>)
     else do {
       modify (\<lambda>s. s\<lparr>if_retry_count := 1\<rparr>);
       call_ignore go (ObserverError error) } }"

definition socket_error_retry :: "runner \<Rightarrow> m2m_error \<Rightarrow> unit prog" where
  "socket_error_retry go error = do {
     count_retry go error;
     internal_event go STATE_IDLE None;
     modify (\<lambda>s. s\<lparr>if_reconnecting := True\<rparr>);
     call_ignore go StopListening;
     now \<leftarrow> read if_retry_count;
     modify (\<lambda>s. s\<lparr>if_retry_timer_expired := False\<rparr>);
     emit_output (StartInterfaceTimer RetryTimer (retry_time now)) }"

definition socket_error_report :: "runner \<Rightarrow> m2m_error \<Rightarrow> unit prog" where
  "socket_error_report go error = do {
     call_ignore go StopListening;
     emit_output (StopInterfaceTimer RetryTimer);
     modify clear_reconnection;
     call_ignore go (ObserverError error);
     internal_event go STATE_IDLE None }"

definition interface_socket_error :: "runner \<Rightarrow> u8 \<Rightarrow> bool \<Rightarrow> unit prog" where
  "interface_socket_error go code retry = do {
     modify (\<lambda>s. s\<lparr>if_reconnection_state := WithUpdate\<rparr>);
     let error = socket_error_of_code code;
     if retry then socket_error_retry go error
     else when_do (error \<noteq> NoError) (socket_error_report go error) }"

definition interface_registration_error :: "runner \<Rightarrow> m2m_error \<Rightarrow> bool \<Rightarrow> unit prog" where
  "interface_registration_error go error retry =
     (if retry then do {
        interface_socket_error go SOCKET_SEND_ERROR True;
        modify (\<lambda>s. s\<lparr>if_reconnection_state := FullRegistration\<rparr>) }
      else give_up go error)"

definition interface_client_unregistered :: "runner \<Rightarrow> unit prog" where
  "interface_client_unregistered go = do {
     internal_event go STATE_UNREGISTERED None;
     sec \<leftarrow> read if_register_server;
     call_ignore go (ObserverUnregistered sec) }"

definition interface_bootstrap_done :: "runner \<Rightarrow> security option \<Rightarrow> unit prog" where
  "interface_bootstrap_done go sec = do {
     modify (\<lambda>s. (clear_reconnection s)\<lparr>if_bootstrapped := True\<rparr>);
     stop_flow_timer;
     internal_event go STATE_BOOTSTRAPPED None;
     call_ignore go (ObserverBootstrapDone sec) }"

definition interface_bootstrap_wait :: "runner \<Rightarrow> security option \<Rightarrow> unit prog" where
  "interface_bootstrap_wait go sec = do {
     modify (\<lambda>s. s\<lparr>if_security := sec\<rparr>);
     internal_event go STATE_BOOTSTRAP_WAIT None }"

text \<open>The error number of \<open>M2MInterface\<close> is passed where one of \<open>M2MConnectionHandler\<close> is expected.\<close>

definition interface_bootstrap_error :: "runner \<Rightarrow> unit prog" where
  "interface_bootstrap_error go = do {
     modify (\<lambda>s. s\<lparr>if_bootstrapped := False\<rparr>);
     stop_flow_timer;
     interface_socket_error go (m2m_error_code BootstrapFailed) True }"

definition interface_address_ready :: "runner \<Rightarrow> socket_address \<Rightarrow> server_kind \<Rightarrow> u16 \<Rightarrow> unit prog" where
  "interface_address_ready go addr kind port =
     internal_event go
       (if kind = BootstrapServer then STATE_BOOTSTRAP_ADDRESS_RESOLVED else STATE_REGISTER_ADDRESS_RESOLVED)
       (Some (ResolvedAddressData addr port))"

definition interface_data_sent :: "runner \<Rightarrow> unit prog" where
  "interface_data_sent go = do {
     binding \<leftarrow> read if_binding_mode;
     handler \<leftarrow> read if_callback_handler;
     when_do (uses_queue binding \<and> handler) (do {
       emit_output (StopInterfaceTimer QueueSleepTimer);
       emit_output (StartInterfaceTimer QueueSleepTimer (int (RECONNECTION_COUNT * RECONNECTION_INTERVAL * 1000))) });
     st \<leftarrow> read if_current_state;
     if st = STATE_BOOTSTRAP_WAIT then do {
       sec \<leftarrow> read if_security;
       modify (\<lambda>s. s\<lparr>if_security := None\<rparr>);
       interface_bootstrap_done go sec }
     else internal_event go STATE_COAP_DATA_SENT None }"

definition interface_timer_expired :: "runner \<Rightarrow> interface_timer \<Rightarrow> unit prog" where
  "interface_timer_expired go t =
     (case t of
        QueueSleepTimer \<Rightarrow> do {
          handler \<leftarrow> read if_callback_handler;
          when_do handler (call_ignore go SleepHandler) }
      | RetryTimer \<Rightarrow> do {
          modify (\<lambda>s. s\<lparr>if_retry_timer_expired := True\<rparr>);
          bootstrapped \<leftarrow> read if_bootstrapped;
          internal_event go (if bootstrapped then STATE_REGISTER else STATE_BOOTSTRAP) None }
      | BootstrapFlowTimer \<Rightarrow> interface_bootstrap_error go
      | RegistrationFlowTimer \<Rightarrow> interface_registration_error go Timeout True)"

fun handle_input :: "runner \<Rightarrow> interface_input \<Rightarrow> unit prog" where
  "handle_input go (CallBootstrap sec) = interface_bootstrap go sec"
| "handle_input go (CallRegister sec objects) = interface_register_object go sec objects"
| "handle_input go (CallUpdate sec lifetime objects) = start_register_update go sec lifetime objects"
| "handle_input go CallUnregister = interface_unregister_object go"
| "handle_input go (CallSetSleepHandler h) = modify (\<lambda>s. s\<lparr>if_callback_handler := h\<rparr>)"
| "handle_input go (OnCoapMessageReady bytes) = interface_coap_message_ready go bytes"
| "handle_input go (OnClientRegistered server) = interface_client_registered go server"
| "handle_input go (OnRegistrationUpdated server) = interface_registration_updated go server"
| "handle_input go (OnRegistrationError error retry) = interface_registration_error go error retry"
| "handle_input go OnClientUnregistered = interface_client_unregistered go"
| "handle_input go (OnBootstrapDone sec) = interface_bootstrap_done go sec"
| "handle_input go (OnBootstrapWait sec) = interface_bootstrap_wait go sec"
| "handle_input go OnBootstrapError = interface_bootstrap_error go"
| "handle_input go OnCoapDataProcessed = internal_event go STATE_COAP_DATA_PROCESSED None"
| "handle_input go (OnValueUpdated b) =
     (case b of None \<Rightarrow> skip | Some (ob, ty) \<Rightarrow> call_ignore go (ObserverValueUpdated ob ty))"
| "handle_input go (OnDataAvailable bytes addr) =
     internal_event go STATE_COAP_DATA_RECEIVED (Some (ReceivedData bytes addr))"
| "handle_input go (OnSocketError code retry) = interface_socket_error go code retry"
| "handle_input go (OnAddressReady addr kind port) = interface_address_ready go addr kind port"
| "handle_input go OnDataSent = interface_data_sent go"
| "handle_input go (OnTimerExpired t) = interface_timer_expired go t"

section \<open>The interpreter\<close>

text \<open>
  \<open>exec n\<close> runs a call with nesting depth at most \<open>n\<close>. The inputs of a reply are handled in order, each to its
  end. Running out of fuel is recorded in the state.
\<close>

fun exec :: "nat \<Rightarrow> interface_call \<Rightarrow> unit prog" where
  "exec 0 c = modify (\<lambda>s. s\<lparr>if_exhausted := True\<rparr>)"
| "exec (Suc n) Engine = state_engine (exec n)"
| "exec (Suc n) (Inputs []) = skip"
| "exec (Suc n) (Inputs (i # is)) = do { handle_input (exec n) i; exec n (Inputs is) }"

definition interface_run :: "nat \<Rightarrow> interface_input list \<Rightarrow> interface \<Rightarrow> interface" where
  "interface_run n is s = snd (run_state (exec n (Inputs is)) s)"

end
