(* ===== verification/InterfaceSpec.thy ===== *)
theory InterfaceSpec
  imports InterfaceImpl
begin

text \<open>
  The interface as a machine: the nested events and callbacks end, with an explicit bound on the depth, and
  leave the machine at rest; the calls that a state does not allow; the reconnection delays; server addresses
  and the way to a registration.
\<close>

section \<open>Rest states\<close>

definition pending_inputs :: "interface \<Rightarrow> nat" where
  "pending_inputs s = sum_list (map (\<lambda>r. length (reply_inputs r)) (if_replies s))"

definition settled :: "interface \<Rightarrow> bool" where
  "settled s \<longleftrightarrow> \<not> if_exhausted s \<and> \<not> if_event_ignored s \<and> if_retry_count s \<le> RECONNECTION_COUNT"

definition at_rest :: "interface \<Rightarrow> bool" where
  "at_rest s \<longleftrightarrow> settled s \<and> \<not> if_event_generated s \<and> if_event_data s = None"

text \<open>A program that keeps the machine at rest with at most \<open>W\<close> inputs still to be delivered by replies.\<close>

definition safe :: "nat \<Rightarrow> 'a prog \<Rightarrow> bool" where
  "safe W p \<longleftrightarrow> (\<forall>s. at_rest s \<and> pending_inputs s \<le> W \<longrightarrow>
     at_rest (snd (run_state p s)) \<and> pending_inputs (snd (run_state p s)) \<le> W)"

named_theorems safe_intros "rules for programs that keep the machine at rest"

lemma safe_bind [safe_intros]: "safe W p \<Longrightarrow> (\<And>a. safe W (f a)) \<Longrightarrow> safe W (State_Monad.bind p f)"
  by (simp add: safe_def split_beta)

lemma safe_return [safe_intros]: "safe W (State_Monad.return a)" and safe_skip [safe_intros]: "safe W skip"
  and safe_read [safe_intros]: "safe W (read f)"
  by (simp_all add: safe_def)

lemma safe_when [safe_intros]: "(b \<Longrightarrow> safe W p) \<Longrightarrow> safe W (when_do b p)"
  by (simp add: safe_def)

lemma safe_if [safe_intros]: "(b \<Longrightarrow> safe W p) \<Longrightarrow> (\<not> b \<Longrightarrow> safe W q) \<Longrightarrow> safe W (if b then p else q)"
  by simp

text \<open>An update of fields the rest state does not look at.\<close>

definition quiet_update :: "(interface \<Rightarrow> interface) \<Rightarrow> bool" where
  "quiet_update f \<longleftrightarrow> (\<forall>s. if_exhausted (f s) = if_exhausted s \<and> if_event_ignored (f s) = if_event_ignored s \<and>
     if_event_generated (f s) = if_event_generated s \<and> if_event_data (f s) = if_event_data s \<and>
     if_replies (f s) = if_replies s \<and> (if_retry_count s \<le> RECONNECTION_COUNT \<longrightarrow> if_retry_count (f s) \<le> RECONNECTION_COUNT))"

lemma safe_modify [safe_intros]: "quiet_update f \<Longrightarrow> safe W (modify f)"
  by (auto simp: safe_def quiet_update_def at_rest_def settled_def pending_inputs_def)

lemma quiet_updates [simp]:
  "quiet_update (\<lambda>s. s\<lparr>if_out := g s\<rparr>)" "quiet_update (\<lambda>s. s\<lparr>if_bootstrapped := b\<rparr>)"
  "quiet_update (\<lambda>s. s\<lparr>if_security := sec\<rparr>)" "quiet_update (\<lambda>s. s\<lparr>if_server_ip_address := ip, if_server_port := port\<rparr>)"
  "quiet_update (\<lambda>s. s\<lparr>if_listen_port := port\<rparr>)" "quiet_update (\<lambda>s. s\<lparr>if_undefined := b\<rparr>)"
  "quiet_update (\<lambda>s. s\<lparr>if_reconnection_state := rs\<rparr>)" "quiet_update (\<lambda>s. s\<lparr>if_register_server := sec\<rparr>)"
  "quiet_update (\<lambda>s. s\<lparr>if_callback_handler := b\<rparr>)" "quiet_update (\<lambda>s. s\<lparr>if_retry_timer_expired := b\<rparr>)"
  "quiet_update (\<lambda>s. s\<lparr>if_reconnecting := b\<rparr>)" "quiet_update (\<lambda>s. s\<lparr>if_retry_count := 0\<rparr>)"
  "quiet_update (\<lambda>s. s\<lparr>if_retry_count := 1\<rparr>)" "quiet_update clear_reconnection"
  "quiet_update (\<lambda>s. (clear_reconnection s)\<lparr>if_bootstrapped := b\<rparr>)"
  by (simp_all add: quiet_update_def clear_reconnection_def RECONNECTION_COUNT_def)

lemma safe_emit [safe_intros]: "safe W (emit_output out)"
  unfolding emit_output_def by (intro safe_intros) simp

section \<open>Depth of the nested events\<close>

text \<open>How many rounds of the engine the function of a state may nest, without the inputs of replies.\<close>

fun depth :: "fsm_state \<Rightarrow> nat" where
  "depth STATE_BOOTSTRAP = 3"
| "depth STATE_BOOTSTRAP_ADDRESS_RESOLVED = 3"
| "depth STATE_REGISTER = 3"
| "depth STATE_REGISTER_ADDRESS_RESOLVED = 4"
| "depth STATE_UPDATE_REGISTRATION = 3"
| "depth STATE_UNREGISTER = 4"
| "depth STATE_UNREGISTERED = 3"
| "depth STATE_SENDING_COAP_DATA = 3"
| "depth STATE_COAP_DATA_SENT = 3"
| "depth STATE_COAP_DATA_RECEIVED = 4"
| "depth STATE_PROCESSING_COAP_DATA = 3"
| "depth STATE_COAP_DATA_PROCESSED = 3"
| "depth _ = 2"

lemma depth_bounds: "2 \<le> depth st" "depth st \<le> 4"
  by (cases st; simp)+

text \<open>What the programs rely on: the runner handles events of states up to depth \<open>r\<close> and the inputs of replies.\<close>

definition runner_safe :: "nat \<Rightarrow> nat \<Rightarrow> runner \<Rightarrow> bool" where
  "runner_safe W r go \<longleftrightarrow>
     (\<forall>s. settled s \<and> pending_inputs s \<le> W \<and> if_event_generated s \<and> depth (if_current_state s) \<le> r \<longrightarrow>
        at_rest (snd (run_state (go Engine) s)) \<and> pending_inputs (snd (run_state (go Engine) s)) \<le> W) \<and>
     safe W (go Engine) \<and>
     (\<forall>s is. at_rest s \<and> pending_inputs s + length is \<le> W \<longrightarrow>
        at_rest (snd (run_state (go (Inputs is)) s)) \<and> pending_inputs (snd (run_state (go (Inputs is)) s)) \<le> W)"

lemma safe_internal_event [safe_intros]:
  "runner_safe W r go \<Longrightarrow> depth st \<le> r \<Longrightarrow> safe W (internal_event go st data)"
  by (simp add: safe_def internal_event_def runner_safe_def at_rest_def settled_def pending_inputs_def)

lemma run_next_reply:
  "run_state next_reply s = (case if_replies s of [] \<Rightarrow> (Reply True [], s) | r # rs \<Rightarrow> (r, s\<lparr>if_replies := rs\<rparr>))"
  by (simp add: next_reply_def)

lemma safe_call_out [safe_intros]: "runner_safe W r go \<Longrightarrow> safe W (call_out go out)"
  by (auto simp: safe_def call_out_def emit_output_def run_next_reply runner_safe_def at_rest_def settled_def
      pending_inputs_def split_beta split: list.split)

lemma safe_call_ignore [safe_intros]: "runner_safe W r go \<Longrightarrow> safe W (call_ignore go out)"
  unfolding call_ignore_def by (intro safe_intros)

section \<open>The state functions\<close>

lemma safe_let [safe_intros]: "safe W (f x) \<Longrightarrow> safe W (Let x f)"
  by simp

lemma safe_case_prod [safe_intros]: "(\<And>a b. safe W (f a b)) \<Longrightarrow> safe W (case x of (a, b) \<Rightarrow> f a b)"
  by (cases x) simp

lemma safe_case_option [safe_intros]:
  "(x = None \<Longrightarrow> safe W p) \<Longrightarrow> (\<And>a. x = Some a \<Longrightarrow> safe W (f a)) \<Longrightarrow>
     safe W (case x of None \<Rightarrow> p | Some a \<Rightarrow> f a)"
  by (cases x) simp_all

lemma safe_case_event [safe_intros]:
  "(\<And>a. safe W (f1 a)) \<Longrightarrow> (\<And>a b. safe W (f2 a b)) \<Longrightarrow> (\<And>a b c. safe W (f3 a b c)) \<Longrightarrow>
     (\<And>a b. safe W (f4 a b)) \<Longrightarrow> (\<And>a b. safe W (f5 a b)) \<Longrightarrow>
     safe W (case x of SecurityData a \<Rightarrow> f1 a | RegisterData a b \<Rightarrow> f2 a b | UpdateRegisterData a b c \<Rightarrow> f3 a b c
       | ResolvedAddressData a b \<Rightarrow> f4 a b | ReceivedData a b \<Rightarrow> f5 a b)"
  by (cases x) simp_all

lemma safe_timers [safe_intros]: "safe W (restart_flow_timer t)" "safe W stop_flow_timer"
  unfolding restart_flow_timer_def stop_flow_timer_def by (intro safe_intros)+

lemma safe_give_up [safe_intros]: "runner_safe W r go \<Longrightarrow> 2 \<le> r \<Longrightarrow> safe W (give_up go e)"
  unfolding give_up_def by (intro safe_intros) simp_all

lemma safe_resolve_with [safe_intros]: "runner_safe W r go \<Longrightarrow> safe W (resolve_with go t kind sec)"
  unfolding resolve_with_def by (intro safe_intros) simp_all

lemma safe_reconnect [safe_intros]:
  "runner_safe W r go \<Longrightarrow> safe W (reconnect_start go)"
  "runner_safe W r go \<Longrightarrow> safe W (reconnect_resolve go t kind)"
  unfolding reconnect_start_def reconnect_resolve_def by (intro safe_intros; simp)+

lemma safe_state_bootstrap: "runner_safe W r go \<Longrightarrow> 2 \<le> r \<Longrightarrow> safe W (state_bootstrap go data)"
  unfolding state_bootstrap_def by (intro safe_intros) simp_all

lemma safe_register_object_list [safe_intros]: "runner_safe W r go \<Longrightarrow> safe W (register_object_list go data)"
  unfolding register_object_list_def by (intro safe_intros) simp_all

lemma safe_state_register: "runner_safe W r go \<Longrightarrow> 2 \<le> r \<Longrightarrow> safe W (state_register go data)"
  unfolding state_register_def by (intro safe_intros) simp_all

lemma safe_state_bootstrap_address_resolved:
  "runner_safe W r go \<Longrightarrow> 2 \<le> r \<Longrightarrow> safe W (state_bootstrap_address_resolved go data)"
  unfolding state_bootstrap_address_resolved_def by (intro safe_intros) simp_all

lemma safe_state_register_address_resolved:
  "runner_safe W r go \<Longrightarrow> 3 \<le> r \<Longrightarrow> safe W (state_register_address_resolved go data)"
  unfolding state_register_address_resolved_def by (intro safe_intros) (auto intro: order_trans [of 2 3 r])

lemma safe_send_update [safe_intros]: "runner_safe W r go \<Longrightarrow> 2 \<le> r \<Longrightarrow> safe W (send_update_or_register go lifetime)"
  unfolding send_update_or_register_def by (intro safe_intros) simp_all

lemma safe_state_update_registration:
  "runner_safe W r go \<Longrightarrow> 2 \<le> r \<Longrightarrow> safe W (state_update_registration go data)"
  unfolding state_update_registration_def by (intro safe_intros) simp_all

lemma safe_state_coap_data_received:
  "runner_safe W r go \<Longrightarrow> 3 \<le> r \<Longrightarrow> safe W (state_coap_data_received go data)"
  unfolding state_coap_data_received_def by (intro safe_intros) simp_all

lemma safe_state_unregister: "runner_safe W r go \<Longrightarrow> 3 \<le> r \<Longrightarrow> safe W (state_unregister go)"
  unfolding state_unregister_def by (intro safe_intros) (auto intro: order_trans [of 2 3 r])

lemma safe_state_function:
  assumes "runner_safe W r go" and "depth st \<le> Suc r"
  shows "safe W (state_function go st data)"
  using assms
  by (cases st) (auto simp: state_function_def state_idle_def state_registered_def state_unregistered_def
      state_sending_coap_data_def state_coap_data_sent_def state_processing_coap_data_def state_coap_data_processed_def
      intro!: safe_intros safe_state_bootstrap safe_state_register safe_state_bootstrap_address_resolved
        safe_state_register_address_resolved safe_state_update_registration safe_state_coap_data_received
        safe_state_unregister)

section \<open>The inputs\<close>

lemma safe_application_event [safe_intros]:
  assumes "runner_safe W 4 go"
  shows "safe W (application_event go silent new_state data)"
proof (cases new_state)
  case None
  show ?thesis unfolding safe_def
  proof (intro allI impI)
    fix s
    assume s: "at_rest s \<and> pending_inputs s \<le> W"
    let ?p = "do { reconnecting \<leftarrow> read if_reconnecting;
        when_do (\<not> (silent \<and> reconnecting)) (call_ignore go (ObserverError NotAllowed)) }"
    have "s\<lparr>if_event_ignored := False\<rparr> = s" using s by (simp add: at_rest_def settled_def)
    then have "run_state (application_event go silent new_state data) s = run_state ?p s"
      by (simp add: None application_event_def external_event_def report_ignored_def)
    moreover have "safe W ?p" using assms by (intro safe_intros)
    ultimately show "at_rest (snd (run_state (application_event go silent new_state data) s)) \<and>
        pending_inputs (snd (run_state (application_event go silent new_state data) s)) \<le> W"
      using s unfolding safe_def by metis
  qed
next
  case (Some st)
  have "safe W (internal_event go st data)" using assms depth_bounds by (intro safe_intros)
  then show ?thesis unfolding safe_def
    by (simp add: Some application_event_def external_event_def report_ignored_def split_beta at_rest_def settled_def)
qed

lemma safe_event [safe_intros]: "runner_safe W 4 go \<Longrightarrow> safe W (internal_event go st data)"
  by (rule safe_internal_event [OF _ depth_bounds(2)])

lemma safe_count_retry [safe_intros]: "runner_safe W r go \<Longrightarrow> safe W (count_retry go error)"
proof -
  assume r: "runner_safe W r go"
  have m: "quiet_update (\<lambda>s. s\<lparr>if_retry_count := c + 1\<rparr>)" if "c < RECONNECTION_COUNT" for c
    using that by (simp add: quiet_update_def)
  have one: "quiet_update (\<lambda>s. s\<lparr>if_retry_count := 1\<rparr>)" by (rule quiet_updates)
  show ?thesis unfolding count_retry_def by (intro safe_intros m one) (assumption | rule r)+
qed

lemma safe_socket_error [safe_intros]: "runner_safe W 4 go \<Longrightarrow> safe W (interface_socket_error go code retry)"
proof -
  assume r: "runner_safe W 4 go"
  have "safe W (socket_error_retry go error)" for error
    unfolding socket_error_retry_def using r by (intro safe_intros) simp_all
  then show ?thesis unfolding interface_socket_error_def socket_error_report_def using r by (intro safe_intros) simp_all
qed


lemma safe_bootstrap_done [safe_intros]: "runner_safe W 4 go \<Longrightarrow> safe W (interface_bootstrap_done go sec)"
  unfolding interface_bootstrap_done_def by (intro safe_intros) simp_all

lemma safe_bootstrap_error [safe_intros]: "runner_safe W 4 go \<Longrightarrow> safe W (interface_bootstrap_error go)"
  unfolding interface_bootstrap_error_def by (intro safe_intros) simp_all

lemma safe_registration_error [safe_intros]:
  "runner_safe W 4 go \<Longrightarrow> safe W (interface_registration_error go error retry)"
  unfolding interface_registration_error_def by (intro safe_intros) auto

lemma safe_timer_expired [safe_intros]: "runner_safe W 4 go \<Longrightarrow> safe W (interface_timer_expired go t)"
  by (cases t) (auto simp: interface_timer_expired_def intro!: safe_intros)

lemma safe_bootstrap [safe_intros]: "runner_safe W 4 go \<Longrightarrow> safe W (interface_bootstrap go sec)"
  unfolding interface_bootstrap_def by (intro safe_intros) simp_all

lemma safe_register_object [safe_intros]: "runner_safe W 4 go \<Longrightarrow> safe W (interface_register_object go sec objects)"
  unfolding interface_register_object_def by (intro safe_intros) simp_all

lemma safe_register_update [safe_intros]: "runner_safe W 4 go \<Longrightarrow> safe W (start_register_update go sec lifetime objects)"
  unfolding start_register_update_def by (intro safe_intros) simp_all

lemma safe_unregister_object [safe_intros]: "runner_safe W 4 go \<Longrightarrow> safe W (interface_unregister_object go)"
  unfolding interface_unregister_object_def by (intro safe_intros) simp_all

lemma safe_coap_message_ready [safe_intros]: "runner_safe W 4 go \<Longrightarrow> safe W (interface_coap_message_ready go bytes)"
  unfolding interface_coap_message_ready_def by (intro safe_intros) simp_all

lemma safe_client_registered [safe_intros]: "runner_safe W 4 go \<Longrightarrow> safe W (interface_client_registered go server)"
  unfolding interface_client_registered_def by (intro safe_intros) simp_all

lemma safe_registration_updated [safe_intros]: "runner_safe W 4 go \<Longrightarrow> safe W (interface_registration_updated go server)"
  unfolding interface_registration_updated_def by (intro safe_intros) simp_all

lemma safe_client_unregistered [safe_intros]: "runner_safe W 4 go \<Longrightarrow> safe W (interface_client_unregistered go)"
  unfolding interface_client_unregistered_def by (intro safe_intros) simp_all

lemma safe_bootstrap_wait [safe_intros]: "runner_safe W 4 go \<Longrightarrow> safe W (interface_bootstrap_wait go sec)"
  unfolding interface_bootstrap_wait_def by (intro safe_intros) simp_all

lemma safe_address_ready [safe_intros]: "runner_safe W 4 go \<Longrightarrow> safe W (interface_address_ready go addr kind port)"
  unfolding interface_address_ready_def by (intro safe_intros) simp_all

lemma safe_data_sent [safe_intros]: "runner_safe W 4 go \<Longrightarrow> safe W (interface_data_sent go)"
  unfolding interface_data_sent_def by (intro safe_intros) simp_all

lemma safe_handle_input: "runner_safe W 4 go \<Longrightarrow> safe W (handle_input go i)"
  by (cases i) (auto intro!: safe_intros split: option.split)

section \<open>The interpreter ends\<close>

lemma engine_at_rest: "at_rest s \<Longrightarrow> run_state (state_engine go) s = ((), s)"
  by (simp add: state_engine_def at_rest_def)

lemma engine_step:
  assumes "runner_safe W r go" and "settled s" and "pending_inputs s \<le> W" and "if_event_generated s"
    and "depth (if_current_state s) \<le> Suc r"
  shows "at_rest (snd (run_state (state_engine go) s)) \<and> pending_inputs (snd (run_state (state_engine go) s)) \<le> W"
proof -
  let ?s = "s\<lparr>if_event_data := None, if_event_generated := False\<rparr>"
  let ?p = "do { state_function go (if_current_state s) (if_event_data s); go Engine }"
  have "safe W ?p" using safe_state_function [OF assms(1,5)] assms(1) by (intro safe_intros) (auto simp: runner_safe_def)
  moreover have "at_rest ?s" "pending_inputs ?s \<le> W"
    using assms(2,3) by (simp_all add: at_rest_def settled_def pending_inputs_def)
  moreover have "run_state (state_engine go) s = run_state ?p ?s" using assms(4) by (simp add: state_engine_def)
  ultimately show ?thesis unfolding safe_def by metis
qed

lemma runner_safe_mono: "runner_safe W r go \<Longrightarrow> r' \<le> r \<Longrightarrow> runner_safe W r' go"
  by (auto simp: runner_safe_def)

lemma exec_runner_safe: "1 \<le> r \<Longrightarrow> r + 4 * W \<le> n \<Longrightarrow> runner_safe W r (exec n)"
proof (induction n arbitrary: W r)
  case (Suc m)
  have rest: "safe W (exec (Suc m) Engine)" by (simp add: safe_def engine_at_rest)
  have engine: "at_rest (snd (run_state (exec (Suc m) Engine) s)) \<and> pending_inputs (snd (run_state (exec (Suc m) Engine) s)) \<le> W"
    if s: "settled s" "pending_inputs s \<le> W" "if_event_generated s" "depth (if_current_state s) \<le> r" for s
  proof -
    have r: "2 \<le> r" using s(4) depth_bounds(1) [of "if_current_state s"] by linarith
    then have "runner_safe W (r - 1) (exec m)" using Suc.prems by (intro Suc.IH) linarith+
    from engine_step [OF this s(1-3)] show ?thesis using s(4) r by simp
  qed
  have inputs: "at_rest (snd (run_state (exec (Suc m) (Inputs is)) s)) \<and>
      pending_inputs (snd (run_state (exec (Suc m) (Inputs is)) s)) \<le> W"
    if s: "at_rest s" "pending_inputs s + length is \<le> W" for s "is"
  proof (cases "is")
    case Nil
    then show ?thesis using s by simp
  next
    case (Cons i is')
    let ?W = "W - length is"
    have "runner_safe ?W 4 (exec m)" using Suc.prems s(2) Cons by (intro Suc.IH) (simp, linarith?, auto)
    from safe_handle_input [OF this, of i] have h: "at_rest (snd (run_state (handle_input (exec m) i) s))"
      "pending_inputs (snd (run_state (handle_input (exec m) i) s)) \<le> ?W"
      using s unfolding safe_def by auto
    have "runner_safe (W - 1) 1 (exec m)" using Suc.prems s(2) Cons by (intro Suc.IH) auto
    then have "at_rest (snd (run_state (exec m (Inputs is')) (snd (run_state (handle_input (exec m) i) s)))) \<and>
        pending_inputs (snd (run_state (exec m (Inputs is')) (snd (run_state (handle_input (exec m) i) s)))) \<le> W - 1"
      using h s(2) Cons unfolding runner_safe_def by auto
    then show ?thesis using Cons by (auto simp: split_beta intro: order_trans [OF _ diff_le_self])
  qed
  show ?case unfolding runner_safe_def using rest engine inputs by blast
qed simp

text \<open>C1: from a machine at rest, any list of calls and callbacks is handled to its end, whatever the
  observer, the connection handler and the NSDL interface answer and call back meanwhile: a depth
  of \<open>1 + 4\<close> for every input, delivered now or by a reply, is enough. The machine is at rest again:
  no event is left, none is marked as ignored, and at most 3 retries are counted.\<close>

theorem interface_terminates:
  assumes "at_rest s" and "1 + 4 * (length is + pending_inputs s) \<le> n"
  shows "at_rest (interface_run n is s) \<and> \<not> if_exhausted (interface_run n is s) \<and>
    if_retry_count (interface_run n is s) \<le> RECONNECTION_COUNT"
proof -
  have "runner_safe (length is + pending_inputs s) 1 (exec n)" using assms(2) by (intro exec_runner_safe) simp_all
  then have "at_rest (interface_run n is s)" using assms(1) by (simp add: runner_safe_def interface_run_def)
  then show ?thesis by (simp add: at_rest_def settled_def)
qed

lemma interface_new_rest: "at_rest (interface_new ep port dmn m script)"
  by (simp add: at_rest_def settled_def interface_new_def)

theorem interface_terminates_witness:
  "at_rest (interface_run 13 [OnSocketError 1 True] (interface_new ''ep'' 0 [] UDP
     [Reply True [OnClientRegistered 7], Reply False [CallUnregister]]))"
  using interface_terminates [OF interface_new_rest, of "[OnSocketError 1 True]" "''ep''" 0 "[]" UDP
      "[Reply True [OnClientRegistered 7], Reply False [CallUnregister]]" 13]
  by (simp add: pending_inputs_def interface_new_def)

end
