(* ===== verification/InterfaceFlows.thy ===== *)
theory InterfaceFlows
  imports InterfaceSpec
begin

text \<open>
  What the interface does when its collaborators answer without calling back: the calls a state does not
  allow, the delays between reconnections, server addresses, and the way from a call to a
  registration. Callbacks during a call are covered by the theory InterfaceSpec.
\<close>

section \<open>Calls without callbacks\<close>

definition quiet :: "interface \<Rightarrow> bool" where
  "quiet s \<longleftrightarrow> list_all (\<lambda>r. reply_inputs r = []) (if_replies s)"

definition answer :: "interface \<Rightarrow> bool" where
  "answer s = (case if_replies s of [] \<Rightarrow> True | r # rs \<Rightarrow> reply_result r)"

definition said :: "interface_output \<Rightarrow> interface \<Rightarrow> interface" where
  "said out s = s\<lparr>if_out := if_out s @ [out], if_replies := tl (if_replies s)\<rparr>"

definition at_state :: "fsm_state \<Rightarrow> interface \<Rightarrow> interface" where
  "at_state st s = s\<lparr>if_event_data := None, if_event_generated := False, if_current_state := st\<rparr>"

lemma run_call_out: "quiet s \<Longrightarrow> run_state (call_out (exec (Suc n)) out) s = (answer s, said out s)"
  by (cases "if_replies s")
    (auto simp: call_out_def emit_output_def run_next_reply quiet_def answer_def said_def split_beta)

lemma run_call_ignore: "quiet s \<Longrightarrow> run_state (call_ignore (exec (Suc n)) out) s = ((), said out s)"
  by (simp add: call_ignore_def run_call_out)

lemma quiet_tl: "list_all P xs \<Longrightarrow> list_all P (tl xs)"
  by (cases xs) simp_all

lemma said_simps [simp]:
  "quiet s \<Longrightarrow> quiet (said out s)" "if_current_state (said out s) = if_current_state s"
  "if_retry_count (said out s) = if_retry_count s" "if_security (said out s) = if_security s"
  "if_event_generated (said out s) = if_event_generated s" "if_event_data (said out s) = if_event_data s"
  "if_event_ignored (said out s) = if_event_ignored s" "if_out (said out s) = if_out s @ [out]"
  "if_reconnection_state (said out s) = if_reconnection_state s" "if_reconnecting (said out s) = if_reconnecting s"
  "if_flow_timer (said out s) = if_flow_timer s" "if_register_server (said out s) = if_register_server s"
  "if_server_ip_address (said out s) = if_server_ip_address s" "if_server_port (said out s) = if_server_port s"
  "if_undefined (said out s) = if_undefined s" "if_replies (said out s) = tl (if_replies s)"
  "if_exhausted (said out s) = if_exhausted s" "if_listen_port (said out s) = if_listen_port s"
  by (simp_all add: said_def quiet_def quiet_tl)

lemma at_state_simps [simp]:
  "quiet (at_state st s) = quiet s" "if_current_state (at_state st s) = st" "if_out (at_state st s) = if_out s"
  "if_retry_count (at_state st s) = if_retry_count s" "if_event_generated (at_state st s) = False"
  "if_event_data (at_state st s) = None" "if_event_ignored (at_state st s) = if_event_ignored s"
  "if_replies (at_state st s) = if_replies s" "if_exhausted (at_state st s) = if_exhausted s"
  "if_reconnection_state (at_state st s) = if_reconnection_state s" "if_security (at_state st s) = if_security s"
  "if_reconnecting (at_state st s) = if_reconnecting s" "if_undefined (at_state st s) = if_undefined s"
  "if_flow_timer (at_state st s) = if_flow_timer s" "if_register_server (at_state st s) = if_register_server s"
  "if_server_ip_address (at_state st s) = if_server_ip_address s" "if_server_port (at_state st s) = if_server_port s"
  "if_listen_port (at_state st s) = if_listen_port s"
  by (simp_all add: at_state_def quiet_def)

lemma quiet_updates_simps [simp]:
  "quiet (s\<lparr>if_out := out\<rparr>) = quiet s" "quiet (s\<lparr>if_retry_count := c\<rparr>) = quiet s"
  "quiet (s\<lparr>if_reconnection_state := rs\<rparr>) = quiet s" "quiet (s\<lparr>if_reconnecting := b\<rparr>) = quiet s"
  "quiet (s\<lparr>if_register_server := sec\<rparr>) = quiet s" "quiet (s\<lparr>if_security := sec\<rparr>) = quiet s"
  "quiet (s\<lparr>if_server_ip_address := ip, if_server_port := port\<rparr>) = quiet s"
  "quiet (s\<lparr>if_bootstrapped := b\<rparr>) = quiet s" "quiet (s\<lparr>if_undefined := b\<rparr>) = quiet s"
  "quiet (s\<lparr>if_listen_port := port\<rparr>) = quiet s" "quiet (clear_reconnection s) = quiet s"
  "quiet (s\<lparr>if_retry_timer_expired := b\<rparr>) = quiet s"
  by (simp_all add: quiet_def clear_reconnection_def)

lemma run_engine_done: "\<not> if_event_generated s \<Longrightarrow> run_state (exec (Suc n) Engine) s = ((), s)"
  by (simp add: state_engine_def)

lemma run_event:
  assumes "run_state (state_function (exec (Suc n)) st data) (at_state st s) = ((), s')" and "\<not> if_event_generated s'"
  shows "run_state (internal_event (exec (Suc (Suc n))) st data) s = ((), s')"
proof -
  let ?s = "s\<lparr>if_event_data := data, if_event_generated := True, if_current_state := st\<rparr>"
  have e: "?s\<lparr>if_event_data := None, if_event_generated := False\<rparr> = at_state st s"
    by (simp add: at_state_def)
  have "run_state (state_engine (exec (Suc n))) ?s = run_state (exec (Suc n) Engine) s'"
    using assms(1) e by (simp add: state_engine_def del: exec.simps)
  then show ?thesis using run_engine_done [OF assms(2), of n] by (simp add: internal_event_def)
qed

lemma run_event_idle:
  "quiet s \<Longrightarrow> run_state (internal_event (exec (Suc (Suc n))) STATE_IDLE None) s =
     ((), said NsdlStopTimers (at_state STATE_IDLE s))"
  by (rule run_event) (simp_all add: state_function_def state_idle_def run_call_ignore)

lemma interface_new_quiet: "list_all (\<lambda>r. reply_inputs r = []) script \<Longrightarrow> quiet (interface_new ep port dmn m script)"
  by (simp add: quiet_def interface_new_def)

lemma interface_new_state [simp]:
  "if_current_state (interface_new ep port dmn m script) = STATE_IDLE"
  "if_security (interface_new ep port dmn m script) = None" "if_replies (interface_new ep port dmn m script) = script"
  "if_retry_count (interface_new ep port dmn m script) = 0" "if_reconnecting (interface_new ep port dmn m script) = False"
  by (simp_all add: interface_new_def)

lemma interface_new_rec:
  "if_reconnection_state (interface_new ep port dmn m script) = NoReconnection"
  "if_event_ignored (interface_new ep port dmn m script) = False"
  "if_bootstrapped (interface_new ep port dmn m script)"
  by (simp_all add: interface_new_def)

lemma interface_new_out: "if_out (interface_new ep port dmn m script) = [BindConnection port]"
  by (simp add: interface_new_def)

section \<open>Calls that are not allowed\<close>

lemma run_ignored:
  assumes "at_rest s" and "quiet s"
  shows "run_state (application_event (exec (Suc n)) silent None data) s =
    ((), if silent \<and> if_reconnecting s then s else said (ObserverError NotAllowed) s)"
proof -
  have e: "s\<lparr>if_event_ignored := False\<rparr> = s" using assms(1) by (simp add: at_rest_def settled_def)
  show ?thesis using assms(2)
    by (simp add: application_event_def external_event_def report_ignored_def run_call_ignore e)
qed

lemma run_one: "interface_run (Suc (Suc n)) [i] s = snd (run_state (handle_input (exec (Suc n)) i) s)"
  by (simp add: interface_run_def split_beta)

lemma at_rest_updates:
  "at_rest s \<Longrightarrow> at_rest (s\<lparr>if_register_server := sec\<rparr>)" "at_rest s \<Longrightarrow> at_rest (s\<lparr>if_reconnection_state := rs\<rparr>)"
  "at_rest s \<Longrightarrow> at_rest (said out s)"
  by (simp_all add: at_rest_def settled_def said_def)



section \<open>Reconnections\<close>

text \<open>What one failed connection does to the interface when the collaborators do not call back.\<close>

definition retry_counted :: "m2m_error \<Rightarrow> interface \<Rightarrow> interface" where
  "retry_counted error s =
     (if if_retry_count s < RECONNECTION_COUNT then s\<lparr>if_retry_count := if_retry_count s + 1\<rparr>
      else said (ObserverError error) (s\<lparr>if_retry_count := 1\<rparr>))"

definition retry_scheduled :: "interface \<Rightarrow> interface" where
  "retry_scheduled s = s\<lparr>if_retry_timer_expired := False,
     if_out := if_out s @ [StartInterfaceTimer RetryTimer (retry_time (if_retry_count s))]\<rparr>"

definition connection_failed :: "m2m_error \<Rightarrow> interface \<Rightarrow> interface" where
  "connection_failed error s =
     retry_scheduled (said StopListening ((said NsdlStopTimers (at_state STATE_IDLE
       (retry_counted error (s\<lparr>if_reconnection_state := WithUpdate\<rparr>))))\<lparr>if_reconnecting := True\<rparr>))"

lemma run_socket_error:
  assumes "quiet s"
  shows "run_state (interface_socket_error (exec (Suc (Suc n))) code True) s =
    ((), connection_failed (socket_error_of_code code) s)"
  using assms
  by (simp add: interface_socket_error_def socket_error_retry_def count_retry_def run_call_ignore run_event_idle
      emit_output_def connection_failed_def retry_scheduled_def retry_counted_def del: exec.simps)

lemma connection_failed_simps [simp]:
  "quiet s \<Longrightarrow> quiet (connection_failed error s)" "if_current_state (connection_failed error s) = STATE_IDLE"
  "if_reconnecting (connection_failed error s)" "if_reconnection_state (connection_failed error s) = WithUpdate"
  "\<not> if_event_generated (connection_failed error s)" "if_security (connection_failed error s) = if_security s"
  by (simp_all add: connection_failed_def retry_scheduled_def retry_counted_def)

definition retry_report :: "m2m_error \<Rightarrow> nat \<Rightarrow> interface_output list" where
  "retry_report error k =
     (if 0 < k \<and> 3 dvd k then [ObserverError error] else []) @
     [NsdlStopTimers, StopListening, StartInterfaceTimer RetryTimer (15000 * (int (k mod 3) + 1))]"

lemma connection_failed_count:
  "if_retry_count s \<le> RECONNECTION_COUNT \<Longrightarrow> if_retry_count (connection_failed error s) = if_retry_count s mod 3 + 1"
  by (auto simp: connection_failed_def retry_scheduled_def retry_counted_def RECONNECTION_COUNT_def)

lemma connection_failed_out:
  assumes "if_retry_count s \<le> RECONNECTION_COUNT"
  shows "if_out (connection_failed error s) = if_out s @ retry_report error (if_retry_count s)"
proof -
  have "if_retry_count s \<in> {0, 1, 2, 3}" using assms by (auto simp: RECONNECTION_COUNT_def)
  then show ?thesis
    by (auto simp: connection_failed_def retry_scheduled_def retry_counted_def retry_report_def retry_time_def
        RECONNECTION_COUNT_def RECONNECTION_INTERVAL_def)
qed

lemma map_upt_shift: "map f [a ..< a + m] = map (\<lambda>i. f (a + i)) [0 ..< m]"
  by (rule nth_equalityI) simp_all

lemma retry_report_mod: "retry_report error (k mod 3 + 1 + i) = retry_report error (k + 1 + i)"
proof -
  have "(k mod 3 + 1 + i) mod 3 = (k + 1 + i) mod 3" by (metis mod_add_left_eq add.assoc)
  then show ?thesis by (simp add: retry_report_def dvd_eq_mod_eq_0)
qed

lemma run_inputs_Cons:
  "interface_run (Suc n) (i # is) s = interface_run n is (snd (run_state (handle_input (exec n) i) s))"
  by (simp add: interface_run_def split_beta)

lemma run_inputs_Nil: "interface_run (Suc n) [] s = s"
  by (simp add: interface_run_def)

definition reconnection_waits :: "interface \<Rightarrow> bool" where
  "reconnection_waits s \<longleftrightarrow>
     if_current_state s = STATE_IDLE \<and> if_reconnecting s \<and> if_reconnection_state s = WithUpdate"

text \<open>C21: connection errors that follow each other without a success: every one stops the registration
  timers and the connection and starts the retry timer, after 15, 30 and 45 seconds in turn; the application is told
  of the error once in three, when the delays start again. The client is idle, keeps reconnecting, and its next
  registration is an update. With \<open>c\<close> retries counted before, after \<open>m\<close> errors \<open>(c + m - 1) mod 3 + 1\<close> are.\<close>

theorem socket_error_backoff:
  assumes "quiet s" and "if_retry_count s \<le> RECONNECTION_COUNT" and "m + 2 \<le> n" and "0 < m"
  shows "if_out (interface_run n (replicate m (OnSocketError code True)) s) =
      if_out s @ concat (map (retry_report (socket_error_of_code code)) [if_retry_count s ..< if_retry_count s + m]) \<and>
    if_retry_count (interface_run n (replicate m (OnSocketError code True)) s) = (if_retry_count s + m - 1) mod 3 + 1 \<and>
    reconnection_waits (interface_run n (replicate m (OnSocketError code True)) s)"
  using assms
proof (induction m arbitrary: s n)
  case (Suc m)
  then obtain n' where n: "n = Suc (Suc (Suc n'))" by (metis add_2_eq_Suc' le_Suc_ex add_Suc)
  let ?e = "socket_error_of_code code" and ?c = "if_retry_count s"
  let ?t = "connection_failed ?e s"
  have run: "interface_run n (replicate (Suc m) (OnSocketError code True)) s =
      interface_run (Suc (Suc n')) (replicate m (OnSocketError code True)) ?t"
    using Suc.prems(1) by (simp add: n run_inputs_Cons run_socket_error del: exec.simps)
  have c: "if_retry_count ?t = ?c mod 3 + 1" using Suc.prems(2) by (rule connection_failed_count)
  have o: "if_out ?t = if_out s @ retry_report ?e ?c" using Suc.prems(2) by (rule connection_failed_out)
  show ?case
  proof (cases "m = 0")
    case True
    then show ?thesis using run c o by (simp add: run_inputs_Nil reconnection_waits_def)
  next
    case False
    have ih: "if_out (interface_run (Suc (Suc n')) (replicate m (OnSocketError code True)) ?t) =
        if_out ?t @ concat (map (retry_report ?e) [if_retry_count ?t ..< if_retry_count ?t + m]) \<and>
      if_retry_count (interface_run (Suc (Suc n')) (replicate m (OnSocketError code True)) ?t) =
        (if_retry_count ?t + m - 1) mod 3 + 1 \<and>
      reconnection_waits (interface_run (Suc (Suc n')) (replicate m (OnSocketError code True)) ?t)"
      using Suc.prems False n c by (intro Suc.IH) (simp_all add: RECONNECTION_COUNT_def)
    have "map (retry_report ?e) [if_retry_count ?t ..< if_retry_count ?t + m] =
        map (\<lambda>i. retry_report ?e (?c mod 3 + 1 + i)) [0 ..< m]"
      unfolding c by (rule map_upt_shift)
    also have "\<dots> = map (retry_report ?e) [?c + 1 ..< ?c + 1 + m]"
      unfolding retry_report_mod by (rule map_upt_shift [symmetric])
    finally have l: "map (retry_report ?e) [if_retry_count ?t ..< if_retry_count ?t + m] =
      map (retry_report ?e) [Suc ?c ..< Suc ?c + m]" by simp
    have u: "[?c ..< ?c + Suc m] = ?c # [Suc ?c ..< Suc ?c + m]" by (simp add: upt_conv_Cons)
    have k: "(?c mod 3 + 1 + m - 1) mod 3 = (?c + Suc m - 1) mod 3" by (simp add: mod_add_left_eq)
    show ?thesis unfolding run u using ih [unfolded l o] k by (simp add: c)
  qed
qed simp

theorem socket_error_backoff_witness:
  "if_retry_count (interface_run 7 (replicate 5 (OnSocketError 1 True)) (interface_new ''ep'' 0 [] UDP [])) = 2"
  using socket_error_backoff [OF interface_new_quiet, of "[]" "''ep''" 0 "[]" UDP 5 7 1]
  by simp

section \<open>A failed bootstrap\<close>

text \<open>A bootstrap error is never reported as \<open>BootstrapFailed\<close>: its number is read as a
  socket error, so the client retries as after a lost connection, and the application
  is told of a \<open>NetworkError\<close> once three retries are counted.\<close>

lemma bootstrap_error_misreported:
  assumes "quiet s" and "if_retry_count s \<le> RECONNECTION_COUNT"
  shows "interface_run (n + 3) [OnBootstrapError] s = interface_run (n + 3) [OnSocketError SOCKET_READ_ERROR True]
      (snd (run_state stop_flow_timer (s\<lparr>if_bootstrapped := False\<rparr>))) \<and>
    ObserverError BootstrapFailed \<notin> set (drop (length (if_out s)) (if_out (interface_run (n + 3) [OnBootstrapError] s))) \<and>
    (ObserverError NetworkError \<in> set (drop (length (if_out s)) (if_out (interface_run (n + 3) [OnBootstrapError] s)))
       \<longleftrightarrow> if_retry_count s = RECONNECTION_COUNT)"
proof -
  let ?t = "snd (run_state stop_flow_timer (s\<lparr>if_bootstrapped := False\<rparr>))"
  have t: "quiet ?t" "if_retry_count ?t = if_retry_count s" "if_out ?t =
      if_out s @ (if if_flow_timer s then [StopInterfaceTimer RegistrationFlowTimer] else [])"
    using assms(1) by (simp_all add: stop_flow_timer_def emit_output_def)
  have run: "run_state (interface_bootstrap_error (exec (Suc (Suc n)))) s = ((), connection_failed NetworkError ?t)"
    using t(1) by (simp add: interface_bootstrap_error_def run_socket_error socket_error_of_code_def split_beta del: exec.simps)
  have one: "interface_run (n + 3) [OnBootstrapError] s = connection_failed NetworkError ?t"
    "interface_run (n + 3) [OnSocketError SOCKET_READ_ERROR True] ?t = connection_failed NetworkError ?t"
    using run t(1) by (simp_all add: numeral_3_eq_3 run_one run_socket_error socket_error_of_code_def del: exec.simps)
  have c: "if_retry_count s \<in> {0, 1, 2, 3}" using assms(2) by (auto simp: RECONNECTION_COUNT_def)
  have "if_out (connection_failed NetworkError ?t) = if_out ?t @ retry_report NetworkError (if_retry_count s)"
    using connection_failed_out [of ?t] t(2) assms(2) by simp
  then show ?thesis unfolding one using c t(3) by (auto simp: retry_report_def RECONNECTION_COUNT_def)
qed

lemma bootstrap_error_misreported_witness:
  "ObserverError NetworkError \<notin> set (drop 1 (if_out (interface_run 3 [OnBootstrapError] (interface_new ''ep'' 0 [] UDP []))))"
  using conjunct2 [OF conjunct2 [OF bootstrap_error_misreported
      [OF interface_new_quiet, of "[]" "''ep''" 0 "[]" UDP 0]]]
  by (simp add: RECONNECTION_COUNT_def interface_new_out)

section \<open>Server addresses\<close>

lemma atoi_dec_string: "n < 2 ^ 31 \<Longrightarrow> atoi (dec_string n) = int n"
proof -
  assume n: "n < 2 ^ 31"
  have v: "foldl (\<lambda>a c. 10 * a + digit_val c) 0 (dec_string n) = n"
    by (simp add: dec_string_def foldl_itoa_digits)
  show ?thesis using n strtol_parse_digits [OF dec_string_nonempty dec_string_isdigit, of n, unfolded v]
    by (simp add: atoi_def strto_signed_def clamp_def)
qed

lemma dec_string_notin: "\<not> isdigit c \<Longrightarrow> c \<notin> set (dec_string n)"
  using dec_string_isdigit by blast

lemma process_address_port:
  "process_address (h @ '':'' @ dec_string (unat p)) old =
     (if starts_with h ''['' then
        (if CHR '']'' \<in> set h then (string_substr 1 (nat (string_find_last CHR '']'' h - 1)) h, p) else ([], p))
      else if CHR '']'' \<in> set h then ([], p) else (h, p))"
proof -
  have d: "CHR '':'' \<notin> set (dec_string (unat p))" by (rule dec_string_notin) (simp add: isdigit_def)
  have "unat p < 65536" using unsigned_less [of p, where ?'a = nat] by simp
  then have "word_of_int (atoi (dec_string (unat p))) = p" by (simp add: atoi_dec_string)
  then show ?thesis using find_last_append [OF d, of h]
    by (simp add: process_address_def string_substr_def find_last_neg Let_def)
qed

text \<open>A server address: a host name without brackets and an IPv6 address in brackets are taken with the
  decimal port after the last colon; brackets that do not match clear the address, which refuses the
  registration; an address without a colon leaves the address and port of the previous server.\<close>

lemma address_parsed:
  "(CHR ''['' \<notin> set h \<and> CHR '']'' \<notin> set h \<longrightarrow> process_address (h @ '':'' @ dec_string (unat p)) old = (h, p)) \<and>
    (CHR '']'' \<notin> set h \<longrightarrow> process_address (''['' @ h @ '']:'' @ dec_string (unat p)) old = (h, p)) \<and>
    (CHR '']'' \<notin> set h \<longrightarrow> process_address (''['' @ h @ '':'' @ dec_string (unat p)) old = ([], p)) \<and>
    (CHR ''['' \<notin> set h \<longrightarrow> process_address (h @ '']:'' @ dec_string (unat p)) old = ([], p)) \<and>
    (CHR '':'' \<notin> set h \<longrightarrow> process_address h old = old)"
proof -
  have f: "string_find_last CHR '']'' (CHR ''['' # h @ '']'') = int (Suc (length h))" if "CHR '']'' \<notin> set h"
    using find_last_append [of "CHR '']''" "[]" "CHR ''['' # h"] by simp
  have g: "\<not> starts_with (h @ t) ''[''" if "CHR ''['' \<notin> set h" "t \<in> {'''', '']''}" for t
    using that by (cases h) (auto simp: starts_with_def)
  show ?thesis
    using process_address_port [of h p old] process_address_port [of "''['' @ h @ '']''" p old]
      process_address_port [of "''['' @ h" p old] process_address_port [of "h @ '']''" p old] f g [of "[]"] g [of "'']''"]
    by (auto simp: starts_with_def string_substr_def process_address_def find_last_none)
qed

lemma address_parsed_witness: "process_address (''[2001::1]:5683'') (''old'', 1) = (''2001::1'', 5683)"
proof -
  have "dec_string (unat (5683 :: u16)) = ''5683''"
    by (simp add: dec_string_def itoa_digits.simps digit_char_def char_of_def bit_0)
  then show ?thesis using address_parsed [of "''2001::1''" 5683 "(''old'', 1)"] by simp
qed

end
