(* ===== verification/InterfaceRegistration.thy ===== *)
theory InterfaceRegistration
  imports InterfaceFlows
begin

text \<open>
  The calls of the application on a machine whose collaborators accept every call without calling back:
  what a registration and an update send, and to whom.
\<close>

section \<open>Single calls\<close>

definition accepting :: "interface \<Rightarrow> bool" where
  "accepting s \<longleftrightarrow> if_replies s = [] \<and> \<not> if_event_ignored s"

lemma run_accepted:
  "if_replies s = [] \<Longrightarrow> run_state (call_out (exec (Suc n)) out) s = (True, s\<lparr>if_out := if_out s @ [out]\<rparr>)"
  by (simp add: run_call_out quiet_def answer_def said_def)

lemma run_accepted_ignore:
  "if_replies s = [] \<Longrightarrow> run_state (call_ignore (exec (Suc n)) out) s = ((), s\<lparr>if_out := if_out s @ [out]\<rparr>)"
  by (simp add: call_ignore_def run_accepted)

definition flow_restarted :: "interface_timer \<Rightarrow> bool \<Rightarrow> interface_output list" where
  "flow_restarted t running = (if running
     then [StopInterfaceTimer RegistrationFlowTimer, StartInterfaceTimer t 120000] else [])"

lemma run_restart_flow_timer:
  "run_state (restart_flow_timer t) s = ((), s\<lparr>if_out := if_out s @ flow_restarted t (if_flow_timer s)\<rparr>)"
  by (simp add: restart_flow_timer_def flow_restarted_def emit_output_def RECONNECTION_COUNT_def RECONNECTION_INTERVAL_def)

lemmas run_simps = run_accepted run_accepted_ignore run_restart_flow_timer internal_event_def external_event_def
  application_event_def report_ignored_def state_engine_def state_function_def

lemma run_register_first:
  assumes "accepting s" and "if_security s = None" and "register_transition (if_current_state s) = Some STATE_REGISTER"
    and "sec_kind sec = LWM2MServer" and "scheme_of sec \<noteq> []"
    and "process_address (address_of sec) (if_server_ip_address s, if_server_port s) = (ip, port)" and "ip \<noteq> []"
  shows "run_state (interface_register_object (exec (Suc (Suc (Suc n)))) (Some sec) objects) s =
    ((), s\<lparr>if_register_server := Some sec, if_event_data := None, if_event_generated := False,
      if_current_state := STATE_REGISTER, if_security := Some sec, if_server_ip_address := ip, if_server_port := port,
      if_out := if_out s @ [NsdlCreateList objects] @ flow_restarted RegistrationFlowTimer (if_flow_timer s) @
        [ResolveServerAddress ip port LWM2MServer (Some sec)]\<rparr>)"
  using assms
  by (simp add: accepting_def interface_register_object_def run_simps state_register_def register_object_list_def
      resolve_with_def)

lemma run_register_again:
  assumes "accepting s" and "if_security s = Some old" and "register_transition (if_current_state s) = Some STATE_REGISTER"
  shows "run_state (interface_register_object (exec (Suc (Suc (Suc n)))) (Some sec) objects) s =
    ((), s\<lparr>if_register_server := Some sec, if_event_data := None, if_event_generated := False,
      if_current_state := STATE_REGISTER, if_listen_port := 0,
      if_out := if_out s @ [StopListening, NsdlCreateList objects, BindConnection 0] @
        flow_restarted RegistrationFlowTimer (if_flow_timer s) @
        [ResolveServerAddress (if_server_ip_address s) (if_server_port s) LWM2MServer (Some old)]\<rparr>)"
  using assms
  by (simp add: accepting_def interface_register_object_def run_simps state_register_def register_object_list_def
      reconnect_start_def reconnect_resolve_def)

definition ipv4 :: "network_stack \<Rightarrow> address_kind" where
  "ipv4 stack = (if stack = LwIP_IPv4 then ADDRESS_IPV4 else ADDRESS_IPV6)"

lemma address_kind_default: "(case address_kind_of stack of None \<Rightarrow> ADDRESS_IPV6 | Some k \<Rightarrow> k) = ipv4 stack"
  by (cases stack) (simp_all add: ipv4_def)

lemma run_address_ready:
  assumes "accepting s"
  shows "run_state (interface_address_ready (exec (Suc (Suc (Suc (Suc n))))) addr LWM2MServer port) s =
    ((), s\<lparr>if_event_data := None, if_event_generated := False,
      if_current_state := (if if_reconnection_state s = WithUpdate then STATE_UPDATE_REGISTRATION
         else STATE_REGISTER_ADDRESS_RESOLVED),
      if_out := if_out s @ [StartListening, NsdlSetServerAddress (sa_address addr) port (ipv4 (sa_stack addr)),
        if if_reconnection_state s = WithUpdate then NsdlSendUpdate 0 else NsdlSendRegister]\<rparr>)"
  using assms
  by (cases "if_reconnection_state s")
    (simp_all add: accepting_def interface_address_ready_def run_simps state_register_address_resolved_def
      state_update_registration_def send_update_or_register_def address_kind_default)

lemma run_stop_flow_timer:
  "run_state stop_flow_timer s =
     ((), s\<lparr>if_out := if_out s @ (if if_flow_timer s then [StopInterfaceTimer RegistrationFlowTimer] else [])\<rparr>)"
  by (simp add: stop_flow_timer_def emit_output_def)

lemma run_client_registered:
  assumes "accepting s"
  shows "run_state (interface_client_registered (exec (Suc (Suc n))) server) s =
    ((), s\<lparr>if_event_data := None, if_event_generated := False, if_current_state := STATE_REGISTERED,
      if_retry_count := 0, if_reconnecting := False, if_reconnection_state := NoReconnection,
      if_out := if_out s @ (if if_flow_timer s then [StopInterfaceTimer RegistrationFlowTimer] else []) @
        [ObserverRegistered (if_register_server s) server]\<rparr>)"
  using assms
  by (simp add: accepting_def interface_client_registered_def run_simps run_stop_flow_timer state_registered_def
      clear_reconnection_def)

section \<open>A first registration\<close>

lemma scheme_coap:
  "sec_uri sec = ''coap://'' @ h \<Longrightarrow> scheme_of sec = ''coap://'' \<and> address_of sec = h"
  by (simp add: scheme_of_def address_of_def starts_with_def string_substr_def)

lemma run_three:
  "interface_run (Suc (Suc (Suc (Suc n)))) [i, j, k] s =
     snd (run_state (handle_input (exec (Suc n)) k) (snd (run_state (handle_input (exec (Suc (Suc n))) j)
       (snd (run_state (handle_input (exec (Suc (Suc (Suc n)))) i) s)))))"
  by (simp add: run_inputs_Cons run_inputs_Nil)

text \<open>C9: a first registration with \<open>coap://\<close>, a host and a port, on a machine that is idle,
  bootstrapped, registered or waiting, whose collaborators accept every call: the objects go to the NSDL interface, the
  host is resolved, the resolved address becomes the server address, the registration message is sent, and the
  server's answer makes the client registered and is told to the application with the server it asked for. No retry
  is left counted.\<close>

theorem registration_flow:
  assumes "accepting s" and "if_security s = None" and "if_reconnection_state s = NoReconnection"
    and "register_transition (if_current_state s) = Some STATE_REGISTER" and "sec_kind sec = LWM2MServer"
    and "sec_uri sec = ''coap://'' @ h @ '':'' @ dec_string (unat p)" and "h \<noteq> []" and "CHR ''['' \<notin> set h \<and> CHR '']'' \<notin> set h"
  shows "if_out (interface_run (n + 8) [CallRegister (Some sec) objects, OnAddressReady addr LWM2MServer port,
        OnClientRegistered server] s) =
      if_out s @ [NsdlCreateList objects] @ flow_restarted RegistrationFlowTimer (if_flow_timer s) @
      [ResolveServerAddress h p LWM2MServer (Some sec), StartListening,
       NsdlSetServerAddress (sa_address addr) port (ipv4 (sa_stack addr)), NsdlSendRegister] @
      (if if_flow_timer s then [StopInterfaceTimer RegistrationFlowTimer] else []) @ [ObserverRegistered (Some sec) server] \<and>
    if_current_state (interface_run (n + 8) [CallRegister (Some sec) objects, OnAddressReady addr LWM2MServer port,
        OnClientRegistered server] s) = STATE_REGISTERED \<and>
    if_retry_count (interface_run (n + 8) [CallRegister (Some sec) objects, OnAddressReady addr LWM2MServer port,
        OnClientRegistered server] s) = 0"
proof -
  have s: "scheme_of sec \<noteq> []" "address_of sec = h @ '':'' @ dec_string (unat p)"
    using scheme_coap [OF assms(6)] by simp_all
  have "\<not> starts_with h ''[''" using assms(7,8) by (cases h) (auto simp: starts_with_def)
  then have p: "process_address (address_of sec) (if_server_ip_address s, if_server_port s) = (h, p)"
    using assms(8) by (simp add: s(2) process_address_port [simplified])
  have e: "n + 8 = Suc (Suc (Suc (Suc (n + 4))))" "n + 4 = Suc (Suc (Suc (n + 1)))" by simp_all
  note r = run_register_first [OF assms(1,2,4,5) s(1) p assms(7)]
  show ?thesis unfolding e(1) run_three handle_input.simps e(2) using assms(1,3)
    by (simp add: accepting_def r run_address_ready run_client_registered)
qed

theorem registration_flow_witness:
  "if_current_state (interface_run 8 [CallRegister (Some \<lparr>sec_object = 1, sec_kind = LWM2MServer,
       sec_uri = ''coap://'' @ ''host'' @ '':'' @ dec_string (unat (5683 :: u16)), sec_mode = NoSecurity\<rparr>) [7],
     OnAddressReady \<lparr>sa_stack = LwIP_IPv4, sa_address = [10, 0, 0, 1], sa_port = 5683\<rparr> LWM2MServer 5683,
     OnClientRegistered 2] (interface_new ''ep'' 0 [] TCP [])) = STATE_REGISTERED"
  using registration_flow [of "interface_new ''ep'' 0 [] TCP []" "\<lparr>sec_object = 1, sec_kind = LWM2MServer,
       sec_uri = ''coap://'' @ ''host'' @ '':'' @ dec_string (unat (5683 :: u16)), sec_mode = NoSecurity\<rparr>" "''host''" 5683 0 "[7]"
     "\<lparr>sa_stack = LwIP_IPv4, sa_address = [10, 0, 0, 1], sa_port = 5683\<rparr>" 5683 2]
  by (simp add: accepting_def interface_new_rec)

section \<open>Later registrations and reconnections\<close>

text \<open>A registration while a security object is known, so any but the first since
  the last bootstrap, connects to the server of that object at the address parsed for it, whatever server the call
  names; the given object only appears in the later notices to the application, which say that it was registered with the
  new server. The address and port are the ones kept, and an ephemeral listening port is used.\<close>

lemma register_keeps_first_server:
  assumes "accepting s" and "if_security s = Some old" and "register_transition (if_current_state s) = Some STATE_REGISTER"
    and "if_reconnection_state s = NoReconnection"
  shows "if_out (interface_run (n + 8) [CallRegister (Some sec) objects, OnAddressReady addr LWM2MServer port,
        OnClientRegistered server] s) =
      if_out s @ [StopListening, NsdlCreateList objects, BindConnection 0] @
      flow_restarted RegistrationFlowTimer (if_flow_timer s) @
      [ResolveServerAddress (if_server_ip_address s) (if_server_port s) LWM2MServer (Some old), StartListening,
       NsdlSetServerAddress (sa_address addr) port (ipv4 (sa_stack addr)), NsdlSendRegister] @
      (if if_flow_timer s then [StopInterfaceTimer RegistrationFlowTimer] else []) @ [ObserverRegistered (Some sec) server]"
proof -
  have e: "n + 8 = Suc (Suc (Suc (Suc (n + 4))))" "n + 4 = Suc (Suc (Suc (n + 1)))" by simp_all
  note r = run_register_again [OF assms(1-3)]
  show ?thesis unfolding e(1) run_three handle_input.simps e(2) using assms(1,4)
    by (simp add: accepting_def r run_address_ready run_client_registered)
qed

lemma register_keeps_first_server_witness:
  "ResolveServerAddress ''host'' 5683 LWM2MServer (Some \<lparr>sec_object = 1, sec_kind = LWM2MServer,
       sec_uri = ''coap://host:5683'', sec_mode = NoSecurity\<rparr>) \<in> set (if_out (interface_run 8
     [CallRegister (Some \<lparr>sec_object = 2, sec_kind = LWM2MServer, sec_uri = ''coap://other:5683'', sec_mode = NoSecurity\<rparr>) [7],
      OnAddressReady \<lparr>sa_stack = LwIP_IPv4, sa_address = [10, 0, 0, 1], sa_port = 5683\<rparr> LWM2MServer 5683, OnClientRegistered 2]
     ((interface_new ''ep'' 0 [] UDP [])\<lparr>if_server_ip_address := ''host'', if_server_port := 5683,
       if_current_state := STATE_REGISTERED, if_security := Some \<lparr>sec_object = 1, sec_kind = LWM2MServer,
       sec_uri = ''coap://host:5683'', sec_mode = NoSecurity\<rparr>\<rparr>)))"
  by (subst register_keeps_first_server [where n = 0 and old = "\<lparr>sec_object = 1, sec_kind = LWM2MServer,
       sec_uri = ''coap://host:5683'', sec_mode = NoSecurity\<rparr>", simplified])
    (simp_all add: accepting_def interface_new_rec)

lemma run_retry_timer:
  assumes "accepting s" and "if_security s = Some old" and "if_bootstrapped s"
  shows "run_state (interface_timer_expired (exec (Suc (Suc (Suc n)))) RetryTimer) s =
    ((), s\<lparr>if_retry_timer_expired := True, if_event_data := None, if_event_generated := False,
      if_current_state := STATE_REGISTER, if_listen_port := 0,
      if_out := if_out s @ [StopListening, BindConnection 0] @
        flow_restarted RegistrationFlowTimer (if_flow_timer s) @
        [ResolveServerAddress (if_server_ip_address s) (if_server_port s) LWM2MServer (Some old)]\<rparr>)"
  using assms
  by (simp add: accepting_def interface_timer_expired_def run_simps state_register_def reconnect_start_def
      reconnect_resolve_def)

lemma run_registration_updated:
  assumes "accepting s"
  shows "run_state (interface_registration_updated (exec (Suc (Suc n))) server) s =
    ((), s\<lparr>if_event_data := None, if_event_generated := False, if_current_state := STATE_REGISTERED,
      if_retry_count := 0, if_reconnecting := False, if_reconnection_state := NoReconnection,
      if_out := if_out s @ [ObserverUpdated (if_register_server s) server]\<rparr>)"
  using assms
  by (simp add: accepting_def interface_registration_updated_def run_simps state_registered_def clear_reconnection_def)

lemma run_four:
  "interface_run (Suc (Suc (Suc (Suc (Suc n))))) [h, i, j, k] s =
     interface_run (Suc (Suc (Suc (Suc n)))) [i, j, k]
       (snd (run_state (handle_input (exec (Suc (Suc (Suc (Suc n))))) h) s))"
  by (simp add: run_inputs_Cons)

text \<open>C10: a lost connection of a client that has a server: the client drops the connection and waits
  for the retry timer, then connects again to the same address from a new port, updates its registration instead of
  registering anew, and the answer of the server ends the reconnection.\<close>

theorem reconnection_updates:
  assumes "accepting s" and "if_security s = Some old" and "if_bootstrapped s"
    and "if_retry_count s < RECONNECTION_COUNT"
  shows "if_out (interface_run (n + 9) [OnSocketError code True, OnTimerExpired RetryTimer,
        OnAddressReady addr LWM2MServer port, OnRegistrationUpdated server] s) =
      if_out s @ [NsdlStopTimers, StopListening, StartInterfaceTimer RetryTimer (15000 * (int (if_retry_count s) + 1)),
        StopListening, BindConnection 0] @ flow_restarted RegistrationFlowTimer (if_flow_timer s) @
      [ResolveServerAddress (if_server_ip_address s) (if_server_port s) LWM2MServer (Some old), StartListening,
       NsdlSetServerAddress (sa_address addr) port (ipv4 (sa_stack addr)), NsdlSendUpdate 0,
       ObserverUpdated (if_register_server s) server] \<and>
    if_current_state (interface_run (n + 9) [OnSocketError code True, OnTimerExpired RetryTimer,
        OnAddressReady addr LWM2MServer port, OnRegistrationUpdated server] s) = STATE_REGISTERED \<and>
    \<not> if_reconnecting (interface_run (n + 9) [OnSocketError code True, OnTimerExpired RetryTimer,
        OnAddressReady addr LWM2MServer port, OnRegistrationUpdated server] s)"
proof -
  have e: "n + 9 = Suc (Suc (Suc (Suc (Suc (n + 4)))))" "n + 4 = Suc (Suc (Suc (n + 1)))" by simp_all
  have q: "quiet s" using assms(1) by (simp add: accepting_def quiet_def)
  have f: "connection_failed err s = s\<lparr>if_reconnection_state := WithUpdate, if_retry_count := if_retry_count s + 1,
      if_event_data := None, if_event_generated := False, if_current_state := STATE_IDLE, if_reconnecting := True,
      if_retry_timer_expired := False, if_out := if_out s @ [NsdlStopTimers, StopListening,
        StartInterfaceTimer RetryTimer (15000 * (int (if_retry_count s) + 1))]\<rparr>" for err
    using assms(1,4) by (simp add: connection_failed_def retry_scheduled_def retry_counted_def at_state_def said_def
        accepting_def retry_time_def RECONNECTION_COUNT_def RECONNECTION_INTERVAL_def)
  show ?thesis unfolding e(1) run_four run_three handle_input.simps e(2) run_socket_error [OF q] f using assms(1-3)
    by (simp add: accepting_def run_retry_timer run_address_ready run_registration_updated)
qed

theorem reconnection_updates_witness:
  "if_current_state (interface_run 9 [OnSocketError SOCKET_ABORT True, OnTimerExpired RetryTimer,
      OnAddressReady \<lparr>sa_stack = LwIP_IPv6, sa_address = [], sa_port = 1\<rparr> LWM2MServer 1, OnRegistrationUpdated 3]
     ((interface_new ''ep'' 0 [] UDP [])\<lparr>if_server_ip_address := ''host'',
       if_current_state := STATE_REGISTERED, if_security := Some \<lparr>sec_object = 1, sec_kind = LWM2MServer,
       sec_uri = ''coap://host:5683'', sec_mode = NoSecurity\<rparr>\<rparr>)) = STATE_REGISTERED"
  by (subst reconnection_updates [where n = 0, simplified])
    (simp_all add: accepting_def interface_new_rec RECONNECTION_COUNT_def)

section \<open>Updates\<close>

text \<open>C37: a registration update of an idle client runs the registration on the data of
  an update: wherever that uses the list of objects, because a security object is known or the given one is of a
  server, the list is read at the place where the other type has its lifetime, which is undefined in C++.\<close>

theorem update_before_registration_undefined:
  assumes "accepting s" and "if_current_state s = STATE_IDLE" and "\<not> if_reconnecting s"
    and "if_security s \<noteq> None \<or> (\<exists>x. sec = Some x \<and> sec_kind x = LWM2MServer)"
    and "lifetime = 0 \<or> MINIMUM_REGISTRATION_TIME \<le> lifetime"
  shows "if_undefined (interface_run (n + 5) [CallUpdate sec lifetime objects] s)"
proof -
  have e: "n + 5 = Suc (Suc (n + 3))" "n + 3 = Suc (Suc (Suc n))" by simp_all
  show ?thesis unfolding e(1) run_one handle_input.simps e(2) using assms
    by (cases "if_security s")
      (auto simp: accepting_def start_register_update_def run_simps state_register_def register_object_list_def
        reconnect_start_def reconnect_resolve_def give_up_def state_idle_def)
qed

theorem update_before_registration_undefined_witness:
  "if_undefined (interface_run 5 [CallUpdate (Some \<lparr>sec_object = 1, sec_kind = LWM2MServer,
       sec_uri = ''coap://host:5683'', sec_mode = NoSecurity\<rparr>) 0 []] (interface_new ''ep'' 0 [] UDP []))"
  by (rule update_before_registration_undefined [where n = 0, simplified])
    (simp_all add: accepting_def interface_new_rec)

text \<open>An update with a lifetime below the minimum of 60 seconds is reported as
  \<open>InvalidParameters\<close>, yet a registered client sends the update with that lifetime all the same.\<close>

lemma short_lifetime_sent:
  assumes "accepting s" and "if_current_state s = STATE_REGISTERED" and "\<not> if_reconnecting s"
    and "lifetime \<noteq> 0" and "lifetime < MINIMUM_REGISTRATION_TIME"
  shows "if_out (interface_run (n + 4) [CallUpdate sec lifetime objects] s) = if_out s @ [ObserverError InvalidParameters] @
      (if objects \<noteq> [] then [NsdlCreateList objects] else []) @ [NsdlSendUpdate lifetime]"
proof -
  have e: "n + 4 = Suc (Suc (n + 2))" "n + 2 = Suc (Suc n)" by simp_all
  show ?thesis unfolding e(1) run_one handle_input.simps e(2) using assms
    by (simp add: accepting_def start_register_update_def run_simps state_update_registration_def
        send_update_or_register_def)
qed

lemma short_lifetime_sent_witness:
  "NsdlSendUpdate 5 \<in> set (if_out (interface_run 4 [CallUpdate None 5 []]
     ((interface_new ''ep'' 0 [] UDP [])\<lparr>if_current_state := STATE_REGISTERED\<rparr>)))"
  by (subst short_lifetime_sent [where n = 0, simplified])
    (simp_all add: accepting_def interface_new_rec MINIMUM_REGISTRATION_TIME_def)

end
