(* ===== verification/StandardObject.thy ===== *)
theory StandardObject
  imports ObjectsSpec TlvDeserializer
begin

text \<open>
  What the standard objects of the library share: \<open>M2MSecurity\<close>, \<open>M2MServer\<close>, \<open>M2MDevice\<close> and
  \<open>M2MFirmware\<close> are objects with a pointer to their first instance and a switch from an enumeration of resources to
  the names of those resources. Here are the state, the lookups and writes through that pointer, and the
  interface \<open>resource_names\<close> of the switch, from which the independence of the resources follows. The
  pointer is a position: none of these classes removes its first instance.
\<close>

section \<open>State and operations\<close>

record std_object =
  so_tree :: tree
  so_instance :: "nat option"

definition std_object_new :: "string \<Rightarrow> std_object" where
  "std_object_new name =
     (let (ob, i) = create_object_instance 0 (object_new name name False)
      in \<lparr>so_tree = \<lparr>t_object = ob, t_out = []\<rparr>, so_instance = i\<rparr>)"

definition std_upd :: "node \<Rightarrow> (base \<Rightarrow> base) \<Rightarrow> std_object \<Rightarrow> std_object" where
  "std_upd n f so = so\<lparr>so_tree := tree_upd n f (so_tree so)\<rparr>"

text \<open>\<open>_instance->resource(name)\<close>, guarded by the pointer.\<close>

definition std_node :: "string \<Rightarrow> std_object \<Rightarrow> node option" where
  "std_node name so =
     (case so_instance so of None \<Rightarrow> None
      | Some i \<Rightarrow> map_option (NRes i) (resource_of name (tree_inst i (so_tree so))))"

definition std_base :: "string \<Rightarrow> std_object \<Rightarrow> base option" where
  "std_base name so = (case std_node name so of None \<Rightarrow> None | Some n \<Rightarrow> get_base n (t_object (so_tree so)))"

definition std_create :: "string \<Rightarrow> data_type \<Rightarrow> bool \<Rightarrow> std_object \<Rightarrow> std_object \<times> node option" where
  "std_create name type observable so =
     (case so_instance so of None \<Rightarrow> (so, None)
      | Some i \<Rightarrow>
          (let ob = t_object (so_tree so);
               (oi, j) = create_dynamic_resource (object_name ob) name [] type observable False False (o_instances ob ! i)
           in (so\<lparr>so_tree := (so_tree so)\<lparr>t_object := upd_inst i (\<lambda>_. oi) ob\<rparr>\<rparr>, map_option (NRes i) j)))"

definition std_create_allowed :: "string \<Rightarrow> data_type \<Rightarrow> bool \<Rightarrow> u8 \<Rightarrow> std_object \<Rightarrow> std_object" where
  "std_create_allowed name type observable opr so =
     (let (so1, n) = std_create name type observable so
      in case n of None \<Rightarrow> so1 | Some n \<Rightarrow> std_upd n (base_set_operation opr) so1)"

definition std_remove :: "string \<Rightarrow> std_object \<Rightarrow> std_object \<times> bool" where
  "std_remove name so =
     (case so_instance so of None \<Rightarrow> (so, False)
      | Some i \<Rightarrow>
          (let ob = t_object (so_tree so);
               (oi, es, success) = remove_resource (o_handler ob) name (o_instances ob ! i)
           in (so\<lparr>so_tree := emit es ((so_tree so)\<lparr>t_object := upd_inst i (\<lambda>_. oi) ob\<rparr>)\<rparr>, success)))"

definition std_write :: "node \<Rightarrow> u8 list option \<Rightarrow> nat \<Rightarrow> std_object \<Rightarrow> std_object \<times> bool" where
  "std_write n v len so =
     (let (t, success) = res_set_value n v len (so_tree so) in (so\<lparr>so_tree := t\<rparr>, success))"

definition std_write_int :: "node \<Rightarrow> i64 \<Rightarrow> std_object \<Rightarrow> (std_object \<times> bool) option" where
  "std_write_int n v so =
     map_option (\<lambda>(t, success). (so\<lparr>so_tree := t\<rparr>, success)) (res_set_value_int n v (so_tree so))"

definition std_clear :: "node \<Rightarrow> std_object \<Rightarrow> std_object" where
  "std_clear n so = so\<lparr>so_tree := res_clear_value n (so_tree so)\<rparr>"

definition std_resource_total :: "std_object \<Rightarrow> u16" where
  "std_resource_total so =
     (case so_instance so of None \<Rightarrow> 0
      | Some i \<Rightarrow> of_nat (length (oi_resources (tree_inst i (so_tree so)))))"

section \<open>Lookups after a change\<close>

definition std_wf :: "std_object \<Rightarrow> bool" where
  "std_wf so \<longleftrightarrow> (case so_instance so of None \<Rightarrow> True | Some i \<Rightarrow> i < length (o_instances (t_object (so_tree so))))"

text \<open>What identifies the nodes of an object: their names and numbers, level by level.\<close>

definition same_names :: "lwm2m_object \<Rightarrow> lwm2m_object \<Rightarrow> bool" where
  "same_names ob ob' \<longleftrightarrow> (\<forall>n. map_option bs_ident (get_base n ob) = map_option bs_ident (get_base n ob'))"

lemma same_names_resources:
  assumes "same_names ob ob'" and "i < length (o_instances ob)"
  shows "i < length (o_instances ob') \<and>
    map resource_name (oi_resources (o_instances ob ! i)) = map resource_name (oi_resources (o_instances ob' ! i))"
proof -
  have i': "i < length (o_instances ob')"
    using assms spec [OF assms(1) [unfolded same_names_def], of "NInst i"] by (simp split: if_splits)
  have n: "map_option bs_ident (get_base (NRes i j) ob) = map_option bs_ident (get_base (NRes i j) ob')" for j
    using assms(1) by (simp add: same_names_def del: get_base.simps)
  have l: "length (oi_resources (o_instances ob ! i)) = length (oi_resources (o_instances ob' ! i))"
    using n [of "length (oi_resources (o_instances ob ! i))"] n [of "length (oi_resources (o_instances ob' ! i))"]
      assms(2) i' by (simp split: if_splits)
  have "resource_name (oi_resources (o_instances ob ! i) ! j) = resource_name (oi_resources (o_instances ob' ! i) ! j)"
    if "j < length (oi_resources (o_instances ob ! i))" for j
    using n [of j] that l assms(2) i' by (simp add: resource_name_def base_name_def)
  then show ?thesis using i' l by (auto intro: nth_equalityI)
qed

lemma std_node_same:
  assumes "same_names (t_object (so_tree so)) (t_object (so_tree so'))" and "so_instance so' = so_instance so"
    and "std_wf so"
  shows "std_node name so' = std_node name so"
proof (cases "so_instance so")
  case None
  then show ?thesis using assms(2) by (simp add: std_node_def)
next
  case (Some i)
  then have "i < length (o_instances (t_object (so_tree so)))" using assms(3) by (simp add: std_wf_def)
  from same_names_resources [OF assms(1) this]
  have "resource_of name (tree_inst i (so_tree so)) = resource_of name (tree_inst i (so_tree so'))"
    unfolding resource_of_def tree_inst_def by (intro find_idx_map_keys) simp
  then show ?thesis using Some assms(2) by (simp add: std_node_def)
qed

lemma node_frame_names:
  "(\<And>m. map_option bs_ident (node_frame m t') = map_option bs_ident (node_frame m t)) \<Longrightarrow>
     same_names (t_object t) (t_object t')"
  by (simp add: same_names_def node_frame_def option.map_comp comp_def frame_of_def)

lemma std_node_get:
  assumes "std_wf so" and "std_node name so = Some n"
  shows "\<exists>i j. n = NRes i j \<and> get_base n (t_object (so_tree so)) \<noteq> None"
  using assms
  by (auto simp: std_node_def std_wf_def tree_inst_def split: option.splits dest!: resource_of_Some)

lemma same_names_wf:
  assumes "same_names (t_object (so_tree so)) (t_object (so_tree so'))" and "so_instance so' = so_instance so"
    and "std_wf so"
  shows "std_wf so'"
  using assms same_names_resources [OF assms(1)] by (auto simp: std_wf_def split: option.splits)

section \<open>Writes\<close>

lemma res_set_value_names: "same_names (t_object t) (t_object (fst (res_set_value n v len t)))"
proof (rule node_frame_names)
  fix m
  show "map_option bs_ident (node_frame m (fst (res_set_value n v len t))) = map_option bs_ident (node_frame m t)"
  proof (cases "v = None \<or> len = 0 \<or> get_base n (t_object t) = None")
    case True
    then have "fst (res_set_value n v len t) = t"
      by (auto simp: res_set_value_def with_base_def split: option.split)
    then show ?thesis by simp
  next
    case False
    then obtain w b where "v = Some w" "get_base n (t_object t) = Some b" "0 < len" by auto
    then show ?thesis using res_set_value_frame(1) [of n t b len m w]
      by (auto simp: node_frame_def frame_of_def)
  qed
qed

lemma res_clear_value_names: "same_names (t_object t) (t_object (res_clear_value n t))"
  by (rule node_frame_names)
    (auto simp: res_clear_value_def res_report_frame tree_upd_frame_value option.map_comp comp_def)

lemma tree_upd_names:
  assumes "\<And>b. bs_ident (f b) = bs_ident b"
  shows "same_names (t_object t) (t_object (tree_upd n f t))"
  unfolding same_names_def
proof
  fix m
  show "map_option bs_ident (get_base m (t_object t)) = map_option bs_ident (get_base m (t_object (tree_upd n f t)))"
    using assms by (cases "m = n") (simp_all add: tree_upd_def getset_simps option.map_comp comp_def
        del: get_base.simps upd_base.simps)
qed

lemmas name_changes = res_set_value_names res_clear_value_names tree_upd_names

text \<open>Everything of a resource but its report handler, found through its name.\<close>

definition std_frame :: "string \<Rightarrow> std_object \<Rightarrow> base option" where
  "std_frame name so = (case std_node name so of None \<Rightarrow> None | Some n \<Rightarrow> node_frame n (so_tree so))"

lemma std_node_name:
  assumes "std_wf so" and "std_node name so = Some n" and "std_node name' so = Some n"
  shows "name' = name"
  using assms by (auto simp: std_node_def split: option.splits dest!: resource_of_Some)

lemma std_write_wf [simp]: "std_wf so \<Longrightarrow> std_wf (fst (std_write n v len so))"
  by (rule same_names_wf [OF _ _, of so]) (simp_all add: std_write_def split_beta name_changes)

lemma std_clear_wf [simp]: "std_wf so \<Longrightarrow> std_wf (std_clear n so)"
  by (rule same_names_wf [OF _ _, of so]) (simp_all add: std_clear_def name_changes)

lemma std_upd_wf [simp]: "(\<And>b. bs_ident (f b) = bs_ident b) \<Longrightarrow> std_wf so \<Longrightarrow> std_wf (std_upd n f so)"
  by (rule same_names_wf [OF _ _, of so]) (simp_all add: std_upd_def name_changes)

lemma std_write_node [simp]: "std_wf so \<Longrightarrow> std_node name (fst (std_write n v len so)) = std_node name so"
  by (rule std_node_same) (simp_all add: std_write_def split_beta name_changes)

lemma std_clear_node [simp]: "std_wf so \<Longrightarrow> std_node name (std_clear n so) = std_node name so"
  by (rule std_node_same) (simp_all add: std_clear_def name_changes)

lemma std_upd_node [simp]:
  "(\<And>b. bs_ident (f b) = bs_ident b) \<Longrightarrow> std_wf so \<Longrightarrow> std_node name (std_upd n f so) = std_node name so"
  by (rule std_node_same) (simp_all add: std_upd_def name_changes)

lemma std_write_frame:
  assumes "std_wf so" and "std_node name so = Some n" and "0 < len"
  shows "snd (std_write n (Some v) len so)"
    and "std_frame name' (fst (std_write n (Some v) len so)) =
      (if name' = name then map_option (\<lambda>b. b\<lparr>bs_value := Some (take len v)\<rparr>) (std_frame name so)
       else std_frame name' so)"
proof -
  obtain b where b: "get_base n (t_object (so_tree so)) = Some b" using std_node_get [OF assms(1,2)] by auto
  note f = res_set_value_frame [OF b assms(3)]
  show "snd (std_write n (Some v) len so)" using f(2) by (simp add: std_write_def split_beta)
  have e: "std_frame name' (fst (std_write n (Some v) len so)) =
      (case std_node name' so of None \<Rightarrow> None | Some m \<Rightarrow> node_frame m (fst (res_set_value n (Some v) len (so_tree so))))"
    by (simp add: std_frame_def std_write_node [OF assms(1)])
      (simp add: std_write_def split_beta split: option.split)
  show "std_frame name' (fst (std_write n (Some v) len so)) =
      (if name' = name then map_option (\<lambda>b. b\<lparr>bs_value := Some (take len v)\<rparr>) (std_frame name so)
       else std_frame name' so)"
  proof (cases "std_node name' so = Some n")
    case True
    then have "name' = name" using std_node_name [OF assms(1,2)] by blast
    then show ?thesis using assms(2) f(1) [of n v] b e by (simp add: std_frame_def node_frame_def)
  next
    case False
    then have "name' \<noteq> name" using assms(2) by auto
    moreover have "node_frame m (fst (res_set_value n (Some v) len (so_tree so))) = node_frame m (so_tree so)"
      if "std_node name' so = Some m" for m using False that f(1) [of m v] by simp
    ultimately show ?thesis using e by (simp add: std_frame_def split: option.split)
  qed
qed

lemma std_upd_frame:
  assumes "std_wf so" and "std_node name so = Some n"
    and "\<And>b. bs_ident (f b) = bs_ident b" and "\<And>b. frame_of (f b) = f (frame_of b)"
  shows "std_frame name' (std_upd n f so) =
    (if name' = name then map_option f (std_frame name so) else std_frame name' so)"
proof -
  have "std_node name' (std_upd n f so) = std_node name' so" by (rule std_upd_node) (simp_all add: assms)
  then have e: "std_frame name' (std_upd n f so) =
      (case std_node name' so of None \<Rightarrow> None | Some m \<Rightarrow> node_frame m (tree_upd n f (so_tree so)))"
    by (simp add: std_frame_def) (simp add: std_upd_def split: option.split)
  show ?thesis
  proof (cases "std_node name' so = Some n")
    case True
    then have "name' = name" using std_node_name [OF assms(1,2)] by blast
    then show ?thesis using assms(2,4) e
      by (simp add: std_frame_def node_frame_def tree_upd_def getset_simps option.map_comp comp_def)
  next
    case False
    then have "name' \<noteq> name" using assms(2) by auto
    moreover have "node_frame m (tree_upd n f (so_tree so)) = node_frame m (so_tree so)"
      if "std_node name' so = Some m" for m
      using False that by (simp add: node_frame_def tree_upd_def getset_simps)
    ultimately show ?thesis using e by (simp add: std_frame_def split: option.split)
  qed
qed

lemma std_clear_frame:
  assumes "std_wf so" and "std_node name so = Some n"
  shows "std_frame name' (std_clear n so) =
    (if name' = name then map_option (\<lambda>b. b\<lparr>bs_value := None\<rparr>) (std_frame name so) else std_frame name' so)"
proof -
  obtain b where b: "get_base n (t_object (so_tree so)) = Some b" using std_node_get [OF assms] by auto
  note f = res_clear_value_frame [OF b]
  have e: "std_frame name' (std_clear n so) =
      (case std_node name' so of None \<Rightarrow> None | Some m \<Rightarrow> node_frame m (res_clear_value n (so_tree so)))"
    by (simp add: std_frame_def std_clear_node [OF assms(1)]) (simp add: std_clear_def split: option.split)
  show ?thesis
  proof (cases "std_node name' so = Some n")
    case True
    then have "name' = name" using std_node_name [OF assms] by blast
    then show ?thesis using assms(2) f [of n] b e by (simp add: std_frame_def node_frame_def)
  next
    case False
    then have "name' \<noteq> name" using assms(2) by auto
    moreover have "node_frame m (res_clear_value n (so_tree so)) = node_frame m (so_tree so)"
      if "std_node name' so = Some m" for m using False that f [of m] by simp
    ultimately show ?thesis using e by (simp add: std_frame_def split: option.split)
  qed
qed

text \<open>An integer in the range of the conversion is written as its decimal text.\<close>

lemma std_write_int_eq:
  assumes "sint v \<noteq> - (2 ^ 63)"
  shows "\<exists>s. std_write_int n v so = Some (std_write n (Some (bytes_of s)) (length s) so) \<and> s \<noteq> [] \<and> no_nul s \<and> atoll s = sint v"
proof -
  have "- (2 ^ 63) \<le> sint v" "sint v < 2 ^ 63" using sint_range_size [of v] by (simp_all add: word_size)
  then have a: "\<bar>sint v\<bar> < 2 ^ 63" using assms by auto
  obtain s where s: "itoa_c (sint v) = Some s" "atoll s = sint v" "no_nul s" "s \<noteq> []"
    using itoa_c_eq [OF a] itoa_c_atoll_aux [OF a] dec_string_no_nul by (auto simp: dec_string_def)
  then have "std_write_int n v so = Some (std_write n (Some (bytes_of s)) (length s) so)"
    by (simp add: std_write_int_def res_set_value_int_def std_write_def split_beta)
  then show ?thesis using s(2-4) by blast
qed

lemma frame_of_operation: "frame_of (base_set_operation a b) = base_set_operation a (frame_of b)"
  by (simp add: frame_of_def base_set_operation_def)

text \<open>Creating and removing: the lookup of the name and of the others.\<close>

lemma resource_of_upd_inst:
  "i < length (o_instances ob) \<Longrightarrow>
     resource_of name (o_instances (upd_inst i f ob) ! i) = resource_of name (f (o_instances ob ! i))"
  by (simp add: upd_inst_def nth_update_at)

lemma std_create_node:
  assumes "std_wf so" and "so_instance so \<noteq> None" and "std_node name so = None"
    and "validate_string_length name 1 MAX_ALLOWED_STRING_LENGTH"
  shows "\<exists>n. snd (std_create name type obs so) = Some n \<and> std_node name (fst (std_create name type obs so)) = Some n"
    and "name' \<noteq> name \<Longrightarrow> std_node name' (fst (std_create name type obs so)) = std_node name' so"
    and "std_wf (fst (std_create name type obs so))"
proof -
  obtain i where i: "so_instance so = Some i" using assms(2) by auto
  let ?ob = "t_object (so_tree so)"
  have l: "i < length (o_instances ?ob)" using assms(1) i by (simp add: std_wf_def)
  have r: "resource_of name (o_instances ?ob ! i) = None"
    using assms(3) i by (simp add: std_node_def tree_inst_def)
  obtain e where e: "create_dynamic_resource (object_name ?ob) name [] type obs False False (o_instances ?ob ! i) =
      (push_resource e (o_instances ?ob ! i), Some (length (oi_resources (o_instances ?ob ! i))))"
    "resource_name e = name"
    using create_dynamic_resource_new [OF assms(4) r] by blast
  note c = dres.lookup_create [where s = "o_instances ?ob ! i" and k = name and on = "object_name ?ob" and rt = "[]"
      and ty = type and obs = obs and multiple = False and ext = False, OF assms(4) r]
    dres.lookup_create_other [where s = "o_instances ?ob ! i" and k = name and k' = name' and on = "object_name ?ob"
      and rt = "[]" and ty = type and obs = obs and multiple = False and ext = False]
  show "\<exists>n. snd (std_create name type obs so) = Some n \<and> std_node name (fst (std_create name type obs so)) = Some n"
    using i e c(1) l by (simp add: std_create_def std_node_def tree_inst_def resource_of_upd_inst Let_def)
  show "name' \<noteq> name \<Longrightarrow> std_node name' (fst (std_create name type obs so)) = std_node name' so"
    using i e c(2) l by (simp add: std_create_def std_node_def tree_inst_def resource_of_upd_inst Let_def)
  show "std_wf (fst (std_create name type obs so))"
    using i e l by (simp add: std_create_def std_wf_def Let_def upd_inst_def)
qed

section \<open>The switch from an enumeration to names\<close>

text \<open>
  Each class has a switch from its enumeration to the names of the resources. Its contract: the names differ and
  a resource of that name can be created. Its consequence: what is written through one constant is read
  through that one and no other.
\<close>

locale resource_names =
  fixes name_of :: "'r \<Rightarrow> string"
  assumes name_inj: "name_of r = name_of r' \<Longrightarrow> r = r'"
    and name_valid: "validate_string_length (name_of r) 1 MAX_ALLOWED_STRING_LENGTH"
begin

lemma write_frame:
  assumes "std_wf so" and "std_node (name_of r) so = Some n" and "0 < len"
  shows "std_frame (name_of r') (fst (std_write n (Some v) len so)) =
    (if r' = r then map_option (\<lambda>b. b\<lparr>bs_value := Some (take len v)\<rparr>) (std_frame (name_of r) so)
     else std_frame (name_of r') so)"
  using std_write_frame(2) [OF assms, of "name_of r'" v] name_inj by auto

lemma operation_frame:
  assumes "std_wf so" and "std_node (name_of r) so = Some n"
  shows "std_frame (name_of r') (std_upd n (base_set_operation opr) so) =
    (if r' = r then map_option (base_set_operation opr) (std_frame (name_of r) so) else std_frame (name_of r') so)"
  using std_upd_frame [OF assms, of "base_set_operation opr" "name_of r'"] name_inj
  by (auto simp: frame_of_operation)

lemma clear_frame:
  assumes "std_wf so" and "std_node (name_of r) so = Some n"
  shows "std_frame (name_of r') (std_clear n so) =
    (if r' = r then map_option (\<lambda>b. b\<lparr>bs_value := None\<rparr>) (std_frame (name_of r) so) else std_frame (name_of r') so)"
  using std_clear_frame [OF assms, of "name_of r'"] name_inj by auto

lemma create_present:
  assumes "std_wf so" and "so_instance so \<noteq> None"
  shows "std_node (name_of r') (fst (std_create (name_of r) type obs so)) \<noteq> None \<longleftrightarrow>
    r' = r \<or> std_node (name_of r') so \<noteq> None"
proof (cases "std_node (name_of r) so = None")
  case True
  note c = std_create_node [OF assms True name_valid, where type = type and obs = obs]
  show ?thesis
  proof (cases "r' = r")
    case True
    then show ?thesis using c(1) by auto
  next
    case False
    then have "name_of r' \<noteq> name_of r" using name_inj by auto
    then show ?thesis using c(2) False by simp
  qed
next
  case False
  then obtain i j where i: "so_instance so = Some i" "resource_of (name_of r) (tree_inst i (so_tree so)) = Some j"
    by (auto simp: std_node_def split: option.splits)
  then have "fst (std_create (name_of r) type obs so) =
      so\<lparr>so_tree := (so_tree so)\<lparr>t_object := upd_inst i (\<lambda>_. tree_inst i (so_tree so)) (t_object (so_tree so))\<rparr>\<rparr>"
    by (simp add: std_create_def create_dynamic_resource_def tree_inst_def Let_def)
  moreover have "i < length (o_instances (t_object (so_tree so)))" using assms(1) i by (simp add: std_wf_def)
  ultimately have "std_node (name_of r') (fst (std_create (name_of r) type obs so)) = std_node (name_of r') so"
    using i by (simp add: std_node_def tree_inst_def resource_of_upd_inst)
  then show ?thesis using False by auto
qed

end

end
