(* ===== verification/SecurityObject.thy ===== *)
theory SecurityObject
  imports StandardObject
begin

text \<open>
  \<open>M2MSecurity\<close> of \<open>source/m2msecurity.cpp\<close>: the addresses, modes and keys of one server. A constant that another
  class has too carries the class in its name. An integer of a security object is kept as the bytes
  \<open>String::convert_integer_to_array\<close> makes of it, except by \<open>create_resource\<close>, which keeps its decimal text.
\<close>

section \<open>The class\<close>

datatype security_resource =
    M2MServerUri | BootstrapServer | SecurityMode | PublicKey | ServerPublicKey | Secretkey | SMSSecurityMode
  | SMSBindingKey | SMSBindingSecretKey | M2MServerSMSNumber | SecurityShortServerID | ClientHoldOffTime

datatype server_type = ST_Bootstrap | ST_M2MServer

record m2m_security =
  se_object :: std_object
  se_type :: server_type

fun security_name :: "security_resource \<Rightarrow> string" where
  "security_name M2MServerUri = ''0''"
| "security_name BootstrapServer = ''1''"
| "security_name SecurityMode = ''2''"
| "security_name PublicKey = ''3''"
| "security_name ServerPublicKey = ''4''"
| "security_name Secretkey = ''5''"
| "security_name SMSSecurityMode = ''6''"
| "security_name SMSBindingKey = ''7''"
| "security_name SMSBindingSecretKey = ''8''"
| "security_name M2MServerSMSNumber = ''9''"
| "security_name SecurityShortServerID = ''10''"
| "security_name ClientHoldOffTime = ''11''"

definition security_get :: "security_resource \<Rightarrow> m2m_security \<Rightarrow> node option" where
  "security_get r s = std_node (security_name r) (se_object s)"

definition security_new :: "server_type \<Rightarrow> m2m_security" where
  "security_new ser_type =
     (let so1 = std_create_allowed ''0'' STRING False NOT_ALLOWED (std_object_new ''0'');
          so2 = std_create_allowed ''1'' BOOLEAN False NOT_ALLOWED so1;
          so3 = std_create_allowed ''2'' INTEGER False NOT_ALLOWED so2;
          so4 = std_create_allowed ''3'' OPAQUE False NOT_ALLOWED so3;
          so5 = std_create_allowed ''4'' OPAQUE False NOT_ALLOWED so4;
          so6 = std_create_allowed ''5'' OPAQUE False NOT_ALLOWED so5;
          so7 = (if ser_type = ST_M2MServer then std_create_allowed ''10'' INTEGER False NOT_ALLOWED so6 else so6)
      in \<lparr>se_object = so7, se_type = ser_type\<rparr>)"

definition security_is_present :: "security_resource \<Rightarrow> m2m_security \<Rightarrow> bool" where
  "security_is_present r s \<longleftrightarrow> security_get r s \<noteq> None"

fun security_creatable :: "security_resource \<Rightarrow> bool" where
  "security_creatable SMSSecurityMode = True"
| "security_creatable M2MServerSMSNumber = True"
| "security_creatable SecurityShortServerID = True"
| "security_creatable ClientHoldOffTime = True"
| "security_creatable r = False"

definition security_create_resource ::
  "security_resource \<Rightarrow> u32 \<Rightarrow> m2m_security \<Rightarrow> (m2m_security \<times> node option) option" where
  "security_create_resource r value s =
     (if security_is_present r s \<or> \<not> security_creatable r then Some (s, None)
      else (case std_create (security_name r) INTEGER False (se_object s) of
          (so, None) \<Rightarrow> Some (s\<lparr>se_object := so\<rparr>, None)
        | (so, Some n) \<Rightarrow>
            map_option (\<lambda>(so2, success). (s\<lparr>se_object := so2\<rparr>, Some n))
              (std_write_int n (ucast value) (std_upd n (base_set_operation NOT_ALLOWED) so))))"

definition security_deletable :: "server_type \<Rightarrow> security_resource \<Rightarrow> bool" where
  "security_deletable ser_type r \<longleftrightarrow>
     r = SMSSecurityMode \<or> r = M2MServerSMSNumber \<or> (r = SecurityShortServerID \<and> ser_type = ST_Bootstrap) \<or>
     r = ClientHoldOffTime"

definition security_delete_resource :: "security_resource \<Rightarrow> m2m_security \<Rightarrow> m2m_security \<times> bool" where
  "security_delete_resource r s =
     (if security_deletable (se_type s) r
      then (let (so, success) = std_remove (security_name r) (se_object s) in (s\<lparr>se_object := so\<rparr>, success))
      else (s, False))"

definition security_write :: "node \<Rightarrow> u8 list option \<Rightarrow> nat \<Rightarrow> m2m_security \<Rightarrow> m2m_security \<times> bool" where
  "security_write n v len s =
     (let (so, success) = std_write n v len (se_object s) in (s\<lparr>se_object := so\<rparr>, success))"

definition security_set_string :: "security_resource \<Rightarrow> string \<Rightarrow> m2m_security \<Rightarrow> m2m_security \<times> bool" where
  "security_set_string r value s =
     (case security_get r s of
        Some n \<Rightarrow> if r = M2MServerUri then security_write n (Some (bytes_of value)) (length value) s else (s, False)
      | None \<Rightarrow> (s, False))"

definition security_is_int :: "security_resource \<Rightarrow> bool" where
  "security_is_int r \<longleftrightarrow>
     r = SecurityMode \<or> r = SMSSecurityMode \<or> r = M2MServerSMSNumber \<or> r = SecurityShortServerID \<or> r = ClientHoldOffTime"

definition security_is_buffer :: "security_resource \<Rightarrow> bool" where
  "security_is_buffer r \<longleftrightarrow> r = PublicKey \<or> r = ServerPublicKey \<or> r = Secretkey"

definition security_set_int :: "security_resource \<Rightarrow> u32 \<Rightarrow> m2m_security \<Rightarrow> (m2m_security \<times> bool) option" where
  "security_set_int r value s =
     (case security_get r s of
        Some n \<Rightarrow>
          if security_is_int r
          then map_option (\<lambda>buffer. security_write n (Some buffer) (length buffer) s) (convert_integer_to_array (ucast value) None)
          else Some (s, False)
      | None \<Rightarrow> Some (s, False))"

definition security_set_buffer ::
  "security_resource \<Rightarrow> u8 list option \<Rightarrow> u16 \<Rightarrow> m2m_security \<Rightarrow> m2m_security \<times> bool" where
  "security_set_buffer r value len s =
     (case security_get r s of
        Some n \<Rightarrow> if security_is_buffer r \<or> r = M2MServerUri then security_write n value (unat len) s else (s, False)
      | None \<Rightarrow> (s, False))"

definition security_base :: "security_resource \<Rightarrow> m2m_security \<Rightarrow> base option" where
  "security_base r s = std_base (security_name r) (se_object s)"

definition security_value_string :: "security_resource \<Rightarrow> m2m_security \<Rightarrow> string" where
  "security_value_string r s =
     (case security_base r s of Some b \<Rightarrow> if r = M2MServerUri then res_get_value_string b else [] | None \<Rightarrow> [])"

text \<open>The two overloads: a copy made by \<open>get_value\<close> and the pointer to the value.\<close>

definition security_value_buffer :: "security_resource \<Rightarrow> m2m_security \<Rightarrow> u8 list option" where
  "security_value_buffer r s =
     (case security_base r s of Some b \<Rightarrow> if security_is_buffer r then res_get_value b else None | None \<Rightarrow> None)"

definition security_value_pointer :: "security_resource \<Rightarrow> m2m_security \<Rightarrow> u8 list option" where
  "security_value_pointer r s =
     (case security_base r s of Some b \<Rightarrow> if security_is_buffer r then bs_value b else None | None \<Rightarrow> None)"

definition security_value_int :: "security_resource \<Rightarrow> m2m_security \<Rightarrow> u32 option" where
  "security_value_int r s =
     (case security_base r s of
        Some b \<Rightarrow>
          if security_is_int r
          then (case res_get_value b of None \<Rightarrow> Some 0
            | Some buffer \<Rightarrow> map_option ucast (convert_array_to_integer buffer (length buffer)))
          else Some 0
      | None \<Rightarrow> Some 0)"

definition security_total :: "m2m_security \<Rightarrow> u16" where
  "security_total s = std_resource_total (se_object s)"

definition security_resources :: "security_resource list" where
  "security_resources = [M2MServerUri, BootstrapServer, SecurityMode, PublicKey, ServerPublicKey, Secretkey,
     SMSSecurityMode, SMSBindingKey, SMSBindingSecretKey, M2MServerSMSNumber, SecurityShortServerID, ClientHoldOffTime]"

definition security_clear_resources :: "m2m_security \<Rightarrow> m2m_security" where
  "security_clear_resources =
     fold (\<lambda>r s. case security_get r s of None \<Rightarrow> s | Some n \<Rightarrow> s\<lparr>se_object := std_clear n (se_object s)\<rparr>)
       security_resources"

section \<open>The names\<close>

interpretation security: resource_names security_name
proof
  fix r r' :: security_resource
  show "security_name r = security_name r' \<Longrightarrow> r = r'" by (cases r; cases r') simp_all
  show "validate_string_length (security_name r) 1 MAX_ALLOWED_STRING_LENGTH"
    by (cases r) (simp_all add: validate_string_length_def)
qed

section \<open>Integers\<close>

lemma convert_array_too_long: "8 < length bs \<Longrightarrow> convert_array_to_integer bs (length bs) = None"
  by (cases bs) (simp_all add: convert_array_to_integer_def)

lemma std_frame_base: "map_option bs_value (std_base name so) = map_option bs_value (std_frame name so)"
  by (simp add: std_base_def std_frame_def node_frame_def option.map_comp comp_def frame_of_def split: option.split)

lemma std_base_present: "std_wf so \<Longrightarrow> std_base name so = None \<longleftrightarrow> std_node name so = None"
  using std_node_get [of so name] by (auto simp: std_base_def split: option.split)

text \<open>The readers look at the value alone.\<close>

lemma security_readers:
  "security_value_int r s = (case map_option bs_value (security_base r s) of None \<Rightarrow> Some 0
     | Some v \<Rightarrow> if security_is_int r
         then (case v of None \<Rightarrow> Some 0 | Some buffer \<Rightarrow> if buffer = [] then Some 0
           else map_option ucast (convert_array_to_integer buffer (length buffer)))
         else Some 0)"
  "security_value_string r s = (case map_option bs_value (security_base r s) of None \<Rightarrow> []
     | Some v \<Rightarrow> if r = M2MServerUri then (case v of None \<Rightarrow> [] | Some v \<Rightarrow> chars_of v) else [])"
  "security_value_pointer r s = (case map_option bs_value (security_base r s) of None \<Rightarrow> None
     | Some v \<Rightarrow> if security_is_buffer r then v else None)"
  by (auto simp: security_value_int_def security_value_string_def security_value_pointer_def res_get_value_def
      res_get_value_string_def alloc_string_copy_def split: option.splits)

definition security_wf :: "m2m_security \<Rightarrow> bool" where
  "security_wf s \<longleftrightarrow> std_wf (se_object s)"

lemma security_write_value:
  assumes "security_wf s" and "security_get r s = Some n" and "bs \<noteq> []"
  shows "snd (security_write n (Some bs) (length bs) s)"
    and "map_option bs_value (security_base r' (fst (security_write n (Some bs) (length bs) s))) =
      (if r' = r then Some (Some bs) else map_option bs_value (security_base r' s))"
    and "security_wf (fst (security_write n (Some bs) (length bs) s))"
    and "security_get r' (fst (security_write n (Some bs) (length bs) s)) = security_get r' s"
proof -
  have l: "0 < length bs" using assms(3) by simp
  note a = assms(1,2) [unfolded security_wf_def security_get_def]
  note w = std_write_frame(1) [OF a l, of bs] security.write_frame [OF a l, of r' bs]
  obtain b where "get_base n (t_object (so_tree (se_object s))) = Some b" using std_node_get [OF a] by auto
  then have "std_frame (security_name r) (se_object s) = Some (frame_of b)"
    using a by (simp add: std_frame_def node_frame_def)
  then show "snd (security_write n (Some bs) (length bs) s)"
    and "map_option bs_value (security_base r' (fst (security_write n (Some bs) (length bs) s))) =
      (if r' = r then Some (Some bs) else map_option bs_value (security_base r' s))"
    using w by (simp_all add: security_write_def split_beta security_base_def std_frame_base)
  show "security_wf (fst (security_write n (Some bs) (length bs) s))"
    using a by (simp add: security_write_def split_beta security_wf_def)
  show "security_get r' (fst (security_write n (Some bs) (length bs) s)) = security_get r' s"
    using a by (simp add: security_write_def split_beta security_get_def)
qed

lemma sint_u32: "sint (ucast (v :: u32) :: i64) = uint v"
proof -
  have "uint v < 2 ^ 32" using unsigned_less [of v, where 'a = int] by simp
  then have "take_bit 63 (uint v) = uint v" by (simp add: take_bit_int_eq_self)
  then show ?thesis by (auto simp: signed_ucast_eq signed_take_bit_eq_if_positive bit_uint_iff dest: bit_imp_le_length)
qed

lemma ucast_back: "ucast (ucast (v :: u32) :: i64) = v"
  by (rule bit_word_eqI) (simp add: bit_simps)

lemma u32_array: "\<exists>bs. convert_integer_to_array (ucast (v :: u32)) None = Some bs \<and> length bs \<le> 8 \<and>
    convert_array_to_integer bs (length bs) = Some (ucast v) \<and> bs \<noteq> []"
proof -
  have "0 \<le> sint (ucast v :: i64)" by (simp add: sint_u32)
  then obtain bs where bs: "convert_integer_to_array (ucast v) None = Some bs" "length bs \<le> 8"
      "convert_array_to_integer bs (length bs) = Some (ucast v)"
    using int_array_roundtrip [of "ucast v"] by auto
  moreover have "bs \<noteq> []" using bs(1) by (auto simp: convert_integer_to_array_def Let_def int_array_size_def split: if_splits)
  ultimately show ?thesis by blast
qed

text \<open>An integer set on a security object is read back, and every other value of the object is as
  before. The flag that tells a bootstrap server from another is none of the integers: setting it is refused
  and reading it gives 0, whatever the object holds.\<close>

lemma security_int_roundtrip:
  assumes "security_wf s" and "security_is_present r s" and "security_is_int r"
  shows "\<exists>s'. security_set_int r v s = Some (s', True) \<and> security_value_int r s' = Some v \<and>
    (\<forall>r'. r' \<noteq> r \<longrightarrow> security_value_int r' s' = security_value_int r' s \<and>
       security_value_string r' s' = security_value_string r' s \<and>
       security_value_pointer r' s' = security_value_pointer r' s) \<and>
    security_set_int BootstrapServer v s = Some (s, False) \<and> security_value_int BootstrapServer s = Some 0"
proof -
  obtain n where n: "security_get r s = Some n" using assms(2) by (auto simp: security_is_present_def)
  obtain bs where bs: "convert_integer_to_array (ucast v) None = Some bs" "length bs \<le> 8"
      "convert_array_to_integer bs (length bs) = Some (ucast v)" "bs \<noteq> []"
    using u32_array by blast
  let ?s = "fst (security_write n (Some bs) (length bs) s)"
  note w = security_write_value [OF assms(1) n bs(4)]
  have "security_set_int r v s = Some (?s, True)"
    using n assms(3) bs(1) w(1) by (simp add: security_set_int_def prod_eq_iff)
  moreover have "security_value_int r ?s = Some v"
    unfolding security_readers w(2) using bs assms(3) by (simp add: ucast_back)
  moreover have "security_set_int BootstrapServer v s = Some (s, False)"
    by (simp add: security_set_int_def security_is_int_def split: option.split)
  moreover have "security_value_int BootstrapServer s = Some 0"
    by (simp add: security_value_int_def security_is_int_def split: option.split)
  moreover have "security_value_int r' ?s = security_value_int r' s \<and>
      security_value_string r' ?s = security_value_string r' s \<and>
      security_value_pointer r' ?s = security_value_pointer r' s" if "r' \<noteq> r" for r'
    unfolding security_readers w(2) if_not_P [OF that] by simp
  ultimately show ?thesis by blast
qed

lemma ucast_u32_of_nat: "ucast (of_nat n :: i64) = (of_nat n :: u32)"
  by (rule bit_word_eqI) (auto simp: bit_simps bit_of_nat_iff dest: bit_imp_le_length)

lemma security_new_facts:
  "security_wf (security_new ST_M2MServer)" "security_is_present SecurityMode (security_new ST_M2MServer)"
  by (code_simp, code_simp)

lemma security_int_roundtrip_witness:
  "\<exists>s'. security_set_int SecurityMode 3 (security_new ST_M2MServer) = Some (s', True) \<and> security_value_int SecurityMode s' = Some 3"
  using security_int_roundtrip [OF security_new_facts, of 3] by (auto simp: security_is_int_def)

text \<open>\<open>create_resource\<close> keeps its value as decimal text, while the reader takes the bytes of the value
  for a number. So an integer created with a value is read as the number its digits make as bytes, 49 for
  1, and reading one of nine digits or more shifts too far.\<close>

lemma security_created_integer:
  assumes "security_wf s" and "so_instance (se_object s) \<noteq> None" and "security_get r s = None" and "security_creatable r"
  shows "\<exists>s' n. security_create_resource r v s = Some (s', Some n) \<and> security_get r s' = Some n \<and>
    security_value_int r s' =
      (let digits = bytes_of (dec_string (unat v))
       in if length digits \<le> 8 then Some (of_nat (be_value digits)) else None)"
proof -
  note a = assms(1-3) [unfolded security_wf_def security_get_def]
  obtain so n where c: "std_create (security_name r) INTEGER False (se_object s) = (so, Some n)"
      "std_node (security_name r) so = Some n" "std_wf so"
    using std_create_node [OF a security.name_valid, where type = INTEGER and obs = False] by (metis prod.collapse)
  let ?so = "std_upd n (base_set_operation NOT_ALLOWED) so"
  let ?bs = "bytes_of (dec_string (unat v))"
  have w: "std_wf ?so" "std_node (security_name r) ?so = Some n" using c by simp_all
  have "\<bar>uint v\<bar> < 2 ^ 63" using unsigned_less [of v, where 'a = int] by simp
  then have i: "itoa_c (sint (ucast v :: i64)) = Some (dec_string (unat v))"
    using itoa_c_eq [of "uint v"] by (simp add: sint_u32 nat_uint_eq)
  let ?t = "s\<lparr>se_object := ?so\<rparr>"
  let ?s = "fst (security_write n (Some ?bs) (length ?bs) ?t)"
  have "security_wf ?t" "security_get r ?t = Some n" using w by (simp_all add: security_wf_def security_get_def)
  note v = security_write_value [OF this, of ?bs]
  have "security_create_resource r v s = Some (?s, Some n)"
    using assms(3,4) c(1) i
    by (simp add: security_create_resource_def security_is_present_def std_write_int_def res_set_value_int_def
        std_write_def security_write_def split_beta)
  moreover have "security_is_int r" using assms(4) by (cases r) (simp_all add: security_is_int_def)
  then have "security_value_int r ?s =
      (if length ?bs \<le> 8 then Some (of_nat (be_value ?bs)) else None)"
    using v(2) convert_array_to_integer_value [of ?bs] convert_array_too_long [of ?bs]
    by (simp add: security_readers ucast_u32_of_nat del: length_map)
  ultimately show ?thesis using v(4) w by (simp add: Let_def security_get_def)
qed

lemma security_bootstrap_facts:
  "security_wf (security_new ST_Bootstrap)" "so_instance (se_object (security_new ST_Bootstrap)) \<noteq> None"
  "security_get SecurityShortServerID (security_new ST_Bootstrap) = None"
  by (code_simp, code_simp, code_simp)

lemma security_created_integer_witness:
  "\<exists>s' n. security_create_resource SecurityShortServerID 1 (security_new ST_Bootstrap) = Some (s', Some n) \<and>
     security_value_int SecurityShortServerID s' = Some 49"
proof -
  have "bytes_of (dec_string (unat (1 :: u32))) = [49]" by code_simp
  then show ?thesis using security_created_integer [OF security_bootstrap_facts, of 1] by (auto simp: be_value_Cons)
qed

end
