(* ===== verification/ServerObject.thy ===== *)
theory ServerObject
  imports StandardObject
begin

text \<open>
  \<open>M2MServer\<close> of \<open>source/m2mserver.cpp\<close>: the registration data of one server. Its integers are kept and read as
  decimal text. A constant that another class has too carries the class in its name.
\<close>

section \<open>The class\<close>

datatype server_resource =
    ServerShortServerID | Lifetime | DefaultMinPeriod | DefaultMaxPeriod | Disable | DisableTimeout
  | NotificationStorage | ServerBinding | RegistrationUpdate

fun server_name :: "server_resource \<Rightarrow> string" where
  "server_name ServerShortServerID = ''0''"
| "server_name Lifetime = ''1''"
| "server_name DefaultMinPeriod = ''2''"
| "server_name DefaultMaxPeriod = ''3''"
| "server_name Disable = ''4''"
| "server_name DisableTimeout = ''5''"
| "server_name NotificationStorage = ''6''"
| "server_name ServerBinding = ''7''"
| "server_name RegistrationUpdate = ''8''"

abbreviation GET_PUT_POST_ALLOWED :: u8 where "GET_PUT_POST_ALLOWED \<equiv> 7"

definition server_new :: std_object where
  "server_new =
     (let so1 = std_create_allowed ''0'' INTEGER True GET_PUT_ALLOWED (std_object_new ''1'');
          so2 = std_create_allowed ''1'' INTEGER True GET_PUT_POST_ALLOWED so1;
          so3 = std_create_allowed ''6'' BOOLEAN True GET_PUT_POST_ALLOWED so2;
          so4 = std_create_allowed ''7'' STRING True GET_PUT_POST_ALLOWED so3
      in std_create_allowed ''8'' OPAQUE False POST_ALLOWED so4)"

definition server_get :: "server_resource \<Rightarrow> std_object \<Rightarrow> node option" where
  "server_get r s = std_node (server_name r) s"

definition server_is_present :: "server_resource \<Rightarrow> std_object \<Rightarrow> bool" where
  "server_is_present r s \<longleftrightarrow> server_get r s \<noteq> None"

definition server_create_resource_value ::
  "server_resource \<Rightarrow> u32 \<Rightarrow> std_object \<Rightarrow> (std_object \<times> node option) option" where
  "server_create_resource_value r value s =
     (if server_is_present r s \<or> r \<notin> {DefaultMinPeriod, DefaultMaxPeriod, DisableTimeout} then Some (s, None)
      else (case std_create (server_name r) INTEGER True s of
          (so, None) \<Rightarrow> Some (so, None)
        | (so, Some n) \<Rightarrow>
            map_option (\<lambda>(so2, success). (so2, Some n))
              (std_write_int n (ucast value) (std_upd n (base_set_operation GET_PUT_POST_ALLOWED) so))))"

definition server_create_resource :: "server_resource \<Rightarrow> std_object \<Rightarrow> std_object \<times> node option" where
  "server_create_resource r s =
     (if server_is_present r s \<or> r \<noteq> Disable then (s, None)
      else (case std_create (server_name r) OPAQUE False s of
          (so, None) \<Rightarrow> (so, None)
        | (so, Some n) \<Rightarrow> (std_upd n (base_set_operation POST_ALLOWED) so, Some n)))"

definition server_delete_resource :: "server_resource \<Rightarrow> std_object \<Rightarrow> std_object \<times> bool" where
  "server_delete_resource r s =
     (if r \<in> {DefaultMinPeriod, DefaultMaxPeriod, Disable, DisableTimeout} then std_remove (server_name r) s else (s, False))"

definition server_set_string :: "server_resource \<Rightarrow> string \<Rightarrow> std_object \<Rightarrow> std_object \<times> bool" where
  "server_set_string r value s =
     (case server_get r s of
        Some n \<Rightarrow> if r = ServerBinding then std_write n (Some (bytes_of value)) (length value) s else (s, False)
      | None \<Rightarrow> (s, False))"

definition server_is_int :: "server_resource \<Rightarrow> bool" where
  "server_is_int r \<longleftrightarrow>
     r \<in> {ServerShortServerID, Lifetime, DefaultMinPeriod, DefaultMaxPeriod, DisableTimeout, NotificationStorage}"

definition server_set_int :: "server_resource \<Rightarrow> u32 \<Rightarrow> std_object \<Rightarrow> (std_object \<times> bool) option" where
  "server_set_int r value s =
     (case server_get r s of
        Some n \<Rightarrow> if server_is_int r then std_write_int n (ucast value) s else Some (s, False)
      | None \<Rightarrow> Some (s, False))"

definition server_value_string :: "server_resource \<Rightarrow> std_object \<Rightarrow> string" where
  "server_value_string r s =
     (case std_base (server_name r) s of Some b \<Rightarrow> if r = ServerBinding then res_get_value_string b else [] | None \<Rightarrow> [])"

definition server_value_int :: "server_resource \<Rightarrow> std_object \<Rightarrow> u32" where
  "server_value_int r s =
     (case std_base (server_name r) s of
        Some b \<Rightarrow> if server_is_int r then ucast (res_get_value_int b) else 0
      | None \<Rightarrow> 0)"

definition server_total :: "std_object \<Rightarrow> u16" where
  "server_total s = std_resource_total s"

interpretation server: resource_names server_name
proof
  fix r r' :: server_resource
  show "server_name r = server_name r' \<Longrightarrow> r = r'" by (cases r; cases r') simp_all
  show "validate_string_length (server_name r) 1 MAX_ALLOWED_STRING_LENGTH"
    by (cases r) (simp_all add: validate_string_length_def)
qed

end
