(* ===== verification/DeviceObject.thy ===== *)
theory DeviceObject
  imports StandardObject
begin

text \<open>
  \<open>M2MDevice\<close> of \<open>source/m2mdevice.cpp\<close>, a singleton: texts and numbers that describe the device. A number is stored
  when it lies in the range of its resource, and some resources are lists of instances. Numbers
  are kept as decimal text.
\<close>

section \<open>The class\<close>

datatype device_resource =
    Manufacturer | DeviceType | ModelNumber | SerialNumber | HardwareVersion | FirmwareVersion | SoftwareVersion
  | Reboot | FactoryReset | AvailablePowerSources | PowerSourceVoltage | PowerSourceCurrent | BatteryLevel
  | BatteryStatus | MemoryFree | MemoryTotal | ErrorCode | ResetErrorCode | CurrentTime | UTCOffset | Timezone
  | SupportedBindingMode

fun device_name :: "device_resource \<Rightarrow> string" where
  "device_name Manufacturer = ''0''"
| "device_name DeviceType = ''17''"
| "device_name ModelNumber = ''1''"
| "device_name SerialNumber = ''2''"
| "device_name HardwareVersion = ''18''"
| "device_name FirmwareVersion = ''3''"
| "device_name SoftwareVersion = ''19''"
| "device_name Reboot = ''4''"
| "device_name FactoryReset = ''5''"
| "device_name AvailablePowerSources = ''6''"
| "device_name PowerSourceVoltage = ''7''"
| "device_name PowerSourceCurrent = ''8''"
| "device_name BatteryLevel = ''9''"
| "device_name BatteryStatus = ''20''"
| "device_name MemoryFree = ''10''"
| "device_name MemoryTotal = ''21''"
| "device_name ErrorCode = ''11''"
| "device_name ResetErrorCode = ''12''"
| "device_name CurrentTime = ''13''"
| "device_name UTCOffset = ''14''"
| "device_name Timezone = ''15''"
| "device_name SupportedBindingMode = ''16''"

definition register_uri :: "bool \<Rightarrow> base \<Rightarrow> base" where
  "register_uri b n = n\<lparr>bs_publish_uri := b\<rparr>"

text \<open>\<open>create_dynamic_resource_instance\<close> through the pointer; the resource it belongs to loses its URI.\<close>

definition std_create_instance :: "string \<Rightarrow> u16 \<Rightarrow> std_object \<Rightarrow> std_object \<times> node option" where
  "std_create_instance name instance_id so =
     (case so_instance so of None \<Rightarrow> (so, None)
      | Some i \<Rightarrow>
          (let ob = t_object (so_tree so);
               (oi, jk) = create_dynamic_resource_instance (object_name ob) name [] INTEGER True instance_id False
                 (o_instances ob ! i)
           in (so\<lparr>so_tree := (so_tree so)\<lparr>t_object := upd_inst i (\<lambda>_. oi) ob\<rparr>\<rparr>,
               map_option (\<lambda>(j, k). NRinst i j k) jk)))"

definition std_hide :: "string \<Rightarrow> std_object \<Rightarrow> std_object" where
  "std_hide name so = (case std_node name so of None \<Rightarrow> so | Some n \<Rightarrow> std_upd n (register_uri False) so)"

definition device_new :: "std_object option" where
  "device_new =
     (let so0 = std_upd NObj (\<lambda>b. base_set_operation GET_ALLOWED (register_uri False b)) (std_object_new ''3'')
      in case so_instance so0 of None \<Rightarrow> Some so0
         | Some i \<Rightarrow>
             (let so1 = std_upd (NInst i) (\<lambda>b. (register_uri True (base_set_operation GET_ALLOWED b))
                    \<lparr>bs_content_type := COAP_CONTENT_OMA_TLV_TYPE\<rparr>) so0;
                  so2 = std_hide (device_name Reboot)
                    (std_create_allowed (device_name Reboot) OPAQUE False POST_ALLOWED so1)
              in do {
                so3 \<leftarrow> (case std_create_instance (device_name ErrorCode) 0 so2 of
                    (so, None) \<Rightarrow> Some so
                  | (so, Some n) \<Rightarrow> map_option (\<lambda>(so, success). std_upd n (register_uri False) so)
                      (std_write_int n 0 (std_upd n (base_set_operation GET_ALLOWED) (std_hide (device_name ErrorCode) so))));
                Some (case std_create (device_name SupportedBindingMode) STRING True so3 of
                    (so, None) \<Rightarrow> so
                  | (so, Some n) \<Rightarrow> std_upd n (register_uri False)
                      (fst (std_write n (Some (bytes_of ''U'')) 1 (std_upd n (base_set_operation GET_ALLOWED) so)))) }))"

definition device_get_instance :: "std_object option \<Rightarrow> std_object option" where
  "device_get_instance static_instance = (case static_instance of None \<Rightarrow> device_new | Some d \<Rightarrow> Some d)"

text \<open>The node that holds the value: the resource, or one of its instances.\<close>

definition device_get :: "device_resource \<Rightarrow> u16 \<Rightarrow> std_object \<Rightarrow> node option" where
  "device_get r instance_id d =
     (case std_node (device_name r) d of
        Some (NRes i j) \<Rightarrow>
          (let res = tree_res i j (so_tree d)
           in if supports_multiple_instances res
              then map_option (NRinst i j) (resource_instance_of instance_id res) else Some (NRes i j))
      | _ \<Rightarrow> None)"

definition device_is_present :: "device_resource \<Rightarrow> std_object \<Rightarrow> bool" where
  "device_is_present r d \<longleftrightarrow> device_get r 0 d \<noteq> None"

definition device_check_value_range :: "device_resource \<Rightarrow> i64 \<Rightarrow> bool" where
  "device_check_value_range r v =
     (case r of
        AvailablePowerSources \<Rightarrow> 0 \<le> sint v \<and> sint v \<le> 7
      | BatteryLevel \<Rightarrow> 0 \<le> sint v \<and> sint v \<le> 100
      | BatteryStatus \<Rightarrow> 0 \<le> sint v \<and> sint v \<le> 6
      | ErrorCode \<Rightarrow> 0 \<le> sint v \<and> sint v \<le> 8
      | _ \<Rightarrow> True)"

definition device_is_text :: "device_resource \<Rightarrow> bool" where
  "device_is_text r \<longleftrightarrow> r \<in> {Manufacturer, DeviceType, ModelNumber, SerialNumber, HardwareVersion, FirmwareVersion,
     SoftwareVersion, UTCOffset, Timezone}"

definition device_is_int :: "device_resource \<Rightarrow> bool" where
  "device_is_int r \<longleftrightarrow> r \<in> {BatteryLevel, BatteryStatus, MemoryFree, MemoryTotal, ErrorCode, CurrentTime,
     AvailablePowerSources, PowerSourceVoltage, PowerSourceCurrent}"

definition device_create_text :: "device_resource \<Rightarrow> string \<Rightarrow> std_object \<Rightarrow> std_object \<times> node option" where
  "device_create_text r value d =
     (if device_is_present r d \<or> length value > MAX_ALLOWED_STRING_LENGTH \<or> \<not> device_is_text r then (d, None)
      else (case std_create (device_name r) STRING True d of
          (so, None) \<Rightarrow> (so, None)
        | (so, Some n) \<Rightarrow>
            (let so1 = std_upd n (base_set_operation
                   (if r = UTCOffset \<or> r = Timezone then GET_PUT_ALLOWED else GET_ALLOWED)) so;
                 so2 = (if value = [] then std_clear n so1
                   else fst (std_write n (Some (bytes_of value)) (length value) so1))
             in (std_upd n (register_uri False) so2, Some n))))"

definition device_int_creatable :: "device_resource \<Rightarrow> i64 \<Rightarrow> bool" where
  "device_int_creatable r value \<longleftrightarrow>
     (r = BatteryLevel \<or> r = BatteryStatus) \<and> device_check_value_range r value \<or>
     r = MemoryFree \<or> r = MemoryTotal \<or> r = CurrentTime"

definition device_create_int :: "device_resource \<Rightarrow> i64 \<Rightarrow> std_object \<Rightarrow> (std_object \<times> node option) option" where
  "device_create_int r value d =
     (if device_is_present r d \<or> \<not> device_int_creatable r value then Some (d, None)
      else (case std_create (device_name r) INTEGER True d of
          (so, None) \<Rightarrow> Some (so, None)
        | (so, Some n) \<Rightarrow> map_option (\<lambda>(so, success). (std_upd n (register_uri False) so, Some n))
            (std_write_int n value (std_upd n (base_set_operation
               (if r = CurrentTime then GET_PUT_ALLOWED else GET_ALLOWED)) so))))"

definition device_instance_creatable :: "device_resource \<Rightarrow> i64 \<Rightarrow> bool" where
  "device_instance_creatable r value \<longleftrightarrow>
     (r = AvailablePowerSources \<or> r = ErrorCode) \<and> device_check_value_range r value \<or>
     r = PowerSourceVoltage \<or> r = PowerSourceCurrent"

definition device_create_instance ::
  "device_resource \<Rightarrow> i64 \<Rightarrow> u16 \<Rightarrow> std_object \<Rightarrow> (std_object \<times> node option) option" where
  "device_create_instance r value instance_id d =
     (if \<not> device_instance_creatable r value then Some (d, None)
      else (case std_create_instance (device_name r) instance_id d of
          (so, None) \<Rightarrow> Some (std_hide (device_name r) so, None)
        | (so, Some n) \<Rightarrow>
            map_option (\<lambda>(so, success). (std_upd n (\<lambda>b. register_uri False (base_set_operation GET_ALLOWED b)) so, Some n))
              (std_write_int n value (std_hide (device_name r) so))))"

definition device_create_resource :: "device_resource \<Rightarrow> std_object \<Rightarrow> std_object \<times> node option" where
  "device_create_resource r d =
     (if device_is_present r d \<or> (r \<noteq> FactoryReset \<and> r \<noteq> ResetErrorCode) then (d, None)
      else (case std_create (device_name r) OPAQUE True d of
          (so, None) \<Rightarrow> (std_hide (device_name r) so, None)
        | (so, Some n) \<Rightarrow>
            (std_upd n (\<lambda>b. register_uri False (base_set_operation POST_ALLOWED b)) (std_hide (device_name r) so), Some n)))"

definition device_deletable :: "device_resource \<Rightarrow> bool" where
  "device_deletable r \<longleftrightarrow> r \<noteq> Reboot \<and> r \<noteq> ErrorCode \<and> r \<noteq> SupportedBindingMode"

definition device_delete_resource :: "device_resource \<Rightarrow> std_object \<Rightarrow> std_object \<times> bool" where
  "device_delete_resource r d = (if device_deletable r then std_remove (device_name r) d else (d, False))"

definition device_delete_instance :: "device_resource \<Rightarrow> u16 \<Rightarrow> std_object \<Rightarrow> std_object \<times> bool" where
  "device_delete_instance r instance_id d =
     (if \<not> device_deletable r then (d, False)
      else (case so_instance d of None \<Rightarrow> (d, False)
        | Some i \<Rightarrow>
            (let ob = t_object (so_tree d);
                 (oi, es, success) = remove_resource_instance (o_handler ob) (device_name r) instance_id (o_instances ob ! i)
             in (d\<lparr>so_tree := emit es ((so_tree d)\<lparr>t_object := upd_inst i (\<lambda>_. oi) ob\<rparr>)\<rparr>, success))))"

definition device_set_text :: "device_resource \<Rightarrow> string \<Rightarrow> u16 \<Rightarrow> std_object \<Rightarrow> std_object \<times> bool" where
  "device_set_text r value instance_id d =
     (case device_get r instance_id d of None \<Rightarrow> (d, False)
      | Some n \<Rightarrow>
          if length value \<le> MAX_ALLOWED_STRING_LENGTH \<and> device_is_text r
          then (if value = [] then (std_clear n d, True) else std_write n (Some (bytes_of value)) (length value) d)
          else (d, False))"

definition device_set_int :: "device_resource \<Rightarrow> i64 \<Rightarrow> u16 \<Rightarrow> std_object \<Rightarrow> (std_object \<times> bool) option" where
  "device_set_int r value instance_id d =
     (case device_get r instance_id d of None \<Rightarrow> Some (d, False)
      | Some n \<Rightarrow>
          if device_is_int r \<and> device_check_value_range r value then std_write_int n value d else Some (d, False))"

definition device_base :: "device_resource \<Rightarrow> u16 \<Rightarrow> std_object \<Rightarrow> base option" where
  "device_base r instance_id d =
     (case device_get r instance_id d of None \<Rightarrow> None | Some n \<Rightarrow> get_base n (t_object (so_tree d)))"

definition device_value_text :: "device_resource \<Rightarrow> u16 \<Rightarrow> std_object \<Rightarrow> string" where
  "device_value_text r instance_id d =
     (case device_base r instance_id d of Some b \<Rightarrow> if device_is_text r then res_get_value_string b else [] | None \<Rightarrow> [])"

definition device_value_int :: "device_resource \<Rightarrow> u16 \<Rightarrow> std_object \<Rightarrow> i64" where
  "device_value_int r instance_id d =
     (case device_base r instance_id d of Some b \<Rightarrow> if device_is_int r then res_get_value_int b else -1 | None \<Rightarrow> -1)"

definition device_per_resource_count :: "device_resource \<Rightarrow> std_object \<Rightarrow> u16" where
  "device_per_resource_count r d =
     (case so_instance d of None \<Rightarrow> 0 | Some i \<Rightarrow> resource_count_of (device_name r) (tree_inst i (so_tree d)))"

definition device_total :: "std_object \<Rightarrow> u16" where
  "device_total d = std_resource_total d"

interpretation device: resource_names device_name
proof
  fix r r' :: device_resource
  show "device_name r = device_name r' \<Longrightarrow> r = r'" by (cases r; cases r') simp_all
  show "validate_string_length (device_name r) 1 MAX_ALLOWED_STRING_LENGTH"
    by (cases r) (simp_all add: validate_string_length_def)
qed

section \<open>Values\<close>

text \<open>The node of a resource stays the same when a value is written.\<close>

lemma res_set_value_same:
  "map_option (\<lambda>b. (bs_ident b, bs_multiple b)) (get_base m (t_object (fst (res_set_value n v len t)))) =
   map_option (\<lambda>b. (bs_ident b, bs_multiple b)) (get_base m (t_object t))"
proof (cases "v = None \<or> len = 0 \<or> get_base n (t_object t) = None")
  case True
  then have "fst (res_set_value n v len t) = t"
    by (auto simp: res_set_value_def with_base_def split: option.split)
  then show ?thesis by simp
next
  case False
  then obtain w b where "v = Some w" "get_base n (t_object t) = Some b" "0 < len" by auto
  then have "map_option (\<lambda>b. (bs_ident b, bs_multiple b)) (node_frame m (fst (res_set_value n v len t))) =
      map_option (\<lambda>b. (bs_ident b, bs_multiple b)) (node_frame m t)"
    using res_set_value_frame(1) [of n t b len m w] by (auto simp: node_frame_def frame_of_def)
  then show ?thesis by (simp add: node_frame_def option.map_comp comp_def frame_of_def)
qed

lemma same_instances:
  assumes n: "\<And>m. map_option (\<lambda>b. (bs_ident b, bs_multiple b)) (get_base m ob') =
      map_option (\<lambda>b. (bs_ident b, bs_multiple b)) (get_base m ob)"
    and "i < length (o_instances ob)" and "j < length (oi_resources (o_instances ob ! i))"
  shows "supports_multiple_instances (oi_resources (o_instances ob' ! i) ! j) =
      supports_multiple_instances (oi_resources (o_instances ob ! i) ! j) \<and>
    resource_instance_of k (oi_resources (o_instances ob' ! i) ! j) =
      resource_instance_of k (oi_resources (o_instances ob ! i) ! j)"
proof -
  let ?r = "oi_resources (o_instances ob ! i) ! j" and ?r' = "oi_resources (o_instances ob' ! i) ! j"
  have ij: "i < length (o_instances ob')" "j < length (oi_resources (o_instances ob' ! i))"
    and m: "supports_multiple_instances ?r' = supports_multiple_instances ?r"
    using n [of "NRes i j"] assms(2,3) by (simp_all add: supports_multiple_instances_def split: if_splits)
  have l: "length (r_instances ?r') = length (r_instances ?r)"
    using n [of "NRinst i j (length (r_instances ?r))"] n [of "NRinst i j (length (r_instances ?r'))"] ij assms(2,3)
    by (simp split: if_splits)
  have "base_instance_id (ri_base (r_instances ?r' ! k)) = base_instance_id (ri_base (r_instances ?r ! k))"
    if "k < length (r_instances ?r)" for k
    using n [of "NRinst i j k"] that l ij assms(2,3) by (simp add: base_instance_id_def)
  then have "map (\<lambda>ri. base_instance_id (ri_base ri)) (r_instances ?r') =
      map (\<lambda>ri. base_instance_id (ri_base ri)) (r_instances ?r)"
    using l by (auto intro: nth_equalityI)
  then have "resource_instance_of k ?r' = resource_instance_of k ?r"
    unfolding resource_instance_of_def by (rule find_idx_map_keys)
  then show ?thesis using m by simp
qed

lemma device_get_write:
  assumes "std_wf d"
  shows "device_get r k (fst (std_write n v len d)) = device_get r k d"
proof (cases "std_node (device_name r) d")
  case None
  then show ?thesis using assms by (simp add: device_get_def)
next
  case (Some m)
  then obtain i j where m: "m = NRes i j" "get_base m (t_object (so_tree d)) \<noteq> None"
    using std_node_get [OF assms] by blast
  then have ij: "i < length (o_instances (t_object (so_tree d)))"
      "j < length (oi_resources (o_instances (t_object (so_tree d)) ! i))"
    by (simp_all split: if_splits)
  have "t_object (so_tree (fst (std_write n v len d))) = t_object (fst (res_set_value n v len (so_tree d)))"
    by (simp add: std_write_def split_beta)
  then show ?thesis
    using Some m(1) assms same_instances [OF res_set_value_same [of _ n v len "so_tree d"] ij, of k]
    by (simp add: device_get_def tree_res_def tree_inst_def Let_def)
qed

lemma device_get_base:
  assumes "std_wf d" and "device_get r k d = Some n"
  shows "\<exists>b. get_base n (t_object (so_tree d)) = Some b"
proof -
  obtain i j where m: "std_node (device_name r) d = Some (NRes i j)"
    using assms(2) by (auto simp: device_get_def split: option.splits node.splits)
  then have "get_base (NRes i j) (t_object (so_tree d)) \<noteq> None" using std_node_get [OF assms(1) m] by simp
  then have ij: "i < length (o_instances (t_object (so_tree d)))"
      "j < length (oi_resources (o_instances (t_object (so_tree d)) ! i))"
    by (simp_all split: if_splits)
  show ?thesis using assms(2) m ij
    by (auto simp: device_get_def tree_res_def tree_inst_def Let_def resource_instance_of_def
        dest: find_idx_SomeD split: if_splits)
qed

text \<open>Setting a number of the device that exists succeeds exactly when the resource is a number and the
  value lies in its range, and then the value is read back; otherwise nothing changes.\<close>

lemma device_set_int_range:
  assumes "std_wf d" and "device_get r k d = Some n" and "sint v \<noteq> - (2 ^ 63)"
  shows "\<exists>d' success. device_set_int r v k d = Some (d', success) \<and>
    (success \<longleftrightarrow> device_is_int r \<and> device_check_value_range r v) \<and>
    (if success then device_value_int r k d' = v else d' = d)"
proof (cases "device_is_int r \<and> device_check_value_range r v")
  case False
  then show ?thesis using assms(2) by (auto simp: device_set_int_def)
next
  case True
  obtain b where b: "get_base n (t_object (so_tree d)) = Some b" using device_get_base [OF assms(1,2)] by blast
  obtain t' b' where t: "res_set_value_int n v (so_tree d) = Some (t', True)" "get_base n (t_object t') = Some b'"
      "res_get_value_int b' = v"
    using int_value_roundtrip [OF b assms(3)] by blast
  then obtain buffer where "fst (std_write n (Some (bytes_of buffer)) (length buffer) d) = d\<lparr>so_tree := t'\<rparr>"
    by (auto simp: res_set_value_int_def std_write_def split_beta split: bind_splits) (metis fst_conv)
  then have "device_get r k (d\<lparr>so_tree := t'\<rparr>) = Some n"
    using device_get_write [OF assms(1)] assms(2) by metis
  then have "device_value_int r k (d\<lparr>so_tree := t'\<rparr>) = v"
    using True t(2,3) by (simp add: device_value_int_def device_base_def)
  then show ?thesis using True t(1) assms(2)
    by (intro exI [of _ "d\<lparr>so_tree := t'\<rparr>"] exI [of _ True]) (simp add: device_set_int_def std_write_int_def)
qed

definition sample_device :: std_object where
  "sample_device = (case device_new of Some d \<Rightarrow> d | None \<Rightarrow> std_object_new ''3'')"

lemma sample_device_facts:
  "std_wf sample_device" "device_get ErrorCode 0 sample_device = Some (NRinst 0 1 0)"
  by (code_simp, code_simp)

lemma device_set_int_range_witness:
  "\<exists>d'. device_set_int ErrorCode 8 0 sample_device = Some (d', True) \<and> device_value_int ErrorCode 0 d' = 8 \<and>
     device_set_int ErrorCode 9 0 sample_device = Some (sample_device, False)"
  using device_set_int_range [OF sample_device_facts, of 8] device_set_int_range [OF sample_device_facts, of 9]
  by (auto simp: device_is_int_def device_check_value_range_def)

end
