(* ===== verification/FirmwareObject.thy ===== *)
theory FirmwareObject
  imports StandardObject
begin

text \<open>
  \<open>M2MFirmware\<close> of \<open>source/m2mfirmware.cpp\<close>, a singleton: the package, the state of its update and the result. The
  mandatory resources come from static parameter structures. Setting the state decides whether the server may start
  the update. The setters of application callbacks only store a pointer on a resource.
\<close>

section \<open>The class\<close>

datatype firmware_resource =
    Package | PackageUri | Update | State | UpdateSupportedObjects | UpdateResult | PackageName | PackageVersion

datatype update_state = Idle | Downloading | Downloaded | Updating

fun firmware_name :: "firmware_resource \<Rightarrow> string" where
  "firmware_name Package = ''0''"
| "firmware_name PackageUri = ''1''"
| "firmware_name Update = ''2''"
| "firmware_name firmware_resource.State = ''3''"
| "firmware_name UpdateSupportedObjects = ''4''"
| "firmware_name UpdateResult = ''5''"
| "firmware_name PackageName = ''6''"
| "firmware_name PackageVersion = ''7''"

text \<open>
  A static parameter structure with its dynamic part. The dynamic parts are variables of the program: what the nodes of an
  instance set in them, value and access included, stays when the instance is deleted, so they are an argument of the
  constructor.
\<close>

definition firmware_params :: "firmware_resource \<Rightarrow> data_type \<Rightarrow> u8 \<Rightarrow> base" where
  "firmware_params r type access =
     \<lparr>bs_ident = Name (firmware_name r), bs_base_type = BT_Resource, bs_data_type = type, bs_multiple = False,
      bs_max_age = 0, bs_mode = Dynamic, bs_path = ''5/0/'' @ firmware_name r, bs_resource_type = [],
      bs_access = access, bs_observable = True, bs_content_type = 0, bs_publish_uri = False,
      bs_external_block = False, bs_value = None, bs_report = None\<rparr>"

type_synonym firmware_params_static = "firmware_resource \<Rightarrow> base"

definition firmware_statics :: firmware_params_static where
  "firmware_statics r =
     (case r of
        Package \<Rightarrow> firmware_params Package OPAQUE PUT_ALLOWED
      | PackageUri \<Rightarrow> firmware_params PackageUri STRING PUT_ALLOWED
      | Update \<Rightarrow> firmware_params Update OPAQUE NOT_ALLOWED
      | firmware_resource.State \<Rightarrow> firmware_params firmware_resource.State INTEGER GET_ALLOWED
      | _ \<Rightarrow> firmware_params r INTEGER GET_ALLOWED)"

definition create_dynamic_resource_params :: "base \<Rightarrow> object_instance \<Rightarrow> object_instance \<times> nat option" where
  "create_dynamic_resource_params s oi =
     (let name = (case base_name s of Some n \<Rightarrow> n | None \<Rightarrow> [])
      in if \<not> validate_string_length name 1 MAX_ALLOWED_STRING_LENGTH then (oi, None)
         else if resource_of name oi \<noteq> None then (oi, None)
         else (push_resource (r_add_observation_level (base_observation_level (oi_base oi)) (resource_of_params s)) oi,
               Some (length (oi_resources oi))))"

definition firmware_create_params :: "base \<Rightarrow> std_object \<Rightarrow> std_object \<times> node option" where
  "firmware_create_params s so =
     (case so_instance so of None \<Rightarrow> (so, None)
      | Some i \<Rightarrow>
          (let ob = t_object (so_tree so);
               (oi, j) = create_dynamic_resource_params s (o_instances ob ! i)
           in (so\<lparr>so_tree := (so_tree so)\<lparr>t_object := upd_inst i (\<lambda>_. oi) ob\<rparr>\<rparr>, map_option (NRes i) j)))"

definition write_zero :: "std_object \<times> node option \<Rightarrow> std_object option" where
  "write_zero r = (case r of (so, None) \<Rightarrow> Some so | (so, Some n) \<Rightarrow> map_option fst (std_write_int n 0 so))"

definition firmware_mandatory :: "firmware_params_static \<Rightarrow> std_object \<Rightarrow> std_object option" where
  "firmware_mandatory statics so =
     (let so1 = (case so_instance so of None \<Rightarrow> so
            | Some i \<Rightarrow> std_upd (NInst i) (\<lambda>b. b\<lparr>bs_content_type := COAP_CONTENT_OMA_TLV_TYPE\<rparr>) so);
          so2 = fst (firmware_create_params (statics Package) so1);
          so3 = fst (firmware_create_params (statics PackageUri) so2);
          so4 = fst (firmware_create_params (statics Update) so3)
      in do {
        so5 \<leftarrow> write_zero (firmware_create_params (statics firmware_resource.State) so4);
        write_zero (firmware_create_params (statics UpdateResult) so5) })"

definition firmware_new :: "firmware_params_static \<Rightarrow> std_object option" where
  "firmware_new statics =
     (let so0 = std_upd NObj (\<lambda>b. base_set_operation GET_PUT_ALLOWED (b\<lparr>bs_publish_uri := False\<rparr>)) (std_object_new ''5'')
      in case so_instance so0 of None \<Rightarrow> Some so0
         | Some i \<Rightarrow> firmware_mandatory statics (std_upd (NInst i) (base_set_operation GET_PUT_ALLOWED) so0))"

definition firmware_get_instance :: "firmware_params_static \<Rightarrow> std_object option \<Rightarrow> std_object option" where
  "firmware_get_instance statics static_instance =
     (case static_instance of None \<Rightarrow> firmware_new statics | Some f \<Rightarrow> Some f)"

text \<open>The destructor frees no part of a static structure; the report handler is part of the node and goes.\<close>

definition firmware_delete_instance :: "firmware_params_static \<Rightarrow> std_object option \<Rightarrow> firmware_params_static" where
  "firmware_delete_instance statics static_instance =
     (case static_instance of None \<Rightarrow> statics
      | Some f \<Rightarrow> (\<lambda>r. case std_base (firmware_name r) f of
            Some b \<Rightarrow> if r \<in> {Package, PackageUri, Update, firmware_resource.State, UpdateResult}
                      then b\<lparr>bs_report := None\<rparr> else statics r
          | None \<Rightarrow> statics r))"

definition firmware_get :: "firmware_resource \<Rightarrow> std_object \<Rightarrow> node option" where
  "firmware_get r f = std_node (firmware_name r) f"

definition firmware_is_present :: "firmware_resource \<Rightarrow> std_object \<Rightarrow> bool" where
  "firmware_is_present r f \<longleftrightarrow> firmware_get r f \<noteq> None"

fun state_number :: "update_state \<Rightarrow> int" where
  "state_number Idle = 0" | "state_number Downloading = 1" | "state_number Downloaded = 2" | "state_number Updating = 3"

text \<open>The check of a state also sets what the server may do with \<open>Update\<close>.\<close>

definition firmware_check_value_range :: "firmware_resource \<Rightarrow> i64 \<Rightarrow> std_object \<Rightarrow> bool \<times> std_object" where
  "firmware_check_value_range r v f =
     (case r of
        UpdateSupportedObjects \<Rightarrow> (v = 0 \<or> v = 1, f)
      | firmware_resource.State \<Rightarrow>
          if 0 \<le> sint v \<and> sint v \<le> 3 then
            (True, case firmware_get Update f of None \<Rightarrow> f
               | Some n \<Rightarrow> std_upd n (base_set_operation
                   (if sint v = state_number Downloaded then POST_ALLOWED else NOT_ALLOWED)) f)
          else (False, f)
      | UpdateResult \<Rightarrow> (0 \<le> sint v \<and> sint v \<le> 7, f)
      | _ \<Rightarrow> (False, f))"

definition firmware_create_text :: "firmware_resource \<Rightarrow> string \<Rightarrow> std_object \<Rightarrow> std_object \<times> node option" where
  "firmware_create_text r value f =
     (if firmware_is_present r f \<or> (r \<noteq> PackageName \<and> r \<noteq> PackageVersion) \<or> length value \<ge> 256 then (f, None)
      else (case std_create (firmware_name r) STRING False f of
          (so, None) \<Rightarrow> (so, None)
        | (so, Some n) \<Rightarrow>
            (let so1 = std_upd n (\<lambda>b. base_set_operation GET_ALLOWED (b\<lparr>bs_publish_uri := False\<rparr>)) so
             in (if value = [] then std_clear n so1
                 else fst (std_write n (Some (bytes_of value)) (length value) so1), Some n))))"

definition firmware_create_int :: "firmware_resource \<Rightarrow> i64 \<Rightarrow> std_object \<Rightarrow> (std_object \<times> node option) option" where
  "firmware_create_int r value f =
     (if firmware_is_present r f \<or> r \<noteq> UpdateSupportedObjects then Some (f, None)
      else
        (let (success, f1) = firmware_check_value_range r value f
         in if \<not> success then Some (f1, None)
            else (case std_create (firmware_name r) INTEGER False f1 of
                (so, None) \<Rightarrow> Some (so, None)
              | (so, Some n) \<Rightarrow> map_option (\<lambda>(so, success). (so, Some n))
                  (std_write_int n value
                    (std_upd n (\<lambda>b. base_set_operation GET_PUT_ALLOWED (b\<lparr>bs_publish_uri := False\<rparr>)) so)))))"

definition firmware_set_text :: "firmware_resource \<Rightarrow> string \<Rightarrow> std_object \<Rightarrow> std_object \<times> bool" where
  "firmware_set_text r value f =
     (case firmware_get r f of None \<Rightarrow> (f, False)
      | Some n \<Rightarrow>
          if r \<in> {PackageUri, PackageName, PackageVersion} \<and> length value < 256
          then (if value = [] then (std_clear n f, True) else std_write n (Some (bytes_of value)) (length value) f)
          else (f, False))"

definition firmware_is_int :: "firmware_resource \<Rightarrow> bool" where
  "firmware_is_int r \<longleftrightarrow> r \<in> {firmware_resource.State, UpdateSupportedObjects, UpdateResult}"

definition firmware_set_int :: "firmware_resource \<Rightarrow> i64 \<Rightarrow> std_object \<Rightarrow> (std_object \<times> bool) option" where
  "firmware_set_int r value f =
     (case firmware_get r f of None \<Rightarrow> Some (f, False)
      | Some n \<Rightarrow>
          if firmware_is_int r then
            (let (success, f1) = firmware_check_value_range r value f
             in if success then std_write_int n value f1 else Some (f1, False))
          else Some (f, False))"

definition firmware_set_buffer :: "firmware_resource \<Rightarrow> u8 list option \<Rightarrow> u32 \<Rightarrow> std_object \<Rightarrow> std_object \<times> bool" where
  "firmware_set_buffer r value len f =
     (case firmware_get r f of None \<Rightarrow> (f, False)
      | Some n \<Rightarrow> if r = Package then std_write n value (unat len) f else (f, False))"

definition firmware_per_resource_count :: "firmware_resource \<Rightarrow> std_object \<Rightarrow> u16" where
  "firmware_per_resource_count r f =
     (case so_instance f of None \<Rightarrow> 0 | Some i \<Rightarrow> resource_count_of (firmware_name r) (tree_inst i (so_tree f)))"

definition firmware_total :: "std_object \<Rightarrow> u16" where
  "firmware_total f = std_resource_total f"

definition firmware_value_buffer :: "firmware_resource \<Rightarrow> std_object \<Rightarrow> u8 list option" where
  "firmware_value_buffer r f =
     (case std_base (firmware_name r) f of Some b \<Rightarrow> if r = Package then res_get_value b else None | None \<Rightarrow> None)"

definition firmware_delete_resource :: "firmware_resource \<Rightarrow> std_object \<Rightarrow> std_object \<times> bool" where
  "firmware_delete_resource r f =
     (if r \<in> {UpdateSupportedObjects, PackageName, PackageVersion} then std_remove (firmware_name r) f else (f, False))"

definition firmware_value_int :: "firmware_resource \<Rightarrow> std_object \<Rightarrow> i64" where
  "firmware_value_int r f =
     (case std_base (firmware_name r) f of Some b \<Rightarrow> if firmware_is_int r then res_get_value_int b else -1 | None \<Rightarrow> -1)"

definition firmware_value_text :: "firmware_resource \<Rightarrow> std_object \<Rightarrow> string" where
  "firmware_value_text r f =
     (case std_base (firmware_name r) f of
        Some b \<Rightarrow> if r \<in> {PackageUri, PackageName, PackageVersion} then res_get_value_string b else []
      | None \<Rightarrow> [])"

interpretation firmware: resource_names firmware_name
proof
  fix r r' :: firmware_resource
  show "firmware_name r = firmware_name r' \<Longrightarrow> r = r'" by (cases r; cases r') simp_all
  show "validate_string_length (firmware_name r) 1 MAX_ALLOWED_STRING_LENGTH"
    by (cases r) (simp_all add: validate_string_length_def)
qed

section \<open>The state and the update\<close>

datatype firmware_call =
    SetInt firmware_resource i64 | SetText firmware_resource string | SetBuffer firmware_resource "u8 list option" u32

fun firmware_step :: "firmware_call \<Rightarrow> std_object \<Rightarrow> std_object option" where
  "firmware_step (SetInt r v) f = map_option fst (firmware_set_int r v f)"
| "firmware_step (SetText r s) f = Some (fst (firmware_set_text r s f))"
| "firmware_step (SetBuffer r v len) f = Some (fst (firmware_set_buffer r v len f))"

fun firmware_run :: "firmware_call list \<Rightarrow> std_object \<Rightarrow> std_object option" where
  "firmware_run [] f = Some f"
| "firmware_run (c # cs) f = Option.bind (firmware_step c f) (firmware_run cs)"

definition firmware_inv :: "std_object \<Rightarrow> bool" where
  "firmware_inv f \<longleftrightarrow> std_wf f \<and>
     (case (std_frame (firmware_name Update) f, std_frame (firmware_name firmware_resource.State) f) of
        (Some u, Some s) \<Rightarrow> bs_mode u = Dynamic \<and>
          bs_access u = (if res_get_value_int s = of_int (state_number Downloaded) then POST_ALLOWED else NOT_ALLOWED)
      | _ \<Rightarrow> False)"

lemma firmware_invI:
  "std_wf f \<Longrightarrow> std_frame (firmware_name Update) f = Some u \<Longrightarrow>
   std_frame (firmware_name firmware_resource.State) f = Some s \<Longrightarrow> bs_mode u = Dynamic \<Longrightarrow>
   bs_access u = (if res_get_value_int s = of_int (state_number Downloaded) then POST_ALLOWED else NOT_ALLOWED) \<Longrightarrow>
   firmware_inv f"
  by (simp add: firmware_inv_def del: firmware_name.simps)

lemma firmware_inv_other:
  assumes "firmware_inv f" and "firmware_get r f = Some n" and "r \<noteq> Update" and "r \<noteq> firmware_resource.State"
  shows "firmware_inv (fst (std_write n v len f))" and "firmware_inv (std_clear n f)"
proof -
  have w: "std_wf f" using assms(1) by (simp add: firmware_inv_def)
  note g = assms(2) [unfolded firmware_get_def]
  show "firmware_inv (std_clear n f)"
    using assms w firmware.clear_frame [OF w g] by (simp add: firmware_inv_def del: firmware_name.simps)
  show "firmware_inv (fst (std_write n v len f))"
  proof (cases "v = None \<or> len = 0")
    case True
    then have "fst (res_set_value n v len (so_tree f)) = so_tree f"
      by (auto simp: res_set_value_def with_base_def split: option.split)
    then show ?thesis using assms(1) by (simp add: std_write_def split_beta)
  next
    case False
    then obtain x where "v = Some x" "0 < len" by auto
    then show ?thesis using assms w firmware.write_frame [OF w g] by (simp add: firmware_inv_def del: firmware_name.simps)
  qed
qed

lemma sint_two: "sint (2 :: i64) = 2"
  by simp

lemma firmware_inv_state:
  assumes "firmware_inv f" and "0 \<le> sint v" "sint v \<le> 3"
    and "firmware_get Update f = Some u" "firmware_get firmware_resource.State f = Some n"
  shows "\<exists>r. std_write_int n v (std_upd u (base_set_operation
      (if sint v = state_number Downloaded then POST_ALLOWED else NOT_ALLOWED)) f) = Some r \<and> firmware_inv (fst r)"
proof -
  let ?opr = "if sint v = state_number Downloaded then POST_ALLOWED else NOT_ALLOWED"
  let ?f = "std_upd u (base_set_operation ?opr) f"
  have w: "std_wf f" "std_wf ?f" using assms(1) by (simp_all add: firmware_inv_def)
  obtain ub sb where b: "std_frame (firmware_name Update) f = Some ub"
      "std_frame (firmware_name firmware_resource.State) f = Some sb" "bs_mode ub = Dynamic"
    using assms(1) by (auto simp: firmware_inv_def split: option.splits)
  have g: "std_node (firmware_name firmware_resource.State) ?f = Some n"
    using w assms(5) by (simp add: firmware_get_def)
  have "sint v \<noteq> - (2 ^ 63)" using assms(2) by simp
  then obtain s where s: "std_write_int n v ?f = Some (std_write n (Some (bytes_of s)) (length s) ?f)"
      "s \<noteq> []" "no_nul s" "atoll s = sint v"
    using std_write_int_eq by blast
  have l: "0 < length s" using s(2) by simp
  note o = firmware.operation_frame [OF w(1) assms(4) [unfolded firmware_get_def], where opr = ?opr]
  note f = firmware.write_frame [OF w(2) g l, where v = "bytes_of s"]
  have r: "res_get_value_int (sb\<lparr>bs_value := Some (bytes_of s)\<rparr>) = v"
    using s(3,4) by (simp add: res_get_value_int_def comp_def)
  have "v = 2" if "sint v = 2"
  proof -
    have "v = word_of_int (sint v)" by simp
    then show ?thesis unfolding that by simp
  qed
  then have v: "sint v = 2 \<longleftrightarrow> v = 2" by (metis sint_two)
  have a: "bs_access (base_set_operation ?opr ub) =
      (if res_get_value_int (sb\<lparr>bs_value := Some (bytes_of s)\<rparr>) = of_int (state_number Downloaded)
       then POST_ALLOWED else NOT_ALLOWED)"
    unfolding r using b(3) by (cases "v = 2") (simp_all add: base_set_operation_def v)
  have "firmware_inv (fst (std_write n (Some (bytes_of s)) (length s) ?f))"
  proof (rule firmware_invI)
    show "std_frame (firmware_name Update) (fst (std_write n (Some (bytes_of s)) (length s) ?f)) =
        Some (base_set_operation ?opr ub)"
      unfolding f o b(1) by simp
    show "std_frame (firmware_name firmware_resource.State) (fst (std_write n (Some (bytes_of s)) (length s) ?f)) =
        Some (sb\<lparr>bs_value := Some (bytes_of s)\<rparr>)"
      unfolding f o b(2) by simp
    show "bs_mode (base_set_operation ?opr ub) = Dynamic" using b(3) by (simp add: base_set_operation_def)
  qed (use w(2) a in simp_all)
  then show ?thesis using s(1) by blast
qed

lemma firmware_inv_get:
  assumes "firmware_inv f"
  shows "firmware_get Update f \<noteq> None" and "firmware_get firmware_resource.State f \<noteq> None"
  using assms
  by (auto simp: firmware_inv_def firmware_get_def std_frame_def simp del: firmware_name.simps split: option.splits)

lemma firmware_step_inv:
  assumes "firmware_inv f"
  shows "\<exists>f'. firmware_step c f = Some f' \<and> firmware_inv f'"
proof (cases c)
  case (SetText r s)
  show ?thesis
  proof (cases "firmware_get r f")
    case None
    then show ?thesis using SetText assms by (simp add: firmware_set_text_def)
  next
    case (Some n)
    have "r \<in> {PackageUri, PackageName, PackageVersion} \<Longrightarrow> r \<noteq> Update \<and> r \<noteq> firmware_resource.State" by auto
    then show ?thesis using SetText Some assms firmware_inv_other [OF assms Some] by (simp add: firmware_set_text_def)
  qed
next
  case (SetBuffer r v len)
  then show ?thesis
    using assms firmware_inv_other [OF assms] by (cases "firmware_get r f") (simp_all add: firmware_set_buffer_def)
next
  case (SetInt r v)
  show ?thesis
  proof (cases "firmware_get r f")
    case None
    then show ?thesis using SetInt assms by (simp add: firmware_set_int_def)
  next
    case (Some n)
    obtain u where u: "firmware_get Update f = Some u" using firmware_inv_get [OF assms] by auto
    have other: "\<exists>f' success. std_write_int n v f = Some (f', success) \<and> firmware_inv f'"
      if "r \<noteq> Update" "r \<noteq> firmware_resource.State" "sint v \<noteq> - (2 ^ 63)"
      using std_write_int_eq [OF that(3), of n f] firmware_inv_other(1) [OF assms Some that(1,2)]
      by (metis prod.collapse)
    show ?thesis
    proof (cases r)
      case State
      show ?thesis
      proof (cases "0 \<le> sint v \<and> sint v \<le> 3")
        case True
        then show ?thesis
          using SetInt Some State u firmware_inv_state [OF assms, of v u n]
          by (auto simp: firmware_set_int_def firmware_is_int_def firmware_check_value_range_def)
      next
        case False
        then show ?thesis using SetInt Some State assms
          by (auto simp: firmware_set_int_def firmware_is_int_def firmware_check_value_range_def)
      qed
    next
      case UpdateResult
      then show ?thesis using SetInt Some assms other
        by (cases "0 \<le> sint v \<and> sint v \<le> 7")
          (auto simp: firmware_set_int_def firmware_is_int_def firmware_check_value_range_def)
    next
      case UpdateSupportedObjects
      then show ?thesis using SetInt Some assms other
        by (cases "v = 0 \<or> v = 1")
          (auto simp: firmware_set_int_def firmware_is_int_def firmware_check_value_range_def)
    qed (use SetInt Some assms in \<open>simp_all add: firmware_set_int_def firmware_is_int_def\<close>)
  qed
qed

lemma firmware_run_inv: "firmware_inv f \<Longrightarrow> \<exists>f'. firmware_run cs f = Some f' \<and> firmware_inv f'"
proof (induction cs arbitrary: f)
  case Nil
  then show ?case by simp
next
  case (Cons c cs)
  then show ?case using firmware_step_inv [OF Cons.prems, of c] by force
qed

lemma firmware_update_access:
  assumes "firmware_inv f"
  shows "\<exists>f' b. firmware_run cs f = Some f' \<and> std_base (firmware_name Update) f' = Some b \<and>
    (bs_access b AND POST_ALLOWED \<noteq> 0 \<longleftrightarrow>
      firmware_value_int firmware_resource.State f' = of_int (state_number Downloaded))"
proof -
  obtain f' where f: "firmware_run cs f = Some f'" "firmware_inv f'" using firmware_run_inv [OF assms] by blast
  then obtain u s where us: "std_frame (firmware_name Update) f' = Some u"
      "std_frame (firmware_name firmware_resource.State) f' = Some s"
      "bs_access u = (if res_get_value_int s = of_int (state_number Downloaded) then POST_ALLOWED else NOT_ALLOWED)"
    by (auto simp: firmware_inv_def simp del: firmware_name.simps split: option.splits)
  obtain b where b: "std_base (firmware_name Update) f' = Some b" "frame_of b = u"
    using us(1) by (auto simp: std_frame_def std_base_def node_frame_def simp del: firmware_name.simps split: option.splits)
  obtain c where c: "std_base (firmware_name firmware_resource.State) f' = Some c" "frame_of c = s"
    using us(2) by (auto simp: std_frame_def std_base_def node_frame_def simp del: firmware_name.simps split: option.splits)
  have "bs_access u = bs_access b" "res_get_value_int s = res_get_value_int c"
    using b(2) c(2) by (auto simp: frame_of_def res_get_value_int_def)
  then have "bs_access b AND POST_ALLOWED \<noteq> 0 \<longleftrightarrow> res_get_value_int c = of_int (state_number Downloaded)"
    using us(3) by (cases "res_get_value_int c = of_int (state_number Downloaded)") simp_all
  then show ?thesis using f(1) b(1) c(1)
    by (simp add: firmware_value_int_def firmware_is_int_def del: firmware_name.simps)
qed

definition first_firmware :: std_object where
  "first_firmware = (case firmware_new firmware_statics of Some f \<Rightarrow> f | None \<Rightarrow> std_object_new ''5'')"

lemma first_firmware_inv: "firmware_inv first_firmware"
  by code_simp

text \<open>A firmware object that is deleted in the state \<open>Downloaded\<close> and then created again is in the state
  \<open>Idle\<close>, yet the server may execute the update.\<close>

lemma firmware_recreated_executable:
  "\<exists>f g b. firmware_run [SetInt firmware_resource.State 2] first_firmware = Some f \<and>
     firmware_get_instance (firmware_delete_instance firmware_statics (Some f)) None = Some g \<and>
     firmware_value_int firmware_resource.State g = of_int (state_number Idle) \<and>
     std_base (firmware_name Update) g = Some b \<and> bs_access b AND POST_ALLOWED \<noteq> 0"
proof -
  have "(case firmware_run [SetInt firmware_resource.State 2] first_firmware of None \<Rightarrow> False
    | Some f \<Rightarrow> (case firmware_get_instance (firmware_delete_instance firmware_statics (Some f)) None of None \<Rightarrow> False
      | Some g \<Rightarrow> firmware_value_int firmware_resource.State g = 0 \<and>
          (case std_base (firmware_name Update) g of None \<Rightarrow> False | Some b \<Rightarrow> bs_access b AND POST_ALLOWED \<noteq> 0)))"
    by code_simp
  then show ?thesis
    by (auto simp del: firmware_name.simps firmware_run.simps split: option.splits)
qed

text \<open>C29: the first firmware object of a client exists, and after any calls of its setters, none of which can fail to return,
  the server may execute the update exactly when the state that was set last is \<open>Downloaded\<close>. For an object that is
  deleted and created again this is false: deleted in the state \<open>Downloaded\<close> it comes back \<open>Idle\<close> with the update
  executable, as its static structures keep what was set in them.\<close>

theorem firmware_update_when_downloaded:
  "\<exists>f0. firmware_get_instance firmware_statics None = Some f0 \<and>
    (\<exists>f' b. firmware_run cs f0 = Some f' \<and> std_base (firmware_name Update) f' = Some b \<and>
      (bs_access b AND POST_ALLOWED \<noteq> 0 \<longleftrightarrow>
        firmware_value_int firmware_resource.State f' = of_int (state_number Downloaded))) \<and>
    (\<exists>f g b. firmware_run [SetInt firmware_resource.State 2] f0 = Some f \<and>
      firmware_get_instance (firmware_delete_instance firmware_statics (Some f)) None = Some g \<and>
      firmware_value_int firmware_resource.State g = of_int (state_number Idle) \<and>
      std_base (firmware_name Update) g = Some b \<and> bs_access b AND POST_ALLOWED \<noteq> 0)"
proof -
  have "firmware_new firmware_statics \<noteq> None" by code_simp
  then have "firmware_get_instance firmware_statics None = Some first_firmware"
    by (auto simp: firmware_get_instance_def first_firmware_def)
  then show ?thesis using firmware_update_access [OF first_firmware_inv] firmware_recreated_executable by blast
qed

end
