(* ===== verification/InterfaceFactory.thy ===== *)
theory InterfaceFactory
  imports InterfaceImpl SecurityObject ServerObject DeviceObject FirmwareObject
begin

text \<open>
  \<open>M2MInterfaceFactory\<close> of \<open>source/m2minterfacefactory.cpp\<close>: the checks of the arguments of a client and of an
  object, and the standard objects. The type, life time, network stack and address the constructor passes on to the NSDL
  interface leave no trace in the state of \<open>M2MInterfaceImpl\<close>.
\<close>

definition create_interface ::
  "string \<Rightarrow> string \<Rightarrow> i32 \<Rightarrow> u16 \<Rightarrow> string \<Rightarrow> binding_mode \<Rightarrow> reply list \<Rightarrow> interface option" where
  "create_interface endpoint_name endpoint_type life_time listen_port dmn m script =
     (let endpoint_type_valid = (endpoint_type = [] \<or> length endpoint_type \<le> MAX_ALLOWED_STRING_LENGTH);
          domain_valid = (dmn = [] \<or> length dmn \<le> MAX_ALLOWED_STRING_LENGTH)
      in if (sint life_time = -1 \<or> sint life_time \<ge> uint MINIMUM_REGISTRATION_TIME) \<and>
            endpoint_name \<noteq> [] \<and> length endpoint_name \<le> MAX_ALLOWED_STRING_LENGTH \<and>
            endpoint_type_valid \<and> domain_valid
         then Some (interface_new endpoint_name listen_port dmn m script) else None)"

definition create_security :: "server_type \<Rightarrow> m2m_security" where
  "create_security ser_type = security_new ser_type"

definition create_server :: std_object where
  "create_server = server_new"

definition create_device :: "std_object option \<Rightarrow> std_object option" where
  "create_device static_instance = device_get_instance static_instance"

definition create_firmware :: "firmware_params_static \<Rightarrow> std_object option \<Rightarrow> std_object option" where
  "create_firmware statics static_instance = firmware_get_instance statics static_instance"

definition create_object :: "string \<Rightarrow> lwm2m_object option" where
  "create_object name =
     (if length name > MAX_ALLOWED_STRING_LENGTH \<or> name = [] then None else Some (object_new name (cstr name) False))"

end
