(* ===== verification/ObjectTypes.thy ===== *)
theory ObjectTypes
  imports ObjectsSpec
begin

text \<open>
  The kinds of nodes. A node's \<open>base_type()\<close> decides to which class its pointer is cast, and the tag of its identifier which
  member of a union may be read; both agree with the level of the node in every tree that is built.
\<close>

fun node_type :: "node \<Rightarrow> base_type" where
  "node_type NObj = BT_Object"
| "node_type (NInst i) = BT_ObjectInstance"
| "node_type (NRes i j) = BT_Resource"
| "node_type (NRinst i j k) = BT_ResourceInstance"

definition named :: "base \<Rightarrow> bool" where
  "named b \<longleftrightarrow> (\<exists>s. bs_ident b = Name s)"

definition numbered :: "base \<Rightarrow> bool" where
  "numbered b \<longleftrightarrow> (\<exists>i. bs_ident b = InstanceId i)"

definition ri_typed :: "resource_instance \<Rightarrow> bool" where
  "ri_typed ri \<longleftrightarrow> bs_base_type (ri_base ri) = BT_ResourceInstance \<and> numbered (ri_base ri)"

definition r_typed :: "resource \<Rightarrow> bool" where
  "r_typed r \<longleftrightarrow> bs_base_type (r_base r) = BT_Resource \<and> named (r_base r) \<and> list_all ri_typed (r_instances r)"

definition oi_typed :: "object_instance \<Rightarrow> bool" where
  "oi_typed oi \<longleftrightarrow> bs_base_type (oi_base oi) = BT_ObjectInstance \<and> numbered (oi_base oi) \<and> list_all r_typed (oi_resources oi)"

definition o_typed :: "lwm2m_object \<Rightarrow> bool" where
  "o_typed ob \<longleftrightarrow> bs_base_type (o_base ob) = BT_Object \<and> named (o_base ob) \<and> list_all oi_typed (o_instances ob)"

named_theorems typed_defs "what the operations on nodes are made of"
declare named_def [typed_defs] numbered_def [typed_defs] base_new_def [typed_defs] base_set_operation_def [typed_defs]
  set_initial_value_def [typed_defs] base_set_instance_id_def [typed_defs] upd_defs [typed_defs] Let_def [typed_defs]

section \<open>Constructors\<close>

lemma validate_empty [simp]: "\<not> validate_string_length [] (Suc n) m"
  by (simp add: validate_string_length_def)

lemma add_level_base [simp]:
  "bs_base_type (base_add_observation_level l b) = bs_base_type b"
  "bs_ident (base_add_observation_level l b) = bs_ident b"
  by (simp_all add: base_add_observation_level_def)

lemma add_level_typed [simp]: "r_typed (r_add_observation_level l r) = r_typed r"
  by (simp add: r_add_observation_level_def r_typed_def ri_typed_def ri_add_observation_level_def list_all_iff typed_defs)

lemma set_value_type [simp]:
  "bs_base_type (set_initial_value v n b) = bs_base_type b" "bs_ident (set_initial_value v n b) = bs_ident b"
  by (auto simp: set_initial_value_def split: option.split)

lemma set_operation_type [simp]:
  "bs_base_type (base_set_operation opr b) = bs_base_type b" "bs_ident (base_set_operation opr b) = bs_ident b"
  by (simp_all add: base_set_operation_def)

lemma new_resources_typed:
  assumes "name \<noteq> []"
  shows "r_typed (resource_new name m rt ty obs path mu ext)" "r_typed (resource_new_value name m rt ty v n path mu ext)"
  using assms by (auto simp: r_typed_def named_def resource_new_def resource_new_value_def Let_def base_new_def)

lemma upd_r_base_typed: "r_typed r \<Longrightarrow> bs_base_type (f (r_base r)) = bs_base_type (r_base r) \<Longrightarrow>
    bs_ident (f (r_base r)) = bs_ident (r_base r) \<Longrightarrow> r_typed (upd_r_base f r)"
  by (simp add: r_typed_def upd_r_base_def named_def)

section \<open>Operations on an instance\<close>

lemma push_typed: "oi_typed oi \<Longrightarrow> r_typed r \<Longrightarrow> oi_typed (push_resource r oi)"
  by (simp add: oi_typed_def push_resource_def)

lemma list_all_remove_at: "list_all P xs \<Longrightarrow> list_all P (remove_at i xs)"
  using set_remove_at_subset [of i xs] by (auto simp: list_all_iff)

lemma list_all_update_at: "list_all P xs \<Longrightarrow> (\<And>x. P x \<Longrightarrow> P (f x)) \<Longrightarrow> list_all P (update_at i f xs)"
  by (auto simp: list_all_length nth_update_at)

lemma remove_typed: "oi_typed oi \<Longrightarrow> oi_typed (oi\<lparr>oi_resources := remove_at i (oi_resources oi)\<rparr>)"
  by (simp add: oi_typed_def list_all_remove_at)

lemma upd_res_typed: "oi_typed oi \<Longrightarrow> (\<And>r. r_typed r \<Longrightarrow> r_typed (f r)) \<Longrightarrow> oi_typed (upd_res j f oi)"
  by (simp add: oi_typed_def upd_res_def list_all_update_at)

lemma create_resource_typed:
  assumes "oi_typed oi"
  shows "oi_typed (fst (create_dynamic_resource on name rt ty obs mu ext oi))"
    and "oi_typed (fst (create_static_resource on name rt ty v n mu ext oi))"
  using assms
  by (auto simp: create_dynamic_resource_def create_static_resource_def Let_def
      intro!: push_typed upd_r_base_typed new_resources_typed split: option.split)

lemma add_instance_typed:
  assumes "r_typed r"
  shows "r_typed (fst (add_dynamic_instance on oid rt ty obs ext k r))"
    and "r_typed (fst (add_static_instance on oid rt ty v n ext k r))"
  using assms
  by (auto simp: add_dynamic_instance_def add_static_instance_def Let_def r_typed_def ri_typed_def add_resource_instance_def
      resource_instance_new_def resource_instance_new_value_def upd_ri_base_def base_set_instance_id_def numbered_def
      base_new_def split: option.split)

lemma at_resource_typed:
  assumes "oi_typed oi" and "\<And>r. r_typed r \<Longrightarrow> r_typed (fst (f r))" and "\<And>j. res = Some j \<Longrightarrow> j < length (oi_resources oi)"
  shows "oi_typed (fst (at_resource res f oi))"
proof (cases res)
  case (Some j)
  then have "r_typed (fst (f (oi_resources oi ! j)))" using assms by (auto simp: oi_typed_def list_all_length)
  then show ?thesis using assms(1) Some by (simp add: at_resource_def split_beta upd_res_typed)
qed (simp add: at_resource_def assms(1))

lemma at_resource_typed_new:
  assumes "oi_typed oi" and "r_typed r" and "\<And>r. r_typed r \<Longrightarrow> r_typed (fst (f r))"
  shows "oi_typed (fst (at_resource (Some (length (oi_resources oi))) f (push_resource r oi)))"
  by (rule at_resource_typed) (simp_all add: push_typed assms, simp add: push_resource_def)

lemma create_instance_typed:
  assumes "oi_typed oi"
  shows "oi_typed (fst (create_dynamic_resource_instance on name rt ty obs k ext oi))"
    and "oi_typed (fst (create_static_resource_instance on name rt ty v n k ext oi))"
  using assms resource_of_Some [of name oi]
  by (auto simp: create_dynamic_resource_instance_def create_static_resource_instance_def Let_def at_resource_def [of None]
      intro!: at_resource_typed at_resource_typed_new upd_r_base_typed new_resources_typed add_instance_typed
      split: option.split)

lemma remove_resource_typed:
  assumes "oi_typed oi"
  shows "oi_typed (fst (remove_resource h name oi))" and "oi_typed (fst (remove_resource_instance h name k oi))"
proof -
  show "oi_typed (fst (remove_resource h name oi))"
    using assms by (auto simp: remove_resource_def remove_typed split: option.split)
  have r: "r_typed (fst (resource_remove_instance h k r))" if "r_typed r" for r
    using that by (auto simp: resource_remove_instance_def r_typed_def list_all_remove_at split: option.split)
  show "oi_typed (fst (remove_resource_instance h name k oi))"
  proof (cases "resource_of name oi")
    case (Some j)
    then have "r_typed (oi_resources oi ! j)" using assms resource_of_Some by (auto simp: oi_typed_def list_all_length)
    from r [OF this] have "oi_typed (upd_res j (\<lambda>_. fst (resource_remove_instance h k (oi_resources oi ! j))) oi)"
      using assms by (simp add: upd_res_typed)
    then show ?thesis using Some assms
      by (simp add: remove_resource_instance_def Let_def split_beta remove_typed split: option.split)
  qed (simp add: remove_resource_instance_def assms)
qed

lemma instance_step_typed: "oi_typed oi \<Longrightarrow> oi_typed (instance_step on h op oi)"
  by (cases op) (simp_all add: create_resource_typed create_instance_typed remove_resource_typed)

section \<open>Operations on an object\<close>

lemma object_new_typed: "name \<noteq> [] \<Longrightarrow> o_typed (object_new name path ext)"
  by (simp add: o_typed_def object_new_def named_def base_new_def Let_def)

lemma create_object_instance_typed: "o_typed ob \<Longrightarrow> o_typed (fst (create_object_instance k ob))"
  by (auto simp: create_object_instance_def o_typed_def oi_typed_def numbered_def object_instance_new_def Let_def
      upd_oi_base_def oi_add_observation_level_def base_set_instance_id_def base_new_def split: option.split)

lemma remove_object_instance_typed: "o_typed ob \<Longrightarrow> o_typed (fst (remove_object_instance k ob))"
  by (auto simp: remove_object_instance_def o_typed_def list_all_remove_at split: option.split)

lemma upd_inst_typed: "o_typed ob \<Longrightarrow> (\<And>oi. oi_typed oi \<Longrightarrow> oi_typed (f oi)) \<Longrightarrow> o_typed (upd_inst i f ob)"
  by (simp add: o_typed_def upd_inst_def list_all_update_at)

lemma object_step_typed: "o_typed ob \<Longrightarrow> o_typed (object_step op ob)"
  by (cases op) (auto simp: create_object_instance_typed remove_object_instance_typed upd_inst_typed
      instance_step_typed split: option.split)

lemma fold_object_step_typed: "o_typed ob \<Longrightarrow> o_typed (fold object_step ops ob)"
  by (induction ops arbitrary: ob) (auto simp: object_step_typed)

lemma typed_get_base:
  assumes "o_typed ob" and "get_base n ob = Some b"
  shows "bs_base_type b = node_type n \<and>
    (case n of NObj \<Rightarrow> named b | NRes i j \<Rightarrow> named b | _ \<Rightarrow> numbered b)"
  using assms by (cases n) (auto simp: o_typed_def oi_typed_def r_typed_def ri_typed_def list_all_length split: if_splits)

text \<open>C20: in every tree that is built from a new object by creating and removing instances, resources and
  resource instances, the \<open>base_type()\<close> of each node is the one of its level, so that every cast of a node to its class is to the
  class it has; and the union of its identifier holds a name exactly for objects and resources and a number for
  both kinds of instances, so that \<open>name()\<close> and \<open>instance_id()\<close> read the member that was written.\<close>

theorem base_types_match:
  assumes "name \<noteq> []" and "get_base n (fold object_step ops (object_new name path external)) = Some b"
  shows "bs_base_type b = node_type n \<and>
    (case n of NObj \<Rightarrow> \<exists>s. bs_ident b = Name s | NRes i j \<Rightarrow> \<exists>s. bs_ident b = Name s
     | NInst i \<Rightarrow> \<exists>k. bs_ident b = InstanceId k | NRinst i j l \<Rightarrow> \<exists>k. bs_ident b = InstanceId k)"
  using typed_get_base [OF fold_object_step_typed [OF object_new_typed [OF assms(1)]] assms(2)]
  by (simp add: named_def numbered_def split: node.splits)

theorem base_types_match_witness:
  "map_option bs_base_type (get_base (NRinst 0 0 0) (fold object_step
     [CreateInstance 0, OnInstance 0 (CreateDynamicInstance ''1'' INTEGER True 5)] (object_new ''9'' ''9'' False))) =
   Some BT_ResourceInstance"
proof -
  let ?ob = "fold object_step [CreateInstance 0, OnInstance 0 (CreateDynamicInstance ''1'' INTEGER True 5)] (object_new ''9'' ''9'' False)"
  have "get_base (NRinst 0 0 0) ?ob \<noteq> None" by code_simp
  then obtain b where b: "get_base (NRinst 0 0 0) ?ob = Some b" by blast
  have "bs_base_type b = node_type (NRinst 0 0 0)"
    using base_types_match [where n = "NRinst 0 0 0" and b = b and name = "''9''" and path = "''9''" and external = False
        and ops = "[CreateInstance 0, OnInstance 0 (CreateDynamicInstance ''1'' INTEGER True 5)]", OF _ b] by simp
  then show ?thesis using b by simp
qed

end
