(* ===== verification/NsdlState.thy ===== *)
theory NsdlState
  imports InterfaceImpl RequestWrites SecurityObject ServerObject
begin

text \<open>
  The state of \<open>M2MNsdlInterface\<close> (\<open>source/include/m2mnsdlinterface.h\<close>), its endpoint, and the
  search for a node by its path or its observation token, after \<open>source/m2mnsdlinterface.cpp\<close>.

  The objects of the application are a list and a pointer to one is its position in it; a pointer to a node
  is that with the place of the node in the object. The CoAP library \<open>sn_nsdl\<close> is a parameter: what it returns may
  depend on everything the class has done before. The calls made are a list of outputs; a call
  of the observer is an input of the state machine of \<open>InterfaceImpl\<close>. What handlers of nodes cause through the
  observation handler stays in the outputs of the tree.
\<close>

section \<open>State\<close>

type_synonym node_ref = "nat \<times> node"

record nsdl_endpoint =
  ep_name :: "string option"
  ep_type :: "string option"
  ep_domain :: "string option"
  ep_mode :: u8
  ep_lifetime :: "string option"

datatype nsdl_timer = NsdlExecutionTimer | RegistrationTimer

type_synonym coap_address = "u8 list \<times> u16"

datatype nsdl_output =
    PutResource node_ref string
  | PopResource string
  | RegisterEndpoint "nsdl_endpoint option"
  | UpdateRegistration "string option"
  | UnregisterEndpoint
  | OmaBootstrap nsdl_endpoint coap_address
  | SetNspAddress "u8 list" u16
  | SetEndpointLocation string
  | ExecuteNsdl u32
  | SendCoap coap_response
  | ProcessCoap "u8 list"
  | StartNsdlTimer nsdl_timer u64
  | StopNsdlTimer nsdl_timer
  | NotifyObserver interface_input
  | ObserverValue "node_ref option"
  | ExecuteValueUpdated node_ref string
  | NotificationSent node_ref
  | RequestOutput nat request_output

record nsdl =
  ns_objects :: "tree list"
  ns_object_list :: "nat list"
  ns_endpoint :: "nsdl_endpoint option"
  ns_endpoint_name :: string
  ns_security :: "m2m_security option"
  ns_server :: std_object
  ns_counter :: u32
  ns_bootstrap_id :: u16
  ns_unregister_ongoing :: bool
  ns_identity_accepted :: bool
  ns_out :: "nsdl_output list"

record nsdl_lib =
  lib_coap :: coap_env
  lib_put :: "nsdl_output list \<Rightarrow> string \<Rightarrow> int"
  lib_pop :: "nsdl_output list \<Rightarrow> string \<Rightarrow> bool"
  lib_register :: "nsdl_output list \<Rightarrow> u16"
  lib_update :: "nsdl_output list \<Rightarrow> u16"
  lib_unregister :: "nsdl_output list \<Rightarrow> u16"
  lib_bootstrap :: "nsdl_output list \<Rightarrow> u16"
  lib_send :: "nsdl_output list \<Rightarrow> coap_response \<Rightarrow> int"
  lib_value_callback :: "node_ref \<Rightarrow> bool"

definition out :: "nsdl_output list \<Rightarrow> nsdl \<Rightarrow> nsdl" where
  "out os s = s\<lparr>ns_out := ns_out s @ os\<rparr>"

definition empty_endpoint :: nsdl_endpoint where
  "empty_endpoint = \<lparr>ep_name = None, ep_type = None, ep_domain = None, ep_mode = 0, ep_lifetime = None\<rparr>"

text \<open>The constructor with \<open>initialize\<close>; the arguments are the objects the application will hand over.\<close>

definition nsdl_new :: "tree list \<Rightarrow> nsdl" where
  "nsdl_new objects =
     \<lparr>ns_objects = objects, ns_object_list = [], ns_endpoint = Some empty_endpoint, ns_endpoint_name = [],
      ns_security = None, ns_server = server_new, ns_counter = 0, ns_bootstrap_id = 0,
      ns_unregister_ongoing = False, ns_identity_accepted = False, ns_out = []\<rparr>"

definition ns_tree :: "nat \<Rightarrow> nsdl \<Rightarrow> tree" where
  "ns_tree k s = ns_objects s ! k"

definition ns_set_tree :: "nat \<Rightarrow> tree \<Rightarrow> nsdl \<Rightarrow> nsdl" where
  "ns_set_tree k t s = s\<lparr>ns_objects := (ns_objects s)[k := t]\<rparr>"

section \<open>Looking up nodes\<close>

text \<open>A loop over children that stops at the first that yields a node.\<close>

fun find_some :: "nat \<Rightarrow> (nat \<Rightarrow> 'a \<Rightarrow> 'b option) \<Rightarrow> 'a list \<Rightarrow> 'b option" where
  "find_some k f [] = None"
| "find_some k f (x # xs) = (case f k x of Some y \<Rightarrow> Some y | None \<Rightarrow> find_some (Suc k) f xs)"

definition path_is :: "string \<Rightarrow> base \<Rightarrow> bool" where
  "path_is name b \<longleftrightarrow> bs_path b = cstr name"

definition token_is :: "u8 list \<Rightarrow> base \<Rightarrow> bool" where
  "token_is token b \<longleftrightarrow>
     (case bs_report b of None \<Rightarrow> False
      | Some h \<Rightarrow> (case rh_get_observation_token h of
            (Some stored, n) \<Rightarrow> n = length token \<and> stored = token
          | (None, n) \<Rightarrow> False))"

definition find_resource_rinst :: "string \<Rightarrow> nat \<Rightarrow> nat \<Rightarrow> resource \<Rightarrow> node option" where
  "find_resource_rinst name i j r =
     (if supports_multiple_instances r
      then find_some 0 (\<lambda>k ri. if path_is name (ri_base ri) then Some (NRinst i j k) else None) (r_instances r)
      else None)"

definition find_resource_res :: "string \<Rightarrow> u8 list option \<Rightarrow> nat \<Rightarrow> object_instance \<Rightarrow> node option" where
  "find_resource_res name token i oi =
     find_some 0 (\<lambda>j r. case token of
         None \<Rightarrow> if path_is name (r_base r) then Some (NRes i j) else find_resource_rinst name i j r
       | Some tok \<Rightarrow> if token_is tok (r_base r) then Some (NRes i j) else None)
       (oi_resources oi)"

definition find_resource_inst :: "string \<Rightarrow> u8 list option \<Rightarrow> lwm2m_object \<Rightarrow> node option" where
  "find_resource_inst name token ob =
     find_some 0 (\<lambda>i oi.
         if (case token of None \<Rightarrow> path_is name (oi_base oi) | Some tok \<Rightarrow> token_is tok (oi_base oi))
         then Some (NInst i) else find_resource_res name token i oi)
       (o_instances ob)"

text \<open>At the top level the length of the token decides, below it the pointer.\<close>

definition find_resource_in :: "string \<Rightarrow> u8 list option \<Rightarrow> lwm2m_object \<Rightarrow> node option" where
  "find_resource_in name token ob =
     (if (case token of None \<Rightarrow> path_is name (o_base ob)
          | Some [] \<Rightarrow> path_is name (o_base ob)
          | Some tok \<Rightarrow> token_is tok (o_base ob))
      then Some NObj else find_resource_inst name token ob)"

definition find_resource :: "string \<Rightarrow> u8 list option \<Rightarrow> nsdl \<Rightarrow> node_ref option" where
  "find_resource name token s =
     find_some 0 (\<lambda>_ k. map_option (Pair k) (find_resource_in name token (t_object (ns_tree k s)))) (ns_object_list s)"

definition object_present :: "nat \<Rightarrow> nsdl \<Rightarrow> bool" where
  "object_present k s \<longleftrightarrow> k \<in> set (ns_object_list s)"

definition add_object_to_list :: "nat \<Rightarrow> nsdl \<Rightarrow> nsdl \<times> bool" where
  "add_object_to_list k s =
     (if \<not> object_present k s then (s\<lparr>ns_object_list := ns_object_list s @ [k]\<rparr>, True) else (s, False))"

definition nsdl_remove_object :: "nat \<Rightarrow> nsdl \<Rightarrow> nsdl" where
  "nsdl_remove_object k s =
     (case find_idx (\<lambda>x. x = k) (ns_object_list s) of None \<Rightarrow> s
      | Some i \<Rightarrow> s\<lparr>ns_object_list := remove_at i (ns_object_list s)\<rparr>)"

end
