(* ===== verification/NsdlLookup.thy ===== *)
theory NsdlLookup
  imports NsdlState ObjectTypes
begin

text \<open>
  The four nested searches of \<open>find_resource\<close> against a reference: one search through the nodes of all registered
  objects in document order, each node before its children.
\<close>

section \<open>Nodes in document order\<close>

definition resource_nodes :: "nat \<Rightarrow> nat \<Rightarrow> resource \<Rightarrow> (node \<times> base) list" where
  "resource_nodes i j r =
     (NRes i j, r_base r) #
     (if supports_multiple_instances r
      then map (\<lambda>(k, ri). (NRinst i j k, ri_base ri)) (enumerate 0 (r_instances r)) else [])"

definition instance_nodes :: "nat \<Rightarrow> object_instance \<Rightarrow> (node \<times> base) list" where
  "instance_nodes i oi = (NInst i, oi_base oi) # concat (map (\<lambda>(j, r). resource_nodes i j r) (enumerate 0 (oi_resources oi)))"

definition object_nodes :: "lwm2m_object \<Rightarrow> (node \<times> base) list" where
  "object_nodes ob = (NObj, o_base ob) # concat (map (\<lambda>(i, oi). instance_nodes i oi) (enumerate 0 (o_instances ob)))"

definition registered_nodes :: "nsdl \<Rightarrow> (node_ref \<times> base) list" where
  "registered_nodes s =
     concat (map (\<lambda>k. map (\<lambda>(n, b). ((k, n), b)) (object_nodes (t_object (ns_tree k s)))) (ns_object_list s))"

text \<open>Without a token the path decides. A token is not looked for in resource instances, and an empty one not in objects.\<close>

fun node_matches :: "string \<Rightarrow> u8 list option \<Rightarrow> node \<Rightarrow> base \<Rightarrow> bool" where
  "node_matches name None n b \<longleftrightarrow> path_is name b"
| "node_matches name (Some tok) NObj b \<longleftrightarrow> (if tok = [] then path_is name b else token_is tok b)"
| "node_matches name (Some tok) (NRinst i j k) b \<longleftrightarrow> False"
| "node_matches name (Some tok) n b \<longleftrightarrow> token_is tok b"

lemma node_matches_path [simp]: "node_matches name None = (\<lambda>n. path_is name)"
  by (intro ext) simp

lemma registered_node_base:
  "(n, b) \<in> set (object_nodes ob) \<Longrightarrow> get_base n ob = Some b"
  by (auto simp: object_nodes_def instance_nodes_def resource_nodes_def in_set_enumerate_eq split: if_splits)

section \<open>The search\<close>

lemma find_append: "List.find P (xs @ ys) = (case List.find P xs of None \<Rightarrow> List.find P ys | Some x \<Rightarrow> Some x)"
  by (induction xs) auto

lemma find_None_all: "(\<And>x. x \<in> set xs \<Longrightarrow> \<not> P x) \<Longrightarrow> List.find P xs = None"
  by (simp add: find_None_iff)

lemma find_map_list: "List.find P (map f xs) = map_option f (List.find (\<lambda>x. P (f x)) xs)"
  by (induction xs) auto

lemma find_some_concat:
  assumes "\<And>k x. f k x = map_option g (List.find P (ns k x))"
  shows "find_some m f xs = map_option g (List.find P (concat (map (\<lambda>(k, x). ns k x) (enumerate m xs))))"
  by (induction xs arbitrary: m) (auto simp: assms find_append split: option.split)

lemma find_resource_rinst_nodes:
  "find_resource_rinst name i j r =
     map_option fst (List.find (\<lambda>(n, b). path_is name b) (tl (resource_nodes i j r)))"
proof -
  have "find_some m (\<lambda>k ri. if path_is name (ri_base ri) then Some (NRinst i j k) else None) xs =
      map_option fst (List.find (\<lambda>(n, b). path_is name b) (map (\<lambda>(k, ri). (NRinst i j k, ri_base ri)) (enumerate m xs)))"
    for m xs
    by (induction xs arbitrary: m) auto
  from this [of 0 "r_instances r"] show ?thesis by (simp add: find_resource_rinst_def resource_nodes_def)
qed

lemma no_rinst_token: "List.find (\<lambda>(n, b). node_matches name (Some tok) n b) (tl (resource_nodes i j r)) = None"
  by (rule find_None_all) (auto simp: resource_nodes_def split: if_splits)

lemma find_resource_res_nodes:
  "find_resource_res name token i oi =
     map_option fst (List.find (\<lambda>(n, b). node_matches name token n b)
       (concat (map (\<lambda>(j, r). resource_nodes i j r) (enumerate 0 (oi_resources oi)))))"
  unfolding find_resource_res_def
proof (rule find_some_concat)
  fix j :: nat and r :: resource
  have c: "resource_nodes i j r = (NRes i j, r_base r) # tl (resource_nodes i j r)" by (simp add: resource_nodes_def)
  show "(case token of None \<Rightarrow> if path_is name (r_base r) then Some (NRes i j) else find_resource_rinst name i j r
       | Some tok \<Rightarrow> if token_is tok (r_base r) then Some (NRes i j) else None) =
     map_option fst (List.find (\<lambda>(n, b). node_matches name token n b) (resource_nodes i j r))"
    by (subst c) (simp add: find_resource_rinst_nodes no_rinst_token split: option.split)
qed

lemma find_resource_inst_nodes:
  "find_resource_inst name token ob =
     map_option fst (List.find (\<lambda>(n, b). node_matches name token n b)
       (concat (map (\<lambda>(i, oi). instance_nodes i oi) (enumerate 0 (o_instances ob)))))"
  unfolding find_resource_inst_def
  by (rule find_some_concat) (simp add: instance_nodes_def find_resource_res_nodes split: option.split)

lemma find_resource_in_nodes:
  "find_resource_in name token ob = map_option fst (List.find (\<lambda>(n, b). node_matches name token n b) (object_nodes ob))"
  by (simp add: find_resource_in_def object_nodes_def find_resource_inst_nodes split: option.split list.split)

lemma find_resource_nodes:
  "find_resource name token s =
     map_option fst (List.find (\<lambda>((k, n), b). node_matches name token n b) (registered_nodes s))"
proof -
  have "find_some m (\<lambda>_ k. map_option (Pair k) (find_resource_in name token (t_object (ns_tree k s)))) ks =
      map_option fst (List.find (\<lambda>((k, n), b). node_matches name token n b)
        (concat (map (\<lambda>k. map (\<lambda>(n, b). ((k, n), b)) (object_nodes (t_object (ns_tree k s)))) ks)))" for m ks
    by (induction ks arbitrary: m)
      (auto simp: find_append find_map_list find_resource_in_nodes case_prod_unfold split: option.split)
  then show ?thesis by (simp add: find_resource_def registered_nodes_def)
qed

lemma registered_nodes_base:
  "((k, n), b) \<in> set (registered_nodes s) \<Longrightarrow> get_base n (t_object (ns_tree k s)) = Some b"
  by (auto simp: registered_nodes_def dest: registered_node_base)

lemma found_node:
  assumes "find_resource name token s = Some (k, n)"
  shows "\<exists>b. get_base n (t_object (ns_tree k s)) = Some b \<and> node_matches name token n b"
proof -
  obtain b where "List.find (\<lambda>((k, n), b). node_matches name token n b) (registered_nodes s) = Some ((k, n), b)"
    using assms by (auto simp: find_resource_nodes)
  then have "((k, n), b) \<in> set (registered_nodes s)" "node_matches name token n b"
    by (auto simp: find_Some_iff in_set_conv_nth)
  then show ?thesis using registered_nodes_base by blast
qed

lemma not_found:
  "find_resource name token s = None \<Longrightarrow> list_all (\<lambda>((k, n), b). \<not> node_matches name token n b) (registered_nodes s)"
  by (auto simp: find_resource_nodes find_None_iff list_all_iff)

text \<open>C17: the search for a node by path or token, a loop at each of the four levels, finds the same as one
  pass over the nodes of the registered objects in document order: the first that matches, which is a node of the tree with that path or
  token, and nothing only if none matches.\<close>

theorem find_resource_document_order:
  "find_resource name token s =
     map_option fst (List.find (\<lambda>((k, n), b). node_matches name token n b) (registered_nodes s)) \<and>
   (case find_resource name token s of
      None \<Rightarrow> list_all (\<lambda>((k, n), b). \<not> node_matches name token n b) (registered_nodes s)
    | Some (k, n) \<Rightarrow> \<exists>b. get_base n (t_object (ns_tree k s)) = Some b \<and> node_matches name token n b)"
proof (cases "find_resource name token s")
  case None
  then show ?thesis using not_found [OF None] find_resource_nodes [of name token s] by simp
next
  case (Some a)
  then show ?thesis using found_node [of name token s "fst a" "snd a"] find_resource_nodes [of name token s]
    by (auto split: prod.split simp del: get_base.simps)
qed

end
