(* ===== verification/NsdlInterface.thy ===== *)
theory NsdlInterface
  imports NsdlState
begin

text \<open>
  \<open>M2MNsdlInterface\<close> as a client of the CoAP library: the endpoint and its life time, the registration of the nodes at the
  library, the messages to the server, timers and notifications, after \<open>source/m2mnsdlinterface.cpp\<close>. \<open>None\<close> is a null
  pointer that is read. Both timers repeat.
\<close>

section \<open>The endpoint\<close>

text \<open>The buffer has room for every 64-bit number; the argument is a 32-bit one.\<close>

definition set_endpoint_lifetime_buffer :: "i32 \<Rightarrow> nsdl \<Rightarrow> nsdl option" where
  "set_endpoint_lifetime_buffer lifetime s = do {
     buffer \<leftarrow> itoa_c (sint lifetime);
     Some (if length buffer \<le> 21
           then s\<lparr>ns_endpoint := map_option (\<lambda>e. e\<lparr>ep_lifetime := Some buffer\<rparr>) (ns_endpoint s)\<rparr> else s) }"

definition string_or_null :: "string \<Rightarrow> string option" where
  "string_or_null t = (if t = [] then None else Some t)"

definition create_endpoint :: "string \<Rightarrow> string \<Rightarrow> i32 \<Rightarrow> string \<Rightarrow> u8 \<Rightarrow> nsdl \<Rightarrow> nsdl option" where
  "create_endpoint name type life_time dmn m s =
     (let s1 = s\<lparr>ns_endpoint_name := name\<rparr>
      in case ns_endpoint s1 of None \<Rightarrow> Some s1
         | Some _ \<Rightarrow>
             (let s2 = s1\<lparr>ns_endpoint := Some \<lparr>ep_name = string_or_null name, ep_type = string_or_null type,
                    ep_domain = string_or_null dmn, ep_mode = m, ep_lifetime = None\<rparr>\<rparr>
              in if sint life_time > 0 then set_endpoint_lifetime_buffer life_time s2 else Some s2))"

definition delete_endpoint :: "nsdl \<Rightarrow> nsdl" where
  "delete_endpoint s = s\<lparr>ns_endpoint := None\<rparr>"

abbreviation OPTIMUM_LIFETIME :: u64 where "OPTIMUM_LIFETIME \<equiv> 3600"
abbreviation REDUCE_LIFETIME :: u64 where "REDUCE_LIFETIME \<equiv> 900"
definition REDUCTION_FACTOR :: rat where "REDUCTION_FACTOR = 3 / 4"

text \<open>The product of a \<open>float\<close> and the number converted to one, cut off to an integer.\<close>

definition reduced_lifetime :: "u64 \<Rightarrow> u64" where
  "reduced_lifetime v =
     (case f32 (of_int (uint v)) of
        Fin r \<Rightarrow> (case f32 (REDUCTION_FACTOR * r) of Fin q \<Rightarrow> word_of_int \<lfloor>q\<rfloor> | _ \<Rightarrow> 0)
      | _ \<Rightarrow> 0)"

definition registration_time :: "nsdl \<Rightarrow> u64" where
  "registration_time s =
     (let v = (case ns_endpoint s of None \<Rightarrow> 0
          | Some e \<Rightarrow> (case ep_lifetime e of None \<Rightarrow> 0 | Some t \<Rightarrow> word_of_int (atoll t)))
      in if v \<ge> OPTIMUM_LIFETIME then v - REDUCE_LIFETIME else reduced_lifetime v)"

section \<open>Nodes at the library\<close>

text \<open>Every node gets an observation handler, its object's, before it is handed to the library.\<close>

definition create_nsdl_resource :: "nsdl_lib \<Rightarrow> node_ref \<Rightarrow> nsdl \<Rightarrow> nsdl \<times> bool" where
  "create_nsdl_resource lib a s =
     (let (k, n) = a;
          t = ns_tree k s;
          s1 = (if \<not> o_handler (t_object t) then ns_set_tree k (base_set_observation_handler True t) s else s);
          path = with_base n [] bs_path t;
          result = lib_put lib (ns_out s1) path
      in (out [PutResource a path] s1, result = 0 \<or> result = -2))"

fun create_all_until_failure :: "nsdl_lib \<Rightarrow> node_ref list \<Rightarrow> nsdl \<Rightarrow> nsdl \<times> bool" where
  "create_all_until_failure lib [] s = (s, True)"
| "create_all_until_failure lib (a # as) s =
     (let (s1, success) = create_nsdl_resource lib a s
      in if success then create_all_until_failure lib as s1 else (s1, False))"

definition create_nsdl_resource_structure :: "nsdl_lib \<Rightarrow> nat \<Rightarrow> nat \<Rightarrow> nat \<Rightarrow> bool \<Rightarrow> nsdl \<Rightarrow> nsdl \<times> bool" where
  "create_nsdl_resource_structure lib k i j multiple_instances s =
     (if multiple_instances then
        (let n = length (r_instances (tree_res i j (ns_tree k s)))
         in if n = 0 then (s, False)
            else (let (s1, success) = create_all_until_failure lib (map (\<lambda>m. (k, NRinst i j m)) [0..<n]) s
                  in if success then create_nsdl_resource lib (k, NRes i j) s1 else (s1, False)))
      else create_nsdl_resource lib (k, NRes i j) s)"

text \<open>A loop in which each step overwrites the success of the one before.\<close>

fun last_success :: "('a \<Rightarrow> nsdl \<Rightarrow> nsdl \<times> bool) \<Rightarrow> bool \<Rightarrow> 'a list \<Rightarrow> nsdl \<Rightarrow> nsdl \<times> bool" where
  "last_success f b [] s = (s, b)"
| "last_success f b (x # xs) s = (let (s1, success) = f x s in last_success f success xs s1)"

definition create_nsdl_object_instance_structure :: "nsdl_lib \<Rightarrow> nat \<Rightarrow> nat \<Rightarrow> nsdl \<Rightarrow> nsdl \<times> bool" where
  "create_nsdl_object_instance_structure lib k i s =
     (let (s1, success) = last_success
            (\<lambda>j s. create_nsdl_resource_structure lib k i j (supports_multiple_instances (tree_res i j (ns_tree k s))) s)
            False [0..<length (oi_resources (tree_inst i (ns_tree k s)))] s
      in if with_base (NInst i) NOT_ALLOWED bs_access (ns_tree k s1) \<noteq> NOT_ALLOWED
         then create_nsdl_resource lib (k, NInst i) s1 else (s1, success))"

definition create_nsdl_object_structure :: "nsdl_lib \<Rightarrow> nat \<Rightarrow> nsdl \<Rightarrow> nsdl \<times> bool" where
  "create_nsdl_object_structure lib k s =
     (let (s1, success) = last_success (create_nsdl_object_instance_structure lib k) False
            [0..<length (o_instances (t_object (ns_tree k s)))] s
      in if with_base NObj NOT_ALLOWED bs_access (ns_tree k s1) \<noteq> NOT_ALLOWED
         then create_nsdl_resource lib (k, NObj) s1 else (s1, success))"

definition create_nsdl_list_structure :: "nsdl_lib \<Rightarrow> nat list \<Rightarrow> nsdl \<Rightarrow> nsdl \<times> bool" where
  "create_nsdl_list_structure lib object_list s =
     last_success (\<lambda>k s. let (s1, success) = create_nsdl_object_structure lib k s in (fst (add_object_to_list k s1), success))
       False object_list s"

definition remove_nsdl_resource :: "nsdl_lib \<Rightarrow> string \<Rightarrow> nsdl \<Rightarrow> nsdl \<times> bool" where
  "remove_nsdl_resource lib path s = (out [PopResource path] s, lib_pop lib (ns_out s) path)"

definition resource_to_be_deleted :: "nsdl_lib \<Rightarrow> string \<Rightarrow> nsdl \<Rightarrow> nsdl" where
  "resource_to_be_deleted lib path s = fst (remove_nsdl_resource lib path s)"

section \<open>Messages to the server\<close>

definition set_server_address :: "u8 list \<Rightarrow> u16 \<Rightarrow> nsdl \<Rightarrow> nsdl" where
  "set_server_address address port s = out [SetNspAddress address port] s"

definition create_bootstrap_resource :: "nsdl_lib \<Rightarrow> coap_address \<Rightarrow> string \<Rightarrow> nsdl \<Rightarrow> (nsdl \<times> bool) option" where
  "create_bootstrap_resource lib address endpoint s = do {
     e \<leftarrow> ns_endpoint s;
     let e1 = e\<lparr>ep_name := Some endpoint\<rparr>;
     let s1 = s\<lparr>ns_identity_accepted := False, ns_endpoint := Some e1\<rparr>;
     Some (if ns_bootstrap_id s1 = 0 then
             (let bid = lib_bootstrap lib (ns_out s1)
              in (out [OmaBootstrap e1 address] (s1\<lparr>ns_bootstrap_id := bid\<rparr>), bid \<noteq> 0))
           else (s1, False)) }"

definition ONE_SECOND_TIMER :: u64 where "ONE_SECOND_TIMER = 1"

definition send_register_message :: "nsdl_lib \<Rightarrow> nsdl \<Rightarrow> nsdl \<times> bool" where
  "send_register_message lib s =
     (let s1 = out [StopNsdlTimer NsdlExecutionTimer, StartNsdlTimer NsdlExecutionTimer (ONE_SECOND_TIMER * 1000)] s
      in (out [RegisterEndpoint (ns_endpoint s1)] s1, lib_register lib (ns_out s1) \<noteq> 0))"

definition start_registration_timer :: "nsdl \<Rightarrow> nsdl" where
  "start_registration_timer s =
     out [StopNsdlTimer RegistrationTimer, StartNsdlTimer RegistrationTimer (registration_time s * 1000)] s"

definition send_update_registration :: "nsdl_lib \<Rightarrow> u32 \<Rightarrow> nsdl \<Rightarrow> (nsdl \<times> bool) option" where
  "send_update_registration lib lifetime s =
     (let s1 = fst (create_nsdl_list_structure lib (ns_object_list s) s)
      in if lifetime \<noteq> 0 then do {
           s2 \<leftarrow> set_endpoint_lifetime_buffer (ucast lifetime)
             (s1\<lparr>ns_endpoint := map_option (\<lambda>e. e\<lparr>ep_lifetime := None\<rparr>) (ns_endpoint s1)\<rparr>);
           let s3 = start_registration_timer s2;
           Some (case ns_endpoint s3 of
               Some e \<Rightarrow> if ep_lifetime e \<noteq> None
                 then (out [UpdateRegistration (ep_lifetime e)] s3, lib_update lib (ns_out s3) \<noteq> 0) else (s3, False)
             | None \<Rightarrow> (s3, False)) }
         else Some (out [UpdateRegistration None] s1, lib_update lib (ns_out s1) \<noteq> 0))"

definition send_unregister_message :: "nsdl_lib \<Rightarrow> nsdl \<Rightarrow> nsdl \<times> bool" where
  "send_unregister_message lib s =
     (if ns_unregister_ongoing s then (s, True)
      else (let s1 = s\<lparr>ns_unregister_ongoing := True\<rparr>
            in (out [UnregisterEndpoint] s1, lib_unregister lib (ns_out s1) \<noteq> 0)))"

definition send_to_server_callback :: "u8 list \<Rightarrow> nsdl \<Rightarrow> nsdl" where
  "send_to_server_callback data s = out [NotifyObserver (OnCoapMessageReady data)] s"

definition stop_timers :: "nsdl \<Rightarrow> nsdl" where
  "stop_timers s =
     out [StopNsdlTimer RegistrationTimer, StopNsdlTimer NsdlExecutionTimer]
       (s\<lparr>ns_bootstrap_id := 0, ns_unregister_ongoing := False\<rparr>)"

fun nsdl_timer_expired :: "nsdl_lib \<Rightarrow> nsdl_timer \<Rightarrow> nsdl \<Rightarrow> nsdl option" where
  "nsdl_timer_expired lib NsdlExecutionTimer s = Some (out [ExecuteNsdl (ns_counter s)] (s\<lparr>ns_counter := ns_counter s + 1\<rparr>))"
| "nsdl_timer_expired lib RegistrationTimer s = map_option fst (send_update_registration lib 0 s)"

definition send_coap :: "nsdl_lib \<Rightarrow> coap_response \<Rightarrow> nsdl \<Rightarrow> nsdl \<times> bool" where
  "send_coap lib r s = (out [SendCoap r] s, lib_send lib (ns_out s) r = 0)"

end
