(* ===== verification/NsdlObserve.thy ===== *)
theory NsdlObserve
  imports NsdlInterface
begin

text \<open>
  The observation handler side of \<open>M2MNsdlInterface\<close>: notifications, delayed responses and changed values,
  after \<open>source/m2mnsdlinterface.cpp\<close>. The kind of a node stands for its \<open>base_type()\<close>.
\<close>

section \<open>Notifications\<close>

definition observation_token_of :: "base \<Rightarrow> u8 list option" where
  "observation_token_of b = (case bs_report b of None \<Rightarrow> None | Some h \<Rightarrow> fst (rh_get_observation_token h))"

definition empty_message :: coap_response where
  "empty_message = \<lparr>rs_code = COAP_MSG_CODE_EMPTY, rs_type = TYPE_CONFIRMABLE, rs_id = 0, rs_status = STATUS_OK,
     rs_content_format = 0, rs_token = None, rs_payload = None, rs_options = None\<rparr>"

definition send_notification ::
  "nsdl_lib \<Rightarrow> u8 list option \<Rightarrow> u8 list option \<Rightarrow> u16 \<Rightarrow> u32 \<Rightarrow> u8 \<Rightarrow> nsdl \<Rightarrow> nsdl" where
  "send_notification lib token value observation age content_type s =
     (case env_options (lib_coap lib) empty_message of None \<Rightarrow> s
      | Some opts \<Rightarrow>
          fst (send_coap lib (empty_message\<lparr>rs_code := COAP_MSG_CODE_RESPONSE_CONTENT, rs_token := token, rs_payload := value,
              rs_content_format := uint content_type,
              rs_options := Some (opts\<lparr>opt_observe := uint observation, opt_max_age := age\<rparr>)\<rparr>) s))"

definition base_content_type :: "base \<Rightarrow> u8" where
  "base_content_type b = word_of_int (bs_content_type b)"

definition send_object_observation :: "nsdl_lib \<Rightarrow> nat \<Rightarrow> u16 \<Rightarrow> u16 list \<Rightarrow> bool \<Rightarrow> nsdl \<Rightarrow> nsdl" where
  "send_object_observation lib k obs_number changed_instance_ids send_object s =
     (let ob = t_object (ns_tree k s);
          b = o_base ob;
          serialize = tlv_serialize_instances (env_alloc (lib_coap lib)) (env_wr64 (lib_coap lib));
          changed = map (\<lambda>i. o_instances ob ! i) (List.map_filter (\<lambda>m. object_instance_of m ob) changed_instance_ids);
          value = (if send_object then serialize (o_instances ob)
                   else if changed \<noteq> [] then serialize changed else [])
      in send_notification lib (observation_token_of b) (payload_of value) obs_number (bs_max_age b) (base_content_type b) s)"

definition send_object_instance_observation :: "nsdl_lib \<Rightarrow> nat \<Rightarrow> nat \<Rightarrow> u16 \<Rightarrow> nsdl \<Rightarrow> nsdl" where
  "send_object_instance_observation lib k i obs_number s =
     (let oi = tree_inst i (ns_tree k s);
          b = oi_base oi;
          value = tlv_serialize_resources (env_alloc (lib_coap lib)) (env_wr64 (lib_coap lib)) (oi_resources oi)
      in send_notification lib (observation_token_of b) (payload_of value) obs_number (bs_max_age b) (base_content_type b) s)"

definition send_resource_observation :: "nsdl_lib \<Rightarrow> nat \<Rightarrow> nat \<Rightarrow> nat \<Rightarrow> u16 \<Rightarrow> nsdl \<Rightarrow> nsdl" where
  "send_resource_observation lib k i j obs_number s =
     (let r = tree_res i j (ns_tree k s);
          b = r_base r;
          multiple = resource_instance_count r > 0;
          value = (if multiple
            then payload_of (tlv_serialize_resource (env_alloc (lib_coap lib)) (env_wr64 (lib_coap lib)) r)
            else res_get_value b);
          content_type = (if multiple then COAP_CONTENT_OMA_TLV_TYPE
            else if bs_data_type b = OPAQUE then COAP_CONTENT_OMA_OPAQUE_TYPE else 0)
      in send_notification lib (observation_token_of b) value obs_number (bs_max_age b) (word_of_int content_type) s)"

definition observation_to_be_sent :: "nsdl_lib \<Rightarrow> node_ref option \<Rightarrow> u16 \<Rightarrow> u16 list \<Rightarrow> bool \<Rightarrow> nsdl \<Rightarrow> nsdl" where
  "observation_to_be_sent lib a obs_number changed_instance_ids send_object s =
     (case a of None \<Rightarrow> s
      | Some (k, NObj) \<Rightarrow> send_object_observation lib k obs_number changed_instance_ids send_object s
      | Some (k, NInst i) \<Rightarrow> send_object_instance_observation lib k i obs_number s
      | Some (k, NRes i j) \<Rightarrow> send_resource_observation lib k i j obs_number s
      | Some (k, NRinst i j m) \<Rightarrow> s)"

text \<open>The value of a resource whose function was executed before, under the token kept for it.\<close>

definition get_delayed_token :: "resource \<Rightarrow> u8 list option" where
  "get_delayed_token r = (case r_delayed_token r of Some (b # bs) \<Rightarrow> Some (b # bs) | _ \<Rightarrow> None)"

definition send_delayed_response :: "nsdl_lib \<Rightarrow> node_ref option \<Rightarrow> nsdl \<Rightarrow> nsdl" where
  "send_delayed_response lib a s =
     (case a of
        Some (k, NRes i j) \<Rightarrow>
          (let r = tree_res i j (ns_tree k s)
           in fst (send_coap lib (empty_message\<lparr>rs_code := COAP_MSG_CODE_RESPONSE_CONTENT, rs_token := get_delayed_token r,
                 rs_payload := res_get_value (r_base r)\<rparr>) s))
      | _ \<Rightarrow> s)"

definition set_delayed_response :: "nat \<Rightarrow> nat \<Rightarrow> bool \<Rightarrow> tree \<Rightarrow> tree" where
  "set_delayed_response i j delayed_response =
     on_object (upd_inst i (upd_res j (\<lambda>r. r\<lparr>r_delayed_response := delayed_response\<rparr>)))"

definition send_delayed_post_response :: "nsdl_lib \<Rightarrow> nat \<Rightarrow> nat \<Rightarrow> nat \<Rightarrow> nsdl \<Rightarrow> nsdl \<times> bool" where
  "send_delayed_post_response lib k i j s =
     (let t = ns_tree k s
      in if r_delayed_response (tree_res i j t) then
           (if o_handler (t_object t) then send_delayed_response lib (Some (k, NRes i j)) s else s, True)
         else (s, False))"

section \<open>Changed values\<close>

definition value_updated :: "nsdl_lib \<Rightarrow> node_ref option \<Rightarrow> nsdl \<Rightarrow> nsdl" where
  "value_updated lib a s =
     (case a of None \<Rightarrow> out [ObserverValue None] s
      | Some (k, n) \<Rightarrow>
          (let t = ns_tree k s;
               (s1, name) = (case n of
                   NObj \<Rightarrow> (fst (create_nsdl_object_structure lib k s), object_name (t_object t))
                 | NInst i \<Rightarrow> (fst (create_nsdl_object_instance_structure lib k i s), object_name (t_object t))
                 | NRes i j \<Rightarrow> (fst (create_nsdl_resource_structure lib k i j
                       (supports_multiple_instances (tree_res i j t)) s), resource_name (tree_res i j t))
                 | NRinst i j m \<Rightarrow> (fst (create_nsdl_resource lib (k, n) s), resource_name (tree_res i j t)))
           in out [if lib_value_callback lib (k, n) then ExecuteValueUpdated (k, n) name else ObserverValue (Some (k, n))] s1))"

end
