(* ===== verification/NsdlBootstrap.thy ===== *)
theory NsdlBootstrap
  imports NsdlObserve
begin

text \<open>
  The bootstrap requests \<open>M2MNsdlInterface\<close> answers, after \<open>source/m2mnsdlinterface.cpp\<close>: writes to the security and
  the server object, the deletion of the security object and the end of the bootstrap, with the check
  of what was received. \<open>None\<close> is a null pointer that is read.
\<close>

definition coap_to_string :: "string option \<Rightarrow> string" where
  "coap_to_string p = (case p of None \<Rightarrow> [] | Some t \<Rightarrow> t)"

text \<open>What the state machine of the client reads of a security object.\<close>

definition security_view :: "m2m_security \<Rightarrow> security option" where
  "security_view sec = map_option (\<lambda>m.
     \<lparr>sec_object = 0, sec_kind = (case se_type sec of ST_Bootstrap \<Rightarrow> server_kind.BootstrapServer | ST_M2MServer \<Rightarrow> LWM2MServer),
      sec_uri = security_value_string M2MServerUri sec, sec_mode = uint m\<rparr>)
     (security_value_int SecurityMode sec)"

definition handle_bootstrap_error :: "nsdl \<Rightarrow> nsdl" where
  "handle_bootstrap_error s =
     out [NotifyObserver OnBootstrapError] (s\<lparr>ns_identity_accepted := False, ns_security := None\<rparr>)"

definition answer_with :: "nsdl_lib \<Rightarrow> coap_msg \<Rightarrow> coap_code \<Rightarrow> nsdl \<Rightarrow> nsdl" where
  "answer_with lib req code s =
     (case env_build (lib_coap lib) (Some req) code of None \<Rightarrow> s | Some r \<Rightarrow> fst (send_coap lib r s))"

abbreviation Certificate :: u32 where "Certificate \<equiv> 2"
abbreviation NoSecurityMode :: u32 where "NoSecurityMode \<equiv> 3"

definition security_value_length :: "security_resource \<Rightarrow> m2m_security \<Rightarrow> nat option" where
  "security_value_length r sec = map_option value_len (security_base r sec)"

definition validate_security_object :: "m2m_security option \<Rightarrow> bool option" where
  "validate_security_object security =
     (case security of None \<Rightarrow> Some False
      | Some sec \<Rightarrow> do {
          let address = security_value_string M2MServerUri sec;
          mode \<leftarrow> security_value_int SecurityMode sec;
          bs \<leftarrow> security_value_int security_resource.BootstrapServer sec;
          let is_bs_server = (bs \<noteq> 0);
          public_key_size \<leftarrow> security_value_length PublicKey sec;
          server_key_size \<leftarrow> security_value_length ServerPublicKey sec;
          pkey_size \<leftarrow> security_value_length Secretkey sec;
          Some (if address \<noteq> [] \<and> \<not> is_bs_server then
                  (if mode = Certificate then public_key_size \<noteq> 0 \<and> server_key_size \<noteq> 0 \<and> pkey_size \<noteq> 0
                   else mode = NoSecurityMode)
                else False) })"

text \<open>The payload decides between whole instances and resources; \<open>instance_id\<close> is the first number in it.\<close>

definition on_tree :: "(tree \<Rightarrow> (tlv_error \<times> tree) option) \<Rightarrow> std_object \<Rightarrow> (tlv_error \<times> std_object) option" where
  "on_tree f so = map_option (\<lambda>(e, t). (e, so\<lparr>so_tree := t\<rparr>)) (f (so_tree so))"

definition parse_into :: "u8 list option \<Rightarrow> nat \<Rightarrow> bool \<Rightarrow> tlv_operation \<Rightarrow> std_object \<Rightarrow> (tlv_error \<times> std_object) option" where
  "parse_into payload len is_obj_instance op so =
     (if is_obj_instance then on_tree (deserialise_object_instances payload len TlvPut) so
      else do {
        p \<leftarrow> payload;
        instance_id \<leftarrow> tlv_instance_id p;
        i \<leftarrow> object_instance_of instance_id (t_object (so_tree so));
        on_tree (deserialize_resources payload len i op) so })"

definition parse_bootstrap_message :: "coap_msg \<Rightarrow> bool \<Rightarrow> nsdl \<Rightarrow> (bool \<times> nsdl) option" where
  "parse_bootstrap_message req is_security_object s =
     (case ns_security s of None \<Rightarrow> Some (False, s)
      | Some sec \<Rightarrow> do {
          is_obj_instance \<leftarrow> is_object_instance (cm_payload req);
          ret \<leftarrow> (if is_obj_instance then Some True else is_resource (cm_payload req));
          if \<not> ret then Some (False, s)
          else if is_security_object then do {
            (error, so) \<leftarrow> parse_into (cm_payload req) (payload_len req) is_obj_instance TlvPut (se_object sec);
            Some (error = TlvNone, s\<lparr>ns_security := Some (sec\<lparr>se_object := so\<rparr>)\<rparr>) }
          else do {
            (error, so) \<leftarrow> parse_into (cm_payload req) (payload_len req) is_obj_instance TlvPost (ns_server s);
            Some (error = TlvNone, s\<lparr>ns_server := so\<rparr>) } })"

definition security_set_operations :: "u8 \<Rightarrow> m2m_security \<Rightarrow> m2m_security option" where
  "security_set_operations opr sec =
     (let so = se_object sec; ob = t_object (so_tree so)
      in map_option (\<lambda>i. sec\<lparr>se_object := so\<lparr>so_tree := (so_tree so)\<lparr>t_object :=
             upd_inst i (\<lambda>oi. oi\<lparr>oi_resources := map (upd_r_base (base_set_operation opr)) (oi_resources oi)\<rparr>) ob\<rparr>\<rparr>\<rparr>)
           (object_instance_of 0 ob))"

definition acknowledge_token :: "nsdl_lib \<Rightarrow> coap_msg \<Rightarrow> nsdl \<Rightarrow> nsdl" where
  "acknowledge_token lib req s =
     (if cm_token req = None then s
      else (case env_build (lib_coap lib) (Some req) COAP_MSG_CODE_EMPTY of None \<Rightarrow> s
        | Some r \<Rightarrow> fst (send_coap lib (r\<lparr>rs_type := TYPE_ACKNOWLEDGEMENT\<rparr>) s)))"

text \<open>A write in three steps: which object it is for, with its operations opened, the payload, and the answer.\<close>

definition bootstrap_put_object :: "coap_msg \<Rightarrow> nsdl \<Rightarrow> (bool \<times> bool \<times> nsdl) option" where
  "bootstrap_put_object req s =
     (let sec = (case ns_security s of None \<Rightarrow> security_new ST_M2MServer | Some sec \<Rightarrow> sec);
          s1 = s\<lparr>ns_security := Some sec\<rparr>;
          name = coap_to_string (cm_uri_path req)
      in if starts_with name ''0'' then do {
           (sec1, _) \<leftarrow> security_create_resource SecurityShortServerID 1 sec;
           sec2 \<leftarrow> security_set_operations PUT_ALLOWED sec1;
           Some (True, True, s1\<lparr>ns_security := Some sec2\<rparr>) }
         else Some (starts_with name ''1'', False, s1))"

definition bootstrap_put_payload :: "nsdl_lib \<Rightarrow> coap_msg \<Rightarrow> bool \<Rightarrow> nsdl \<Rightarrow> (bool \<times> nsdl) option" where
  "bootstrap_put_payload lib req security_object s =
     (let s1 = acknowledge_token lib req s
      in if content_type_of req \<noteq> COAP_CONTENT_OMA_TLV_TYPE then Some (False, s1)
         else do {
           (success, s2) \<leftarrow> parse_bootstrap_message req security_object s1;
           s3 \<leftarrow> (case ns_security s2 of None \<Rightarrow> Some s2
             | Some sec \<Rightarrow> map_option (\<lambda>sec. s2\<lparr>ns_security := Some sec\<rparr>) (security_set_operations NOT_ALLOWED sec));
           Some (success, s3) })"

definition handle_bootstrap_put_message :: "nsdl_lib \<Rightarrow> coap_msg \<Rightarrow> nsdl \<Rightarrow> nsdl option" where
  "handle_bootstrap_put_message lib req s = do {
     (found, security_object, s1) \<leftarrow> bootstrap_put_object req s;
     (success, s2) \<leftarrow> (if found then bootstrap_put_payload lib req security_object s1 else Some (False, s1));
     Some (if success then answer_with lib req COAP_MSG_CODE_RESPONSE_CHANGED s2
           else answer_with lib req COAP_MSG_CODE_RESPONSE_BAD_REQUEST (handle_bootstrap_error s2)) }"

definition handle_bootstrap_finished :: "nsdl_lib \<Rightarrow> coap_msg \<Rightarrow> nsdl \<Rightarrow> nsdl option" where
  "handle_bootstrap_finished lib req s = do {
     let object_name = coap_to_string (cm_uri_path req);
     valid \<leftarrow> (if object_name \<noteq> ''bs'' then Some False else validate_security_object (ns_security s));
     if valid then do {
       sec \<leftarrow> ns_security s;
       ssid \<leftarrow> security_value_int SecurityShortServerID sec;
       (server, _) \<leftarrow> server_set_int ServerShortServerID ssid (ns_server s);
       let s1 = answer_with lib req COAP_MSG_CODE_RESPONSE_CHANGED (s\<lparr>ns_server := server\<rparr>);
       e \<leftarrow> ns_endpoint s1;
       view \<leftarrow> security_view sec;
       Some (out [NotifyObserver (OnBootstrapWait (Some view))]
         (s1\<lparr>ns_endpoint := Some (e\<lparr>ep_name := Some (ns_endpoint_name s1)\<rparr>)\<rparr>)) }
     else Some (handle_bootstrap_error (answer_with lib req COAP_MSG_CODE_RESPONSE_BAD_REQUEST s)) }"

definition handle_bootstrap_delete :: "nsdl_lib \<Rightarrow> coap_msg \<Rightarrow> nsdl \<Rightarrow> nsdl" where
  "handle_bootstrap_delete lib req s =
     (let object_name = coap_to_string (cm_uri_path req);
          msg_code = (if \<not> ns_identity_accepted s then COAP_MSG_CODE_RESPONSE_BAD_REQUEST
            else if length object_name = 2 \<or> length object_name > 3 then COAP_MSG_CODE_RESPONSE_BAD_REQUEST
            else if (length object_name = 1 \<and> object_name \<noteq> ''0'') \<or> (length object_name = 3 \<and> object_name \<noteq> ''0/0'')
            then COAP_MSG_CODE_RESPONSE_BAD_REQUEST
            else COAP_MSG_CODE_RESPONSE_DELETED);
          response = env_build (lib_coap lib) (Some req) msg_code;
          s1 = (case response of None \<Rightarrow> s
            | Some r \<Rightarrow>
                (let s1 = fst (send_coap lib r s)
                 in s1\<lparr>ns_security := map_option security_clear_resources (ns_security s1)\<rparr>))
      in if response = None \<or> msg_code \<noteq> COAP_MSG_CODE_RESPONSE_DELETED then handle_bootstrap_error s1 else s1)"

end
