(* ===== verification/NsdlCallbacks.thy ===== *)
theory NsdlCallbacks
  imports NsdlBootstrap
begin

text \<open>
  The two callbacks of the CoAP library into \<open>M2MNsdlInterface\<close>: requests for nodes it knows, and all other messages of the
  server, after \<open>source/m2mnsdlinterface.cpp\<close> and \<open>source/nsdlaccesshelper.cpp\<close>. \<open>None\<close> is a null pointer that is
  read or a pointer cast to the wrong class. What the class reads of the library's handle is a record.
\<close>

section \<open>Messages\<close>

record nsdl_msg = coap_msg +
  nm_type :: coap_msg_type
  nm_sending_failed :: bool

record nsdl_handle =
  nh_register_id :: u16
  nh_unregister_id :: u16
  nh_update_id :: u16
  nh_bootstrap_id :: u16
  nh_bs_address :: "u8 list"
  nh_bs_port :: u16

definition interface_error :: "nsdl_msg \<Rightarrow> m2m_error" where
  "interface_error m =
     (let error = (case cm_code m of
           COAP_MSG_CODE_RESPONSE_BAD_REQUEST \<Rightarrow> InvalidParameters
         | COAP_MSG_CODE_RESPONSE_BAD_OPTION \<Rightarrow> InvalidParameters
         | COAP_MSG_CODE_RESPONSE_REQUEST_ENTITY_INCOMPLETE \<Rightarrow> InvalidParameters
         | COAP_MSG_CODE_RESPONSE_PRECONDITION_FAILED \<Rightarrow> InvalidParameters
         | COAP_MSG_CODE_RESPONSE_REQUEST_ENTITY_TOO_LARGE \<Rightarrow> InvalidParameters
         | COAP_MSG_CODE_RESPONSE_UNSUPPORTED_CONTENT_FORMAT \<Rightarrow> InvalidParameters
         | COAP_MSG_CODE_RESPONSE_UNAUTHORIZED \<Rightarrow> NotAllowed
         | COAP_MSG_CODE_RESPONSE_FORBIDDEN \<Rightarrow> NotAllowed
         | COAP_MSG_CODE_RESPONSE_NOT_ACCEPTABLE \<Rightarrow> NotAllowed
         | COAP_MSG_CODE_RESPONSE_NOT_FOUND \<Rightarrow> NotAllowed
         | COAP_MSG_CODE_RESPONSE_METHOD_NOT_ALLOWED \<Rightarrow> NotAllowed
         | COAP_MSG_CODE_RESPONSE_CREATED \<Rightarrow> NoError
         | COAP_MSG_CODE_RESPONSE_DELETED \<Rightarrow> NoError
         | COAP_MSG_CODE_RESPONSE_VALID \<Rightarrow> NoError
         | COAP_MSG_CODE_RESPONSE_CHANGED \<Rightarrow> NoError
         | COAP_MSG_CODE_RESPONSE_CONTENT \<Rightarrow> NoError
         | _ \<Rightarrow> UnknownError)
      in if nm_sending_failed m then NetworkError else error)"

section \<open>Requests for known nodes\<close>

text \<open>A handler of a node, with this class as the observation handler.\<close>

definition run_handler :: "(tree \<Rightarrow> answer option) \<Rightarrow> nat \<Rightarrow> nsdl \<Rightarrow> (coap_response option \<times> bool \<times> nsdl) option" where
  "run_handler h k s = do {
     (response, execute_value_updated, os, t) \<leftarrow> h (ns_tree k s);
     Some (response, execute_value_updated, out (map (RequestOutput k) os) (ns_set_tree k t s)) }"

definition delete_instance_of :: "nat \<Rightarrow> u16 \<Rightarrow> nsdl \<Rightarrow> nsdl \<times> bool" where
  "delete_instance_of k instance_id s =
     (let t = ns_tree k s;
          (ob, es, success) = remove_object_instance instance_id (t_object t)
      in (ns_set_tree k (emit es (t\<lparr>t_object := ob\<rparr>)) s, success))"

definition resource_delete_request :: "string \<Rightarrow> node_ref \<Rightarrow> nsdl \<Rightarrow> (coap_code \<times> nsdl) option" where
  "resource_delete_request name a s =
     (case snd a of
        NInst i \<Rightarrow>
          (case find_resource (with_base (snd a) [] bs_path (ns_tree (fst a) s)) None s of
             None \<Rightarrow> Some (COAP_MSG_CODE_RESPONSE_CHANGED, s)
           | Some (k, NInst i') \<Rightarrow>
               (let slash_found = string_find_last CHR ''/'' name
                in if slash_found \<noteq> -1 then
                     (let obj = string_substr (nat slash_found + 1) (length name) name;
                          (s1, success) = delete_instance_of k (word_of_int (strtoul (cstr obj))) s
                      in Some (if success then COAP_MSG_CODE_RESPONSE_DELETED else COAP_MSG_CODE_RESPONSE_CHANGED, s1))
                   else Some (COAP_MSG_CODE_RESPONSE_CHANGED, s))
           | Some _ \<Rightarrow> None)
      | _ \<Rightarrow> Some (COAP_MSG_CODE_RESPONSE_BAD_REQUEST, s))"

text \<open>The response, whether the value was changed and the code of a response still to be built.\<close>

definition resource_request :: "nsdl_lib \<Rightarrow> coap_msg \<Rightarrow> string \<Rightarrow> nsdl \<Rightarrow>
    (coap_response option \<times> bool \<times> coap_code \<times> nsdl) option" where
  "resource_request lib req name s =
     (case find_resource name None s of
        None \<Rightarrow> Some (None, False, COAP_MSG_CODE_RESPONSE_BAD_REQUEST, s)
      | Some (k, n) \<Rightarrow>
          (case cm_code req of
             COAP_MSG_CODE_REQUEST_GET \<Rightarrow> do {
               (r, _, s1) \<leftarrow> run_handler (handle_get (lib_coap lib) True n (Some req)) k s;
               Some (r, False, COAP_MSG_CODE_RESPONSE_CHANGED, s1) }
           | COAP_MSG_CODE_REQUEST_PUT \<Rightarrow> do {
               (r, updated, s1) \<leftarrow> run_handler (handle_put (lib_coap lib) True n (Some req)) k s;
               Some (r, updated, COAP_MSG_CODE_RESPONSE_CHANGED, s1) }
           | COAP_MSG_CODE_REQUEST_POST \<Rightarrow>
               (case n of NRinst i j m \<Rightarrow> Some (None, False, COAP_MSG_CODE_RESPONSE_BAD_REQUEST, s)
                | _ \<Rightarrow> do {
                    (r, updated, s1) \<leftarrow> run_handler (handle_post (lib_coap lib) True n (Some req)) k s;
                    Some (r, updated, COAP_MSG_CODE_RESPONSE_CHANGED, s1) })
           | COAP_MSG_CODE_REQUEST_DELETE \<Rightarrow> do {
               (code, s1) \<leftarrow> resource_delete_request name (k, n) s;
               Some (None, False, code, s1) }
           | _ \<Rightarrow> Some (None, False, COAP_MSG_CODE_RESPONSE_CHANGED, s)))"

definition resource_callback :: "nsdl_lib \<Rightarrow> coap_msg \<Rightarrow> nsdl \<Rightarrow> (nsdl \<times> nat) option" where
  "resource_callback lib req s = do {
     let s0 = out [NotifyObserver OnCoapDataProcessed] s;
     let name = coap_to_string (cm_uri_path req);
     let base = find_resource name None s0;
     (response, updated, code, s1) \<leftarrow> resource_request lib req name s0;
     let response = (case response of Some r \<Rightarrow> Some r | None \<Rightarrow> env_build (lib_coap lib) (Some req) code);
     let (s2, result) = (case response of None \<Rightarrow> (s1, 1)
        | Some r \<Rightarrow>
            if rs_status r \<noteq> BLOCKWISE_MSG_RECEIVING \<and> rs_code r \<noteq> COAP_MSG_CODE_EMPTY
            then (let (s2, sent) = send_coap lib r s1 in (s2, if sent then 0 else 1)) else (s1, 1));
     Some (if updated \<and> (case response of None \<Rightarrow> False | Some r \<Rightarrow> rs_status r \<noteq> BLOCKWISE_MSG_RECEIVING)
           then value_updated lib base s2 else s2, result) }"

section \<open>Answers to the client's own requests\<close>

definition is_bootstrap_msg :: "nsdl_handle \<Rightarrow> coap_address option \<Rightarrow> bool" where
  "is_bootstrap_msg h address =
     (case address of None \<Rightarrow> False | Some (a, port) \<Rightarrow> nh_bs_address h = a \<and> nh_bs_port h = port)"

definition registration_answer :: "nsdl_msg \<Rightarrow> nsdl \<Rightarrow> nsdl option" where
  "registration_answer m s =
     (if cm_code m = COAP_MSG_CODE_RESPONSE_CREATED then do {
        let s1 = out [NotifyObserver (OnClientRegistered 0)] s;
        s2 \<leftarrow> (case cm_options m of None \<Rightarrow> Some s1
          | Some opts \<Rightarrow> do {
              e \<leftarrow> ns_endpoint s1;
              let s2 = s1\<lparr>ns_endpoint := Some (e\<lparr>ep_lifetime := None\<rparr>)\<rparr>;
              s3 \<leftarrow> (if opt_max_age opts > 0 then set_endpoint_lifetime_buffer (ucast (opt_max_age opts)) s2 else Some s2);
              Some (case opt_location_path opts of None \<Rightarrow> s3 | Some l \<Rightarrow> out [SetEndpointLocation l] s3) });
        e \<leftarrow> ns_endpoint s2;
        Some (if ep_lifetime e \<noteq> None then start_registration_timer s2 else s2) }
      else if cm_code m = COAP_MSG_CODE_RESPONSE_BAD_REQUEST \<or> cm_code m = COAP_MSG_CODE_RESPONSE_FORBIDDEN
      then Some (out [NotifyObserver (OnRegistrationError InvalidParameters False)] s)
      else Some (out [NotifyObserver (OnRegistrationError NetworkError True)] s))"

definition unregistration_answer :: "nsdl_msg \<Rightarrow> nsdl \<Rightarrow> nsdl" where
  "unregistration_answer m s =
     (let s1 = s\<lparr>ns_unregister_ongoing := False\<rparr>
      in if cm_code m = COAP_MSG_CODE_RESPONSE_DELETED
         then out [StopNsdlTimer RegistrationTimer, NotifyObserver OnClientUnregistered] s1
         else out [NotifyObserver (OnRegistrationError (interface_error m) False)] s1)"

definition update_answer :: "nsdl_msg \<Rightarrow> nsdl \<Rightarrow> nsdl" where
  "update_answer m s =
     (if cm_code m = COAP_MSG_CODE_RESPONSE_CHANGED then out [NotifyObserver (OnRegistrationUpdated 0)] s
      else out [StopNsdlTimer RegistrationTimer, RegisterEndpoint (ns_endpoint s)] s)"

definition bootstrap_answer :: "nsdl_msg \<Rightarrow> nsdl \<Rightarrow> nsdl" where
  "bootstrap_answer m s =
     (let s1 = s\<lparr>ns_bootstrap_id := 0\<rparr>
      in if interface_error m \<noteq> NoError then handle_bootstrap_error s1 else s1\<lparr>ns_identity_accepted := True\<rparr>)"

section \<open>Other messages of the server\<close>

text \<open>A POST on an instance that does not exist creates it.\<close>

definition create_by_post :: "nsdl_lib \<Rightarrow> coap_msg \<Rightarrow> nat \<Rightarrow> u16 \<Rightarrow> nsdl \<Rightarrow>
    (coap_response option \<times> node_ref option \<times> bool \<times> nsdl) option" where
  "create_by_post lib req k instance_id s = do {
     let t = ns_tree k s;
     let (t1, obj_instance) = tree_create_object_instance instance_id t;
     let s1 = ns_set_tree k t1 s;
     (response, updated, s2) \<leftarrow>
       (case obj_instance of None \<Rightarrow> Some (None, False, s1)
        | Some i \<Rightarrow>
            run_handler (instance_handle_post (lib_coap lib) True i (Some req)) k
              (ns_set_tree k (tree_upd (NInst i) (base_set_operation GET_PUT_POST_ALLOWED) (ns_tree k s1)) s1));
     s3 \<leftarrow> (case response of
         Some r \<Rightarrow> if rs_code r \<noteq> COAP_MSG_CODE_RESPONSE_CREATED then Some (fst (delete_instance_of k instance_id s2))
                   else map_option fst (send_update_registration lib 0 s2)
       | None \<Rightarrow> map_option fst (send_update_registration lib 0 s2));
     Some (response, map_option (\<lambda>i. (k, NInst i)) obj_instance, updated, s3) }"

definition post_request :: "nsdl_lib \<Rightarrow> coap_msg \<Rightarrow> nsdl \<Rightarrow>
    (coap_response option \<times> node_ref option \<times> bool \<times> nsdl) option" where
  "post_request lib req s =
     (let build = (\<lambda>code. Some (env_build (lib_coap lib) (Some req) code, None, False, s));
          resource_name = coap_to_string (cm_uri_path req);
          slash_found = string_find_last CHR ''/'' resource_name
      in if cm_uri_path req = None then Some (None, None, False, s)
         else if slash_found = -1 then build COAP_MSG_CODE_RESPONSE_NOT_FOUND
         else
           (let object_name = string_substr 0 (nat slash_found) resource_name
            in if string_find_last CHR ''/'' object_name \<noteq> -1 then build COAP_MSG_CODE_RESPONSE_NOT_FOUND
               else
                 (let instance_id = atoi (cstr (string_substr (nat slash_found + 1)
                        (length resource_name - length object_name) resource_name))
                  in case find_resource object_name None s of
                       None \<Rightarrow> build COAP_MSG_CODE_RESPONSE_METHOD_NOT_ALLOWED
                     | Some (k, n) \<Rightarrow>
                         if \<not> (instance_id \<ge> 0 \<and> instance_id < 65535) then build COAP_MSG_CODE_RESPONSE_METHOD_NOT_ALLOWED
                         else if cm_payload req = None then build COAP_MSG_CODE_RESPONSE_BAD_REQUEST
                         else if n \<noteq> NObj then None
                         else create_by_post lib req k (word_of_int instance_id) s)))"

text \<open>A reset cancels the observation with its token; an acknowledgement tells the resource with its token.\<close>

definition empty_message_received :: "nsdl_msg \<Rightarrow> nsdl \<Rightarrow> nsdl" where
  "empty_message_received m s =
     (case find_resource [] (cm_token m) s of None \<Rightarrow> s
      | Some (k, n) \<Rightarrow>
          if nm_type m = TYPE_RESET then
            (let t = ns_tree k s;
                 t1 = (case n of
                     NObj \<Rightarrow> on_object (o_remove_observation_level O_Attribute) t
                   | NInst i \<Rightarrow> on_object (upd_inst i (oi_remove_observation_level OI_Attribute)) t
                   | NRes i j \<Rightarrow> on_object (upd_inst i (upd_res j (r_remove_observation_level R_Attribute))) t
                   | NRinst i j l \<Rightarrow> t)
             in ns_set_tree k (base_set_under_observation n False True t1) s)
          else (case n of NRes i j \<Rightarrow> out [NotificationSent (k, n)] s | _ \<Rightarrow> s))"

definition server_request :: "nsdl_lib \<Rightarrow> bool \<Rightarrow> nsdl_msg \<Rightarrow> nsdl \<Rightarrow>
    (coap_response option \<times> node_ref option \<times> bool \<times> nsdl) option" where
  "server_request lib bs m s =
     (let req = coap_msg.truncate m;
          not_allowed = Some (env_build (lib_coap lib) (Some req) COAP_MSG_CODE_RESPONSE_METHOD_NOT_ALLOWED, None, False, s)
      in case cm_code m of
           COAP_MSG_CODE_REQUEST_PUT \<Rightarrow>
             if bs then map_option (\<lambda>s. (None, None, False, s)) (handle_bootstrap_put_message lib req s) else not_allowed
         | COAP_MSG_CODE_REQUEST_DELETE \<Rightarrow>
             if bs then Some (None, None, False, handle_bootstrap_delete lib req s) else not_allowed
         | COAP_MSG_CODE_REQUEST_POST \<Rightarrow>
             if bs then map_option (\<lambda>s. (None, None, False, s)) (handle_bootstrap_finished lib req s)
             else post_request lib req s
         | COAP_MSG_CODE_EMPTY \<Rightarrow> Some (None, None, False, empty_message_received m s)
         | _ \<Rightarrow> Some (None, None, False, s))"

definition received_from_server_callback ::
  "nsdl_lib \<Rightarrow> nsdl_handle option \<Rightarrow> nsdl_msg option \<Rightarrow> coap_address option \<Rightarrow> nsdl \<Rightarrow> (nsdl \<times> nat) option" where
  "received_from_server_callback lib handle msg address s =
     (let s0 = out [NotifyObserver OnCoapDataProcessed] s
      in case (handle, msg) of
           (Some h, Some m) \<Rightarrow>
             if cm_id m = nh_register_id h then map_option (\<lambda>s. (s, 0)) (registration_answer m s0)
             else if cm_id m = nh_unregister_id h then Some (unregistration_answer m s0, 0)
             else if cm_id m = nh_update_id h then Some (update_answer m s0, 0)
             else if cm_id m = nh_bootstrap_id h then Some (bootstrap_answer m s0, 0)
             else do {
               (response, obj_instance, updated, s1) \<leftarrow> server_request lib (is_bootstrap_msg h address) m s0;
               let (s2, result) = (case response of None \<Rightarrow> (s1, 0)
                  | Some r \<Rightarrow> (let (s2, sent) = send_coap lib r s1 in (s2, if sent then 0 else 1)));
               Some (if updated then value_updated lib obj_instance s2 else s2, result) }
         | _ \<Rightarrow> Some (s0, 0))"

section \<open>Received data\<close>

text \<open>
  The C functions the library is given. They find the class through the context of the handle, which is null until
  \<open>sn_nsdl_set_context\<close> has run; the payload of blocks is freed afterwards.
\<close>

definition nsdl_c_callback :: "nsdl_lib \<Rightarrow> bool \<Rightarrow> coap_msg \<Rightarrow> nsdl \<Rightarrow> (nsdl \<times> nat) option" where
  "nsdl_c_callback lib context req s = (if context then resource_callback lib req s else Some (s, 0))"

definition nsdl_c_send_to_server :: "bool \<Rightarrow> u8 list \<Rightarrow> nsdl \<Rightarrow> nsdl \<times> nat" where
  "nsdl_c_send_to_server context data s = (if context then (send_to_server_callback data s, 1) else (s, 0))"

definition nsdl_c_received_from_server ::
  "nsdl_lib \<Rightarrow> bool \<Rightarrow> nsdl_handle option \<Rightarrow> nsdl_msg option \<Rightarrow> coap_address option \<Rightarrow> nsdl \<Rightarrow> (nsdl \<times> nat) option" where
  "nsdl_c_received_from_server lib context handle msg address s =
     (if context then received_from_server_callback lib handle msg address s else Some (s, 0))"

text \<open>What the library makes of received data: calls of the functions in some order, and its result.\<close>

datatype library_call =
    ResourceCallback coap_msg
  | ServerCallback "nsdl_handle option" "nsdl_msg option" "coap_address option"
  | SendToServer "u8 list"

fun library_step :: "nsdl_lib \<Rightarrow> library_call \<Rightarrow> nsdl \<Rightarrow> nsdl option" where
  "library_step lib (ResourceCallback req) s = map_option fst (nsdl_c_callback lib True req s)"
| "library_step lib (ServerCallback h m a) s = map_option fst (nsdl_c_received_from_server lib True h m a s)"
| "library_step lib (SendToServer data) s = Some (fst (nsdl_c_send_to_server True data s))"

fun library_steps :: "nsdl_lib \<Rightarrow> library_call list \<Rightarrow> nsdl \<Rightarrow> nsdl option" where
  "library_steps lib [] s = Some s"
| "library_steps lib (c # cs) s = Option.bind (library_step lib c s) (library_steps lib cs)"

definition process_received_data :: "nsdl_lib \<Rightarrow> library_call list \<Rightarrow> int \<Rightarrow> u8 list \<Rightarrow> nsdl \<Rightarrow> (nsdl \<times> bool) option" where
  "process_received_data lib calls result data s =
     map_option (\<lambda>s. (s, result = 0)) (library_steps lib calls (out [ProcessCoap data] s))"

end
