(* ===== verification/NsdlFrames.thy ===== *)
theory NsdlFrames
  imports NsdlCallbacks RequestSpec
begin

text \<open>
  What the parts of the NSDL interface leave alone. The registration of nodes at the library changes the
  observation handler of objects only and calls nothing but \<open>sn_nsdl_put_resource\<close>; a handler of a node changes its
  tree only.
\<close>

section \<open>Registering nodes\<close>

fun is_put :: "nsdl_output \<Rightarrow> bool" where
  "is_put (PutResource a p) \<longleftrightarrow> True"
| "is_put v \<longleftrightarrow> False"

fun is_send :: "nsdl_output \<Rightarrow> bool" where
  "is_send (SendCoap r) \<longleftrightarrow> True"
| "is_send v \<longleftrightarrow> False"

text \<open>The messages among outputs, those of the interface and those a handler of a node sends itself.\<close>

fun messages :: "nsdl_output list \<Rightarrow> coap_response list" where
  "messages [] = []"
| "messages (SendCoap r # os) = r # messages os"
| "messages (RequestOutput k (MessageSent r) # os) = r # messages os"
| "messages (v # os) = messages os"

lemma messages_append [simp]: "messages (xs @ ys) = messages xs @ messages ys"
  by (induction xs rule: messages.induct) auto

definition unhandled :: "tree \<Rightarrow> tree" where
  "unhandled = base_set_observation_handler False"

definition handlers_kept :: "nsdl \<Rightarrow> nsdl \<Rightarrow> bool" where
  "handlers_kept s s' \<longleftrightarrow> (\<forall>k. o_handler (t_object (ns_tree k s)) \<longrightarrow> o_handler (t_object (ns_tree k s')))"

lemma handlers_kept_same: "ns_objects s' = ns_objects s \<Longrightarrow> handlers_kept s s'"
  by (simp add: handlers_kept_def ns_tree_def)

lemma handlers_kept_trans: "handlers_kept s s1 \<Longrightarrow> handlers_kept s1 s2 \<Longrightarrow> handlers_kept s s2"
  by (simp add: handlers_kept_def)

lemma handlers_kept_set: "handlers_kept s (ns_set_tree k (base_set_observation_handler True (ns_tree k s)) s)"
  by (cases "k < length (ns_objects s)")
    (simp_all add: handlers_kept_def ns_tree_def ns_set_tree_def base_set_observation_handler_def nth_list_update
      list_update_beyond)

definition registers_only :: "nsdl \<Rightarrow> nsdl \<Rightarrow> bool" where
  "registers_only s s' \<longleftrightarrow>
     map unhandled (ns_objects s') = map unhandled (ns_objects s) \<and>
     ns_endpoint s' = ns_endpoint s \<and> ns_endpoint_name s' = ns_endpoint_name s \<and> ns_security s' = ns_security s \<and>
     ns_server s' = ns_server s \<and> ns_identity_accepted s' = ns_identity_accepted s \<and>
     handlers_kept s s' \<and> (\<exists>os. ns_out s' = ns_out s @ os \<and> list_all is_put os)"

lemma registers_only_refl [simp]: "registers_only s s"
  by (simp add: registers_only_def handlers_kept_same)

lemma registers_only_trans: "registers_only s s1 \<Longrightarrow> registers_only s1 s2 \<Longrightarrow> registers_only s s2"
  by (auto simp: registers_only_def intro: handlers_kept_trans)

lemma put_no_send: "list_all is_put os \<Longrightarrow> messages os = []"
  by (induction os) (auto elim: is_put.elims)

lemma map_unhandled_handler:
  "map unhandled (ts[k := base_set_observation_handler h (ts ! k)]) = map unhandled ts"
  by (cases "k < length ts")
    (simp_all add: map_update unhandled_def base_set_observation_handler_def list_update_same_conv list_update_beyond)

lemma create_nsdl_resource_registers: "registers_only s (fst (create_nsdl_resource lib a s))"
proof -
  obtain k n where a: "a = (k, n)" by fastforce
  let ?s1 = "if \<not> o_handler (t_object (ns_tree k s))
    then ns_set_tree k (base_set_observation_handler True (ns_tree k s)) s else s"
  have "handlers_kept s ?s1" using handlers_kept_set [of s k] by (simp add: handlers_kept_same)
  moreover have "handlers_kept ?s1 (fst (create_nsdl_resource lib a s))"
    by (rule handlers_kept_same) (simp add: create_nsdl_resource_def out_def Let_def a)
  ultimately have "handlers_kept s (fst (create_nsdl_resource lib a s))" by (rule handlers_kept_trans)
  then show ?thesis
    by (simp add: a create_nsdl_resource_def registers_only_def out_def ns_set_tree_def ns_tree_def Let_def map_unhandled_handler)
qed

lemma create_all_registers: "registers_only s (fst (create_all_until_failure lib as s))"
proof (induction "as" arbitrary: s)
  case (Cons a "as")
  then show ?case using create_nsdl_resource_registers [of s lib a]
    by (auto simp: split_beta Let_def intro: registers_only_trans)
qed simp

lemma create_nsdl_resource_structure_registers:
  "registers_only s (fst (create_nsdl_resource_structure lib k i j multiple s))"
  by (auto simp: create_nsdl_resource_structure_def Let_def split_beta create_nsdl_resource_registers create_all_registers
      intro: registers_only_trans [OF create_all_registers create_nsdl_resource_registers])

lemma last_success_registers:
  assumes "\<And>x s. registers_only s (fst (f x s))"
  shows "registers_only s (fst (last_success f b xs s))"
proof (induction xs arbitrary: s b)
  case (Cons x xs)
  show ?case
    using registers_only_trans [OF assms [of s x] Cons.IH [of "fst (f x s)" "snd (f x s)"]] by (simp add: split_beta Let_def)
qed simp

lemma create_nsdl_object_instance_structure_registers:
  "registers_only s (fst (create_nsdl_object_instance_structure lib k i s))"
  unfolding create_nsdl_object_instance_structure_def Let_def split_beta
  by (auto intro!: last_success_registers create_nsdl_resource_structure_registers
      intro: registers_only_trans [OF _ create_nsdl_resource_registers])

lemma create_nsdl_object_structure_registers: "registers_only s (fst (create_nsdl_object_structure lib k s))"
  unfolding create_nsdl_object_structure_def Let_def split_beta
  by (auto intro!: last_success_registers create_nsdl_object_instance_structure_registers
      intro: registers_only_trans [OF _ create_nsdl_resource_registers])

lemma add_object_registers: "registers_only s (fst (add_object_to_list k s))"
  by (simp add: add_object_to_list_def registers_only_def handlers_kept_same)

lemma create_nsdl_list_structure_registers: "registers_only s (fst (create_nsdl_list_structure lib ks s))"
  unfolding create_nsdl_list_structure_def
  by (rule last_success_registers)
    (auto simp: split_beta Let_def intro: registers_only_trans [OF create_nsdl_object_structure_registers add_object_registers])

lemmas registers_rules = create_nsdl_resource_registers create_nsdl_resource_structure_registers
  create_nsdl_object_instance_structure_registers create_nsdl_object_structure_registers
  create_nsdl_list_structure_registers

section \<open>Outputs\<close>

lemma out_simps [simp]:
  "ns_out (out os s) = ns_out s @ os" "ns_objects (out os s) = ns_objects s" "ns_endpoint (out os s) = ns_endpoint s"
  "ns_object_list (out os s) = ns_object_list s" "ns_security (out os s) = ns_security s"
  "ns_server (out os s) = ns_server s" "ns_identity_accepted (out os s) = ns_identity_accepted s"
  "ns_endpoint_name (out os s) = ns_endpoint_name s" "ns_bootstrap_id (out os s) = ns_bootstrap_id s"
  "ns_unregister_ongoing (out os s) = ns_unregister_ongoing s" "ns_counter (out os s) = ns_counter s"
  by (simp_all add: out_def)

lemma set_tree_simps [simp]:
  "ns_out (ns_set_tree k t s) = ns_out s" "ns_endpoint (ns_set_tree k t s) = ns_endpoint s"
  "ns_object_list (ns_set_tree k t s) = ns_object_list s" "ns_security (ns_set_tree k t s) = ns_security s"
  "ns_identity_accepted (ns_set_tree k t s) = ns_identity_accepted s"
  by (simp_all add: ns_set_tree_def)

text \<open>The messages sent among the outputs from one state to another.\<close>

definition sent_since :: "nsdl \<Rightarrow> nsdl \<Rightarrow> coap_response list \<Rightarrow> bool" where
  "sent_since s s' rs \<longleftrightarrow> (\<exists>os. ns_out s' = ns_out s @ os \<and> messages os = rs)"

lemma sent_since_trans: "sent_since s s1 rs \<Longrightarrow> sent_since s1 s2 rs' \<Longrightarrow> sent_since s s2 (rs @ rs')"
  by (fastforce simp: sent_since_def)

lemma sent_since_out [simp]: "messages os = rs \<Longrightarrow> sent_since s (out os s) rs"
  by (simp add: sent_since_def)

lemma sent_since_refl [simp]: "sent_since s s []"
  by (simp add: sent_since_def)

lemma sent_since_registers: "registers_only s s' \<Longrightarrow> sent_since s s' []"
  by (auto simp: sent_since_def registers_only_def put_no_send)

lemma sent_since_coap [simp]: "sent_since s (fst (send_coap lib r s)) [r]"
  by (simp add: sent_since_def send_coap_def)

section \<open>A concrete library and client\<close>

definition sample_lib :: nsdl_lib where
  "sample_lib = \<lparr>lib_coap = sample_env, lib_put = (\<lambda>os p. 0), lib_pop = (\<lambda>os p. True), lib_register = (\<lambda>os. 1),
     lib_update = (\<lambda>os. 1), lib_unregister = (\<lambda>os. 1), lib_bootstrap = (\<lambda>os. 1), lib_send = (\<lambda>os r. 0),
     lib_value_callback = (\<lambda>a. False)\<rparr>"

definition sample_nsdl :: nsdl where
  "sample_nsdl = (nsdl_new [open_tree])\<lparr>ns_object_list := [0]\<rparr>"

definition sample_handle :: nsdl_handle where
  "sample_handle = \<lparr>nh_register_id = 1, nh_unregister_id = 2, nh_update_id = 3, nh_bootstrap_id = 4,
     nh_bs_address = [1, 1], nh_bs_port = 5683\<rparr>"

definition sample_message :: "coap_code \<Rightarrow> u16 \<Rightarrow> string \<Rightarrow> u8 list option \<Rightarrow> nsdl_msg" where
  "sample_message code mid path payload = \<lparr>cm_code = code, cm_id = mid, cm_content_format = COAP_CONTENT_OMA_TLV_TYPE,
     cm_uri_path = Some path, cm_token = None, cm_payload = payload, cm_options = Some sample_options,
     nm_type = TYPE_CONFIRMABLE, nm_sending_failed = False\<rparr>"

end
