(* ===== verification/NsdlAnswers.thy ===== *)
theory NsdlAnswers
  imports NsdlFrames
begin

text \<open>
  What is sent for a request. The callback for the nodes the library knows, with the handler it runs, sends at most
  one message and says whether it did.
\<close>

section \<open>Messages of the handlers\<close>

definition handler_messages :: "nat \<Rightarrow> request_output list \<Rightarrow> coap_response list" where
  "handler_messages k os = messages (map (RequestOutput k) os)"

lemma handler_messages_simps [simp]:
  "handler_messages k [] = []" "handler_messages k (MessageSent r # os) = r # handler_messages k os"
  "handler_messages k (Executed n v # os) = handler_messages k os"
  "handler_messages k (BlockDelivered n b # os) = handler_messages k os"
  by (simp_all add: handler_messages_def)

lemma put_value_messages: "snd (put_value env n req r t) = (os, t') \<Longrightarrow> handler_messages k os = []"
  by (auto simp: put_value_def put_block_def Let_def split: option.splits if_splits)

lemma resource_base_put_messages:
  "resource_base_handle_put env handler n header t = Some (r, u, os, t') \<Longrightarrow> handler_messages k os = []"
  by (auto simp: resource_base_handle_put_def finish_def answer_code_def Let_def split_beta Option.bind_eq_Some_conv
      dest: put_value_messages split: option.splits if_splits)

lemma handle_put_messages:
  assumes "handle_put env handler n header t = Some (r, u, os, t')"
  shows "handler_messages k os = []"
proof (cases n)
  case NObj
  then show ?thesis using assms
    by (auto simp: handle_put_def object_handle_put_def finish_def Let_def Option.bind_eq_Some_conv split: option.splits)
next
  case (NInst i)
  then show ?thesis using assms
    by (auto simp: handle_put_def instance_handle_put_def finish_def Let_def Option.bind_eq_Some_conv
        split: option.splits if_splits)
next
  case (NRes i j)
  then show ?thesis using assms resource_base_put_messages [where k = k]
    by (auto simp: handle_put_def resource_handle_put_def finish_def answer_code_def Let_def Option.bind_eq_Some_conv
        split: option.splits if_splits)
next
  case (NRinst i j m)
  then show ?thesis using assms resource_base_put_messages by (simp add: handle_put_def)
qed

text \<open>The only message a handler sends is the acknowledgement of a POST with a delayed response, which it also returns.\<close>

definition acknowledges :: "coap_msg \<Rightarrow> coap_response \<Rightarrow> bool" where
  "acknowledges req r \<longleftrightarrow> rs_type r = TYPE_ACKNOWLEDGEMENT \<and> rs_code r = COAP_MSG_CODE_EMPTY \<and> rs_id r = cm_id req"

lemma object_post_messages:
  "object_handle_post env handler header t = Some (r, u, os, t') \<Longrightarrow> os = []"
  by (auto simp: object_handle_post_def object_post_instance_def finish_def answer_code_def Let_def
      Option.bind_eq_Some_conv split_beta split: option.splits if_splits)

lemma instance_post_messages:
  "instance_handle_post env handler i header t = Some (r, u, os, t') \<Longrightarrow> os = []"
  by (auto simp: instance_handle_post_def finish_def answer_code_def Let_def Option.bind_eq_Some_conv split_beta
      split: option.splits if_splits tlv_error.splits)

lemma handle_post_messages:
  assumes "handle_post env handler n (Some req) t = Some (r, u, os, t')"
  shows "handler_messages k os = [] \<or>
    (\<exists>i j ack. n = NRes i j \<and> r_delayed_response (tree_res i j t) \<and> r = Some ack \<and> acknowledges req ack \<and>
       handler_messages k os = [ack])"
proof (cases n)
  case NObj
  then show ?thesis using assms by (auto simp: handle_post_def dest: object_post_messages)
next
  case (NInst i)
  then show ?thesis using assms by (auto simp: handle_post_def dest: instance_post_messages)
next
  case (NRes i j)
  then show ?thesis using assms
    by (auto simp: handle_post_def resource_handle_post_def finish_def answer_code_def Let_def acknowledges_def
        Option.bind_eq_Some_conv split: option.splits if_splits list.splits)
next
  case (NRinst i j m)
  then show ?thesis using assms by (simp add: handle_post_def)
qed

section \<open>Parts that send nothing\<close>

lemma run_handler_sent:
  assumes "run_handler h k s = Some (response, updated, s1)"
  shows "\<exists>os t. h (ns_tree k s) = Some (response, updated, os, t) \<and> sent_since s s1 (handler_messages k os)"
  using assms by (auto simp: run_handler_def sent_since_def handler_messages_def Option.bind_eq_Some_conv)

lemma delete_instance_of_out: "ns_out (fst (delete_instance_of k i s)) = ns_out s"
  by (simp add: delete_instance_of_def Let_def split_beta)

lemma sent_nothing_out: "ns_out s1 = ns_out s \<Longrightarrow> sent_since s s1 []"
  by (simp add: sent_since_def)

lemma resource_delete_request_sends_nothing:
  "resource_delete_request name a s = Some (code, s1) \<Longrightarrow> sent_since s s1 []"
  by (auto simp: resource_delete_request_def Let_def split_beta delete_instance_of_out
      intro!: sent_nothing_out split: node.splits option.splits prod.splits if_splits)

definition delayed_post :: "coap_msg \<Rightarrow> string \<Rightarrow> nsdl \<Rightarrow> bool" where
  "delayed_post req name s \<longleftrightarrow> cm_code req = COAP_MSG_CODE_REQUEST_POST \<and>
     (case find_resource name None s of Some (k, NRes i j) \<Rightarrow> r_delayed_response (tree_res i j (ns_tree k s)) | _ \<Rightarrow> False)"

lemma resource_request_sent:
  assumes "resource_request lib req name s = Some (response, updated, code, s1)"
  shows "sent_since s s1 [] \<or>
    (\<exists>ack. delayed_post req name s \<and> response = Some ack \<and> acknowledges req ack \<and> sent_since s s1 [ack])"
proof (cases "find_resource name None s")
  case None
  then show ?thesis using assms by (simp add: resource_request_def)
next
  case (Some a)
  obtain k n where a: "a = (k, n)" by fastforce
  have get: "sent_since s s1 []" if "run_handler (handle_get e b n (Some req)) k s = Some (r, u, s1)" for e b r u
    using run_handler_sent [OF that] handle_get_content by fastforce
  have put: "sent_since s s1 []" if "run_handler (handle_put e b n (Some req)) k s = Some (r, u, s1)" for e b r u
    using run_handler_sent [OF that] handle_put_messages by fastforce
  have post: "sent_since s s1 [] \<or>
      (\<exists>i j ack. n = NRes i j \<and> r_delayed_response (tree_res i j (ns_tree k s)) \<and> r = Some ack \<and> acknowledges req ack \<and>
        sent_since s s1 [ack])"
    if p: "run_handler (handle_post e b n (Some req)) k s = Some (r, u, s1)" for e b r u
  proof -
    obtain os t where h: "handle_post e b n (Some req) (ns_tree k s) = Some (r, u, os, t)"
      "sent_since s s1 (handler_messages k os)" using run_handler_sent [OF p] by blast
    show ?thesis using handle_post_messages [OF h(1), of k] h(2) by auto
  qed
  show ?thesis
  proof (cases "cm_code req = COAP_MSG_CODE_REQUEST_POST")
    case True
    then show ?thesis using assms Some a post
      by (auto simp: resource_request_def Option.bind_eq_Some_conv delayed_post_def split: node.splits)
  next
    case False
    then have "sent_since s s1 []" using assms Some a get put resource_delete_request_sends_nothing
      by (auto simp: resource_request_def Option.bind_eq_Some_conv split_beta split: coap_code.splits)
    then show ?thesis by blast
  qed
qed

lemma registers_then_sends_nothing: "registers_only s s1 \<Longrightarrow> messages [v] = [] \<Longrightarrow> sent_since s (out [v] s1) []"
  using sent_since_trans [OF sent_since_registers, of s s1 "out [v] s1" "[]"] by simp

lemma value_updated_sends_nothing: "sent_since s (value_updated lib a s) []"
  by (cases a) (auto simp: value_updated_def Let_def split_beta
      intro!: registers_then_sends_nothing registers_rules split: node.split)

section \<open>One answer\<close>

text \<open>C16: for a request for a node at most one message goes out as its answer, counting what the handler of the node
  sends itself, and the result is 0 only when one was sent. It is never a part of a blockwise transfer still going on, and
  it is empty only as the acknowledgement, with the number of the request, of a POST whose response is delayed. A request for a path no
  node has is answered with 4.00, if anything, and changes no object. Notifications the request causes at observed nodes are calls on
  the observation handler and not among these messages.\<close>

theorem request_answered_once:
  assumes "resource_callback lib req s = Some (s', result)"
  shows "\<exists>os. ns_out s' = ns_out s @ os \<and>
    (messages os = [] \<and> result = 1 \<or>
     (\<exists>r. messages os = [r] \<and> result \<le> 1 \<and> rs_code r \<noteq> COAP_MSG_CODE_EMPTY \<and> rs_status r \<noteq> BLOCKWISE_MSG_RECEIVING) \<or>
     (\<exists>r. messages os = [r] \<and> result = 1 \<and> acknowledges req r \<and> delayed_post req (coap_to_string (cm_uri_path req)) s)) \<and>
    (find_resource (coap_to_string (cm_uri_path req)) None s = None \<longrightarrow>
      ns_objects s' = ns_objects s \<and>
      set (messages os) \<subseteq> set_option (env_build (lib_coap lib) (Some req) COAP_MSG_CODE_RESPONSE_BAD_REQUEST))"
proof -
  let ?s0 = "out [NotifyObserver OnCoapDataProcessed] s"
  let ?name = "coap_to_string (cm_uri_path req)"
  let ?sendable = "\<lambda>r. rs_status r \<noteq> BLOCKWISE_MSG_RECEIVING \<and> rs_code r \<noteq> COAP_MSG_CODE_EMPTY"
  obtain response updated code s1 where r: "resource_request lib req ?name ?s0 = Some (response, updated, code, s1)"
    using assms by (auto simp: resource_callback_def Option.bind_eq_Some_conv Let_def)
  define resp where "resp = (case response of Some r \<Rightarrow> Some r | None \<Rightarrow> env_build (lib_coap lib) (Some req) code)"
  define sr where "sr = (case resp of None \<Rightarrow> (s1, 1)
    | Some r \<Rightarrow> if ?sendable r then (fst (send_coap lib r s1), if snd (send_coap lib r s1) then 0 else 1) else (s1, 1 :: nat))"
  have s': "s' = fst sr \<or> s' = value_updated lib (find_resource ?name None ?s0) (fst sr)" and res: "result = snd sr"
    and same: "\<not> updated \<Longrightarrow> s' = fst sr"
    using assms r unfolding resource_callback_def resp_def sr_def
    by (auto simp: Let_def split_beta split: if_splits option.splits)
  have f: "find_resource ?name None ?s0 = find_resource ?name None s" by (simp add: find_resource_def ns_tree_def)
  have "ns_tree k ?s0 = ns_tree k s" for k by (simp add: ns_tree_def)
  then have d: "delayed_post req ?name ?s0 = delayed_post req ?name s" by (simp add: delayed_post_def f split: option.split node.split)
  have one: "(sent_since s1 (fst sr) [] \<and> snd sr = 1) \<or>
      (\<exists>r. sent_since s1 (fst sr) [r] \<and> resp = Some r \<and> ?sendable r \<and> snd sr \<le> 1)"
    by (auto simp: sr_def split: option.split)
  have start: "sent_since s s1 xs" if "sent_since ?s0 s1 xs" for xs
    using sent_since_trans [of s ?s0 "[]", OF _ that] by simp
  have last: "sent_since s s' xs" if "sent_since s (fst sr) xs" for xs
    using s' that sent_since_trans [OF that value_updated_sends_nothing] by auto
  have "\<exists>rs. sent_since s s' rs \<and> (rs = [] \<and> result = 1 \<or>
      (\<exists>r. rs = [r] \<and> result \<le> 1 \<and> ?sendable r \<and> (sent_since ?s0 s1 [] \<longrightarrow> resp = Some r)) \<or>
      (\<exists>r. rs = [r] \<and> result = 1 \<and> acknowledges req r \<and> delayed_post req ?name s))"
    using resource_request_sent [OF r]
  proof (elim disjE exE conjE)
    assume n: "sent_since ?s0 s1 []"
    show ?thesis using one sent_since_trans [OF start [OF n]] last res by fastforce
  next
    fix ack
    assume ack: "delayed_post req ?name ?s0" "response = Some ack" "acknowledges req ack" "sent_since ?s0 s1 [ack]"
    then have "sr = (s1, 1)" by (simp add: sr_def resp_def acknowledges_def)
    then show ?thesis using last [of "[ack]"] start [OF ack(4)] ack(1,3) d res by auto
  qed
  then obtain os where os: "ns_out s' = ns_out s @ os"
    and m: "messages os = [] \<and> result = 1 \<or>
      (\<exists>r. messages os = [r] \<and> result \<le> 1 \<and> ?sendable r \<and> (sent_since ?s0 s1 [] \<longrightarrow> resp = Some r)) \<or>
      (\<exists>r. messages os = [r] \<and> result = 1 \<and> acknowledges req r \<and> delayed_post req ?name s)"
    by (auto simp: sent_since_def)
  have unknown: "ns_objects s' = ns_objects s \<and>
      set (messages os) \<subseteq> set_option (env_build (lib_coap lib) (Some req) COAP_MSG_CODE_RESPONSE_BAD_REQUEST)"
    if n: "find_resource ?name None s = None"
  proof -
    have e: "response = None" "\<not> updated" "code = COAP_MSG_CODE_RESPONSE_BAD_REQUEST" "s1 = ?s0"
      using r n f by (auto simp: resource_request_def)
    have "\<not> delayed_post req ?name s" using n by (simp add: delayed_post_def)
    moreover have "ns_objects (fst sr) = ns_objects s1" by (auto simp: sr_def send_coap_def split: option.splits)
    ultimately show ?thesis using same m e by (auto simp: resp_def)
  qed
  show ?thesis by (intro exI [of _ os] conjI impI) (use os m unknown in auto)
qed

theorem request_answered_once_witness:
  "\<exists>s' result. resource_callback sample_lib (coap_msg.truncate (sample_message COAP_MSG_CODE_REQUEST_GET 9 ''7/7'' None))
     sample_nsdl = Some (s', result) \<and> length (messages (ns_out s')) \<le> 1"
proof -
  let ?req = "coap_msg.truncate (sample_message COAP_MSG_CODE_REQUEST_GET 9 ''7/7'' None)"
  have "resource_callback sample_lib ?req sample_nsdl \<noteq> None" by code_simp
  then obtain s' result where r: "resource_callback sample_lib ?req sample_nsdl = Some (s', result)" by auto
  have "ns_out sample_nsdl = []" by (simp add: sample_nsdl_def nsdl_new_def)
  then have "length (messages (ns_out s')) \<le> 1" using request_answered_once [OF r] by auto
  then show ?thesis using r by blast
qed

end
