(* ===== verification/NsdlTimers.thy ===== *)
theory NsdlTimers
  imports NsdlFrames
begin

text \<open>
  The life time of a registration and the timer that renews it. The time to the renewal is three quarters of a short life
  time, computed in \<open>float\<close>, which is exact here, and 900 seconds less than a long one; life times pass through a
  signed number of 32 bits.
\<close>

section \<open>Three quarters as a float\<close>

lemma f32_quarter:
  assumes "\<bar>m\<bar> < 2 ^ 24"
  shows "f32 (of_int m / 4) = Fin (of_int m / 4)"
proof (cases "m = 0")
  case True
  then show ?thesis by (simp add: f32_def round_fmt_def)
next
  case False
  define r :: rat where "r = of_int m / 4"
  obtain a b where ab: "quotient_of r = (a, b)" by (cases "quotient_of r")
  have b: "0 < b" "coprime a b" and r: "r = of_int a / of_int b"
    using quotient_of_denom_pos [OF ab] quotient_of_coprime [OF ab] quotient_of_div [OF ab] by auto
  have "(of_int m :: rat) * of_int b = 4 * of_int a" using r b(1) by (simp add: r_def field_simps)
  then have m: "m * b = 4 * a" by (metis of_int_eq_iff of_int_mult of_int_numeral)
  then have "b dvd 4 * a" by (metis dvd_triv_right)
  then have "b dvd 4" using b(2) by (simp add: coprime_commute coprime_dvd_mult_left_iff)
  then have "b \<le> 4" "b \<noteq> 3" using zdvd_imp_le [of b 4] by auto
  then have cases: "b = 1 \<or> b = 2 \<or> b = 4" using b(1) by linarith
  have a0: "0 < nat \<bar>a\<bar>" using m False b(1) by auto
  have l2: "ilog2 2 = 1" "ilog2 4 = 2" by (simp_all add: ilog2.simps)
  have "int (ilog2 (nat \<bar>a\<bar>)) - int (ilog2 (nat b)) < 22"
  proof -
    have "nat \<bar>a\<bar> < 2 ^ (22 + ilog2 (nat b))" using m assms cases l2 by auto
    from ilog2_less [OF a0 this] show ?thesis by simp
  qed
  then have e: "rat_exp r < 22" by (auto simp: rat_exp_def ab Let_def)
  define q where "q = max (rat_exp r - (24 - 1)) (-149)"
  have q: "q \<le> -2" using e by (simp add: q_def)
  define k where "k = nat (- q - 2)"
  have p: "pow2 q = 1 / (4 * 2 ^ k)"
    using q by (auto simp: pow2_def k_def nat_diff_distrib power_diff)
  have v: "r / pow2 q = of_int (m * 2 ^ k)" by (simp add: p r_def)
  then have rd: "of_int (round_even (r / pow2 q)) * pow2 q = r" by (simp only: v round_even_int) (simp add: p r_def)
  have "\<bar>of_int m :: rat\<bar> < 2 ^ 24" using assms by (metis of_int_abs of_int_less_iff of_int_numeral of_int_power)
  then have "\<not> \<bar>r\<bar> \<ge> pow2 (127 + 1)" by (simp add: r_def pow2_def)
  moreover have "r \<noteq> 0" using False by (simp add: r_def)
  ultimately show ?thesis
    unfolding f32_def round_fmt_def Let_def r_def [symmetric] q_def [symmetric] rd by simp
qed

lemma reduced_lifetime_eq:
  assumes "uint v < 2 ^ 22"
  shows "uint (reduced_lifetime v) = 3 * uint v div 4"
proof -
  have a: "\<bar>uint v\<bar> < 2 ^ 24" "\<bar>3 * uint v\<bar> < 2 ^ 24" using assms by simp_all
  have "(3 / 4 :: rat) * of_int (uint v) = of_int (3 * uint v) / 4" by simp
  then have "f32 (REDUCTION_FACTOR * of_int (uint v)) = Fin (of_int (3 * uint v) / 4)"
    using f32_quarter [OF a(2)] by (simp only: REDUCTION_FACTOR_def)
  then have "reduced_lifetime v = word_of_int \<lfloor>(of_int (3 * uint v) / 4 :: rat)\<rfloor>"
    by (simp only: reduced_lifetime_def f32_int [OF a(1)] cfloat.case)
  also have "\<lfloor>(of_int (3 * uint v) / 4 :: rat)\<rfloor> = 3 * uint v div 4"
    using floor_divide_of_int_eq [where 'a = rat, of "3 * uint v" 4] by simp
  finally have "reduced_lifetime v = word_of_int (3 * uint v div 4)" .
  moreover have "0 \<le> 3 * uint v div 4" "3 * uint v div 4 < 18446744073709551616"
    using assms uint_ge_0 [of v] by (simp_all add: pos_imp_zdiv_nonneg_iff)
  ultimately show ?thesis by (simp only: uint_word_of_int_eq) (simp add: take_bit_int_eq_self)
qed

section \<open>The life time\<close>

definition renewal_time :: "int \<Rightarrow> int" where
  "renewal_time n = (if n \<ge> 3600 then n - 900 else 3 * n div 4)"

lemma renewal_time_less: "0 < n \<Longrightarrow> 0 \<le> renewal_time n \<and> renewal_time n < n"
  unfolding renewal_time_def by (cases "n \<ge> 3600") (simp_all, presburger)

lemma lifetime_buffer:
  obtains t where "atoll t = sint l"
    "\<And>s. set_endpoint_lifetime_buffer l s = Some (s\<lparr>ns_endpoint := map_option (\<lambda>e. e\<lparr>ep_lifetime := Some t\<rparr>) (ns_endpoint s)\<rparr>)"
proof -
  have "\<bar>sint l\<bar> < 2 ^ 63" using sint_range_size [of l] by (auto simp: word_size abs_less_iff)
  then show ?thesis using that itoa_c_atoll [of "sint l"] by (auto simp: set_endpoint_lifetime_buffer_def)
qed

lemma registration_time_eq:
  assumes "ns_endpoint s = Some e" and "ep_lifetime e = Some t" and "atoll t = n" and "0 \<le> n" and "n < 2 ^ 31"
  shows "uint (registration_time s) = renewal_time n"
proof -
  have u: "uint (word_of_int n :: u64) = n" using assms by (simp add: uint_word_of_int_eq take_bit_int_eq_self)
  show ?thesis
  proof (cases "n \<ge> 3600")
    case True
    then have "uint ((word_of_int n :: u64) - 900) = n - 900"
      using u assms(5) by (simp add: uint_word_ariths mod_pos_pos_trivial)
    then show ?thesis using True u assms by (simp add: registration_time_def renewal_time_def word_le_def)
  next
    case False
    then show ?thesis using u assms reduced_lifetime_eq [of "word_of_int n"]
      by (simp add: registration_time_def renewal_time_def word_le_def)
  qed
qed

lemma sint_ucast_small: "uint (a :: u32) < 2 ^ 31 \<Longrightarrow> sint (ucast a :: i32) = uint a"
  using signed_take_bit_int_eq_self [of 31 "uint a"] order_trans [OF _ uint_ge_0 [of a], of "- (2 ^ 31)"]
  by (simp add: sint_uint)

lemma timer_product: "uint (v :: u64) < 2 ^ 31 \<Longrightarrow> uint (v * 1000) = uint v * 1000"
  by (simp add: uint_word_ariths mod_pos_pos_trivial)

section \<open>Renewing a registration\<close>

lemma start_registration_timer_out:
  "ns_out (start_registration_timer s) =
     ns_out s @ [StopNsdlTimer RegistrationTimer, StartNsdlTimer RegistrationTimer (registration_time s * 1000)]"
  by (simp add: start_registration_timer_def)

lemma regular_update: "\<exists>s' b. send_update_registration lib 0 s = Some (s', b) \<and> last (ns_out s') = UpdateRegistration None"
  by (simp add: send_update_registration_def Let_def split_beta)

text \<open>C12: when the server accepts a registration and names a life time, the application is told, the location is
  stored and the timer of the registration is started with less than that life time (900 seconds less when it is at
  least an hour, else three quarters of it, rounded down); when it expires an update is sent. This holds
  for life times below 2^31 seconds.\<close>

theorem registration_renewed_in_time:
  assumes "ns_endpoint s = Some e" and "cm_id m = nh_register_id h" and "cm_code m = COAP_MSG_CODE_RESPONSE_CREATED"
    and "cm_options m = Some opts" and "0 < uint (opt_max_age opts)" and "uint (opt_max_age opts) < 2 ^ 31"
  shows "\<exists>s' delay.
    received_from_server_callback lib (Some h) (Some m) address s = Some (s', 0) \<and>
    ns_out s' = ns_out s @ [NotifyObserver OnCoapDataProcessed, NotifyObserver (OnClientRegistered 0)] @
      (case opt_location_path opts of None \<Rightarrow> [] | Some l \<Rightarrow> [SetEndpointLocation l]) @
      [StopNsdlTimer RegistrationTimer, StartNsdlTimer RegistrationTimer delay] \<and>
    uint delay = 1000 * (if uint (opt_max_age opts) \<ge> 3600 then uint (opt_max_age opts) - 900
                         else 3 * uint (opt_max_age opts) div 4) \<and>
    uint delay < 1000 * uint (opt_max_age opts) \<and>
    (\<exists>s''. nsdl_timer_expired lib RegistrationTimer s' = Some s'' \<and> last (ns_out s'') = UpdateRegistration None)"
proof -
  let ?a = "opt_max_age opts"
  have v: "sint (ucast ?a :: i32) = uint ?a" by (rule sint_ucast_small) (rule assms)
  obtain t where t: "atoll t = uint ?a"
    and b: "\<And>s. set_endpoint_lifetime_buffer (ucast ?a) s =
      Some (s\<lparr>ns_endpoint := map_option (\<lambda>e. e\<lparr>ep_lifetime := Some t\<rparr>) (ns_endpoint s)\<rparr>)"
    using lifetime_buffer [of "ucast ?a"] unfolding v by blast
  have pos: "?a > 0" using assms(5) by (simp add: word_less_def)
  let ?loc = "case opt_location_path opts of None \<Rightarrow> [] | Some l \<Rightarrow> [SetEndpointLocation l]"
  let ?s0 = "out [NotifyObserver OnCoapDataProcessed, NotifyObserver (OnClientRegistered 0)] s"
  let ?s1 = "out ?loc (?s0\<lparr>ns_endpoint := Some (e\<lparr>ep_lifetime := Some t\<rparr>)\<rparr>)"
  let ?s' = "start_registration_timer ?s1"
  have u: "uint (registration_time ?s1) = renewal_time (uint ?a)"
    by (rule registration_time_eq [where e = "e\<lparr>ep_lifetime := Some t\<rparr>" and t = t]) (use assms(6) t in simp_all)
  note less = renewal_time_less [OF assms(5)]
  have d: "uint (registration_time ?s1 * 1000) = renewal_time (uint ?a) * 1000"
    using u less assms(6) by (subst timer_product) simp_all
  have "registration_answer m (out [NotifyObserver OnCoapDataProcessed] s) = Some ?s'"
    using assms(1,3,4) pos by (auto simp: registration_answer_def b [unfolded ucast_id] Let_def out_def split: option.split
        intro!: arg_cong [where f = start_registration_timer] nsdl.equality)
  then have r: "received_from_server_callback lib (Some h) (Some m) address s = Some (?s', 0)"
    using assms(2) by (simp add: received_from_server_callback_def Let_def)
  obtain s'' ok where s'': "send_update_registration lib 0 ?s' = Some (s'', ok)" "last (ns_out s'') = UpdateRegistration None"
    using regular_update by blast
  show ?thesis
  proof (intro exI conjI)
    show "received_from_server_callback lib (Some h) (Some m) address s = Some (?s', 0)" by (rule r)
    show "ns_out ?s' = ns_out s @ [NotifyObserver OnCoapDataProcessed, NotifyObserver (OnClientRegistered 0)] @
      ?loc @ [StopNsdlTimer RegistrationTimer, StartNsdlTimer RegistrationTimer (registration_time ?s1 * 1000)]"
      by (simp add: start_registration_timer_out)
    show "nsdl_timer_expired lib RegistrationTimer ?s' = Some s''" using s'' by simp
    show "last (ns_out s'') = UpdateRegistration None" by (rule s'')
  qed (use d less in \<open>simp_all add: renewal_time_def\<close>)
qed

theorem registration_renewed_in_time_witness:
  "\<exists>s' delay. received_from_server_callback sample_lib (Some sample_handle)
       (Some (sample_message COAP_MSG_CODE_RESPONSE_CREATED 1 [] None)) None sample_nsdl = Some (s', 0) \<and>
     last (ns_out s') = StartNsdlTimer RegistrationTimer delay \<and> uint delay = 45000"
  using registration_renewed_in_time [where s = sample_nsdl and e = empty_endpoint and h = sample_handle
      and m = "sample_message COAP_MSG_CODE_RESPONSE_CREATED 1 [] None" and opts = sample_options and lib = sample_lib
      and address = None]
  by (fastforce simp: sample_nsdl_def nsdl_new_def sample_message_def sample_handle_def sample_options_def)

section \<open>Long life times\<close>

lemma sint_ucast_large: "2 ^ 31 \<le> uint (a :: u32) \<Longrightarrow> sint (ucast a :: i32) = uint a - 2 ^ 32"
proof -
  assume a: "2 ^ 31 \<le> uint a"
  have "uint a < 2 ^ 32" using uint_lt2p [of a] by simp
  moreover have "sint a = (uint a + 2 ^ 31) mod 2 ^ 32 - 2 ^ 31"
    by (simp add: sint_uint signed_take_bit_eq_take_bit_shift take_bit_eq_mod)
  moreover have "(uint a + 2 ^ 31) mod 2 ^ 32 = uint a - 2 ^ 31"
    using a \<open>uint a < 2 ^ 32\<close> by (subst mod_pos_geq) simp_all
  ultimately show ?thesis by simp
qed

lemma uint_negative:
  assumes "- (2 ^ 64) \<le> n" and "n < 0"
  shows "uint (word_of_int n :: u64) = n + 2 ^ 64"
proof -
  have "uint (word_of_int n :: u64) = n mod 2 ^ 64" by (simp only: uint_word_of_int) simp
  also have "\<dots> = (n + 2 ^ 64) mod 2 ^ 64" by (simp only: mod_add_self2)
  also have "\<dots> = n + 2 ^ 64" using assms by (intro mod_pos_pos_trivial) simp_all
  finally show ?thesis .
qed

text \<open>C36: a registration update with a life time of 2^31 seconds or more sends a negative number as the life
  time to the server and starts the timer with a delay near the end of the 64-bit range, so the
  registration is never renewed.\<close>

theorem long_lifetime_negative:
  assumes "ns_endpoint s = Some e" and "2 ^ 31 \<le> uint lifetime"
  shows "\<exists>s' ok t delay. send_update_registration lib lifetime s = Some (s', ok) \<and>
    last (ns_out s') = UpdateRegistration (Some t) \<and> atoll t = uint lifetime - 2 ^ 32 \<and> atoll t < 0 \<and>
    StartNsdlTimer RegistrationTimer delay \<in> set (ns_out s') \<and>
    uint delay = 2 ^ 64 - 1000 * (2 ^ 32 - uint lifetime + 900)"
proof -
  obtain t where t: "atoll t = uint lifetime - 2 ^ 32"
    and b: "\<And>s. set_endpoint_lifetime_buffer (ucast lifetime) s =
      Some (s\<lparr>ns_endpoint := map_option (\<lambda>e. e\<lparr>ep_lifetime := Some t\<rparr>) (ns_endpoint s)\<rparr>)"
    using lifetime_buffer [of "ucast lifetime"] unfolding sint_ucast_large [OF assms(2)] by blast
  have lt: "uint lifetime < 2 ^ 32" using uint_lt2p [of lifetime] by simp
  let ?s1 = "fst (create_nsdl_list_structure lib (ns_object_list s) s)"
  let ?s2 = "?s1\<lparr>ns_endpoint := Some (e\<lparr>ep_lifetime := Some t\<rparr>)\<rparr>"
  have e: "ns_endpoint ?s1 = Some e"
    using create_nsdl_list_structure_registers [of s lib "ns_object_list s"] assms(1) by (simp add: registers_only_def)
  have ne: "lifetime \<noteq> 0" using assms(2) by auto
  let ?s3 = "start_registration_timer ?s2"
  have u: "uint (word_of_int (atoll t) :: u64) = 2 ^ 64 - (2 ^ 32 - uint lifetime)"
    using lt assms(2) uint_negative [of "uint lifetime - 2 ^ 32"] by (simp only: t) simp
  have rt: "registration_time ?s2 = word_of_int (atoll t) - 900"
    using u assms(2) by (simp add: registration_time_def word_le_def)
  have "registration_time ?s2 * 1000 = word_of_int ((uint lifetime - 2 ^ 32 - 900) * 1000)"
    unfolding rt t by simp
  then have "uint (registration_time ?s2 * 1000) = 2 ^ 64 - 1000 * (2 ^ 32 - uint lifetime + 900)"
    using lt assms(2) uint_negative [of "(uint lifetime - 2 ^ 32 - 900) * 1000"] by (simp only:) (simp add: algebra_simps)
  moreover have "send_update_registration lib lifetime s =
      Some (out [UpdateRegistration (Some t)] ?s3, lib_update lib (ns_out ?s3) \<noteq> 0)"
    using ne e by (simp add: send_update_registration_def Let_def b [unfolded ucast_id] start_registration_timer_def out_def)
  ultimately show ?thesis using t lt by (auto simp: start_registration_timer_out)
qed

theorem long_lifetime_negative_witness:
  "\<exists>s' ok t. send_update_registration sample_lib 4294967295 sample_nsdl = Some (s', ok) \<and>
     last (ns_out s') = UpdateRegistration (Some t) \<and> atoll t = -1"
  using long_lifetime_negative [where s = sample_nsdl and e = empty_endpoint and lifetime = 4294967295 and lib = sample_lib]
  by (fastforce simp: sample_nsdl_def nsdl_new_def)

end
