(* ===== verification/NsdlBootstrapSpec.thy ===== *)
theory NsdlBootstrapSpec
  imports NsdlFrames
begin

text \<open>
  The bootstrap: it goes on or is given up, with the security object forgotten and the server object left as it is,
  and the check of the security object at its end.
\<close>

section \<open>Answers\<close>

lemma answer_with_out: "\<exists>os. answer_with lib req code s = out os s \<and> list_all is_send os"
proof -
  have "\<exists>os. s = out os s \<and> list_all is_send os" by (rule exI [of _ "[]"]) (simp add: out_def)
  then show ?thesis by (auto simp: answer_with_def send_coap_def split: option.split)
qed

lemma acknowledge_token_out: "\<exists>os. acknowledge_token lib req s = out os s \<and> list_all is_send os"
proof -
  have "\<exists>os. s = out os s \<and> list_all is_send os" by (rule exI [of _ "[]"]) (simp add: out_def)
  then show ?thesis by (auto simp: acknowledge_token_def send_coap_def split: option.split)
qed

lemma sends_no_notice: "list_all is_send os \<Longrightarrow> NotifyObserver v \<notin> set os"
  by (auto simp: list_all_iff)

text \<open>The notices of the bootstrap among the outputs from one state to another, in order.\<close>

fun is_notice :: "nsdl_output \<Rightarrow> bool" where
  "is_notice (NotifyObserver v) \<longleftrightarrow> True"
| "is_notice v \<longleftrightarrow> False"

definition notices :: "nsdl \<Rightarrow> nsdl \<Rightarrow> interface_input list \<Rightarrow> bool" where
  "notices s s' vs \<longleftrightarrow> (\<exists>os. ns_out s' = ns_out s @ os \<and> filter is_notice os = map NotifyObserver vs)"

lemma notices_trans: "notices s s1 vs \<Longrightarrow> notices s1 s2 ws \<Longrightarrow> notices s s2 (vs @ ws)"
  by (fastforce simp: notices_def)

lemma notices_same: "ns_out s' = ns_out s \<Longrightarrow> notices s s' []"
  by (simp add: notices_def)

lemma sends_filter: "list_all is_send os \<Longrightarrow> filter is_notice os = []"
  by (induction os) (auto elim!: is_send.elims)

lemma answer_with_facts:
  "notices s (answer_with lib req code s) []" "ns_security (answer_with lib req code s) = ns_security s"
  "ns_identity_accepted (answer_with lib req code s) = ns_identity_accepted s"
  "ns_endpoint (answer_with lib req code s) = ns_endpoint s" "ns_server (answer_with lib req code s) = ns_server s"
  using answer_with_out [of lib req code s] by (auto simp: notices_def sends_filter)

lemma acknowledge_token_facts:
  "notices s (acknowledge_token lib req s) []" "ns_security (acknowledge_token lib req s) = ns_security s"
  "ns_identity_accepted (acknowledge_token lib req s) = ns_identity_accepted s"
  "ns_server (acknowledge_token lib req s) = ns_server s"
  using acknowledge_token_out [of lib req s] by (auto simp: notices_def sends_filter)

lemma bootstrap_error_facts:
  "notices s (handle_bootstrap_error s) [OnBootstrapError]" "ns_security (handle_bootstrap_error s) = None"
  "\<not> ns_identity_accepted (handle_bootstrap_error s)" "ns_server (handle_bootstrap_error s) = ns_server s"
  by (simp_all add: handle_bootstrap_error_def notices_def)

section \<open>The three requests\<close>

text \<open>Either the bootstrap goes on, or it is given up.\<close>

definition given_up :: "nsdl \<Rightarrow> nsdl \<Rightarrow> bool" where
  "given_up s s' \<longleftrightarrow> notices s s' [OnBootstrapError] \<and> ns_security s' = None \<and> \<not> ns_identity_accepted s'"

definition goes_on :: "nsdl \<Rightarrow> nsdl \<Rightarrow> interface_input list \<Rightarrow> bool" where
  "goes_on s s' vs \<longleftrightarrow> notices s s' vs \<and> ns_identity_accepted s' = ns_identity_accepted s"

lemma parse_bootstrap_message_facts:
  assumes "parse_bootstrap_message req sob s = Some (ok, s')"
  shows "ns_out s' = ns_out s" "ns_identity_accepted s' = ns_identity_accepted s"
    "ns_security s \<noteq> None \<Longrightarrow> ns_security s' \<noteq> None"
  using assms
  by (auto simp: parse_bootstrap_message_def Option.bind_eq_Some_conv split: option.splits if_splits prod.splits)

lemma bootstrap_put_object_facts:
  assumes "bootstrap_put_object req s = Some (found, sob, s')"
  shows "ns_out s' = ns_out s" "ns_identity_accepted s' = ns_identity_accepted s" "ns_security s' \<noteq> None"
  using assms
  by (auto simp: bootstrap_put_object_def Option.bind_eq_Some_conv Let_def split: if_splits)

lemma bootstrap_put_payload_facts:
  assumes "bootstrap_put_payload lib req sob s = Some (success, s')"
  shows "notices s s' []" "ns_identity_accepted s' = ns_identity_accepted s"
    "ns_security s \<noteq> None \<Longrightarrow> ns_security s' \<noteq> None"
proof -
  let ?a = "acknowledge_token lib req s"
  have same: "notices s s' []" if "ns_out s' = ns_out ?a"
    using notices_trans [OF acknowledge_token_facts(1) notices_same [OF that]] by simp
  have p: "ns_out s2 = ns_out ?a \<and> ns_identity_accepted s2 = ns_identity_accepted s \<and>
      (ns_security s \<noteq> None \<longrightarrow> ns_security s2 \<noteq> None)"
    if "parse_bootstrap_message req sob ?a = Some (ok, s2)" for ok s2
    using parse_bootstrap_message_facts [OF that] by (simp add: acknowledge_token_facts)
  from assms consider "s' = ?a"
    | s2 where "parse_bootstrap_message req sob ?a = Some (success, s2)" "s' = s2 \<or> (\<exists>sec. s' = s2\<lparr>ns_security := Some sec\<rparr>)"
    by (auto simp: bootstrap_put_payload_def Option.bind_eq_Some_conv Let_def split: if_splits option.splits)
  then have "ns_out s' = ns_out ?a \<and> ns_identity_accepted s' = ns_identity_accepted s \<and>
      (ns_security s \<noteq> None \<longrightarrow> ns_security s' \<noteq> None)"
  proof cases
    case (2 s2)
    then show ?thesis using p [OF 2(1)] by auto
  qed (simp add: acknowledge_token_facts)
  then show "notices s s' []" "ns_identity_accepted s' = ns_identity_accepted s"
    "ns_security s \<noteq> None \<Longrightarrow> ns_security s' \<noteq> None" using same by auto
qed

lemma refused_gives_up:
  assumes "notices s s1 []"
  shows "given_up s (answer_with lib req code (handle_bootstrap_error s1))"
    and "given_up s (handle_bootstrap_error (answer_with lib req code s1))"
proof -
  have "notices s (handle_bootstrap_error s1) [OnBootstrapError]"
    using notices_trans [OF assms bootstrap_error_facts(1)] by simp
  from notices_trans [OF this answer_with_facts(1)]
  show "given_up s (answer_with lib req code (handle_bootstrap_error s1))"
    by (simp add: given_up_def answer_with_facts bootstrap_error_facts)
  have "notices s (answer_with lib req code s1) []" using notices_trans [OF assms answer_with_facts(1)] by simp
  from notices_trans [OF this bootstrap_error_facts(1)]
  show "given_up s (handle_bootstrap_error (answer_with lib req code s1))"
    by (simp add: given_up_def bootstrap_error_facts)
qed

lemma bootstrap_put_outcome:
  assumes "handle_bootstrap_put_message lib req s = Some s'"
  shows "given_up s s' \<or> goes_on s s' [] \<and> ns_security s' \<noteq> None"
proof -
  obtain found sob s1 success s2 where o: "bootstrap_put_object req s = Some (found, sob, s1)"
    and w: "(if found then bootstrap_put_payload lib req sob s1 else Some (False, s1)) = Some (success, s2)"
    and s': "s' = (if success then answer_with lib req COAP_MSG_CODE_RESPONSE_CHANGED s2
      else answer_with lib req COAP_MSG_CODE_RESPONSE_BAD_REQUEST (handle_bootstrap_error s2))"
    using assms by (auto simp: handle_bootstrap_put_message_def Option.bind_eq_Some_conv)
  note of = bootstrap_put_object_facts [OF o]
  have s2: "notices s s2 []" "ns_identity_accepted s2 = ns_identity_accepted s" "ns_security s2 \<noteq> None"
    using w of notices_trans [OF notices_same [OF of(1)], of s2 "[]"] bootstrap_put_payload_facts [of lib req sob s1 success s2]
      notices_same [OF of(1)]
    by (auto split: if_splits)
  show ?thesis
  proof (cases success)
    case True
    then show ?thesis using s' s2 notices_trans [OF s2(1) answer_with_facts(1)]
      by (simp add: goes_on_def answer_with_facts)
  next
    case False
    then show ?thesis using s' refused_gives_up(1) [OF s2(1)] by simp
  qed
qed

text \<open>Only a write for the server object changes that object before the end of the bootstrap.\<close>

lemma bootstrap_put_server:
  assumes "handle_bootstrap_put_message lib req s = Some s'" and "\<not> starts_with (coap_to_string (cm_uri_path req)) ''1''"
  shows "ns_server s' = ns_server s"
proof -
  obtain found sob s1 success s2 where o: "bootstrap_put_object req s = Some (found, sob, s1)"
    and w: "(if found then bootstrap_put_payload lib req sob s1 else Some (False, s1)) = Some (success, s2)"
    and s': "s' = (if success then answer_with lib req COAP_MSG_CODE_RESPONSE_CHANGED s2
      else answer_with lib req COAP_MSG_CODE_RESPONSE_BAD_REQUEST (handle_bootstrap_error s2))"
    using assms(1) by (auto simp: handle_bootstrap_put_message_def Option.bind_eq_Some_conv)
  have s1: "ns_server s1 = ns_server s" "found \<Longrightarrow> sob"
    using o assms(2) by (auto simp: bootstrap_put_object_def Option.bind_eq_Some_conv Let_def split: if_splits)
  have "ns_server s2 = ns_server s"
  proof (cases found)
    case True
    have p: "ns_server s4 = ns_server s1"
      if "parse_bootstrap_message req True (acknowledge_token lib req s1) = Some (ok, s4)" for ok s4
      using that by (auto simp: parse_bootstrap_message_def Option.bind_eq_Some_conv acknowledge_token_facts
          split: option.splits if_splits prod.splits)
    have "bootstrap_put_payload lib req True s1 = Some (success, s2)" using w True s1(2) by simp
    then have "ns_server s2 = ns_server s1"
      by (auto simp: bootstrap_put_payload_def Option.bind_eq_Some_conv Let_def acknowledge_token_facts
          dest!: p split: if_splits option.splits)
    then show ?thesis using s1(1) by simp
  qed (use w s1 in simp)
  then show ?thesis using s' by (simp add: answer_with_facts bootstrap_error_facts)
qed

lemma bootstrap_delete_server: "ns_server (handle_bootstrap_delete lib req s) = ns_server s"
  by (simp add: handle_bootstrap_delete_def Let_def bootstrap_error_facts send_coap_def out_def split: option.split)

text \<open>The end of the bootstrap gives the server object the short server number of the security object.\<close>

definition short_id_taken :: "nsdl \<Rightarrow> nsdl \<Rightarrow> bool" where
  "short_id_taken s s' \<longleftrightarrow> (\<exists>ssid r. Option.bind (ns_security s) (security_value_int SecurityShortServerID) = Some ssid \<and>
     server_set_int ServerShortServerID ssid (ns_server s) = Some (ns_server s', r))"

lemma bootstrap_finished_outcome:
  assumes "handle_bootstrap_finished lib req s = Some s'"
  shows "given_up s s' \<and> ns_server s' = ns_server s \<or> short_id_taken s s' \<and>
    (\<exists>sec v. ns_security s = Some sec \<and> validate_security_object (Some sec) = Some True \<and> security_view sec = Some v \<and>
       coap_to_string (cm_uri_path req) = ''bs'' \<and> goes_on s s' [OnBootstrapWait (Some v)] \<and> ns_security s' = Some sec)"
proof -
  obtain valid where v: "(if coap_to_string (cm_uri_path req) \<noteq> ''bs'' then Some False
      else validate_security_object (ns_security s)) = Some valid"
    using assms by (auto simp: handle_bootstrap_finished_def Option.bind_eq_Some_conv Let_def)
  show ?thesis
  proof (cases valid)
    case False
    then have "s' = handle_bootstrap_error (answer_with lib req COAP_MSG_CODE_RESPONSE_BAD_REQUEST s)"
      using assms v unfolding handle_bootstrap_finished_def Let_def v by simp
    then show ?thesis using refused_gives_up(2) [OF notices_same [OF refl]] by (simp add: answer_with_facts bootstrap_error_facts)
  next
    case True
    then have path: "coap_to_string (cm_uri_path req) = ''bs''" "validate_security_object (ns_security s) = Some True"
      using v by (auto split: if_splits)
    obtain sec server view e ssid r where sec: "ns_security s = Some sec" "security_view sec = Some view"
      "security_value_int SecurityShortServerID sec = Some ssid"
      "server_set_int ServerShortServerID ssid (ns_server s) = Some (server, r)"
      and s': "s' = (let s1 = answer_with lib req COAP_MSG_CODE_RESPONSE_CHANGED (s\<lparr>ns_server := server\<rparr>)
        in out [NotifyObserver (OnBootstrapWait (Some view))]
          (s1\<lparr>ns_endpoint := Some (e\<lparr>ep_name := Some (ns_endpoint_name s1)\<rparr>)\<rparr>))"
      using assms True unfolding handle_bootstrap_finished_def Let_def v
      by (auto simp: Option.bind_eq_Some_conv Let_def split_beta)
    let ?s1 = "answer_with lib req COAP_MSG_CODE_RESPONSE_CHANGED (s\<lparr>ns_server := server\<rparr>)"
    have "notices (s\<lparr>ns_server := server\<rparr>) ?s1 []" by (rule answer_with_facts)
    then have "notices s ?s1 []" by (simp add: notices_def)
    moreover have "notices ?s1 s' [OnBootstrapWait (Some view)]" by (simp add: s' Let_def notices_def)
    ultimately have "notices s s' [OnBootstrapWait (Some view)]" using notices_trans by fastforce
    moreover have "ns_security s' = Some sec" "ns_identity_accepted s' = ns_identity_accepted s"
      using sec(1) answer_with_facts(2,3) [of lib req COAP_MSG_CODE_RESPONSE_CHANGED "s\<lparr>ns_server := server\<rparr>"]
      by (simp_all add: s' Let_def)
    moreover have "ns_server s' = server" by (simp add: s' Let_def answer_with_facts)
    ultimately show ?thesis using sec path by (auto simp: goes_on_def short_id_taken_def)
  qed
qed

lemma path_lengths:
  "length p = 2 \<or> length p > 3 \<or> length p = 1 \<and> p \<noteq> ''0'' \<or> length p = 3 \<and> p \<noteq> ''0/0'' \<or> p \<in> {[], ''0'', ''0/0''}"
  by (cases "length p > 3") (auto simp: not_less le_Suc_eq numeral_3_eq_3)

lemma error_after:
  assumes "notices s s1 []"
  shows "given_up s (handle_bootstrap_error s1)"
  using notices_trans [OF assms bootstrap_error_facts(1)] by (simp add: given_up_def bootstrap_error_facts)

lemma bootstrap_delete_outcome:
  "given_up s (handle_bootstrap_delete lib req s) \<or>
   goes_on s (handle_bootstrap_delete lib req s) [] \<and> ns_identity_accepted s \<and>
   coap_to_string (cm_uri_path req) \<in> {[], ''0'', ''0/0''} \<and>
   ns_security (handle_bootstrap_delete lib req s) = map_option security_clear_resources (ns_security s)"
proof -
  let ?p = "coap_to_string (cm_uri_path req)"
  let ?bad = "\<not> ns_identity_accepted s \<or> length ?p = 2 \<or> length ?p > 3 \<or> length ?p = 1 \<and> ?p \<noteq> ''0'' \<or> length ?p = 3 \<and> ?p \<noteq> ''0/0''"
  define code where "code = (if ?bad then COAP_MSG_CODE_RESPONSE_BAD_REQUEST else COAP_MSG_CODE_RESPONSE_DELETED)"
  have c: "(if \<not> ns_identity_accepted s then COAP_MSG_CODE_RESPONSE_BAD_REQUEST
      else if length ?p = 2 \<or> length ?p > 3 then COAP_MSG_CODE_RESPONSE_BAD_REQUEST
      else if (length ?p = 1 \<and> ?p \<noteq> ''0'') \<or> (length ?p = 3 \<and> ?p \<noteq> ''0/0'') then COAP_MSG_CODE_RESPONSE_BAD_REQUEST
      else COAP_MSG_CODE_RESPONSE_DELETED) = code"
    by (auto simp: code_def)
  show ?thesis
  proof (cases "env_build (lib_coap lib) (Some req) code")
    case None
    then have "handle_bootstrap_delete lib req s = handle_bootstrap_error s"
      by (simp only: handle_bootstrap_delete_def Let_def c) simp
    then show ?thesis using error_after [OF notices_same [OF refl]] by simp
  next
    case (Some r)
    let ?s1 = "(fst (send_coap lib r s))\<lparr>ns_security := map_option security_clear_resources (ns_security (fst (send_coap lib r s)))\<rparr>"
    have n: "notices s ?s1 []" by (simp add: notices_def send_coap_def)
    have h: "handle_bootstrap_delete lib req s = (if code \<noteq> COAP_MSG_CODE_RESPONSE_DELETED then handle_bootstrap_error ?s1 else ?s1)"
      by (simp only: handle_bootstrap_delete_def Let_def c Some option.case) simp
    show ?thesis
    proof (cases ?bad)
      case True
      then show ?thesis using h error_after [OF n] by (simp add: code_def)
    next
      case False
      then have "ns_identity_accepted s" "?p \<in> {[], ''0'', ''0/0''}" using path_lengths [of ?p] by auto
      moreover have "goes_on s ?s1 []" using n by (simp add: goes_on_def send_coap_def)
      moreover have "code = COAP_MSG_CODE_RESPONSE_DELETED" unfolding code_def if_not_P [OF False] ..
      ultimately show ?thesis using h by (simp add: send_coap_def)
    qed
  qed
qed

section \<open>Properties\<close>

text \<open>C18: each bootstrap request, a write, a deletion or the end of the bootstrap, either goes on, keeping
  whether the server was accepted, or gives the bootstrap up: then the application is told of an error, the security object
  is forgotten and the server has to be accepted anew. The end is announced only for the path \<open>bs\<close> and a security object that passed the
  check, which is the one announced, and a deletion goes on only after the server was accepted. The server object is not
  forgotten: giving up leaves it as it is, with what earlier requests wrote; only writes to its own path may change it, and the
  end of the bootstrap, which stores the short server number in it.\<close>

theorem bootstrap_kept_or_forgotten:
  assumes "server_request lib True m s = Some (response, a, updated, s')"
    and "cm_code m = COAP_MSG_CODE_REQUEST_PUT \<or> cm_code m = COAP_MSG_CODE_REQUEST_DELETE \<or> cm_code m = COAP_MSG_CODE_REQUEST_POST"
  shows "\<exists>vs. notices s s' vs \<and>
    (vs = [OnBootstrapError] \<and> ns_security s' = None \<and> \<not> ns_identity_accepted s' \<and>
       (ns_server s' = ns_server s \<or>
        cm_code m = COAP_MSG_CODE_REQUEST_PUT \<and> starts_with (coap_to_string (cm_uri_path m)) ''1'') \<or>
     ns_identity_accepted s' = ns_identity_accepted s \<and>
     (case cm_code m of
        COAP_MSG_CODE_REQUEST_PUT \<Rightarrow> vs = [] \<and> ns_security s' \<noteq> None \<and>
          (ns_server s' = ns_server s \<or> starts_with (coap_to_string (cm_uri_path m)) ''1'')
      | COAP_MSG_CODE_REQUEST_DELETE \<Rightarrow> vs = [] \<and> ns_identity_accepted s \<and> ns_server s' = ns_server s \<and>
          ns_security s' = map_option security_clear_resources (ns_security s)
      | _ \<Rightarrow> (\<exists>v. vs = [OnBootstrapWait (Some v)] \<and> coap_to_string (cm_uri_path m) = ''bs'' \<and>
          validate_security_object (ns_security s) = Some True \<and>
          Option.bind (ns_security s) security_view = Some v \<and> ns_security s' = ns_security s \<and>
          (\<exists>ssid r. Option.bind (ns_security s) (security_value_int SecurityShortServerID) = Some ssid \<and>
             server_set_int ServerShortServerID ssid (ns_server s) = Some (ns_server s', r)))))"
proof -
  let ?req = "coap_msg.truncate m"
  have p: "cm_uri_path ?req = cm_uri_path m" by (simp add: coap_msg.truncate_def)
  consider (put) "cm_code m = COAP_MSG_CODE_REQUEST_PUT" "handle_bootstrap_put_message lib ?req s = Some s'"
    | (delete) "cm_code m = COAP_MSG_CODE_REQUEST_DELETE" "s' = handle_bootstrap_delete lib ?req s"
    | (post) "cm_code m = COAP_MSG_CODE_REQUEST_POST" "handle_bootstrap_finished lib ?req s = Some s'"
    using assms by (auto simp: server_request_def Let_def)
  then show ?thesis
  proof cases
    case put
    then show ?thesis using bootstrap_put_outcome [OF put(2)] bootstrap_put_server [OF put(2)] p
      by (auto simp: given_up_def goes_on_def)
  next
    case delete
    then show ?thesis using bootstrap_delete_outcome [of s lib ?req] bootstrap_delete_server [of lib ?req s]
      by (auto simp: given_up_def goes_on_def)
  next
    case post
    then show ?thesis using bootstrap_finished_outcome [OF post(2)] p
      by (auto simp: given_up_def goes_on_def short_id_taken_def)
  qed
qed

theorem bootstrap_kept_or_forgotten_witness:
  "\<exists>s'. server_request sample_lib True (sample_message COAP_MSG_CODE_REQUEST_DELETE 9 ''1'' None) sample_nsdl =
      Some (None, None, False, s') \<and> notices sample_nsdl s' [OnBootstrapError] \<and> ns_server s' = ns_server sample_nsdl"
proof -
  let ?m = "sample_message COAP_MSG_CODE_REQUEST_DELETE 9 ''1'' None"
  have m: "cm_code ?m = COAP_MSG_CODE_REQUEST_DELETE" by (simp add: sample_message_def)
  then obtain s' where r: "server_request sample_lib True ?m sample_nsdl = Some (None, None, False, s')"
    by (simp add: server_request_def Let_def)
  have "\<not> ns_identity_accepted sample_nsdl" by (simp add: sample_nsdl_def nsdl_new_def)
  then show ?thesis using bootstrap_kept_or_forgotten [OF r] m r by auto
qed

section \<open>The check of the security object\<close>

definition key_resources :: "security_resource list" where
  "key_resources = [PublicKey, ServerPublicKey, Secretkey]"

lemma security_length_value:
  "security_value_length r sec =
     map_option (\<lambda>v. case v of None \<Rightarrow> 0 | Some v \<Rightarrow> length v) (map_option bs_value (security_base r sec))"
  by (cases "security_base r sec") (simp_all add: security_value_length_def value_len_def)

lemma security_base_present: "security_wf sec \<Longrightarrow> security_base r sec = None \<longleftrightarrow> security_get r sec = None"
  by (simp add: security_base_def security_get_def security_wf_def std_base_present)

lemma bootstrap_server_unread: "security_value_int security_resource.BootstrapServer sec = Some 0"
  by (simp add: security_value_int_def security_is_int_def split: option.split)

lemma validate_value:
  assumes "security_wf sec" and "security_value_int SecurityMode sec = Some m"
    and "list_all (\<lambda>r. security_get r sec \<noteq> None) key_resources"
  shows "validate_security_object (Some sec) =
    Some (security_value_string M2MServerUri sec \<noteq> [] \<and>
      (m = 3 \<or> m = 2 \<and> list_all (\<lambda>r. security_value_length r sec \<noteq> Some 0) key_resources))"
proof -
  obtain k1 k2 k3 where "security_value_length PublicKey sec = Some k1" "security_value_length ServerPublicKey sec = Some k2"
    "security_value_length Secretkey sec = Some k3"
    using assms(3) by (auto simp: key_resources_def security_value_length_def simp flip: security_base_present [OF assms(1)])
  then show ?thesis
    by (auto simp: validate_security_object_def assms(2) bootstrap_server_unread key_resources_def)
qed

text \<open>C34: a security object passes the check when it has an address and either no security or certificates with all three keys.
  The check is meant to refuse a bootstrap server too, but nothing written to that flag changes its outcome.\<close>

theorem bootstrap_flag_ignored:
  assumes "security_wf sec" and "security_get security_resource.BootstrapServer sec = Some n" and "v \<noteq> []"
    and "security_value_int SecurityMode sec = Some m"
    and "list_all (\<lambda>r. security_get r sec \<noteq> None) key_resources"
  shows "validate_security_object (Some sec) =
      Some (security_value_string M2MServerUri sec \<noteq> [] \<and>
        (m = 3 \<or> m = 2 \<and> list_all (\<lambda>r. security_value_length r sec \<noteq> Some 0) key_resources)) \<and>
    validate_security_object (Some (fst (security_write n (Some v) (length v) sec))) = validate_security_object (Some sec)"
proof -
  let ?sec = "fst (security_write n (Some v) (length v) sec)"
  note w = security_write_value [OF assms(1-3)]
  have b: "map_option bs_value (security_base r ?sec) = map_option bs_value (security_base r sec)"
    if "r \<noteq> security_resource.BootstrapServer" for r using w(2) [of r] that by simp
  have l: "security_value_length r ?sec = security_value_length r sec" if "r \<noteq> security_resource.BootstrapServer" for r
    by (simp only: security_length_value b [OF that])
  have "security_value_int SecurityMode ?sec = Some m" using assms(4) b [of SecurityMode] by (simp add: security_readers)
  moreover have "list_all (\<lambda>r. security_get r ?sec \<noteq> None) key_resources" using assms(5) by (simp add: w(4))
  ultimately have "validate_security_object (Some ?sec) = Some (security_value_string M2MServerUri ?sec \<noteq> [] \<and>
      (m = 3 \<or> m = 2 \<and> list_all (\<lambda>r. security_value_length r ?sec \<noteq> Some 0) key_resources))"
    using w(3) by (rule validate_value [rotated])
  moreover have "security_value_string M2MServerUri ?sec = security_value_string M2MServerUri sec"
    using b [of M2MServerUri] by (simp add: security_readers)
  moreover have "list_all (\<lambda>r. security_value_length r ?sec \<noteq> Some 0) key_resources \<longleftrightarrow>
      list_all (\<lambda>r. security_value_length r sec \<noteq> Some 0) key_resources"
    by (simp add: key_resources_def l)
  ultimately show ?thesis using validate_value [OF assms(1,4,5)] by simp
qed

lemma security_server_facts:
  "security_wf (security_new ST_M2MServer)"
  "security_get security_resource.BootstrapServer (security_new ST_M2MServer) = Some (NRes 0 1)"
  "security_value_int SecurityMode (security_new ST_M2MServer) = Some 0"
  "list_all (\<lambda>r. security_get r (security_new ST_M2MServer) \<noteq> None) key_resources"
  by (code_simp, code_simp, code_simp, code_simp)

theorem bootstrap_flag_ignored_witness:
  "validate_security_object (Some (fst (security_write (NRes 0 1) (Some [1]) 1 (security_new ST_M2MServer)))) = Some False"
  using bootstrap_flag_ignored [OF security_server_facts(1,2) _ security_server_facts(3,4), of "[1]"] by simp

end
