(* ===== verification/NsdlClient.thy ===== *)
theory NsdlClient
  imports NsdlTimers NsdlBootstrapSpec InterfaceRegistration
begin

text \<open>
  The NSDL interface and the state machine together: what the machine makes of the notices a message of the server
  causes. The notices are run in the order they were given.
\<close>

section \<open>The state machine\<close>

lemma run_data_processed:
  assumes "accepting i"
  shows "run_state (handle_input (exec (Suc (Suc (Suc n)))) OnCoapDataProcessed) i =
    ((), i\<lparr>if_event_data := None, if_event_generated := False, if_current_state := STATE_WAITING\<rparr>)"
  using assms by (simp add: accepting_def run_simps state_coap_data_processed_def)

lemma run_two:
  "interface_run (Suc (Suc (Suc n))) [v, w] i =
     snd (run_state (handle_input (exec (Suc n)) w) (snd (run_state (handle_input (exec (Suc (Suc n))) v) i)))"
  by (simp add: run_inputs_Cons run_inputs_Nil)

definition waiting :: "interface \<Rightarrow> interface" where
  "waiting i = i\<lparr>if_event_data := None, if_event_generated := False, if_current_state := STATE_WAITING\<rparr>"

lemma waiting_simps [simp]:
  "accepting (waiting i) = accepting i" "if_out (waiting i) = if_out i" "if_retry_count (waiting i) = if_retry_count i"
  "if_register_server (waiting i) = if_register_server i" "if_flow_timer (waiting i) = if_flow_timer i"
  by (simp_all add: waiting_def accepting_def)

lemma accepting_quiet: "accepting i \<Longrightarrow> quiet i"
  by (simp add: accepting_def quiet_def)

lemma run_processed_then:
  assumes "accepting i"
  shows "interface_run (n + 8) [OnCoapDataProcessed, w] i = snd (run_state (handle_input (exec (Suc (n + 5))) w) (waiting i))"
proof -
  have e: "n + 8 = Suc (Suc (Suc (n + 5)))" "Suc (Suc (n + 5)) = Suc (Suc (Suc (n + 4)))" by simp_all
  show ?thesis unfolding e(1) run_two e(2) run_data_processed [OF assms] by (simp add: waiting_def)
qed

lemma run_registration_refused:
  assumes "quiet i"
  shows "run_state (interface_registration_error (exec (Suc (Suc n))) error False) i =
    ((), said (ObserverError error) (said NsdlStopTimers (at_state STATE_IDLE i)))"
  using assms by (simp add: interface_registration_error_def give_up_def run_event_idle run_call_ignore del: exec.simps)

lemma run_registration_failed:
  assumes "quiet i"
  shows "run_state (interface_registration_error (exec (Suc (Suc n))) error True) i =
    ((), (connection_failed NetworkError i)\<lparr>if_reconnection_state := FullRegistration\<rparr>)"
  using assms by (simp add: interface_registration_error_def run_socket_error socket_error_of_code_def del: exec.simps)

section \<open>Answers to a registration\<close>

text \<open>The notice a registration's answer becomes.\<close>

definition registration_notice :: "coap_code \<Rightarrow> interface_input" where
  "registration_notice code =
     (if code = COAP_MSG_CODE_RESPONSE_CREATED then OnClientRegistered 0
      else if code = COAP_MSG_CODE_RESPONSE_BAD_REQUEST \<or> code = COAP_MSG_CODE_RESPONSE_FORBIDDEN
      then OnRegistrationError InvalidParameters False else OnRegistrationError NetworkError True)"

lemma notices_start_timer: "notices s (start_registration_timer s) []"
  by (simp add: notices_def start_registration_timer_out)

lemma registration_answer_notice:
  assumes "ns_endpoint s = Some e"
  shows "\<exists>s'. registration_answer m s = Some s' \<and> notices s s' [registration_notice (cm_code m)]"
proof (cases "cm_code m = COAP_MSG_CODE_RESPONSE_CREATED")
  case False
  then show ?thesis by (auto simp: registration_answer_def registration_notice_def notices_def)
next
  case True
  let ?s1 = "out [NotifyObserver (OnClientRegistered 0)] s"
  have n1: "notices s ?s1 [OnClientRegistered 0]" by (simp add: notices_def)
  obtain s2 e2 where s2: "(case cm_options m of None \<Rightarrow> Some ?s1
      | Some opts \<Rightarrow> do {
          e \<leftarrow> ns_endpoint ?s1;
          let s2 = ?s1\<lparr>ns_endpoint := Some (e\<lparr>ep_lifetime := None\<rparr>)\<rparr>;
          s3 \<leftarrow> (if opt_max_age opts > 0 then set_endpoint_lifetime_buffer (ucast (opt_max_age opts)) s2 else Some s2);
          Some (case opt_location_path opts of None \<Rightarrow> s3 | Some l \<Rightarrow> out [SetEndpointLocation l] s3) }) = Some s2"
    "ns_endpoint s2 = Some e2" "notices s s2 [OnClientRegistered 0]"
  proof (cases "cm_options m")
    case None
    then show ?thesis using that [of ?s1 e] assms n1 by simp
  next
    case (Some opts)
    obtain t where b: "\<And>s. set_endpoint_lifetime_buffer (ucast (opt_max_age opts)) s =
        Some (s\<lparr>ns_endpoint := map_option (\<lambda>e. e\<lparr>ep_lifetime := Some t\<rparr>) (ns_endpoint s)\<rparr>)"
      using lifetime_buffer [of "ucast (opt_max_age opts)"] by blast
    let ?e = "e\<lparr>ep_lifetime := if opt_max_age opts > 0 then Some t else None\<rparr>"
    let ?s3 = "?s1\<lparr>ns_endpoint := Some ?e\<rparr>"
    show ?thesis
      by (rule that [of "case opt_location_path opts of None \<Rightarrow> ?s3 | Some l \<Rightarrow> out [SetEndpointLocation l] ?s3" ?e])
        (use Some assms in \<open>auto simp: b [unfolded ucast_id] notices_def split: option.split\<close>)
  qed
  have "notices s (start_registration_timer s2) [OnClientRegistered 0]"
    using notices_trans [OF s2(3) notices_start_timer] by simp
  then show ?thesis using True s2 by (auto simp: registration_answer_def registration_notice_def Let_def)
qed

text \<open>C11: the server's answer to a registration, whatever its code, through both machines: 2.01 makes
  the client registered and the application is told; 4.00 and 4.03 end the attempt with the error \<open>InvalidParameters\<close>; after any other the
  client waits for the retry timer and then registers from the start.\<close>

theorem registration_answer_reaches_application:
  assumes "ns_endpoint s = Some e" and "cm_id m = nh_register_id h"
    and "if_replies i = []" and "\<not> if_event_ignored i" and "if_retry_count i \<le> RECONNECTION_COUNT"
  shows "\<exists>s' vs. received_from_server_callback lib (Some h) (Some m) address s = Some (s', 0) \<and> notices s s' vs \<and>
    (let i' = interface_run (n + 8) vs i
     in if cm_code m = COAP_MSG_CODE_RESPONSE_CREATED
        then if_current_state i' = STATE_REGISTERED \<and> last (if_out i') = ObserverRegistered (if_register_server i) 0
        else if cm_code m = COAP_MSG_CODE_RESPONSE_BAD_REQUEST \<or> cm_code m = COAP_MSG_CODE_RESPONSE_FORBIDDEN
        then if_current_state i' = STATE_IDLE \<and> if_out i' = if_out i @ [NsdlStopTimers, ObserverError InvalidParameters]
        else if_current_state i' = STATE_IDLE \<and> if_reconnection_state i' = FullRegistration \<and>
          if_out i' = if_out i @ retry_report NetworkError (if_retry_count i))"
proof -
  let ?s0 = "out [NotifyObserver OnCoapDataProcessed] s"
  have "ns_endpoint ?s0 = Some e" using assms(1) by simp
  from registration_answer_notice [OF this]
  obtain s' where s': "registration_answer m ?s0 = Some s'" "notices ?s0 s' [registration_notice (cm_code m)]" by blast
  have "notices s ?s0 [OnCoapDataProcessed]" by (simp add: notices_def)
  from notices_trans [OF this s'(2)] have n: "notices s s' [OnCoapDataProcessed, registration_notice (cm_code m)]" by simp
  have r: "received_from_server_callback lib (Some h) (Some m) address s = Some (s', 0)"
    using s'(1) assms(2) by (simp add: received_from_server_callback_def Let_def)
  have acc: "accepting i" using assms(3,4) by (simp add: accepting_def)
  then have acc': "accepting (waiting i)" "quiet (waiting i)" by (simp_all add: accepting_quiet)
  obtain k where e: "Suc (n + 5) = Suc (Suc k)" by (rule that [of "n + 4"]) simp
  note run = run_processed_then [OF acc, of n "registration_notice (cm_code m)", unfolded e]
  show ?thesis
    by (intro exI [of _ s'] exI [of _ "[OnCoapDataProcessed, registration_notice (cm_code m)]"] conjI r n, unfold Let_def run)
      (use acc' assms(5) in \<open>auto simp: registration_notice_def run_client_registered run_registration_refused
        run_registration_failed connection_failed_out simp del: exec.simps\<close>)
qed

theorem registration_answer_reaches_application_witness:
  "\<exists>s' vs. received_from_server_callback sample_lib (Some sample_handle)
       (Some (sample_message COAP_MSG_CODE_RESPONSE_CREATED 1 [] None)) None sample_nsdl = Some (s', 0) \<and>
     notices sample_nsdl s' vs \<and> if_current_state (interface_run 8 vs (interface_new ''ep'' 0 [] TCP [])) = STATE_REGISTERED"
proof -
  let ?m = "sample_message COAP_MSG_CODE_RESPONSE_CREATED 1 [] None"
  have m: "cm_code ?m = COAP_MSG_CODE_RESPONSE_CREATED" "cm_id ?m = nh_register_id sample_handle"
    by (simp_all add: sample_message_def sample_handle_def)
  have e: "ns_endpoint sample_nsdl = Some empty_endpoint" by (simp add: sample_nsdl_def nsdl_new_def)
  let ?i = "interface_new ''ep'' 0 [] TCP []"
  have i: "if_replies ?i = []" "\<not> if_event_ignored ?i" "if_retry_count ?i \<le> RECONNECTION_COUNT"
    by (simp_all add: interface_new_rec)
  from registration_answer_reaches_application [OF e m(2) i, of sample_lib None 0] m(1)
  obtain s' vs where "received_from_server_callback sample_lib (Some sample_handle) (Some ?m) None sample_nsdl = Some (s', 0)"
    "notices sample_nsdl s' vs" "if_current_state (interface_run 8 vs ?i) = STATE_REGISTERED"
    by (simp only: Let_def if_True simp_thms add_0) blast
  then show ?thesis by blast
qed

end
