(* ===== verification/NsdlCreation.thy ===== *)
theory NsdlCreation
  imports NsdlFrames
begin

text \<open>
  Creating instances for the server, and handing the nodes of an object to the CoAP library in the order the library
  sees them.
\<close>

section \<open>POST on an instance\<close>

lemma update_keeps_objects:
  assumes "send_update_registration lib 0 s = Some (s', ok)"
  shows "map unhandled (ns_objects s') = map unhandled (ns_objects s)" and "sent_since s s' []"
    and "last (ns_out s') = UpdateRegistration None"
proof -
  let ?s1 = "fst (create_nsdl_list_structure lib (ns_object_list s) s)"
  note r = create_nsdl_list_structure_registers [of s lib "ns_object_list s"]
  have s': "s' = out [UpdateRegistration None] ?s1" using assms by (simp add: send_update_registration_def Let_def)
  show "map unhandled (ns_objects s') = map unhandled (ns_objects s)" using r by (simp add: s' registers_only_def)
  have "sent_since ?s1 s' []" by (simp add: s')
  from sent_since_trans [OF sent_since_registers [OF r] this] show "sent_since s s' []" by simp
  show "last (ns_out s') = UpdateRegistration None" by (simp add: s')
qed

lemma create_existing:
  assumes "object_instance_of i (t_object (ns_tree k s)) = Some j"
  shows "tree_create_object_instance i (ns_tree k s) = (ns_tree k s, None)"
  using assms by (simp add: tree_create_object_instance_def create_object_instance_def)

lemma ns_set_tree_same: "ns_set_tree k (ns_tree k s) s = s"
  by (simp add: ns_set_tree_def ns_tree_def)

text \<open>C35: a POST the library does not match to a node, for an instance that exists, is not answered at all and
  creates nothing, but sends an update of the registration. The number of the instance is what \<open>atoi\<close> makes of
  the last part of the path, 0 for letters.\<close>

theorem post_existing_unanswered:
  assumes "cm_code m = COAP_MSG_CODE_REQUEST_POST" and "cm_uri_path m = Some (obj @ ''/'' @ num)"
    and "CHR ''/'' \<notin> set obj" and "CHR ''/'' \<notin> set num" and "cm_payload m \<noteq> None"
    and "find_resource obj None s = Some (k, NObj)"
    and "0 \<le> atoi (cstr num)" and "atoi (cstr num) < 65535"
    and "object_instance_of (word_of_int (atoi (cstr num))) (t_object (ns_tree k s)) = Some i"
  shows "\<exists>s'. server_request lib False m s = Some (None, None, False, s') \<and> sent_since s s' [] \<and>
    map unhandled (ns_objects s') = map unhandled (ns_objects s) \<and> last (ns_out s') = UpdateRegistration None"
proof -
  let ?path = "obj @ ''/'' @ num" and ?req = "coap_msg.truncate m"
  obtain s' ok where u: "send_update_registration lib 0 s = Some (s', ok)"
    by (simp add: send_update_registration_def Let_def split_beta)
  have f: "string_find_last CHR ''/'' ?path = int (length obj)"
    using find_last_append [OF assms(4), of obj] by simp
  have sub: "string_substr 0 (length obj) ?path = obj" "string_substr (length obj + 1) (length ?path - length obj) ?path = num"
    by (simp_all add: string_substr_def)
  have none: "string_find_last CHR ''/'' obj = -1" by (rule find_last_none) (rule assms)
  obtain pl where p: "cm_uri_path ?req = Some ?path" "cm_payload ?req = Some pl"
    using assms(2,5) by (auto simp: coap_msg.truncate_def)
  have "create_by_post lib ?req k (word_of_int (atoi (cstr num))) s = Some (None, None, False, s')"
    by (simp add: create_by_post_def Let_def create_existing [OF assms(9)] ns_set_tree_same u)
  moreover have "post_request lib ?req s = create_by_post lib ?req k (word_of_int (atoi (cstr num))) s"
    using p sub f none assms(6-8) by (simp add: post_request_def Let_def coap_to_string_def)
  ultimately have "server_request lib False m s = Some (None, None, False, s')"
    using assms(1) by (simp add: server_request_def Let_def)
  then show ?thesis using update_keeps_objects [OF u] by blast
qed

theorem post_existing_unanswered_witness:
  "\<exists>s'. server_request sample_lib False (sample_message COAP_MSG_CODE_REQUEST_POST 9 ''9/x'' (Some [])) sample_nsdl =
     Some (None, None, False, s') \<and> last (ns_out s') = UpdateRegistration None"
proof -
  have f: "find_resource ''9'' None sample_nsdl = Some (0, NObj)"
    "object_instance_of 0 (t_object (ns_tree 0 sample_nsdl)) = Some 0" "atoi (cstr ''x'') = 0"
    by (code_simp, code_simp, code_simp)
  show ?thesis
    using post_existing_unanswered [where m = "sample_message COAP_MSG_CODE_REQUEST_POST 9 ''9/x'' (Some [])"
        and obj = "''9''" and num = "''x''" and s = sample_nsdl and k = 0 and i = 0 and lib = sample_lib] f
    by (auto simp: sample_message_def)
qed

section \<open>Registering the nodes of an object\<close>

text \<open>The reference: each node after its children, in order. A node without operations is left out, except a resource, and so is
  a multiple resource without instances.\<close>

definition resource_puts :: "tree \<Rightarrow> nat \<Rightarrow> nat \<Rightarrow> node list" where
  "resource_puts t i j =
     (let r = tree_res i j t; n = length (r_instances r)
      in if supports_multiple_instances r then (if n = 0 then [] else map (NRinst i j) [0..<n] @ [NRes i j]) else [NRes i j])"

definition puts_if_allowed :: "tree \<Rightarrow> node \<Rightarrow> node list" where
  "puts_if_allowed t n = (if with_base n NOT_ALLOWED bs_access t \<noteq> NOT_ALLOWED then [n] else [])"

definition instance_puts :: "tree \<Rightarrow> nat \<Rightarrow> node list" where
  "instance_puts t i =
     concat (map (resource_puts t i) [0..<length (oi_resources (tree_inst i t))]) @ puts_if_allowed t (NInst i)"

definition object_puts :: "tree \<Rightarrow> node list" where
  "object_puts t = concat (map (instance_puts t) [0..<length (o_instances (t_object t))]) @ puts_if_allowed t NObj"

lemma unhandled_reads [simp]:
  "with_base n d f (unhandled t) = with_base n d f t" "tree_res i j (unhandled t) = tree_res i j t"
  "tree_inst i (unhandled t) = tree_inst i t" "o_instances (t_object (unhandled t)) = o_instances (t_object t)"
  by (cases n; simp add: with_base_def unhandled_def base_set_observation_handler_def tree_res_def tree_inst_def)+

definition same_structure :: "nat \<Rightarrow> nsdl \<Rightarrow> nsdl \<Rightarrow> bool" where
  "same_structure k s s' \<longleftrightarrow> unhandled (ns_tree k s') = unhandled (ns_tree k s) \<and> length (ns_objects s') = length (ns_objects s)"

lemma same_structure_reads:
  assumes "same_structure k s s'"
  shows "with_base n d f (ns_tree k s') = with_base n d f (ns_tree k s)" "tree_res i j (ns_tree k s') = tree_res i j (ns_tree k s)"
    "tree_inst i (ns_tree k s') = tree_inst i (ns_tree k s)"
    "o_instances (t_object (ns_tree k s')) = o_instances (t_object (ns_tree k s))"
  using assms unfolding same_structure_def by (metis unhandled_reads(1), metis unhandled_reads(2), metis unhandled_reads(3),
      metis unhandled_reads(4))

lemma same_structure_puts:
  assumes "same_structure k s s'"
  shows "resource_puts (ns_tree k s') = resource_puts (ns_tree k s)" "puts_if_allowed (ns_tree k s') = puts_if_allowed (ns_tree k s)"
    "instance_puts (ns_tree k s') = instance_puts (ns_tree k s)"
proof -
  show r: "resource_puts (ns_tree k s') = resource_puts (ns_tree k s)"
    and a: "puts_if_allowed (ns_tree k s') = puts_if_allowed (ns_tree k s)"
    by (simp_all add: fun_eq_iff resource_puts_def puts_if_allowed_def same_structure_reads [OF assms])
  show "instance_puts (ns_tree k s') = instance_puts (ns_tree k s)"
    by (simp add: fun_eq_iff instance_puts_def r a same_structure_reads(3) [OF assms])
qed

lemma registers_structure: "registers_only s s' \<Longrightarrow> k < length (ns_objects s) \<Longrightarrow> same_structure k s s'"
proof -
  assume "registers_only s s'" and k: "k < length (ns_objects s)"
  then have m: "map unhandled (ns_objects s') = map unhandled (ns_objects s)" by (simp add: registers_only_def)
  then have "length (ns_objects s') = length (ns_objects s)" by (rule map_eq_imp_length_eq)
  moreover have "map unhandled (ns_objects s') ! k = map unhandled (ns_objects s) ! k" using m by simp
  ultimately show ?thesis using k by (simp add: same_structure_def ns_tree_def)
qed

text \<open>From one state to another exactly these nodes are handed over.\<close>

definition puts :: "nat \<Rightarrow> node list \<Rightarrow> nsdl \<Rightarrow> nsdl \<Rightarrow> bool" where
  "puts k ns s s' \<longleftrightarrow> same_structure k s s' \<and>
     ns_out s' = ns_out s @ map (\<lambda>n. PutResource (k, n) (with_base n [] bs_path (ns_tree k s))) ns"

lemma puts_Nil [simp]: "puts k [] s s"
  by (simp add: puts_def same_structure_def)

lemma puts_append:
  assumes "puts k ns s s1" and "puts k ms s1 s2"
  shows "puts k (ns @ ms) s s2"
proof -
  have "same_structure k s s1" using assms by (simp add: puts_def)
  then show ?thesis using assms same_structure_reads(1) [of k s s1] by (auto simp: puts_def same_structure_def)
qed

definition accepts_nodes :: "nsdl_lib \<Rightarrow> bool" where
  "accepts_nodes lib \<longleftrightarrow> (\<forall>os p. lib_put lib os p = 0 \<or> lib_put lib os p = -2)"

lemma create_nsdl_resource_puts:
  assumes "accepts_nodes lib" and "k < length (ns_objects s)"
  shows "puts k [n] s (fst (create_nsdl_resource lib (k, n) s)) \<and> snd (create_nsdl_resource lib (k, n) s)"
  using assms registers_structure [OF create_nsdl_resource_registers assms(2), of lib "(k, n)"]
  by (auto simp: puts_def create_nsdl_resource_def Let_def accepts_nodes_def)

lemma create_all_puts:
  assumes "accepts_nodes lib" and "k < length (ns_objects s)"
  shows "puts k ns s (fst (create_all_until_failure lib (map (Pair k) ns) s)) \<and>
    snd (create_all_until_failure lib (map (Pair k) ns) s)"
  using assms(2)
proof (induction ns arbitrary: s)
  case (Cons n ns)
  let ?s1 = "fst (create_nsdl_resource lib (k, n) s)"
  have p: "puts k [n] s ?s1" "snd (create_nsdl_resource lib (k, n) s)"
    using create_nsdl_resource_puts [OF assms(1) Cons.prems] by auto
  then have "k < length (ns_objects ?s1)" using Cons.prems by (simp add: puts_def same_structure_def)
  from Cons.IH [OF this] show ?case using p puts_append [OF p(1), of ns] by (simp add: split_beta Let_def)
qed simp

lemma resource_structure_puts:
  assumes "accepts_nodes lib" and "k < length (ns_objects s)"
  shows "puts k (resource_puts (ns_tree k s) i j) s
    (fst (create_nsdl_resource_structure lib k i j (supports_multiple_instances (tree_res i j (ns_tree k s))) s))"
proof -
  let ?n = "length (r_instances (tree_res i j (ns_tree k s)))"
  let ?ns = "map (NRinst i j) [0..<?n]"
  let ?all = "create_all_until_failure lib (map (Pair k) ?ns) s"
  have a: "puts k ?ns s (fst ?all)" "snd ?all" using create_all_puts [OF assms, of ?ns] by blast+
  then have "k < length (ns_objects (fst ?all))" using assms(2) by (simp add: puts_def same_structure_def)
  from create_nsdl_resource_puts [OF assms(1) this, of "NRes i j"]
  have "puts k (?ns @ [NRes i j]) s (fst (create_nsdl_resource lib (k, NRes i j) (fst ?all)))"
    using puts_append [OF a(1)] by blast
  moreover have "map (\<lambda>m. (k, NRinst i j m)) [0..<?n] = map (Pair k) ?ns" by simp
  ultimately show ?thesis
    using a create_nsdl_resource_puts [OF assms, of "NRes i j"]
    by (simp add: create_nsdl_resource_structure_def resource_puts_def Let_def split_beta del: map_map)
qed

lemma last_success_puts:
  assumes "\<And>x s'. same_structure k s s' \<Longrightarrow> puts k (g x) s' (fst (f x s'))" and "same_structure k s s1"
  shows "puts k (concat (map g xs)) s1 (fst (last_success f b xs s1))"
  using assms(2)
proof (induction xs arbitrary: s1 b)
  case (Cons x xs)
  have p: "puts k (g x) s1 (fst (f x s1))" using assms(1) Cons.prems by blast
  then have "same_structure k s (fst (f x s1))" using Cons.prems by (simp add: puts_def same_structure_def)
  from puts_append [OF p Cons.IH [OF this]] show ?case by (simp add: split_beta Let_def)
qed simp

lemma then_if_allowed:
  assumes "accepts_nodes lib" and "k < length (ns_objects s)" and "puts k ns s s1"
  shows "puts k (ns @ puts_if_allowed (ns_tree k s) n) s
    (fst (if with_base n NOT_ALLOWED bs_access (ns_tree k s1) \<noteq> NOT_ALLOWED
          then create_nsdl_resource lib (k, n) s1 else (s1, b)))"
proof -
  have st: "same_structure k s s1" using assms(3) by (simp add: puts_def)
  then have "k < length (ns_objects s1)" using assms(2) by (simp add: same_structure_def)
  from puts_append [OF assms(3), of "[n]"] create_nsdl_resource_puts [OF assms(1) this, of n]
  show ?thesis using assms(3) by (simp add: puts_if_allowed_def same_structure_reads(1) [OF st])
qed

lemma instance_structure_puts:
  assumes "accepts_nodes lib" and "k < length (ns_objects s)"
  shows "puts k (instance_puts (ns_tree k s) i) s (fst (create_nsdl_object_instance_structure lib k i s))"
proof -
  let ?f = "\<lambda>j s'. create_nsdl_resource_structure lib k i j (supports_multiple_instances (tree_res i j (ns_tree k s'))) s'"
  have f: "puts k (resource_puts (ns_tree k s) i j) s' (fst (?f j s'))" if "same_structure k s s'" for j s'
    using that assms resource_structure_puts [of lib k s' i j] same_structure_puts(1) [OF that]
    by (simp add: same_structure_def)
  show ?thesis
    unfolding create_nsdl_object_instance_structure_def Let_def split_beta instance_puts_def
    by (rule then_if_allowed [OF assms]) (rule last_success_puts [OF f], simp_all add: same_structure_def)
qed

text \<open>C19: when the library accepts every node, an object is handed to it node by node, each after its children and
  with its path, in the order of the tree: all resources and their instances, and the objects and object instances that allow some
  operation. A multiple resource without instances is left out.\<close>

theorem nodes_registered_in_order:
  assumes "\<forall>os p. lib_put lib os p = 0 \<or> lib_put lib os p = -2" and "k < length (ns_objects s)"
  shows "ns_out (fst (create_nsdl_object_structure lib k s)) = ns_out s @
    map (\<lambda>n. PutResource (k, n) (with_base n [] bs_path (ns_tree k s))) (object_puts (ns_tree k s))"
proof -
  have a: "accepts_nodes lib" using assms(1) by (simp add: accepts_nodes_def)
  have f: "puts k (instance_puts (ns_tree k s) i) s' (fst (create_nsdl_object_instance_structure lib k i s'))"
    if "same_structure k s s'" for i s'
    using that assms(2) instance_structure_puts [OF a, of k s' i] same_structure_puts(3) [OF that]
    by (simp add: same_structure_def)
  have "puts k (object_puts (ns_tree k s)) s (fst (create_nsdl_object_structure lib k s))"
    unfolding create_nsdl_object_structure_def Let_def split_beta object_puts_def
    by (rule then_if_allowed [OF a assms(2)]) (rule last_success_puts [OF f], simp_all add: same_structure_def)
  then show ?thesis by (simp add: puts_def)
qed

theorem nodes_registered_in_order_witness:
  "ns_out (fst (create_nsdl_object_structure sample_lib 0 sample_nsdl)) = [PutResource (0, NRes 0 0) ''9/0/1'']"
proof -
  have "map (\<lambda>n. PutResource (0, n) (with_base n [] bs_path (ns_tree 0 sample_nsdl))) (object_puts (ns_tree 0 sample_nsdl)) =
      [PutResource (0, NRes 0 0) ''9/0/1'']" by code_simp
  moreover have "ns_out sample_nsdl = []" "0 < length (ns_objects sample_nsdl)" by (simp_all add: sample_nsdl_def nsdl_new_def)
  ultimately show ?thesis using nodes_registered_in_order [of sample_lib 0 sample_nsdl] by (simp add: sample_lib_def)
qed

end
