(* ===== verification/NsdlDelete.thy ===== *)
theory NsdlDelete
  imports NsdlLookup NsdlFrames InterfaceFlows Paths
begin

text \<open>
  DELETE requests for object instances. The node is found by its whole path, but the instance that is removed is
  the one with the number the last part of the path reads as.
\<close>

lemma strtoul_dec_string: "n < 2 ^ 31 \<Longrightarrow> strtoul (dec_string n) = int n"
proof -
  assume n: "n < 2 ^ 31"
  have v: "foldl (\<lambda>a c. 10 * a + digit_val c) 0 (dec_string n) = n" by (simp add: dec_string_def foldl_itoa_digits)
  show ?thesis using n strtol_parse_digits [OF dec_string_nonempty dec_string_isdigit, of n, unfolded v]
    by (simp add: strtoul_def)
qed

lemma strtoul_empty: "strtoul [] = 0"
  by code_simp

lemma find_resource_cstr: "find_resource (cstr name) None s = find_resource name None s"
proof -
  have "path_is (cstr name) = path_is name" by (simp add: fun_eq_iff path_is_def)
  then show ?thesis by (simp add: find_resource_nodes)
qed

lemma find_own_path:
  assumes "find_resource name None s = Some (k, n)"
  shows "find_resource (with_base n [] bs_path (ns_tree k s)) None s = Some (k, n)"
proof -
  obtain b where "get_base n (t_object (ns_tree k s)) = Some b" "bs_path b = cstr name"
    using found_node [OF assms] by (auto simp: path_is_def)
  then have "with_base n [] bs_path (ns_tree k s) = cstr name" by (simp add: with_base_def del: get_base.simps)
  then show ?thesis using assms by (simp add: find_resource_cstr)
qed

text \<open>C33: a DELETE for an object instance removes the instance its path names, keeps every other and is answered with
  2.02, when the path ends in a number. The path of an instance numbered 10000 or more ends in the slash:
  there the request removes instance 0 instead of the one it found.\<close>

theorem delete_by_number:
  assumes "cm_code req = COAP_MSG_CODE_REQUEST_DELETE" and "find_resource (obj @ ''/'' @ num) None s = Some (k, NInst i)"
    and "num = dec_string (unat n) \<or> num = [] \<and> n = 0" and "k < length (ns_objects s)" and "o_wf (t_object (ns_tree k s))"
    and "object_instance_of n (t_object (ns_tree k s)) \<noteq> None"
  shows "\<exists>s'. resource_request lib req (obj @ ''/'' @ num) s = Some (None, False, COAP_MSG_CODE_RESPONSE_DELETED, s') \<and>
    object_instance_of n (t_object (ns_tree k s')) = None \<and>
    (\<forall>m. m \<noteq> n \<longrightarrow> (object_instance_of m (t_object (ns_tree k s')) = None \<longleftrightarrow> object_instance_of m (t_object (ns_tree k s)) = None))"
proof -
  let ?path = "obj @ ''/'' @ num" and ?ob = "t_object (ns_tree k s)"
  have lt: "unat n < 65536" using unsigned_less [of n, where ?'a = nat] by simp
  have nz: "CHR ''/'' \<notin> set num" "no_nul num"
    using assms(3) dec_string_notin [of "CHR ''/''"] dec_string_no_nul by (auto simp: isdigit_def)
  have num: "word_of_int (strtoul (cstr num)) = n"
    using assms(3) lt nz(2) strtoul_dec_string [of "unat n"] by (auto simp: strtoul_empty)
  have f: "string_find_last CHR ''/'' ?path = int (length obj)" using find_last_append [OF nz(1), of obj] by simp
  have sub: "string_substr (length obj + 1) (length ?path) ?path = num" by (simp add: string_substr_def)
  obtain ob' os where r: "remove_object_instance n ?ob = (ob', os, True)"
    using oinst.remove_reports [where s = ?ob and k = n] assms(6) by (cases "remove_object_instance n ?ob") auto
  let ?s' = "ns_set_tree k (emit os ((ns_tree k s)\<lparr>t_object := ob'\<rparr>)) s"
  have d: "delete_instance_of k n s = (?s', True)" by (simp add: delete_instance_of_def r)
  have "resource_delete_request ?path (k, NInst i) s = Some (COAP_MSG_CODE_RESPONSE_DELETED, ?s')"
    using find_own_path [OF assms(2)] f sub num d
    by (simp add: resource_delete_request_def Let_def)
  then have "resource_request lib req ?path s = Some (None, False, COAP_MSG_CODE_RESPONSE_DELETED, ?s')"
    using assms(1,2) by (simp add: resource_request_def)
  moreover have "t_object (ns_tree k ?s') = fst (remove_object_instance n ?ob)"
    using assms(4) r by (simp add: ns_tree_def ns_set_tree_def emit_def)
  moreover have "distinct (oinst.keys ?ob)" using assms(5) by (simp add: o_wf_def oinst.keys_def)
  ultimately show ?thesis
    using oinst.lookup_remove [where s = ?ob and k = n] oinst.lookup_remove_other_None [where s = ?ob and k = n]
    by auto
qed

text \<open>An object with the instances 0 and 10000; the path of the second is not computed here but known from lemma
  \<open>object_instance_path\<close>.\<close>

definition small_object :: lwm2m_object where
  "small_object = fst (create_object_instance 0 (object_new ''9'' ''9'' False))"

definition large_object :: lwm2m_object where
  "large_object = small_object\<lparr>o_instances := o_instances small_object @
     [upd_oi_base (\<lambda>b. b\<lparr>bs_content_type := COAP_CONTENT_OMA_TLV_TYPE\<rparr>) (upd_oi_base (base_set_instance_id 10000)
        (oi_add_observation_level (base_observation_level (o_base small_object)) (object_instance_new [] ''9/'' False)))]\<rparr>"

lemma large_object_created: "fst (create_object_instance 10000 small_object) = large_object"
proof -
  have "object_instance_of 10000 small_object = None" "object_name small_object = ''9''" "base_name_id (o_base small_object) = 9"
    by (code_simp, code_simp, code_simp)
  moreover have "create_path_object ''9'' 10000 = Some ''9/''" using object_instance_path [of "''9''" 10000] by simp
  ultimately show ?thesis by (simp add: create_object_instance_def large_object_def)
qed

definition large_numbers :: nsdl where
  "large_numbers = (nsdl_new [\<lparr>t_object = large_object, t_out = []\<rparr>])\<lparr>ns_object_list := [0]\<rparr>"

lemma large_numbers_facts:
  "find_resource (''9'' @ ''/'' @ []) None large_numbers = Some (0, NInst 1)"
  "object_instance_of 0 (t_object (ns_tree 0 large_numbers)) = Some 0"
  "object_instance_of 10000 (t_object (ns_tree 0 large_numbers)) = Some 1"
  by (code_simp, code_simp, code_simp)

theorem delete_by_number_witness:
  "\<exists>s'. resource_request sample_lib (coap_msg.truncate (sample_message COAP_MSG_CODE_REQUEST_DELETE 9 ''9/'' None)) ''9/'' large_numbers =
     Some (None, False, COAP_MSG_CODE_RESPONSE_DELETED, s') \<and>
     object_instance_of 0 (t_object (ns_tree 0 s')) = None \<and> object_instance_of 10000 (t_object (ns_tree 0 s')) \<noteq> None"
proof -
  let ?req = "coap_msg.truncate (sample_message COAP_MSG_CODE_REQUEST_DELETE 9 ''9/'' None)"
  have "o_wf large_object"
    using create_object_instance_wf [OF create_object_instance_wf [OF object_new_wf]] large_object_created
    by (metis small_object_def)
  then have w: "o_wf (t_object (ns_tree 0 large_numbers))" by (simp add: large_numbers_def ns_tree_def nsdl_new_def)
  have c: "cm_code ?req = COAP_MSG_CODE_REQUEST_DELETE" by (simp add: sample_message_def coap_msg.truncate_def)
  have k: "0 < length (ns_objects large_numbers)" by (simp add: large_numbers_def nsdl_new_def)
  from delete_by_number [OF c large_numbers_facts(1) _ k w, of 0 sample_lib] large_numbers_facts(2)
  obtain s' where s': "resource_request sample_lib ?req ''9/'' large_numbers = Some (None, False, COAP_MSG_CODE_RESPONSE_DELETED, s')"
    "object_instance_of 0 (t_object (ns_tree 0 s')) = None"
    and o: "\<forall>m. m \<noteq> 0 \<longrightarrow> (object_instance_of m (t_object (ns_tree 0 s')) = None \<longleftrightarrow>
      object_instance_of m (t_object (ns_tree 0 large_numbers)) = None)" by auto
  have "(10000 :: u16) \<noteq> 0" by simp
  from o [rule_format, OF this] have "object_instance_of 10000 (t_object (ns_tree 0 s')) \<noteq> None"
    by (simp add: large_numbers_facts(3))
  then show ?thesis using s' by blast
qed

end
