(* ===== verification/NsdlNotify.thy ===== *)
theory NsdlNotify
  imports NsdlFrames RequestFlows ReportHandlerSpec
begin

text \<open>
  What the tree asks of its observation handler, carried out by the NSDL interface: the calls of the class
  \<open>M2MObservationHandler\<close> (\<open>mbed-client/m2mobservationhandler.h\<close>) that an operation on a node leaves in the outputs of the tree
  become the operations of \<open>source/m2mnsdlinterface.cpp\<close>, in order. Every operation makes its calls after it has changed the
  node, so they find the tree as the operation leaves it. With that an observation is followed from the GET of the server to the
  notification of a new value.
\<close>

section \<open>The observation handler\<close>

fun deliver_output :: "nsdl_lib \<Rightarrow> nat \<Rightarrow> tree_output \<Rightarrow> nsdl \<Rightarrow> nsdl" where
  "deliver_output lib k (SendObservation n number ids so) s = observation_to_be_sent lib (Some (k, n)) number ids so s"
| "deliver_output lib k (ValueUpdated n) s = value_updated lib (Some (k, n)) s"
| "deliver_output lib k (ResourceToBeDeleted path) s = resource_to_be_deleted lib path s"
| "deliver_output lib k (TimerStarted n ty interval) s = s"
| "deliver_output lib k (TimerStopped n ty) s = s"

definition deliver :: "nsdl_lib \<Rightarrow> nat \<Rightarrow> tree_output list \<Rightarrow> nsdl \<Rightarrow> nsdl" where
  "deliver lib k os s = fold (deliver_output lib k) os s"

text \<open>The application sets the value of a node it has registered.\<close>

definition application_set_value :: "nsdl_lib \<Rightarrow> node_ref \<Rightarrow> u8 list option \<Rightarrow> nat \<Rightarrow> nsdl \<Rightarrow> nsdl \<times> bool" where
  "application_set_value lib a v len s =
     (let t = ns_tree (fst a) s;
          (t', success) = res_set_value (snd a) v len t
      in (deliver lib (fst a) (drop (length (t_out t)) (t_out t')) (ns_set_tree (fst a) t' s), success))"

section \<open>What a delivery leaves alone\<close>

definition objects_kept :: "nsdl \<Rightarrow> nsdl \<Rightarrow> bool" where
  "objects_kept s s' \<longleftrightarrow> map unhandled (ns_objects s') = map unhandled (ns_objects s) \<and> handlers_kept s s' \<and>
     (\<exists>os. ns_out s' = ns_out s @ os)"

lemma objects_kept_refl [simp]: "objects_kept s s"
  by (simp add: objects_kept_def handlers_kept_same)

lemma objects_kept_trans: "objects_kept s s1 \<Longrightarrow> objects_kept s1 s2 \<Longrightarrow> objects_kept s s2"
  by (auto simp: objects_kept_def intro: handlers_kept_trans)

lemma objects_kept_out [simp]: "objects_kept s (out os s)"
  by (simp add: objects_kept_def handlers_kept_same)

lemma objects_kept_registers: "registers_only s s' \<Longrightarrow> objects_kept s s'"
  by (auto simp: objects_kept_def registers_only_def)

lemma objects_kept_notification: "objects_kept s (send_notification lib token v number age ct s)"
  by (simp add: send_notification_def send_coap_def split: option.split)

lemma objects_kept_value_updated: "objects_kept s (value_updated lib a s)"
proof -
  have "objects_kept s (out os s1)" if "registers_only s s1" for os s1
    using objects_kept_trans [OF objects_kept_registers [OF that] objects_kept_out] .
  then show ?thesis
    by (cases a) (auto simp: value_updated_def Let_def split_beta intro!: registers_rules split: node.split)
qed

lemma objects_kept_deliver_output: "objects_kept s (deliver_output lib k v s)"
  by (cases "(lib, k, v, s)" rule: deliver_output.cases)
    (auto simp: observation_to_be_sent_def send_object_observation_def send_object_instance_observation_def
      send_resource_observation_def resource_to_be_deleted_def remove_nsdl_resource_def Let_def objects_kept_notification
      objects_kept_value_updated split: node.split)

lemma objects_kept_deliver: "objects_kept s (deliver lib k os s)"
proof (induction os arbitrary: s)
  case (Cons v os)
  show ?case
    using objects_kept_trans [OF objects_kept_deliver_output Cons.IH, of s lib k v] by (simp add: deliver_def)
qed (simp add: deliver_def)

lemma unhandled_res: "unhandled t' = unhandled t \<Longrightarrow> tree_res i j t' = tree_res i j t"
proof -
  assume "unhandled t' = unhandled t"
  then have "o_instances (t_object (unhandled t')) = o_instances (t_object (unhandled t))" by simp
  then have "o_instances (t_object t') = o_instances (t_object t)"
    by (simp add: unhandled_def base_set_observation_handler_def)
  then show ?thesis by (simp add: tree_res_def tree_inst_def)
qed

lemma objects_kept_res:
  assumes "objects_kept s s'" and "k < length (ns_objects s)"
  shows "tree_res i j (ns_tree k s') = tree_res i j (ns_tree k s)"
proof -
  have m: "map unhandled (ns_objects s') = map unhandled (ns_objects s)" using assms(1) by (simp add: objects_kept_def)
  have l: "length (ns_objects s') = length (ns_objects s)" by (rule map_eq_imp_length_eq [OF m])
  have "unhandled (ns_objects s' ! k) = map unhandled (ns_objects s') ! k" using assms(2) l by (simp only: nth_map)
  also have "\<dots> = unhandled (ns_objects s ! k)" unfolding m by (rule nth_map [OF assms(2)])
  finally have "tree_res i j (ns_objects s' ! k) = tree_res i j (ns_objects s ! k)" by (rule unhandled_res)
  then show ?thesis by (simp only: ns_tree_def)
qed

text \<open>A call among the outputs is made in a state with the same nodes, and what it sends stays sent.\<close>

lemma deliver_reaches:
  assumes "v \<in> set os"
  shows "\<exists>s1. objects_kept s s1 \<and> objects_kept (deliver_output lib k v s1) (deliver lib k os s)"
proof -
  obtain xs ys where os: "os = xs @ v # ys" using assms by (meson split_list)
  have "deliver lib k os s = deliver lib k ys (deliver_output lib k v (deliver lib k xs s))" by (simp add: deliver_def os)
  moreover have "objects_kept s (deliver lib k xs s)" by (rule objects_kept_deliver)
  moreover have "objects_kept (deliver_output lib k v (deliver lib k xs s)) (deliver lib k ys (deliver_output lib k v (deliver lib k xs s)))"
    by (rule objects_kept_deliver)
  ultimately show ?thesis by auto
qed

section \<open>The notification of a resource\<close>

lemma get_res: "get_base (NRes i j) (t_object t) = Some b \<Longrightarrow> r_base (tree_res i j t) = b"
  by (auto simp: tree_res_def tree_inst_def split: if_splits)

lemma no_instances:
  assumes "get_base (NRes i j) (t_object t) = Some b"
  shows "r_instances (tree_res i j t) = [] \<longleftrightarrow> get_base (NRinst i j 0) (t_object t) = None"
  using assms by (auto simp: tree_res_def tree_inst_def split: if_splits)

lemma schedule_token:
  "rh_token (fst (rh_schedule_report h)) = rh_token h" "rh_token_length (fst (rh_schedule_report h)) = rh_token_length h"
  by (simp_all add: rh_schedule_report_def Let_def report_frame)

lemma set_value_token:
  "rh_token (fst (rh_set_value f h)) = rh_token h" "rh_token_length (fst (rh_set_value f h)) = rh_token_length h"
  by (simp_all add: rh_set_value_def Let_def split_beta schedule_token)

lemma set_value_get_token: "rh_get_observation_token (fst (rh_set_value f h)) = rh_get_observation_token h"
  by (simp only: rh_get_observation_token_def set_value_token)

lemma trigger_get_token: "rh_get_observation_token (fst (rh_set_notification_trigger n h)) = rh_get_observation_token h"
proof -
  have "rh_token (fst (rh_set_notification_trigger n h)) = rh_token h"
    "rh_token_length (fst (rh_set_notification_trigger n h)) = rh_token_length h"
    by (simp_all add: rh_set_notification_trigger_def Let_def schedule_token)
  then show ?thesis by (simp only: rh_get_observation_token_def)
qed

lemma observing_token:
  assumes "token \<noteq> []" and "length token < 256"
  shows "fst (rh_get_observation_token (observing token)) = Some token"
proof -
  have "unat (of_nat (length token) :: u8) = length token" using assms(2) by (simp add: unat_of_nat)
  then show ?thesis using assms(1)
    by (simp add: rh_get_observation_token_def observing_def rh_set_observation_token_def Let_def)
qed

lemma resource_notification:
  assumes "env_serves (lib_coap lib)" and "r_base (tree_res i j (ns_tree k s)) = b" and "r_instances (tree_res i j (ns_tree k s)) = []"
    and "bs_value b = Some v" and "v \<noteq> []" and "observation_token_of b = Some token"
  shows "\<exists>msg. ns_out (send_resource_observation lib k i j number s) = ns_out s @ [SendCoap msg] \<and>
    rs_code msg = COAP_MSG_CODE_RESPONSE_CONTENT \<and> rs_token msg = Some token \<and> rs_payload msg = Some v \<and>
    map_option opt_observe (rs_options msg) = Some (uint number)"
proof -
  obtain opts where o: "env_options (lib_coap lib) empty_message = Some opts"
    using assms(1) unfolding env_serves_def by fast
  have v: "res_get_value b = Some v" using assms(4,5) by (simp add: res_get_value_def alloc_string_copy_def)
  have "resource_instance_count (tree_res i j (ns_tree k s)) = 0" using assms(3) by (simp add: resource_instance_count_def)
  then show ?thesis
    using assms(2,6) v o by (simp add: send_resource_observation_def send_notification_def send_coap_def Let_def empty_message_def)
qed

text \<open>A first GET that observes, as the callback of the library handles it.\<close>

lemma observing_request:
  assumes "env_serves (lib_coap lib)"
    and "find_resource (coap_to_string (cm_uri_path req)) None s = Some (k, NRes i j)" and "k < length (ns_objects s)"
    and "simple_resource i j (ns_tree k s)" and "get_base (NRes i j) (t_object (ns_tree k s)) = Some b"
    and "bs_access b AND GET_ALLOWED \<noteq> 0" and "bs_observable b" and "bs_report b = None" and "bs_base_type b = BT_Resource"
    and "cm_code req = COAP_MSG_CODE_REQUEST_GET" and "cm_options req = Some opts" and "opt_observe opts = 0"
    and "cm_token req = Some token"
  shows "\<exists>s1 result t' r. resource_callback lib req s = Some (s1, result) \<and> ns_tree k s1 = t' \<and>
    k < length (ns_objects s1) \<and> handle_get (lib_coap lib) True (NRes i j) (Some req) (ns_tree k s) = Some (Some r, False, [], t') \<and>
    get_base (NRes i j) (t_object t') = Some (b\<lparr>bs_report := Some (observing token)\<rparr>) \<and> o_handler (t_object t')"
proof -
  obtain r t' where g: "handle_get (lib_coap lib) True (NRes i j) (Some req) (ns_tree k s) = Some (Some r, False, [], t')"
    "get_base (NRes i j) (t_object t') = Some (b\<lparr>bs_report := Some (observing token)\<rparr>)" "o_handler (t_object t')"
    using observe_starts [OF assms(1,4-9,11-13)] by blast
  let ?s0 = "out [NotifyObserver OnCoapDataProcessed] s"
  have f: "find_resource (coap_to_string (cm_uri_path req)) None ?s0 = Some (k, NRes i j)"
    using assms(2) by (simp add: find_resource_def ns_tree_def)
  have t: "ns_tree k ?s0 = ns_tree k s" by (simp add: ns_tree_def)
  have "resource_request lib req (coap_to_string (cm_uri_path req)) ?s0 =
      Some (Some r, False, COAP_MSG_CODE_RESPONSE_CHANGED, out [] (ns_set_tree k t' ?s0))"
    using f g(1) assms(10) by (simp add: resource_request_def run_handler_def t)
  then have "\<exists>s1 result. resource_callback lib req s = Some (s1, result) \<and> ns_objects s1 = (ns_objects s)[k := t']"
    by (auto simp: resource_callback_def Let_def split_beta send_coap_def ns_set_tree_def)
  then obtain s1 result where "resource_callback lib req s = Some (s1, result)" "ns_objects s1 = (ns_objects s)[k := t']"
    by blast
  then show ?thesis using g assms(3) by (auto simp: ns_tree_def simp del: get_base.simps)
qed

text \<open>A value that is not taken for one already reported asks for the notification, which carries it.\<close>

lemma observed_set_value_calls:
  assumes "get_base (NRes i j) (t_object t) = Some b" and "bs_report b = Some (observing token)" and "o_handler (t_object t)"
    and "bs_mode b = Dynamic" and "bs_observable b" and "v \<noteq> []" and "bs_value b \<noteq> Some v"
    and "bs_data_type b = STRING \<or> to_f32 (atof (cstr (chars_of v))) \<noteq> Fin (-1)"
  shows "\<exists>ids h. SendObservation (NRes i j) 1 ids False \<in>
      set (drop (length (t_out t)) (t_out (fst (res_set_value (NRes i j) (Some v) (length v) t)))) \<and>
    get_base (NRes i j) (t_object (fst (res_set_value (NRes i j) (Some v) (length v) t))) =
      Some (b\<lparr>bs_value := Some v, bs_report := Some h\<rparr>) \<and>
    rh_get_observation_token h = rh_get_observation_token (observing token)"
proof (cases "bs_data_type b = STRING")
  case True
  then show ?thesis using observed_text_set [OF assms(1-3) _ assms(6,7)] trigger_get_token by blast
next
  case False
  then show ?thesis
    using observed_value_set [OF assms(1-4) _ assms(5-7)] assms(8) set_value_get_token by blast
qed

lemma observed_set_value_sent:
  assumes "env_serves (lib_coap lib)" and "k < length (ns_objects s)"
    and "get_base (NRes i j) (t_object (ns_tree k s)) = Some b" and "get_base (NRinst i j 0) (t_object (ns_tree k s)) = None"
    and "bs_report b = Some (observing token)" and "o_handler (t_object (ns_tree k s))" and "bs_mode b = Dynamic"
    and "bs_observable b" and "v \<noteq> []" and "bs_value b \<noteq> Some v"
    and "bs_data_type b = STRING \<or> to_f32 (atof (cstr (chars_of v))) \<noteq> Fin (-1)" and "token \<noteq> []" and "length token < 256"
  shows "\<exists>msg. SendCoap msg \<in> set (drop (length (ns_out s)) (ns_out (fst (application_set_value lib (k, NRes i j) (Some v) (length v) s)))) \<and>
    rs_code msg = COAP_MSG_CODE_RESPONSE_CONTENT \<and> rs_token msg = Some token \<and> rs_payload msg = Some v \<and>
    map_option opt_observe (rs_options msg) = Some 1"
proof -
  let ?n = "NRes i j" and ?t = "ns_tree k s"
  let ?t1 = "fst (res_set_value ?n (Some v) (length v) ?t)"
  let ?os = "drop (length (t_out ?t)) (t_out ?t1)"
  let ?s1 = "ns_set_tree k ?t1 s"
  obtain ids h where set: "SendObservation ?n 1 ids False \<in> set ?os"
    "get_base ?n (t_object ?t1) = Some (b\<lparr>bs_value := Some v, bs_report := Some h\<rparr>)"
    "rh_get_observation_token h = rh_get_observation_token (observing token)"
    using observed_set_value_calls [OF assms(3,5-11)] by blast
  let ?b1 = "b\<lparr>bs_value := Some v, bs_report := Some h\<rparr>"
  have "node_frame (NRinst i j 0) ?t1 = node_frame (NRinst i j 0) ?t"
    using res_set_value_frame(1) [OF assms(3), of "length v" "NRinst i j 0" v] assms(9) by simp
  then have n: "get_base (NRinst i j 0) (t_object ?t1) = None" using assms(4) by (simp add: node_frame_def del: get_base.simps)
  obtain s3 where s3: "objects_kept ?s1 s3"
    "objects_kept (deliver_output lib k (SendObservation ?n 1 ids False) s3) (deliver lib k ?os ?s1)"
    using deliver_reaches [OF set(1), of ?s1 lib k] by blast
  have "tree_res i j (ns_tree k s3) = tree_res i j ?t1"
    using objects_kept_res [OF s3(1), of k i j] assms(2) by (simp add: ns_set_tree_def ns_tree_def)
  moreover have "observation_token_of ?b1 = Some token"
    using observing_token [OF assms(12,13)] by (simp add: observation_token_of_def set(3))
  ultimately obtain msg where msg: "ns_out (send_resource_observation lib k i j 1 s3) = ns_out s3 @ [SendCoap msg]"
    "rs_code msg = COAP_MSG_CODE_RESPONSE_CONTENT" "rs_token msg = Some token" "rs_payload msg = Some v"
    "map_option opt_observe (rs_options msg) = Some (uint (1 :: u16))"
    using resource_notification [OF assms(1), of i j k s3 ?b1 v token 1] get_res [OF set(2)] n no_instances [OF set(2)] assms(9)
    by (auto simp del: get_base.simps)
  have "\<exists>xs. ns_out s3 = ns_out s @ xs" using s3(1) by (auto simp: objects_kept_def)
  moreover have "\<exists>ys. ns_out (deliver lib k ?os ?s1) = ns_out s3 @ SendCoap msg # ys"
    using s3(2) msg(1) by (auto simp: objects_kept_def observation_to_be_sent_def)
  ultimately have "SendCoap msg \<in> set (drop (length (ns_out s)) (ns_out (deliver lib k ?os ?s1)))" by auto
  moreover have "fst (application_set_value lib (k, ?n) (Some v) (length v) s) = deliver lib k ?os ?s1"
    by (simp add: application_set_value_def Let_def split_beta)
  ultimately show ?thesis using msg by auto
qed

section \<open>Properties\<close>

text \<open>C13: when the server observes a resource for the first time by a GET and the application then sets another,
  not empty value, a notification is handed to the CoAP library at once: a content message with the token of the GET, the
  new value as payload and observe number 1. One value is the exception, which is a defect: a value that reads as -1 on a
  resource that is no text. A new report handler takes it for the value it has last reported, so the node does
  not even ask for a notification. The resource is dynamic, observable and without instances, it allows the GET and has
  neither an observation nor attributes yet, and the token has 1 to 255 bytes.\<close>

theorem observation_end_to_end:
  assumes "env_serves (lib_coap lib)"
    and "find_resource (coap_to_string (cm_uri_path req)) None s = Some (k, NRes i j)" and "k < length (ns_objects s)"
    and "simple_resource i j (ns_tree k s)" and "get_base (NRes i j) (t_object (ns_tree k s)) = Some b"
    and "r_instances (tree_res i j (ns_tree k s)) = []"
    and "bs_access b AND GET_ALLOWED \<noteq> 0" and "bs_observable b" and "bs_report b = None" and "bs_base_type b = BT_Resource"
    and "bs_mode b = Dynamic"
    and "cm_code req = COAP_MSG_CODE_REQUEST_GET" and "cm_options req = Some opts" and "opt_observe opts = 0"
    and "cm_token req = Some token" and "token \<noteq> []" and "length token < 256"
    and "v \<noteq> []" and "bs_value b \<noteq> Some v"
  shows "\<exists>s1 result. resource_callback lib req s = Some (s1, result) \<and>
    (if bs_data_type b \<noteq> STRING \<and> to_f32 (atof (cstr (chars_of v))) = Fin (-1) then
       \<forall>number ids so. SendObservation (NRes i j) number ids so \<notin> set (drop (length (t_out (ns_tree k s1)))
         (t_out (fst (res_set_value (NRes i j) (Some v) (length v) (ns_tree k s1)))))
     else
       \<exists>msg. SendCoap msg \<in> set (drop (length (ns_out s1))
           (ns_out (fst (application_set_value lib (k, NRes i j) (Some v) (length v) s1)))) \<and>
         rs_code msg = COAP_MSG_CODE_RESPONSE_CONTENT \<and> rs_token msg = Some token \<and> rs_payload msg = Some v \<and>
         map_option opt_observe (rs_options msg) = Some 1)"
proof -
  let ?n = "NRes i j" and ?b = "b\<lparr>bs_report := Some (observing token)\<rparr>"
  obtain s1 result t' r where g: "resource_callback lib req s = Some (s1, result)" "ns_tree k s1 = t'"
    "k < length (ns_objects s1)" "handle_get (lib_coap lib) True ?n (Some req) (ns_tree k s) = Some (Some r, False, [], t')"
    "get_base ?n (t_object t') = Some ?b" "o_handler (t_object t')"
    using observing_request [OF assms(1-5,7-10,12-15)] by blast
  have "node_content (NRinst i j 0) t' = node_content (NRinst i j 0) (ns_tree k s)"
    using handle_get_content [OF g(4)] by blast
  then have n: "get_base (NRinst i j 0) (t_object t') = None"
    using no_instances [OF assms(5)] assms(6) by (simp add: node_content_def del: get_base.simps)
  have gb: "get_base ?n (t_object (ns_tree k s1)) = Some ?b" "get_base (NRinst i j 0) (t_object (ns_tree k s1)) = None"
    "o_handler (t_object (ns_tree k s1))" using g(2,5,6) n by simp_all
  have b: "bs_report ?b = Some (observing token)" "bs_mode ?b = Dynamic" "bs_observable ?b" "bs_value ?b \<noteq> Some v"
    using assms by simp_all
  show ?thesis
  proof (cases "bs_data_type b \<noteq> STRING \<and> to_f32 (atof (cstr (chars_of v))) = Fin (-1)")
    case True
    then show ?thesis
      using g(1) observed_value_missed [OF gb(1) b(1,2) _ b(3) assms(18) b(4)] by (intro exI [of _ s1] exI [of _ result]) simp
  next
    case False
    then have "bs_data_type ?b = STRING \<or> to_f32 (atof (cstr (chars_of v))) \<noteq> Fin (-1)" by simp
    note sent = observed_set_value_sent [OF assms(1) g(3) gb(1,2) b(1) gb(3) b(2,3) assms(18) b(4) this assms(16,17)]
    show ?thesis unfolding if_not_P [OF False] using g(1) sent by blast
  qed
qed

text \<open>The server observes the resource of the sample client; the application sets it to 7, or to -1.\<close>

lemma sample_observe_found:
  "find_resource (coap_to_string (cm_uri_path (sample_request COAP_MSG_CODE_REQUEST_GET None 0))) None sample_nsdl =
     Some (0, NRes 0 0)"
  by code_simp

lemma sample_observe_values:
  "to_f32 (atof (cstr (chars_of [55]))) \<noteq> Fin (-1)" "to_f32 (atof (cstr (chars_of [45, 49]))) = Fin (-1)"
  by code_simp+

theorem observation_end_to_end_witness:
  "(\<exists>s1 result msg. resource_callback sample_lib (sample_request COAP_MSG_CODE_REQUEST_GET None 0) sample_nsdl = Some (s1, result) \<and>
    SendCoap msg \<in> set (drop (length (ns_out s1))
      (ns_out (fst (application_set_value sample_lib (0, NRes 0 0) (Some [55]) (length [55 :: u8]) s1)))) \<and>
    rs_code msg = COAP_MSG_CODE_RESPONSE_CONTENT \<and> rs_token msg = Some [1, 2] \<and> rs_payload msg = Some [55] \<and>
    map_option opt_observe (rs_options msg) = Some 1) \<and>
   (\<exists>s1 result. resource_callback sample_lib (sample_request COAP_MSG_CODE_REQUEST_GET None 0) sample_nsdl = Some (s1, result) \<and>
    (\<forall>number ids so. SendObservation (NRes 0 0) number ids so \<notin> set (drop (length (t_out (ns_tree 0 s1)))
      (t_out (fst (res_set_value (NRes 0 0) (Some [45, 49]) (length [45, 49 :: u8]) (ns_tree 0 s1)))))))"
proof -
  have t: "ns_tree 0 sample_nsdl = open_tree" "length (ns_objects sample_nsdl) = 1"
    by (simp_all add: sample_nsdl_def nsdl_new_def ns_tree_def)
  have e: "env_serves (lib_coap sample_lib)" using sample_env_serves by (simp add: sample_lib_def)
  let ?b = "(base_new ''1'' Dynamic '''' ''9/0/1'' False False INTEGER BT_Resource)
        \<lparr>bs_access := GET_PUT_POST_DELETE_ALLOWED, bs_observable := True\<rparr>"
  have n: "get_base (NRes 0 0) (t_object (ns_tree 0 sample_nsdl)) = Some ?b" using open_tree_node t by simp
  have b: "bs_data_type ?b = INTEGER" "bs_value ?b = None" by (simp_all add: base_new_def)
  note o = observation_end_to_end [OF e sample_observe_found _ _ n, where opts = "sample_options\<lparr>opt_observe := 0\<rparr>"
      and token = "[1, 2]"]
  have "\<exists>s1 result. resource_callback sample_lib (sample_request COAP_MSG_CODE_REQUEST_GET None 0) sample_nsdl = Some (s1, result) \<and>
    (if bs_data_type ?b \<noteq> STRING \<and> to_f32 (atof (cstr (chars_of v))) = Fin (-1) then
       \<forall>number ids so. SendObservation (NRes 0 0) number ids so \<notin> set (drop (length (t_out (ns_tree 0 s1)))
         (t_out (fst (res_set_value (NRes 0 0) (Some v) (length v) (ns_tree 0 s1)))))
     else
       \<exists>msg. SendCoap msg \<in> set (drop (length (ns_out s1))
           (ns_out (fst (application_set_value sample_lib (0, NRes 0 0) (Some v) (length v) s1)))) \<and>
         rs_code msg = COAP_MSG_CODE_RESPONSE_CONTENT \<and> rs_token msg = Some [1, 2] \<and> rs_payload msg = Some v \<and>
         map_option opt_observe (rs_options msg) = Some 1)" if "v \<noteq> []" for v
    by (rule o) (use t that open_tree_simple open_tree_resource in \<open>simp_all add: sample_request_def base_new_def\<close>)
  note w = this
  have c: "\<not> (bs_data_type ?b \<noteq> STRING \<and> to_f32 (atof (cstr (chars_of [55]))) = Fin (-1))"
    "bs_data_type ?b \<noteq> STRING \<and> to_f32 (atof (cstr (chars_of [45, 49]))) = Fin (-1)"
    using sample_observe_values b(1) by simp_all
  have "[55] \<noteq> ([] :: u8 list)" "[45, 49] \<noteq> ([] :: u8 list)" by simp_all
  then show ?thesis using w [of "[55]", unfolded if_not_P [OF c(1)]] w [of "[45, 49]", unfolded if_P [OF c(2)]] by blast
qed

end
