(* ===== verification/NsdlDelayed.thy ===== *)
theory NsdlDelayed
  imports NsdlNotify
begin

text \<open>
  Delayed responses (\<open>source/m2mresource.cpp\<close>, \<open>source/m2mnsdlinterface.cpp\<close>) from end to end: the server executes a resource whose
  response the application delays, the request is acknowledged at once, and the value the application sets later is sent
  under the token of the request.
\<close>

section \<open>The request\<close>

lemma tree_res_on_object:
  assumes "get_base (NRes i j) (t_object t) \<noteq> None"
  shows "tree_res i j (on_object (upd_inst i (upd_res j f)) t) = f (tree_res i j t)"
  using assms by (auto simp: tree_res_def tree_inst_def on_object_def upd_defs update_at_nth split: if_splits)

lemma on_object_handler: "o_handler (t_object (on_object (upd_inst i f) t)) = o_handler (t_object t)"
  by (simp add: on_object_def upd_defs)

lemma on_object_base:
  assumes "\<And>r. r_base (f r) = r_base r"
  shows "get_base (NRes i j) (t_object (on_object (upd_inst i (upd_res j f)) t)) = get_base (NRes i j) (t_object t)"
  using assms by (auto simp: on_object_def upd_defs update_at_def nth_list_update split: if_splits)

lemma delayed_post:
  assumes "env_serves env" and "get_base (NRes i j) (t_object t) = Some b" and "bs_access b AND POST_ALLOWED \<noteq> 0"
    and "r_delayed_response (tree_res i j t)" and "cm_payload req = None \<or> content_type_of req = 0"
    and "cm_token req = Some token" and "token \<noteq> []"
  shows "\<exists>ack. handle_post env handler (NRes i j) (Some req) t =
      Some (Some ack, False, [MessageSent ack, Executed (NRes i j) (execute_value req)], set_delayed_token i j token t) \<and>
    rs_type ack = TYPE_ACKNOWLEDGEMENT \<and> rs_code ack = COAP_MSG_CODE_EMPTY \<and> rs_id ack = cm_id req"
proof -
  obtain r0 where "env_build env (Some req) COAP_MSG_CODE_RESPONSE_CHANGED = Some r0" using env_built [OF assms(1)] by blast
  moreover have "node_allows (NRes i j) POST_ALLOWED t"
    using assms(2,3) by (simp add: node_allows_def with_base_def del: get_base.simps)
  moreover obtain x xs where "token = x # xs" using assms(7) by (cases token) simp_all
  ultimately show ?thesis using assms(4-6) by (auto simp: handle_post_def resource_handle_post_def Let_def)
qed

lemma delayed_request:
  assumes "env_serves (lib_coap lib)"
    and "find_resource (coap_to_string (cm_uri_path req)) None s = Some (k, NRes i j)" and "k < length (ns_objects s)"
    and "get_base (NRes i j) (t_object (ns_tree k s)) = Some b" and "bs_access b AND POST_ALLOWED \<noteq> 0"
    and "r_delayed_response (tree_res i j (ns_tree k s))"
    and "cm_code req = COAP_MSG_CODE_REQUEST_POST" and "cm_payload req = None \<or> content_type_of req = 0"
    and "cm_token req = Some token" and "token \<noteq> []"
  shows "\<exists>s1 ack. resource_callback lib req s = Some (s1, 1) \<and>
    ns_out s1 = ns_out s @ [NotifyObserver OnCoapDataProcessed, RequestOutput k (MessageSent ack),
      RequestOutput k (Executed (NRes i j) (execute_value req))] \<and>
    rs_type ack = TYPE_ACKNOWLEDGEMENT \<and> rs_code ack = COAP_MSG_CODE_EMPTY \<and> rs_id ack = cm_id req \<and>
    ns_objects s1 = (ns_objects s)[k := set_delayed_token i j token (ns_tree k s)]"
proof -
  obtain ack where g: "handle_post (lib_coap lib) True (NRes i j) (Some req) (ns_tree k s) =
      Some (Some ack, False, [MessageSent ack, Executed (NRes i j) (execute_value req)],
        set_delayed_token i j token (ns_tree k s))"
    "rs_type ack = TYPE_ACKNOWLEDGEMENT" "rs_code ack = COAP_MSG_CODE_EMPTY" "rs_id ack = cm_id req"
    using delayed_post [OF assms(1,4-6,8-10)] by blast
  let ?s0 = "out [NotifyObserver OnCoapDataProcessed] s"
  have f: "find_resource (coap_to_string (cm_uri_path req)) None ?s0 = Some (k, NRes i j)"
    using assms(2) by (simp add: find_resource_def ns_tree_def)
  have t: "ns_tree k ?s0 = ns_tree k s" by (simp add: ns_tree_def)
  show ?thesis
    using f g assms(7) by (simp add: resource_callback_def resource_request_def run_handler_def t Let_def ns_set_tree_def)
qed

section \<open>The response\<close>

lemma delayed_response_sent:
  assumes "r_delayed_response (tree_res i j (ns_tree k s))" and "o_handler (t_object (ns_tree k s))"
    and "r_delayed_token (tree_res i j (ns_tree k s)) = Some token" and "token \<noteq> []"
    and "bs_value (r_base (tree_res i j (ns_tree k s))) = Some v" and "v \<noteq> []"
  shows "\<exists>s' msg. send_delayed_post_response lib k i j s = (s', True) \<and> ns_out s' = ns_out s @ [SendCoap msg] \<and>
    rs_code msg = COAP_MSG_CODE_RESPONSE_CONTENT \<and> rs_token msg = Some token \<and> rs_payload msg = Some v"
proof -
  obtain x xs where "token = x # xs" using assms(4) by (cases token) simp_all
  then show ?thesis
    using assms by (simp add: send_delayed_post_response_def send_delayed_response_def get_delayed_token_def send_coap_def
        res_get_value_def alloc_string_copy_def Let_def)
qed

lemma set_value_keeps_delayed:
  assumes "k < length (ns_objects s)" and "get_base (NRes i j) (t_object (ns_tree k s)) = Some b" and "v \<noteq> []"
    and "o_handler (t_object (ns_tree k s))"
  shows "let s' = fst (application_set_value lib (k, NRes i j) (Some v) (length v) s);
      r' = tree_res i j (ns_tree k s'); r = tree_res i j (ns_tree k s)
    in r_delayed_response r' = r_delayed_response r \<and> r_delayed_token r' = r_delayed_token r \<and>
      bs_value (r_base r') = Some v \<and> o_handler (t_object (ns_tree k s'))"
proof -
  let ?n = "NRes i j" and ?t = "ns_tree k s"
  let ?t1 = "fst (res_set_value ?n (Some v) (length v) ?t)"
  let ?s1 = "ns_set_tree k ?t1 s"
  let ?s' = "fst (application_set_value lib (k, ?n) (Some v) (length v) s)"
  have "?s' = deliver lib k (drop (length (t_out ?t)) (t_out ?t1)) ?s1"
    by (simp add: application_set_value_def Let_def split_beta)
  then have kept: "objects_kept ?s1 ?s'" using objects_kept_deliver by simp
  have t1: "ns_tree k ?s1 = ?t1" using assms(1) by (simp add: ns_set_tree_def ns_tree_def)
  have r: "tree_res i j (ns_tree k ?s') = tree_res i j ?t1"
    using objects_kept_res [OF kept, of k i j] assms(1) t1 by (simp add: ns_set_tree_def)
  have sh: "resource_shape i j ?t1 = resource_shape i j ?t" by (rule res_set_value_shape)
  have "o_handler (t_object (ns_tree k ?s'))"
    using kept t1 sh assms(4) by (simp add: objects_kept_def handlers_kept_def resource_shape_def)
  moreover have "node_frame ?n ?t1 = Some ((frame_of b)\<lparr>bs_value := Some v\<rparr>)"
    using res_set_value_frame(1) [OF assms(2), of "length v" ?n v] assms(3) by simp
  then obtain b1 where b1: "get_base ?n (t_object ?t1) = Some b1" "frame_of b1 = (frame_of b)\<lparr>bs_value := Some v\<rparr>"
    by (auto simp: node_frame_def simp del: get_base.simps)
  have "bs_value b1 = Some v" using arg_cong [OF b1(2), of bs_value] by (simp add: frame_of_def)
  ultimately show ?thesis using r sh get_res [OF b1(1)] by (simp add: resource_shape_def Let_def)
qed

section \<open>Properties\<close>

text \<open>C23: a POST for a resource with a delayed response runs its function and is acknowledged at once with
  an empty message of the same number. When the application then sets a value and sends the delayed response,
  a content message with the token of the POST and the new value goes out.\<close>

theorem delayed_response_completed:
  assumes "env_serves (lib_coap lib)"
    and "find_resource (coap_to_string (cm_uri_path req)) None s = Some (k, NRes i j)" and "k < length (ns_objects s)"
    and "get_base (NRes i j) (t_object (ns_tree k s)) = Some b" and "bs_access b AND POST_ALLOWED \<noteq> 0"
    and "r_delayed_response (tree_res i j (ns_tree k s))" and "o_handler (t_object (ns_tree k s))"
    and "cm_code req = COAP_MSG_CODE_REQUEST_POST" and "cm_payload req = None \<or> content_type_of req = 0"
    and "cm_token req = Some token" and "token \<noteq> []" and "v \<noteq> []"
  shows "\<exists>s1 ack s2 s3 msg. resource_callback lib req s = Some (s1, 1) \<and>
    ns_out s1 = ns_out s @ [NotifyObserver OnCoapDataProcessed, RequestOutput k (MessageSent ack),
      RequestOutput k (Executed (NRes i j) (execute_value req))] \<and>
    rs_type ack = TYPE_ACKNOWLEDGEMENT \<and> rs_code ack = COAP_MSG_CODE_EMPTY \<and> rs_id ack = cm_id req \<and>
    s2 = fst (application_set_value lib (k, NRes i j) (Some v) (length v) s1) \<and>
    send_delayed_post_response lib k i j s2 = (s3, True) \<and> ns_out s3 = ns_out s2 @ [SendCoap msg] \<and>
    rs_code msg = COAP_MSG_CODE_RESPONSE_CONTENT \<and> rs_token msg = Some token \<and> rs_payload msg = Some v"
proof -
  obtain s1 ack where g: "resource_callback lib req s = Some (s1, 1)"
    "ns_out s1 = ns_out s @ [NotifyObserver OnCoapDataProcessed, RequestOutput k (MessageSent ack),
      RequestOutput k (Executed (NRes i j) (execute_value req))]"
    "rs_type ack = TYPE_ACKNOWLEDGEMENT" "rs_code ack = COAP_MSG_CODE_EMPTY" "rs_id ack = cm_id req"
    "ns_objects s1 = (ns_objects s)[k := set_delayed_token i j token (ns_tree k s)]"
    using delayed_request [OF assms(1-6,8-11)] by blast
  have t1: "ns_tree k s1 = set_delayed_token i j token (ns_tree k s)" using g(6) assms(3) by (simp add: ns_tree_def)
  have r: "tree_res i j (ns_tree k s1) = (tree_res i j (ns_tree k s))\<lparr>r_delayed_token := Some token\<rparr>"
    using assms(4) unfolding t1 set_delayed_token_def by (simp add: tree_res_on_object del: get_base.simps)
  have h: "o_handler (t_object (ns_tree k s1))" "get_base (NRes i j) (t_object (ns_tree k s1)) = Some b"
    using assms(4,7) on_object_base [of "\<lambda>r. r\<lparr>r_delayed_token := Some token\<rparr>" i j "ns_tree k s"]
    unfolding t1 set_delayed_token_def by (simp_all add: on_object_handler del: get_base.simps)
  have k: "k < length (ns_objects s1)" using g(6) assms(3) by simp
  let ?s2 = "fst (application_set_value lib (k, NRes i j) (Some v) (length v) s1)"
  note d = set_value_keeps_delayed [OF k h(2) assms(12) h(1), of lib, unfolded Let_def]
  have "\<exists>s3 msg. send_delayed_post_response lib k i j ?s2 = (s3, True) \<and> ns_out s3 = ns_out ?s2 @ [SendCoap msg] \<and>
      rs_code msg = COAP_MSG_CODE_RESPONSE_CONTENT \<and> rs_token msg = Some token \<and> rs_payload msg = Some v"
    by (rule delayed_response_sent) (use d r assms(6,11,12) in simp_all)
  then show ?thesis using g(1-5) by blast
qed

text \<open>The sample client with a delayed response.\<close>

definition delayed_nsdl :: nsdl where
  "delayed_nsdl = ns_set_tree 0 (set_delayed_response 0 0 True (ns_tree 0 sample_nsdl)) sample_nsdl"

lemma delayed_nsdl_found:
  "find_resource (coap_to_string (cm_uri_path (sample_request COAP_MSG_CODE_REQUEST_POST None 0))) None delayed_nsdl =
     Some (0, NRes 0 0)"
  by code_simp

theorem delayed_response_completed_witness:
  "\<exists>s1 ack s2 s3 msg. resource_callback sample_lib (sample_request COAP_MSG_CODE_REQUEST_POST None 0) delayed_nsdl = Some (s1, 1) \<and>
    rs_code ack = COAP_MSG_CODE_EMPTY \<and> RequestOutput 0 (MessageSent ack) \<in> set (ns_out s1) \<and>
    s2 = fst (application_set_value sample_lib (0, NRes 0 0) (Some [55]) (length [55 :: u8]) s1) \<and>
    send_delayed_post_response sample_lib 0 0 0 s2 = (s3, True) \<and> ns_out s3 = ns_out s2 @ [SendCoap msg] \<and>
    rs_token msg = Some [1, 2] \<and> rs_payload msg = Some [55]"
proof -
  let ?req = "sample_request COAP_MSG_CODE_REQUEST_POST None 0"
  let ?b = "(base_new ''1'' Dynamic '''' ''9/0/1'' False False INTEGER BT_Resource)
        \<lparr>bs_access := GET_PUT_POST_DELETE_ALLOWED, bs_observable := True\<rparr>"
  have k: "0 < length (ns_objects delayed_nsdl)" by (simp add: delayed_nsdl_def ns_set_tree_def sample_nsdl_def nsdl_new_def)
  have t: "ns_tree 0 delayed_nsdl = on_object (upd_inst 0 (upd_res 0 (\<lambda>r. r\<lparr>r_delayed_response := True\<rparr>))) open_tree"
    by (simp add: delayed_nsdl_def sample_nsdl_def nsdl_new_def ns_tree_def ns_set_tree_def set_delayed_response_def)
  have n: "get_base (NRes 0 0) (t_object (ns_tree 0 delayed_nsdl)) = Some ?b"
    using open_tree_node unfolding t by (simp add: on_object_base del: get_base.simps)
  have d: "r_delayed_response (tree_res 0 0 (ns_tree 0 delayed_nsdl))"
    using open_tree_node unfolding t by (simp add: tree_res_on_object del: get_base.simps)
  have h: "o_handler (t_object (ns_tree 0 delayed_nsdl))" by code_simp
  have e: "env_serves (lib_coap sample_lib)" using sample_env_serves by (simp add: sample_lib_def)
  have p: "bs_access ?b AND POST_ALLOWED \<noteq> 0" by (simp add: base_new_def)
  have q: "cm_code ?req = COAP_MSG_CODE_REQUEST_POST" "cm_payload ?req = None \<or> content_type_of ?req = 0"
    "cm_token ?req = Some [1, 2]" by (simp_all add: sample_request_def)
  have l: "[1 :: u8, 2] \<noteq> []" "[55 :: u8] \<noteq> []" by simp_all
  show ?thesis using delayed_response_completed [OF e delayed_nsdl_found k n p d h q l] by fastforce
qed

end
