(* ===== verification/FunctionPointers.thy ===== *)
theory FunctionPointers
  imports Prelude
begin

text \<open>
  The function objects \<open>FP0\<close> to \<open>FP3\<close> of \<open>mbed-client/functionpointer.h\<close>, which hold a static function or
  an object with a member function. The four classes differ in the number of arguments only, which the model
  leaves to the caller. Functions, objects and member functions are addresses, null is 0. The union of function and
  object is one field; which of the two it holds is told by the member caller, whose presence is a boolean.
\<close>

record fp =
  fp_p :: nat
  fp_member :: nat
  fp_membercaller :: bool

datatype called = CallFunction nat | CallMember nat nat

definition fp_attach_function :: "nat \<Rightarrow> fp \<Rightarrow> fp" where
  "fp_attach_function func f = f\<lparr>fp_p := func, fp_membercaller := False\<rparr>"

definition fp_attach_member :: "nat \<Rightarrow> nat \<Rightarrow> fp \<Rightarrow> fp" where
  "fp_attach_member obj member f = f\<lparr>fp_p := obj, fp_member := member, fp_membercaller := True\<rparr>"

definition fp_new_function :: "nat \<Rightarrow> fp" where
  "fp_new_function func = fp_attach_function func \<lparr>fp_p = 0, fp_member = 0, fp_membercaller = False\<rparr>"

text \<open>The constructor for a member leaves the fields uninitialised before it attaches: \<open>junk\<close>.\<close>

definition fp_new_member :: "fp \<Rightarrow> nat \<Rightarrow> nat \<Rightarrow> fp" where
  "fp_new_member junk obj member = fp_attach_member obj member junk"

definition fp_call :: "fp \<Rightarrow> called option" where
  "fp_call f =
     (if \<not> fp_membercaller f \<and> fp_p f \<noteq> 0 then Some (CallFunction (fp_p f))
      else if fp_membercaller f \<and> fp_p f \<noteq> 0 then Some (CallMember (fp_p f) (fp_member f))
      else None)"

definition fp_get_function :: "fp \<Rightarrow> nat" where
  "fp_get_function f = fp_p f"

definition fp_bool :: "fp \<Rightarrow> bool" where
  "fp_bool f \<longleftrightarrow> fp_membercaller f \<and> fp_p f \<noteq> 0 \<and> fp_p f \<noteq> 0"

lemma fp_call_new [simp]:
  "fp_call (fp_new_function func) = (if func = 0 then None else Some (CallFunction func))"
  "fp_call (fp_new_member junk obj member) = (if obj = 0 then None else Some (CallMember obj member))"
  by (simp_all add: fp_call_def fp_new_function_def fp_new_member_def fp_attach_function_def fp_attach_member_def)

text \<open>The conversion to a truth value denies a static function that a call runs.\<close>

lemma fp_bool_static: "func \<noteq> 0 \<Longrightarrow> \<not> fp_bool (fp_new_function func) \<and> fp_call (fp_new_function func) \<noteq> None"
  by (simp add: fp_bool_def fp_new_function_def fp_attach_function_def fp_call_def)

end
