(* ===== verification/NodeCallbacks.thy ===== *)
theory NodeCallbacks
  imports CallbackStorage FunctionPointers BlockMessage
begin

text \<open>
  The callbacks of the application at the nodes of the tree: the setters, the calls and the destructors of
  \<open>M2MBase\<close> and \<open>M2MResourceBase\<close> (\<open>source/m2mbase.cpp\<close>, \<open>source/m2mresourcebase.cpp\<close>). A node is its address.
  A callback given as function object is copied to the heap and the storage keeps the address of the copy;
  one given as plain function is kept itself. \<open>new\<close> is a parameter \<open>new_at\<close>; freeing or reading an address
  that is not allocated is \<open>None\<close>. What the application does when it is called is the parameter \<open>run\<close>,
  which may use all operations of this theory.
\<close>

section \<open>The heap of function objects\<close>

datatype callback_arg = NameArg string | PointerArg nat | NoArg

datatype callback_event = Called nat callback_type called callback_arg

record callback_state =
  cs_storage :: "callbacks option"
  cs_heap :: "(nat \<times> fp) list"
  cs_block :: "nat \<Rightarrow> block_message option"
  cs_events :: "callback_event list"

definition callbacks_new :: callback_state where
  "callbacks_new = \<lparr>cs_storage = None, cs_heap = [], cs_block = (\<lambda>obj. None), cs_events = []\<rparr>"

definition new_fp :: "((nat \<times> fp) list \<Rightarrow> nat) \<Rightarrow> fp \<Rightarrow> callback_state \<Rightarrow> callback_state \<times> nat" where
  "new_fp new_at f s = (let p = new_at (cs_heap s) in (s\<lparr>cs_heap := (p, f) # cs_heap s\<rparr>, p))"

definition delete_fp :: "nat \<Rightarrow> callback_state \<Rightarrow> callback_state option" where
  "delete_fp p s =
     (if p = 0 then Some s
      else if p \<in> fst ` set (cs_heap s) then Some (s\<lparr>cs_heap := List.filter (\<lambda>(q, f). q \<noteq> p) (cs_heap s)\<rparr>)
      else None)"

section \<open>The storage\<close>

definition take_callback :: "nat \<Rightarrow> callback_type \<Rightarrow> callback_state \<Rightarrow> (callback_state \<times> nat) option" where
  "take_callback obj ty s = do {
     (st, p) \<leftarrow> remove_callback obj ty (cs_storage s);
     Some (s\<lparr>cs_storage := st\<rparr>, p) }"

definition drop_fp :: "nat \<Rightarrow> callback_type \<Rightarrow> callback_state \<Rightarrow> callback_state option" where
  "drop_fp obj ty s = do {
     (s1, old) \<leftarrow> take_callback obj ty s;
     delete_fp old s1 }"

definition drop_function :: "nat \<Rightarrow> callback_type \<Rightarrow> callback_state \<Rightarrow> callback_state option" where
  "drop_function obj ty s = map_option fst (take_callback obj ty s)"

definition store_callback :: "nat \<Rightarrow> callback_type \<Rightarrow> nat \<Rightarrow> callback_state \<Rightarrow> (callback_state \<times> bool) option" where
  "store_callback obj ty p s = do {
     (st, r) \<leftarrow> add_callback obj p ty (cs_storage s);
     Some (s\<lparr>cs_storage := st\<rparr>, r) }"

definition set_fp ::
  "((nat \<times> fp) list \<Rightarrow> nat) \<Rightarrow> callback_type \<Rightarrow> nat \<Rightarrow> fp \<Rightarrow> callback_state \<Rightarrow> (callback_state \<times> bool) option" where
  "set_fp new_at ty obj f s = do {
     s1 \<leftarrow> drop_fp obj ty s;
     let (s2, p) = new_fp new_at f s1;
     store_callback obj ty p s2 }"

definition set_function :: "callback_type \<Rightarrow> nat \<Rightarrow> nat \<Rightarrow> callback_state \<Rightarrow> (callback_state \<times> bool) option" where
  "set_function ty obj func s = do {
     s1 \<leftarrow> drop_function obj ty s;
     store_callback obj ty func s1 }"

section \<open>Setting a callback\<close>

definition set_value_updated_function where
  "set_value_updated_function new_at obj f s = set_fp new_at M2MBaseValueUpdatedCallback obj f s"

definition set_value_updated_function2 where
  "set_value_updated_function2 obj func s = set_function M2MBaseValueUpdatedCallback2 obj func s"

definition set_execute_function where
  "set_execute_function new_at obj f s = set_fp new_at M2MResourceInstanceExecuteCallback obj f s"

definition set_execute_function2 where
  "set_execute_function2 obj func s = set_function M2MResourceInstanceExecuteCallback2 obj func s"

definition set_incoming_block_message_callback ::
  "((nat \<times> fp) list \<Rightarrow> nat) \<Rightarrow> nat \<Rightarrow> fp \<Rightarrow> callback_state \<Rightarrow> (callback_state \<times> bool) option" where
  "set_incoming_block_message_callback new_at obj f s = do {
     s1 \<leftarrow> drop_fp obj M2MResourceInstanceIncomingBlockMessageCallback s;
     let (s2, p) = new_fp new_at f s1;
     let s3 = s2\<lparr>cs_block := (cs_block s2)(obj := Some bm_new)\<rparr>;
     store_callback obj M2MResourceInstanceIncomingBlockMessageCallback p s3 }"

definition set_outgoing_block_message_callback where
  "set_outgoing_block_message_callback new_at obj f s =
     set_fp new_at M2MResourceInstanceOutgoingBlockMessageCallback obj f s"

definition set_notification_sent_callback where
  "set_notification_sent_callback new_at obj f s =
     set_fp new_at M2MResourceInstanceNotificationSentCallback obj f s"

definition set_notification_sent_callback2 where
  "set_notification_sent_callback2 obj func s =
     set_function M2MResourceInstanceNotificationSentCallback2 obj func s"

definition is_value_updated_function_set :: "nat \<Rightarrow> callback_state \<Rightarrow> (callback_state \<times> bool) option" where
  "is_value_updated_function_set obj s = do {
     (st1, a) \<leftarrow> does_callback_exist obj M2MBaseValueUpdatedCallback (cs_storage s);
     if a then Some (s\<lparr>cs_storage := st1\<rparr>, True)
     else do {
       (st2, b) \<leftarrow> does_callback_exist obj M2MBaseValueUpdatedCallback2 st1;
       Some (s\<lparr>cs_storage := st2\<rparr>, b) } }"

section \<open>Calling the application\<close>

type_synonym application = "callback_event \<Rightarrow> callback_state \<Rightarrow> callback_state option"

definition call_out :: "application \<Rightarrow> callback_event \<Rightarrow> callback_state \<Rightarrow> callback_state option" where
  "call_out run e s = run e (s\<lparr>cs_events := cs_events s @ [e]\<rparr>)"

definition call_fp ::
  "application \<Rightarrow> nat \<Rightarrow> callback_type \<Rightarrow> callback_arg \<Rightarrow> callback_state \<Rightarrow> callback_state option" where
  "call_fp run obj ty arg s = do {
     (st, p) \<leftarrow> get_callback obj ty (cs_storage s);
     let s1 = s\<lparr>cs_storage := st\<rparr>;
     if p \<noteq> 0 then do {
       f \<leftarrow> map_of (cs_heap s1) p;
       case fp_call f of None \<Rightarrow> Some s1 | Some c \<Rightarrow> call_out run (Called obj ty c arg) s1 }
     else Some s1 }"

definition call_function ::
  "application \<Rightarrow> nat \<Rightarrow> callback_type \<Rightarrow> callback_arg \<Rightarrow> callback_state \<Rightarrow> callback_state option" where
  "call_function run obj ty arg s = do {
     (st, p) \<leftarrow> get_callback obj ty (cs_storage s);
     let s1 = s\<lparr>cs_storage := st\<rparr>;
     if p \<noteq> 0 then call_out run (Called obj ty (CallFunction p) arg) s1 else Some s1 }"

definition execute_value_updated :: "application \<Rightarrow> nat \<Rightarrow> string \<Rightarrow> callback_state \<Rightarrow> callback_state option" where
  "execute_value_updated run obj name s = do {
     s1 \<leftarrow> call_fp run obj M2MBaseValueUpdatedCallback (NameArg name) s;
     call_function run obj M2MBaseValueUpdatedCallback2 (NameArg name) s1 }"

definition execute_resource :: "application \<Rightarrow> nat \<Rightarrow> nat \<Rightarrow> callback_state \<Rightarrow> callback_state option" where
  "execute_resource run obj arguments s = do {
     s1 \<leftarrow> call_fp run obj M2MResourceInstanceExecuteCallback (PointerArg arguments) s;
     call_function run obj M2MResourceInstanceExecuteCallback2 (PointerArg arguments) s1 }"

definition notification_sent :: "application \<Rightarrow> nat \<Rightarrow> callback_state \<Rightarrow> callback_state option" where
  "notification_sent run obj s = do {
     s1 \<leftarrow> call_fp run obj M2MResourceInstanceNotificationSentCallback NoArg s;
     call_function run obj M2MResourceInstanceNotificationSentCallback2 NoArg s1 }"

section \<open>Destroying a node\<close>

definition base_destroy :: "nat \<Rightarrow> callback_state \<Rightarrow> callback_state option" where
  "base_destroy obj s = do {
     s1 \<leftarrow> drop_fp obj M2MBaseValueUpdatedCallback s;
     drop_function obj M2MBaseValueUpdatedCallback2 s1 }"

definition resource_base_destroy :: "nat \<Rightarrow> callback_state \<Rightarrow> callback_state option" where
  "resource_base_destroy obj s = do {
     s1 \<leftarrow> drop_fp obj M2MResourceInstanceExecuteCallback s;
     s2 \<leftarrow> drop_function obj M2MResourceInstanceExecuteCallback2 s1;
     s3 \<leftarrow> drop_fp obj M2MResourceInstanceIncomingBlockMessageCallback s2;
     s4 \<leftarrow> drop_fp obj M2MResourceInstanceOutgoingBlockMessageCallback s3;
     s5 \<leftarrow> drop_fp obj M2MResourceInstanceNotificationSentCallback s4;
     s6 \<leftarrow> drop_function obj M2MResourceInstanceNotificationSentCallback2 s5;
     base_destroy obj (s6\<lparr>cs_block := (cs_block s6)(obj := None)\<rparr>) }"

section \<open>Sequences of operations\<close>

datatype callback_op =
    SetValueUpdated nat fp
  | SetValueUpdated2 nat nat
  | SetExecute nat fp
  | SetExecute2 nat nat
  | SetIncomingBlock nat fp
  | SetOutgoingBlock nat fp
  | SetNotificationSent nat fp
  | SetNotificationSent2 nat nat
  | IsValueUpdatedSet nat
  | RunValueUpdated nat string
  | RunExecute nat nat
  | RunNotificationSent nat
  | DestroyBase nat
  | DestroyResource nat

definition no_result :: "callback_state option \<Rightarrow> (callback_state \<times> bool) option" where
  "no_result r = map_option (\<lambda>s. (s, True)) r"

fun callback_step ::
  "((nat \<times> fp) list \<Rightarrow> nat) \<Rightarrow> application \<Rightarrow> callback_op \<Rightarrow> callback_state \<Rightarrow> (callback_state \<times> bool) option" where
  "callback_step new_at run (SetValueUpdated obj f) s = set_value_updated_function new_at obj f s"
| "callback_step new_at run (SetValueUpdated2 obj g) s = set_value_updated_function2 obj g s"
| "callback_step new_at run (SetExecute obj f) s = set_execute_function new_at obj f s"
| "callback_step new_at run (SetExecute2 obj g) s = set_execute_function2 obj g s"
| "callback_step new_at run (SetIncomingBlock obj f) s = set_incoming_block_message_callback new_at obj f s"
| "callback_step new_at run (SetOutgoingBlock obj f) s = set_outgoing_block_message_callback new_at obj f s"
| "callback_step new_at run (SetNotificationSent obj f) s = set_notification_sent_callback new_at obj f s"
| "callback_step new_at run (SetNotificationSent2 obj g) s = set_notification_sent_callback2 obj g s"
| "callback_step new_at run (IsValueUpdatedSet obj) s = is_value_updated_function_set obj s"
| "callback_step new_at run (RunValueUpdated obj name) s = no_result (execute_value_updated run obj name s)"
| "callback_step new_at run (RunExecute obj arg) s = no_result (execute_resource run obj arg s)"
| "callback_step new_at run (RunNotificationSent obj) s = no_result (notification_sent run obj s)"
| "callback_step new_at run (DestroyBase obj) s = no_result (base_destroy obj s)"
| "callback_step new_at run (DestroyResource obj) s = no_result (resource_base_destroy obj s)"

fun callback_steps ::
  "((nat \<times> fp) list \<Rightarrow> nat) \<Rightarrow> application \<Rightarrow> callback_op list \<Rightarrow> callback_state \<Rightarrow> (callback_state \<times> bool list) option" where
  "callback_steps new_at run [] s = Some (s, [])"
| "callback_steps new_at run (op # ops) s = do {
     (s1, r) \<leftarrow> callback_step new_at run op s;
     (s2, rs) \<leftarrow> callback_steps new_at run ops s1;
     Some (s2, r # rs) }"

end
