(* ===== verification/NodeCallbacksSpec.thy ===== *)
theory NodeCallbacksSpec
  imports NodeCallbacks
begin

text \<open>
  What the callbacks of the nodes promise: a map from nodes and types to the callback set last, which the
  calls read and the destructor of a node empties. The model implements it whatever the application does when it is
  called, as long as that follows the map too; the copies on the heap are the function objects of the map,
  one each, so nothing is freed twice, read after it was freed or left behind.
\<close>

section \<open>The specification\<close>

datatype target = ObjectTarget fp | FunctionTarget nat

record callback_spec =
  sp_target :: "nat \<times> callback_type \<rightharpoonup> target"
  sp_block :: "nat \<Rightarrow> block_message option"
  sp_events :: "callback_event list"

definition spec_new :: callback_spec where
  "spec_new = \<lparr>sp_target = Map.empty, sp_block = (\<lambda>obj. None), sp_events = []\<rparr>"

definition spec_set :: "nat \<Rightarrow> callback_type \<Rightarrow> target option \<Rightarrow> callback_spec \<Rightarrow> callback_spec" where
  "spec_set obj ty t m = m\<lparr>sp_target := (sp_target m)((obj, ty) := t)\<rparr>"

fun target_called :: "target \<Rightarrow> called option" where
  "target_called (ObjectTarget f) = fp_call f"
| "target_called (FunctionTarget func) = (if func = 0 then None else Some (CallFunction func))"

fun target_armed :: "target \<Rightarrow> bool" where
  "target_armed (ObjectTarget f) = True"
| "target_armed (FunctionTarget func) = (func \<noteq> 0)"

definition spec_call ::
  "(callback_event \<Rightarrow> callback_spec \<Rightarrow> callback_spec) \<Rightarrow> nat \<Rightarrow> callback_type \<Rightarrow> callback_arg \<Rightarrow> callback_spec \<Rightarrow> callback_spec" where
  "spec_call srun obj ty arg m =
     (case Option.bind (sp_target m (obj, ty)) target_called of None \<Rightarrow> m
      | Some c \<Rightarrow> srun (Called obj ty c arg) (m\<lparr>sp_events := sp_events m @ [Called obj ty c arg]\<rparr>))"

definition spec_forget :: "nat \<Rightarrow> callback_type set \<Rightarrow> callback_spec \<Rightarrow> callback_spec" where
  "spec_forget obj tys m = m\<lparr>sp_target := (\<lambda>k. if fst k = obj \<and> snd k \<in> tys then None else sp_target m k)\<rparr>"

fun spec_step ::
  "(callback_event \<Rightarrow> callback_spec \<Rightarrow> callback_spec) \<Rightarrow> callback_op \<Rightarrow> callback_spec \<Rightarrow> callback_spec \<times> bool" where
  "spec_step srun (SetValueUpdated obj f) m = (spec_set obj M2MBaseValueUpdatedCallback (Some (ObjectTarget f)) m, True)"
| "spec_step srun (SetValueUpdated2 obj g) m = (spec_set obj M2MBaseValueUpdatedCallback2 (Some (FunctionTarget g)) m, True)"
| "spec_step srun (SetExecute obj f) m = (spec_set obj M2MResourceInstanceExecuteCallback (Some (ObjectTarget f)) m, True)"
| "spec_step srun (SetExecute2 obj g) m =
     (spec_set obj M2MResourceInstanceExecuteCallback2 (Some (FunctionTarget g)) m, True)"
| "spec_step srun (SetIncomingBlock obj f) m =
     ((spec_set obj M2MResourceInstanceIncomingBlockMessageCallback (Some (ObjectTarget f)) m)
        \<lparr>sp_block := (sp_block m)(obj := Some bm_new)\<rparr>, True)"
| "spec_step srun (SetOutgoingBlock obj f) m =
     (spec_set obj M2MResourceInstanceOutgoingBlockMessageCallback (Some (ObjectTarget f)) m, True)"
| "spec_step srun (SetNotificationSent obj f) m =
     (spec_set obj M2MResourceInstanceNotificationSentCallback (Some (ObjectTarget f)) m, True)"
| "spec_step srun (SetNotificationSent2 obj g) m =
     (spec_set obj M2MResourceInstanceNotificationSentCallback2 (Some (FunctionTarget g)) m, True)"
| "spec_step srun (IsValueUpdatedSet obj) m =
     (m, (\<exists>t. sp_target m (obj, M2MBaseValueUpdatedCallback) = Some t \<and> target_armed t) \<or>
         (\<exists>t. sp_target m (obj, M2MBaseValueUpdatedCallback2) = Some t \<and> target_armed t))"
| "spec_step srun (RunValueUpdated obj name) m =
     (spec_call srun obj M2MBaseValueUpdatedCallback2 (NameArg name)
        (spec_call srun obj M2MBaseValueUpdatedCallback (NameArg name) m), True)"
| "spec_step srun (RunExecute obj arg) m =
     (spec_call srun obj M2MResourceInstanceExecuteCallback2 (PointerArg arg)
        (spec_call srun obj M2MResourceInstanceExecuteCallback (PointerArg arg) m), True)"
| "spec_step srun (RunNotificationSent obj) m =
     (spec_call srun obj M2MResourceInstanceNotificationSentCallback2 NoArg
        (spec_call srun obj M2MResourceInstanceNotificationSentCallback NoArg m), True)"
| "spec_step srun (DestroyBase obj) m =
     (spec_forget obj {M2MBaseValueUpdatedCallback, M2MBaseValueUpdatedCallback2} m, True)"
| "spec_step srun (DestroyResource obj) m =
     ((spec_forget obj UNIV m)\<lparr>sp_block := (sp_block m)(obj := None)\<rparr>, True)"

fun spec_steps ::
  "(callback_event \<Rightarrow> callback_spec \<Rightarrow> callback_spec) \<Rightarrow> callback_op list \<Rightarrow> callback_spec \<Rightarrow> callback_spec \<times> bool list" where
  "spec_steps srun [] m = (m, [])"
| "spec_steps srun (op # ops) m =
     (let (m1, r) = spec_step srun op m; (m2, rs) = spec_steps srun ops m1 in (m2, r # rs))"

section \<open>The relation\<close>

definition owns :: "callback_type \<Rightarrow> bool" where
  "owns ty \<longleftrightarrow> ty \<in> {M2MBaseValueUpdatedCallback, M2MResourceInstanceExecuteCallback,
     M2MResourceInstanceIncomingBlockMessageCallback, M2MResourceInstanceOutgoingBlockMessageCallback,
     M2MResourceInstanceNotificationSentCallback}"

definition heap_ok :: "(nat \<times> callback_type \<rightharpoonup> nat) \<Rightarrow> (nat \<times> fp) list \<Rightarrow> bool" where
  "heap_ok f h \<longleftrightarrow> distinct (map fst h) \<and> 0 \<notin> fst ` set h \<and>
     (\<forall>p. p \<in> fst ` set h \<longleftrightarrow> (\<exists>k. owns (snd k) \<and> f k = Some p)) \<and>
     (\<forall>k k' p. owns (snd k) \<longrightarrow> owns (snd k') \<longrightarrow> f k = Some p \<longrightarrow> f k' = Some p \<longrightarrow> k = k')"

definition target_of :: "(nat \<times> callback_type \<rightharpoonup> nat) \<Rightarrow> (nat \<times> fp) list \<Rightarrow> nat \<times> callback_type \<rightharpoonup> target" where
  "target_of f h k =
     (case f k of None \<Rightarrow> None
      | Some p \<Rightarrow> if owns (snd k) then map_option ObjectTarget (map_of h p) else Some (FunctionTarget p))"

definition callbacks_rel :: "callback_state \<Rightarrow> callback_spec \<Rightarrow> bool" where
  "callbacks_rel s m \<longleftrightarrow>
     (\<exists>f. cb_map (cs_storage s) f \<and> heap_ok f (cs_heap s) \<and> sp_target m = target_of f (cs_heap s) \<and>
        (\<forall>obj. f (obj, M2MResourceInstanceM2MResourceCallback) = None)) \<and>
     sp_block m = cs_block s \<and> sp_events m = cs_events s"

definition allocator :: "((nat \<times> fp) list \<Rightarrow> nat) \<Rightarrow> bool" where
  "allocator new_at \<longleftrightarrow> (\<forall>h. new_at h \<noteq> 0 \<and> new_at h \<notin> fst ` set h)"

lemma heap_okI:
  assumes "distinct (map fst h)" and "0 \<notin> fst ` set h"
    and "\<And>p. p \<in> fst ` set h \<longleftrightarrow> (\<exists>k. owns (snd k) \<and> f k = Some p)"
    and "\<And>k k' p. owns (snd k) \<Longrightarrow> owns (snd k') \<Longrightarrow> f k = Some p \<Longrightarrow> f k' = Some p \<Longrightarrow> k = k'"
  shows "heap_ok f h"
  unfolding heap_ok_def using assms by blast

lemma heap_okD:
  assumes "heap_ok f h"
  shows "distinct (map fst h)" and "0 \<notin> fst ` set h"
    and "p \<in> fst ` set h \<longleftrightarrow> (\<exists>k. owns (snd k) \<and> f k = Some p)"
    and "owns (snd k) \<Longrightarrow> owns (snd k') \<Longrightarrow> f k = Some p \<Longrightarrow> f k' = Some p \<Longrightarrow> k = k'"
  using assms unfolding heap_ok_def by blast+

lemma map_of_filter_ne: "map_of (List.filter (\<lambda>(q, f). q \<noteq> p) h) q = (if q = p then None else map_of h q)"
  by (induction h) auto

lemma heap_ok_free:
  assumes "heap_ok f h" and "owns ty" and "f (obj, ty) = Some p"
  shows "heap_ok (f((obj, ty) := None)) (List.filter (\<lambda>(q, f). q \<noteq> p) h) \<and>
    target_of (f((obj, ty) := None)) (List.filter (\<lambda>(q, f). q \<noteq> p) h) = (target_of f h)((obj, ty) := None)"
proof
  let ?h = "List.filter (\<lambda>(q, f). q \<noteq> p) h"
  have inj: "f k = Some p \<Longrightarrow> owns (snd k) \<Longrightarrow> k = (obj, ty)" for k
    using assms unfolding heap_ok_def by (metis snd_conv)
  have fs: "fst ` set ?h = fst ` set h - {p}" by force
  have d: "distinct (map fst ?h)" using assms(1) unfolding heap_ok_def by (simp add: distinct_map_filter)
  have "q \<in> fst ` set ?h \<longleftrightarrow> (\<exists>k. owns (snd k) \<and> (f((obj, ty) := None)) k = Some q)" for q
  proof
    assume "q \<in> fst ` set ?h"
    then have "q \<noteq> p" "q \<in> fst ` set h" unfolding fs by simp_all
    then obtain k where "owns (snd k)" "f k = Some q" using heap_okD(3) [OF assms(1), of q] by blast
    then show "\<exists>k. owns (snd k) \<and> (f((obj, ty) := None)) k = Some q"
      using \<open>q \<noteq> p\<close> assms(3) by (intro exI [of _ k]) auto
  next
    assume "\<exists>k. owns (snd k) \<and> (f((obj, ty) := None)) k = Some q"
    then obtain k where "owns (snd k)" "f k = Some q" "k \<noteq> (obj, ty)" by (auto split: if_splits)
    then show "q \<in> fst ` set ?h" using inj heap_okD(3) [OF assms(1), of q] unfolding fs by blast
  qed
  then show "heap_ok (f((obj, ty) := None)) ?h"
  proof (rule heap_okI [rotated 2])
    fix k k' q
    assume "owns (snd k)" "owns (snd k')" "(f((obj, ty) := None)) k = Some q" "(f((obj, ty) := None)) k' = Some q"
    then show "k = k'" using heap_okD(4) [OF assms(1), of k k' q] by (auto split: if_splits)
  qed (use d fs heap_okD(2) [OF assms(1)] in auto)
  show "target_of (f((obj, ty) := None)) ?h = (target_of f h)((obj, ty) := None)"
    using inj by (auto simp: fun_eq_iff target_of_def map_of_filter_ne split: option.splits)
qed

lemma heap_ok_plain:
  assumes "heap_ok f h" and "\<not> owns ty"
  shows "heap_ok (f((obj, ty) := q)) h \<and>
    target_of (f((obj, ty) := q)) h = (target_of f h)((obj, ty) := map_option FunctionTarget q)"
proof
  have eq: "(f((obj, ty) := q)) k = f k" if "owns (snd k)" for k using that assms(2) by auto
  show "heap_ok (f((obj, ty) := q)) h"
  proof (rule heap_okI)
    fix p
    have "(\<exists>k. owns (snd k) \<and> (f((obj, ty) := q)) k = Some p) \<longleftrightarrow> (\<exists>k. owns (snd k) \<and> f k = Some p)"
      using eq by metis
    then show "p \<in> fst ` set h \<longleftrightarrow> (\<exists>k. owns (snd k) \<and> (f((obj, ty) := q)) k = Some p)"
      using heap_okD(3) [OF assms(1), of p] by simp
  next
    fix k k' p
    assume "owns (snd k)" "owns (snd k')" "(f((obj, ty) := q)) k = Some p" "(f((obj, ty) := q)) k' = Some p"
    then show "k = k'" using heap_okD(4) [OF assms(1), of k k' p] eq by simp
  qed (use heap_okD(1,2) [OF assms(1)] in auto)
  show "target_of (f((obj, ty) := q)) h = (target_of f h)((obj, ty) := map_option FunctionTarget q)"
    using assms(2) by (cases q) (auto simp: fun_eq_iff target_of_def)
qed

lemma heap_ok_alloc:
  assumes "heap_ok f h" and "owns ty" and "f (obj, ty) = None" and "p \<noteq> 0" and "p \<notin> fst ` set h"
  shows "heap_ok (f((obj, ty) \<mapsto> p)) ((p, g) # h) \<and>
    target_of (f((obj, ty) \<mapsto> p)) ((p, g) # h) = (target_of f h)((obj, ty) \<mapsto> ObjectTarget g)"
proof
  have fresh: "f k = Some p \<Longrightarrow> owns (snd k) \<Longrightarrow> False" for k
    using assms(5) heap_okD(3) [OF assms(1), of p] by blast
  have "q \<in> fst ` set ((p, g) # h) \<longleftrightarrow> (\<exists>k. owns (snd k) \<and> (f((obj, ty) \<mapsto> p)) k = Some q)" for q
  proof
    assume "q \<in> fst ` set ((p, g) # h)"
    then consider "q = p" | "q \<in> fst ` set h" by auto
    then show "\<exists>k. owns (snd k) \<and> (f((obj, ty) \<mapsto> p)) k = Some q"
    proof cases
      case 1
      then show ?thesis using assms(2) by (intro exI [of _ "(obj, ty)"]) simp
    next
      case 2
      then obtain k where "owns (snd k)" "f k = Some q" using heap_okD(3) [OF assms(1), of q] by blast
      then show ?thesis using assms(3) by (intro exI [of _ k]) auto
    qed
  next
    assume "\<exists>k. owns (snd k) \<and> (f((obj, ty) \<mapsto> p)) k = Some q"
    then obtain k where k: "owns (snd k)" "(f((obj, ty) \<mapsto> p)) k = Some q" by blast
    show "q \<in> fst ` set ((p, g) # h)"
    proof (cases "k = (obj, ty)")
      case False
      then have "f k = Some q" using k by simp
      then have "q \<in> fst ` set h" using k heap_okD(3) [OF assms(1), of q] by blast
      then show ?thesis by auto
    qed (use k in simp)
  qed
  then show "heap_ok (f((obj, ty) \<mapsto> p)) ((p, g) # h)"
  proof (rule heap_okI [rotated 2])
    fix k k' q
    assume "owns (snd k)" "owns (snd k')" "(f((obj, ty) \<mapsto> p)) k = Some q" "(f((obj, ty) \<mapsto> p)) k' = Some q"
    then show "k = k'" using heap_okD(4) [OF assms(1)] fresh by (metis fun_upd_apply option.inject)
  qed (use assms(4,5) heap_okD(1,2) [OF assms(1)] in auto)
  show "target_of (f((obj, ty) \<mapsto> p)) ((p, g) # h) = (target_of f h)((obj, ty) \<mapsto> ObjectTarget g)"
    using assms(2) by (auto simp: fun_eq_iff target_of_def split: option.splits dest: fresh)
qed

section \<open>The operations follow the specification\<close>

lemma target_owned: "heap_ok f h \<Longrightarrow> owns ty \<Longrightarrow> target_of f h (obj, ty) = None \<Longrightarrow> f (obj, ty) = None"
  using heap_okD(3) [of f h] by (force simp: target_of_def map_of_eq_None_iff split: option.splits)

lemma drop_fp_rel:
  assumes "callbacks_rel s m" and "owns ty"
  shows "\<exists>s'. drop_fp obj ty s = Some s' \<and> callbacks_rel s' (spec_set obj ty None m)"
proof -
  obtain f where f: "cb_map (cs_storage s) f" "heap_ok f (cs_heap s)" "sp_target m = target_of f (cs_heap s)"
    "\<forall>obj. f (obj, M2MResourceInstanceM2MResourceCallback) = None" using assms(1) by (auto simp: callbacks_rel_def)
  obtain st where st: "remove_callback obj ty (cs_storage s) = Some (st, case f (obj, ty) of None \<Rightarrow> 0 | Some p \<Rightarrow> p)"
    "cb_map st (f((obj, ty) := None))" using cbs.rel_del [OF f(1)] by blast
  have rc: "\<forall>o'. (f((obj, ty) := None)) (o', M2MResourceInstanceM2MResourceCallback) = None" using f(4) by simp
  show ?thesis
  proof (cases "f (obj, ty)")
    case None
    then have "f((obj, ty) := None) = f" "(target_of f (cs_heap s))((obj, ty) := None) = target_of f (cs_heap s)"
      by (auto simp: fun_eq_iff target_of_def)
    then show ?thesis using None st f assms(1)
      by (auto simp: drop_fp_def take_callback_def delete_fp_def callbacks_rel_def spec_set_def)
  next
    case (Some p)
    have p: "p \<noteq> 0" "p \<in> fst ` set (cs_heap s)"
      using Some assms(2) heap_okD(2,3) [OF f(2)] by (metis snd_conv)+
    show ?thesis
      using Some st p rc f(3) heap_ok_free [OF f(2) assms(2) Some] assms(1)
      unfolding callbacks_rel_def
      by (auto simp: drop_fp_def take_callback_def delete_fp_def spec_set_def)
  qed
qed

lemma drop_function_rel:
  assumes "callbacks_rel s m" and "\<not> owns ty"
  shows "\<exists>s'. drop_function obj ty s = Some s' \<and> callbacks_rel s' (spec_set obj ty None m)"
proof -
  obtain f where f: "cb_map (cs_storage s) f" "heap_ok f (cs_heap s)" "sp_target m = target_of f (cs_heap s)"
    "\<forall>obj. f (obj, M2MResourceInstanceM2MResourceCallback) = None" using assms(1) by (auto simp: callbacks_rel_def)
  obtain st where "remove_callback obj ty (cs_storage s) = Some (st, case f (obj, ty) of None \<Rightarrow> 0 | Some p \<Rightarrow> p)"
    "cb_map st (f((obj, ty) := None))" using cbs.rel_del [OF f(1)] by blast
  moreover have "\<forall>o'. (f((obj, ty) := None)) (o', M2MResourceInstanceM2MResourceCallback) = None" using f(4) by simp
  ultimately show ?thesis
    using f(3) heap_ok_plain [OF f(2) assms(2), of obj None] assms(1)
    by (auto simp: drop_function_def take_callback_def spec_set_def callbacks_rel_def)
qed

lemma set_function_rel:
  assumes "callbacks_rel s m" and "\<not> owns ty" and "ty \<noteq> M2MResourceInstanceM2MResourceCallback"
  shows "\<exists>s'. set_function ty obj func s = Some (s', True) \<and>
    callbacks_rel s' (spec_set obj ty (Some (FunctionTarget func)) m)"
proof -
  obtain f where f: "cb_map (cs_storage s) f" "heap_ok f (cs_heap s)" "sp_target m = target_of f (cs_heap s)"
    "\<forall>obj. f (obj, M2MResourceInstanceM2MResourceCallback) = None" using assms(1) by (auto simp: callbacks_rel_def)
  obtain st1 st2 where
    "remove_callback obj ty (cs_storage s) = Some (st1, case f (obj, ty) of None \<Rightarrow> 0 | Some p \<Rightarrow> p)"
    "add_callback obj func ty st1 = Some (st2, True)" "cb_map st2 (f((obj, ty) \<mapsto> func))"
    using cbs.replace [OF f(1), of obj ty func] by blast
  moreover have "\<forall>o'. (f((obj, ty) \<mapsto> func)) (o', M2MResourceInstanceM2MResourceCallback) = None"
    using f(4) assms(3) by simp
  ultimately show ?thesis
    using f(3) heap_ok_plain [OF f(2) assms(2), of obj "Some func"] assms(1)
    by (auto simp: set_function_def drop_function_def take_callback_def store_callback_def spec_set_def callbacks_rel_def)
qed

text \<open>A new function object in a place that has none; the block data may change on the way.\<close>

lemma store_new_rel:
  assumes "callbacks_rel s m" and "owns ty" and "sp_target m (obj, ty) = None" and "allocator new_at"
    and "new_fp new_at g s = (s2, p)"
  shows "\<exists>s'. store_callback obj ty p (s2\<lparr>cs_block := b\<rparr>) = Some (s', True) \<and>
    callbacks_rel s' ((spec_set obj ty (Some (ObjectTarget g)) m)\<lparr>sp_block := b\<rparr>)"
proof -
  obtain f where f: "cb_map (cs_storage s) f" "heap_ok f (cs_heap s)" "sp_target m = target_of f (cs_heap s)"
    "\<forall>obj. f (obj, M2MResourceInstanceM2MResourceCallback) = None" using assms(1) by (auto simp: callbacks_rel_def)
  have p: "p \<noteq> 0" "p \<notin> fst ` set (cs_heap s)" "s2 = s\<lparr>cs_heap := (p, g) # cs_heap s\<rparr>"
    using assms(4,5) by (auto simp: allocator_def new_fp_def Let_def)
  have n: "f (obj, ty) = None" using target_owned [OF f(2) assms(2)] assms(3) f(3) by simp
  obtain st where st: "add_callback obj p ty (cs_storage s) = Some (st, True)" "cb_map st (f((obj, ty) \<mapsto> p))"
    using cbs.rel_add [OF f(1) n] by blast
  have "ty \<noteq> M2MResourceInstanceM2MResourceCallback" using assms(2) by (auto simp: owns_def)
  then have "\<forall>o'. (f((obj, ty) \<mapsto> p)) (o', M2MResourceInstanceM2MResourceCallback) = None" using f(4) by simp
  then show ?thesis
    using st p f(3) heap_ok_alloc [OF f(2) assms(2) n p(1,2), of g] assms(1)
    by (auto simp: store_callback_def spec_set_def callbacks_rel_def)
qed

lemma spec_set_twice [simp]: "spec_set obj ty t (spec_set obj ty t' m) = spec_set obj ty t m"
  by (simp add: spec_set_def)

lemma spec_set_target [simp]: "sp_target (spec_set obj ty t m) (obj, ty) = t"
  by (simp add: spec_set_def)

lemma set_fp_rel:
  assumes "callbacks_rel s m" and "owns ty" and "allocator new_at"
  shows "\<exists>s'. set_fp new_at ty obj g s = Some (s', True) \<and>
    callbacks_rel s' (spec_set obj ty (Some (ObjectTarget g)) m)"
proof -
  obtain s1 where s1: "drop_fp obj ty s = Some s1" "callbacks_rel s1 (spec_set obj ty None m)"
    using drop_fp_rel [OF assms(1,2)] by blast
  obtain s2 p where n: "new_fp new_at g s1 = (s2, p)" by fastforce
  have b: "s2\<lparr>cs_block := sp_block m\<rparr> = s2"
    using n s1(2) by (auto simp: new_fp_def Let_def callbacks_rel_def spec_set_def)
  have "(spec_set obj ty (Some (ObjectTarget g)) m)\<lparr>sp_block := sp_block m\<rparr> = spec_set obj ty (Some (ObjectTarget g)) m"
    by (simp add: spec_set_def)
  then show ?thesis
    using store_new_rel [OF s1(2) assms(2) _ assms(3) n, of obj "sp_block m"] s1(1) n b by (auto simp: set_fp_def)
qed

lemma set_incoming_rel:
  assumes "callbacks_rel s m" and "allocator new_at"
  shows "\<exists>s'. set_incoming_block_message_callback new_at obj g s = Some (s', True) \<and>
    callbacks_rel s' (fst (spec_step srun (SetIncomingBlock obj g) m))"
proof -
  let ?ty = M2MResourceInstanceIncomingBlockMessageCallback
  have o: "owns ?ty" by (simp add: owns_def)
  obtain s1 where s1: "drop_fp obj ?ty s = Some s1" "callbacks_rel s1 (spec_set obj ?ty None m)"
    using drop_fp_rel [OF assms(1) o] by blast
  obtain s2 p where n: "new_fp new_at g s1 = (s2, p)" by fastforce
  have "cs_block s2 = sp_block m"
    using n s1(2) by (auto simp: new_fp_def Let_def callbacks_rel_def spec_set_def)
  then show ?thesis
    using store_new_rel [OF s1(2) o _ assms(2) n, of obj "(sp_block m)(obj := Some bm_new)"] s1(1) n
    by (auto simp: set_incoming_block_message_callback_def)
qed

definition follows ::
  "application \<Rightarrow> (callback_event \<Rightarrow> callback_spec \<Rightarrow> callback_spec) \<Rightarrow> bool" where
  "follows run srun \<longleftrightarrow>
     (\<forall>e s m. callbacks_rel s m \<longrightarrow> (\<exists>s'. run e s = Some s' \<and> callbacks_rel s' (srun e m)))"

lemma call_out_rel:
  "follows run srun \<Longrightarrow> callbacks_rel s m \<Longrightarrow>
   \<exists>s'. call_out run e s = Some s' \<and> callbacks_rel s' (srun e (m\<lparr>sp_events := sp_events m @ [e]\<rparr>))"
proof -
  assume "follows run srun" "callbacks_rel s m"
  moreover have "callbacks_rel (s\<lparr>cs_events := cs_events s @ [e]\<rparr>) (m\<lparr>sp_events := sp_events m @ [e]\<rparr>)"
    using \<open>callbacks_rel s m\<close> by (simp add: callbacks_rel_def)
  ultimately show ?thesis by (simp add: follows_def call_out_def)
qed

text \<open>
  What a lookup finds for a target of the specification. A lookup may create the storage, which changes
  nothing else.
\<close>

definition found :: "(nat \<times> fp) list \<Rightarrow> callback_type \<Rightarrow> target option \<Rightarrow> nat \<Rightarrow> bool" where
  "found h ty t p \<longleftrightarrow> (case t of
       None \<Rightarrow> p = 0
     | Some (ObjectTarget g) \<Rightarrow> owns ty \<and> p \<noteq> 0 \<and> map_of h p = Some g
     | Some (FunctionTarget q) \<Rightarrow> \<not> owns ty \<and> p = q)"

lemma found_armed: "found h ty t p \<Longrightarrow> p \<noteq> 0 \<longleftrightarrow> (\<exists>u. t = Some u \<and> target_armed u)"
  by (auto simp: found_def split: option.splits target.splits)

lemma lookup_rel:
  assumes "callbacks_rel s m"
  shows "\<exists>st p. get_callback obj ty (cs_storage s) = Some (st, p) \<and> callbacks_rel (s\<lparr>cs_storage := st\<rparr>) m \<and>
    found (cs_heap s) ty (sp_target m (obj, ty)) p"
proof -
  obtain f where f: "cb_map (cs_storage s) f" "heap_ok f (cs_heap s)" "sp_target m = target_of f (cs_heap s)"
    "\<forall>obj. f (obj, M2MResourceInstanceM2MResourceCallback) = None" using assms(1) by (auto simp: callbacks_rel_def)
  obtain st where st: "get_callback obj ty (cs_storage s) = Some (st, case f (obj, ty) of None \<Rightarrow> 0 | Some p \<Rightarrow> p)"
    "cb_map st f" using cbs.rel_get [OF f(1)] by blast
  have "callbacks_rel (s\<lparr>cs_storage := st\<rparr>) m" using st(2) f assms by (auto simp: callbacks_rel_def)
  moreover have "f (obj, ty) = Some p \<Longrightarrow> owns ty \<Longrightarrow> p \<noteq> 0 \<and> p \<in> fst ` set (cs_heap s)" for p
    using heap_okD(2,3) [OF f(2)] by (metis snd_conv)
  ultimately show ?thesis
    using st(1) f(3) target_owned [OF f(2), of ty obj]
    by (cases "f (obj, ty)") (auto simp: target_of_def found_def split: option.splits)
qed

lemma owned_target:
  assumes "callbacks_rel s m"
  shows "sp_target m (obj, ty) = Some (ObjectTarget g) \<Longrightarrow> owns ty"
    and "sp_target m (obj, ty) = Some (FunctionTarget q) \<Longrightarrow> \<not> owns ty"
  using assms by (auto simp: callbacks_rel_def target_of_def split: option.splits if_splits)

lemma call_fp_rel:
  assumes "follows run srun" and "callbacks_rel s m" and "owns ty"
  shows "\<exists>s'. call_fp run obj ty arg s = Some s' \<and> callbacks_rel s' (spec_call srun obj ty arg m)"
proof -
  obtain st p where l: "get_callback obj ty (cs_storage s) = Some (st, p)" "callbacks_rel (s\<lparr>cs_storage := st\<rparr>) m"
    "found (cs_heap s) ty (sp_target m (obj, ty)) p" using lookup_rel [OF assms(2)] by blast
  show ?thesis
    using l assms(3) call_out_rel [OF assms(1) l(2)]
    by (auto simp: call_fp_def spec_call_def found_def split: option.splits target.splits)
qed

lemma call_function_rel:
  assumes "follows run srun" and "callbacks_rel s m" and "\<not> owns ty"
  shows "\<exists>s'. call_function run obj ty arg s = Some s' \<and> callbacks_rel s' (spec_call srun obj ty arg m)"
proof -
  obtain st p where l: "get_callback obj ty (cs_storage s) = Some (st, p)" "callbacks_rel (s\<lparr>cs_storage := st\<rparr>) m"
    "found (cs_heap s) ty (sp_target m (obj, ty)) p" using lookup_rel [OF assms(2)] by blast
  show ?thesis
    using l assms(3) call_out_rel [OF assms(1) l(2)]
    by (auto simp: call_function_def spec_call_def found_def split: option.splits target.splits)
qed

lemma two_calls_rel:
  assumes "follows run srun" and "callbacks_rel s m" and "owns ty1" and "\<not> owns ty2"
  shows "\<exists>s'. do { s1 \<leftarrow> call_fp run obj ty1 arg s; call_function run obj ty2 arg s1 } = Some s' \<and>
    callbacks_rel s' (spec_call srun obj ty2 arg (spec_call srun obj ty1 arg m))"
  using call_fp_rel [OF assms(1,2,3), of obj arg] call_function_rel [OF assms(1) _ assms(4)] by fastforce

lemma is_set_rel:
  assumes "callbacks_rel s m"
  shows "\<exists>s'. is_value_updated_function_set obj s = Some (s', snd (spec_step srun (IsValueUpdatedSet obj) m)) \<and>
    callbacks_rel s' m"
proof -
  let ?a = M2MBaseValueUpdatedCallback and ?b = M2MBaseValueUpdatedCallback2
  obtain st p where a: "get_callback obj ?a (cs_storage s) = Some (st, p)" "callbacks_rel (s\<lparr>cs_storage := st\<rparr>) m"
    "found (cs_heap s) ?a (sp_target m (obj, ?a)) p" using lookup_rel [OF assms] by blast
  obtain st2 q where b: "get_callback obj ?b st = Some (st2, q)" "callbacks_rel (s\<lparr>cs_storage := st2\<rparr>) m"
    "found (cs_heap s) ?b (sp_target m (obj, ?b)) q" using lookup_rel [OF a(2), of obj ?b] by auto
  show ?thesis
    using a(1,2) b(1,2) found_armed [OF a(3)] found_armed [OF b(3)] by (auto simp: is_value_updated_function_set_def does_callback_exist_def)
qed

lemma spec_forget_set: "spec_set obj ty None (spec_forget obj tys m) = spec_forget obj (insert ty tys) m"
  by (auto simp: spec_set_def spec_forget_def fun_eq_iff intro!: callback_spec.equality)

lemma spec_set_forget: "spec_set obj ty None m = spec_forget obj {ty} m"
  by (auto simp: spec_set_def spec_forget_def fun_eq_iff intro!: callback_spec.equality)

lemma base_destroy_rel:
  assumes "callbacks_rel s m"
  shows "\<exists>s'. base_destroy obj s = Some s' \<and>
    callbacks_rel s' (spec_forget obj {M2MBaseValueUpdatedCallback, M2MBaseValueUpdatedCallback2} m)"
proof -
  obtain s1 where s1: "drop_fp obj M2MBaseValueUpdatedCallback s = Some s1"
    "callbacks_rel s1 (spec_forget obj {M2MBaseValueUpdatedCallback} m)"
    using drop_fp_rel [OF assms, of M2MBaseValueUpdatedCallback obj] by (auto simp: owns_def spec_set_forget)
  show ?thesis
    using drop_function_rel [OF s1(2), of M2MBaseValueUpdatedCallback2 obj] s1(1)
    by (auto simp: base_destroy_def owns_def spec_forget_set insert_commute)
qed

lemma rel_m2m_resource: "callbacks_rel s m \<Longrightarrow> sp_target m (obj, M2MResourceInstanceM2MResourceCallback) = None"
  by (auto simp: callbacks_rel_def target_of_def)

lemma spec_forget_block:
  "spec_forget obj A ((spec_forget obj B m)\<lparr>sp_block := b\<rparr>) = (spec_forget obj (A \<union> B) m)\<lparr>sp_block := b\<rparr>"
  by (simp add: spec_forget_def fun_eq_iff)

lemma spec_forget_all:
  assumes "sp_target m (obj, M2MResourceInstanceM2MResourceCallback) = None"
    and "\<And>ty. ty \<noteq> M2MResourceInstanceM2MResourceCallback \<Longrightarrow> ty \<in> tys"
  shows "spec_forget obj tys m = spec_forget obj UNIV m"
proof -
  have "(if fst k = obj \<and> snd k \<in> tys then None else sp_target m k) =
      (if fst k = obj \<and> snd k \<in> UNIV then None else sp_target m k)" for k
    using assms by (cases k; cases "snd k = M2MResourceInstanceM2MResourceCallback") auto
  then show ?thesis by (simp add: spec_forget_def fun_eq_iff)
qed

lemma resource_base_destroy_rel:
  assumes "callbacks_rel s m"
  shows "\<exists>s'. resource_base_destroy obj s = Some s' \<and> callbacks_rel s' (fst (spec_step srun (DestroyResource obj) m))"
proof -
  let ?t1 = "{M2MResourceInstanceExecuteCallback}"
  let ?t2 = "insert M2MResourceInstanceExecuteCallback2 ?t1"
  let ?t3 = "insert M2MResourceInstanceIncomingBlockMessageCallback ?t2"
  let ?t4 = "insert M2MResourceInstanceOutgoingBlockMessageCallback ?t3"
  let ?t5 = "insert M2MResourceInstanceNotificationSentCallback ?t4"
  let ?t6 = "insert M2MResourceInstanceNotificationSentCallback2 ?t5"
  let ?base = "{M2MBaseValueUpdatedCallback, M2MBaseValueUpdatedCallback2}"
  obtain s1 where s1: "drop_fp obj M2MResourceInstanceExecuteCallback s = Some s1"
    "callbacks_rel s1 (spec_forget obj ?t1 m)"
    using drop_fp_rel [OF assms, of M2MResourceInstanceExecuteCallback obj] by (auto simp: owns_def spec_set_forget)
  obtain s2 where s2: "drop_function obj M2MResourceInstanceExecuteCallback2 s1 = Some s2"
    "callbacks_rel s2 (spec_forget obj ?t2 m)"
    using drop_function_rel [OF s1(2), of M2MResourceInstanceExecuteCallback2 obj]
    by (auto simp: owns_def spec_forget_set)
  obtain s3 where s3: "drop_fp obj M2MResourceInstanceIncomingBlockMessageCallback s2 = Some s3"
    "callbacks_rel s3 (spec_forget obj ?t3 m)"
    using drop_fp_rel [OF s2(2), of M2MResourceInstanceIncomingBlockMessageCallback obj]
    by (auto simp: owns_def spec_forget_set)
  obtain s4 where s4: "drop_fp obj M2MResourceInstanceOutgoingBlockMessageCallback s3 = Some s4"
    "callbacks_rel s4 (spec_forget obj ?t4 m)"
    using drop_fp_rel [OF s3(2), of M2MResourceInstanceOutgoingBlockMessageCallback obj]
    by (auto simp: owns_def spec_forget_set)
  obtain s5 where s5: "drop_fp obj M2MResourceInstanceNotificationSentCallback s4 = Some s5"
    "callbacks_rel s5 (spec_forget obj ?t5 m)"
    using drop_fp_rel [OF s4(2), of M2MResourceInstanceNotificationSentCallback obj]
    by (auto simp: owns_def spec_forget_set)
  obtain s6 where s6: "drop_function obj M2MResourceInstanceNotificationSentCallback2 s5 = Some s6"
    "callbacks_rel s6 (spec_forget obj ?t6 m)"
    using drop_function_rel [OF s5(2), of M2MResourceInstanceNotificationSentCallback2 obj]
    by (auto simp: owns_def spec_forget_set)
  let ?m = "(spec_forget obj ?t6 m)\<lparr>sp_block := (sp_block m)(obj := None)\<rparr>"
  have b: "callbacks_rel (s6\<lparr>cs_block := (cs_block s6)(obj := None)\<rparr>) ?m"
    using s6(2) by (auto simp: callbacks_rel_def spec_forget_def)
  have "ty \<in> ?base \<union> ?t6" if "ty \<noteq> M2MResourceInstanceM2MResourceCallback" for ty
    using that by (cases ty) simp_all
  then have "spec_forget obj (?base \<union> ?t6) m = spec_forget obj UNIV m"
    by (rule spec_forget_all [OF rel_m2m_resource [OF assms, of obj]])
  then have "spec_forget obj ?base ?m = fst (spec_step srun (DestroyResource obj) m)"
    unfolding spec_forget_block by simp
  then show ?thesis
    using base_destroy_rel [OF b, of obj] s1(1) s2(1) s3(1) s4(1) s5(1) s6(1)
    by (simp add: resource_base_destroy_def)
qed

section \<open>Every step and every sequence\<close>

lemma callback_step_rel:
  assumes "callbacks_rel s m" and "allocator new_at" and "follows run srun"
  shows "\<exists>s'. callback_step new_at run op s = Some (s', snd (spec_step srun op m)) \<and>
    callbacks_rel s' (fst (spec_step srun op m))"
proof -
  note o = owns_def
  note fp = set_fp_rel [OF assms(1) _ assms(2)] and fn = set_function_rel [OF assms(1)]
    and two = two_calls_rel [OF assms(3,1)]
  show ?thesis
  proof (cases op)
    case (SetValueUpdated obj g)
    then show ?thesis using fp [of M2MBaseValueUpdatedCallback] by (simp add: o set_value_updated_function_def)
  next
    case (SetValueUpdated2 obj g)
    then show ?thesis using fn [of M2MBaseValueUpdatedCallback2] by (simp add: o set_value_updated_function2_def)
  next
    case (SetExecute obj g)
    then show ?thesis using fp [of M2MResourceInstanceExecuteCallback] by (simp add: o set_execute_function_def)
  next
    case (SetExecute2 obj g)
    then show ?thesis using fn [of M2MResourceInstanceExecuteCallback2] by (simp add: o set_execute_function2_def)
  next
    case (SetIncomingBlock obj g)
    then show ?thesis using set_incoming_rel [OF assms(1,2), of obj g srun] by simp
  next
    case (SetOutgoingBlock obj g)
    then show ?thesis using fp [of M2MResourceInstanceOutgoingBlockMessageCallback]
      by (simp add: o set_outgoing_block_message_callback_def)
  next
    case (SetNotificationSent obj g)
    then show ?thesis using fp [of M2MResourceInstanceNotificationSentCallback]
      by (simp add: o set_notification_sent_callback_def)
  next
    case (SetNotificationSent2 obj g)
    then show ?thesis using fn [of M2MResourceInstanceNotificationSentCallback2]
      by (simp add: o set_notification_sent_callback2_def)
  next
    case (IsValueUpdatedSet obj)
    then show ?thesis using is_set_rel [OF assms(1), of obj srun] by simp
  next
    case (RunValueUpdated obj name)
    then show ?thesis using two [of M2MBaseValueUpdatedCallback M2MBaseValueUpdatedCallback2 obj "NameArg name"]
      by (auto simp: o execute_value_updated_def no_result_def)
  next
    case (RunExecute obj arg)
    then show ?thesis
      using two [of M2MResourceInstanceExecuteCallback M2MResourceInstanceExecuteCallback2 obj "PointerArg arg"]
      by (auto simp: o execute_resource_def no_result_def)
  next
    case (RunNotificationSent obj)
    then show ?thesis
      using two [of M2MResourceInstanceNotificationSentCallback M2MResourceInstanceNotificationSentCallback2 obj NoArg]
      by (auto simp: o notification_sent_def no_result_def)
  next
    case (DestroyBase obj)
    then show ?thesis using base_destroy_rel [OF assms(1), of obj] by (auto simp: no_result_def)
  next
    case (DestroyResource obj)
    then show ?thesis using resource_base_destroy_rel [OF assms(1), of obj srun] by (auto simp: no_result_def)
  qed
qed

lemma callback_steps_rel:
  assumes "allocator new_at" and "follows run srun"
  shows "callbacks_rel s m \<Longrightarrow>
    \<exists>s'. callback_steps new_at run ops s = Some (s', snd (spec_steps srun ops m)) \<and>
      callbacks_rel s' (fst (spec_steps srun ops m))"
proof (induction ops arbitrary: s m)
  case (Cons op ops)
  obtain s1 where s1: "callback_step new_at run op s = Some (s1, snd (spec_step srun op m))"
    "callbacks_rel s1 (fst (spec_step srun op m))" using callback_step_rel [OF Cons.prems assms] by blast
  show ?case using Cons.IH [OF s1(2)] s1(1) by (auto simp: split_beta Let_def)
qed simp

lemma callbacks_rel_new: "callbacks_rel callbacks_new spec_new"
  using cb_map_empty
  by (auto simp: callbacks_rel_def callbacks_new_def spec_new_def heap_ok_def target_of_def fun_eq_iff
      intro!: exI [of _ Map.empty])

text \<open>The copies on the heap are the function objects of the map.\<close>

lemma heap_count:
  assumes "callbacks_rel s m"
  shows "length (cs_heap s) = card {k. \<exists>g. sp_target m k = Some (ObjectTarget g)}"
proof -
  obtain f where f: "heap_ok f (cs_heap s)" "sp_target m = target_of f (cs_heap s)"
    using assms by (auto simp: callbacks_rel_def)
  let ?K = "{k. owns (snd k) \<and> f k \<noteq> None}"
  have mem: "owns (snd k) \<Longrightarrow> f k = Some p \<Longrightarrow> map_of (cs_heap s) p \<noteq> None" for k p
    using heap_okD(3) [OF f(1), of p] unfolding map_of_eq_None_iff by blast
  have "{k. \<exists>g. sp_target m k = Some (ObjectTarget g)} = ?K"
    using mem by (fastforce simp: f(2) target_of_def split: option.splits if_splits)
  moreover have "inj_on (\<lambda>k. the (f k)) ?K"
    using heap_okD(4) [OF f(1)] by (auto simp: inj_on_def)
  moreover have "(\<lambda>k. the (f k)) ` ?K = fst ` set (cs_heap s)"
  proof
    show "(\<lambda>k. the (f k)) ` ?K \<subseteq> fst ` set (cs_heap s)"
    proof
      fix p assume "p \<in> (\<lambda>k. the (f k)) ` ?K"
      then obtain k where "owns (snd k)" "f k = Some p" by auto
      then show "p \<in> fst ` set (cs_heap s)" using heap_okD(3) [OF f(1), of p] by blast
    qed
    show "fst ` set (cs_heap s) \<subseteq> (\<lambda>k. the (f k)) ` ?K"
    proof
      fix p assume "p \<in> fst ` set (cs_heap s)"
      then obtain k where "owns (snd k)" "f k = Some p" using heap_okD(3) [OF f(1), of p] by blast
      then show "p \<in> (\<lambda>k. the (f k)) ` ?K" by (intro image_eqI [of _ _ k]) auto
    qed
  qed
  ultimately have "card {k. \<exists>g. sp_target m k = Some (ObjectTarget g)} = card (fst ` set (cs_heap s))"
    using card_image [of "\<lambda>k. the (f k)" ?K] by simp
  then show ?thesis using distinct_card [OF heap_okD(1) [OF f(1)]] by simp
qed

definition sets_callback_of :: "nat \<Rightarrow> callback_op \<Rightarrow> bool" where
  "sets_callback_of obj op \<longleftrightarrow>
     (case op of SetValueUpdated x f \<Rightarrow> x = obj | SetValueUpdated2 x g \<Rightarrow> x = obj | SetExecute x f \<Rightarrow> x = obj
      | SetExecute2 x g \<Rightarrow> x = obj | SetIncomingBlock x f \<Rightarrow> x = obj | SetOutgoingBlock x f \<Rightarrow> x = obj
      | SetNotificationSent x f \<Rightarrow> x = obj | SetNotificationSent2 x g \<Rightarrow> x = obj | _ \<Rightarrow> False)"

fun called_object :: "callback_event \<Rightarrow> nat" where
  "called_object (Called obj ty c arg) = obj"

definition nothing_of :: "nat \<Rightarrow> callback_spec \<Rightarrow> bool" where
  "nothing_of obj m \<longleftrightarrow> (\<forall>ty. sp_target m (obj, ty) = None)"

text \<open>An application that only takes note of its calls.\<close>

abbreviation quiet :: "callback_event \<Rightarrow> callback_spec \<Rightarrow> callback_spec" where
  "quiet \<equiv> \<lambda>e m. m"

lemma follows_quiet: "follows (\<lambda>e s. Some s) quiet"
  by (simp add: follows_def)

lemma spec_call_nothing:
  "nothing_of obj m \<Longrightarrow> nothing_of obj (spec_call quiet x ty arg m) \<and>
     (\<exists>es. sp_events (spec_call quiet x ty arg m) = sp_events m @ es \<and> (\<forall>e\<in>set es. called_object e \<noteq> obj))"
  by (auto simp: nothing_of_def spec_call_def split: option.splits bind_splits)

lemma spec_two_calls_nothing:
  assumes "nothing_of obj m"
  shows "nothing_of obj (spec_call quiet x ty2 arg (spec_call quiet x ty1 arg m)) \<and>
     (\<exists>es. sp_events (spec_call quiet x ty2 arg (spec_call quiet x ty1 arg m)) = sp_events m @ es \<and>
       (\<forall>e\<in>set es. called_object e \<noteq> obj))"
proof -
  note a = spec_call_nothing [OF assms, of x ty1 arg]
  show ?thesis using a spec_call_nothing [OF conjunct1 [OF a], of x ty2 arg] by fastforce
qed

lemma spec_step_nothing:
  assumes "nothing_of obj m" and "\<not> sets_callback_of obj op"
  shows "nothing_of obj (fst (spec_step quiet op m)) \<and>
     (\<exists>es. sp_events (fst (spec_step quiet op m)) = sp_events m @ es \<and> (\<forall>e\<in>set es. called_object e \<noteq> obj))"
  using assms spec_two_calls_nothing [OF assms(1)]
  by (cases op) (auto simp: nothing_of_def sets_callback_of_def spec_set_def spec_forget_def)

lemma spec_steps_nothing:
  assumes "\<forall>op\<in>set ops. \<not> sets_callback_of obj op"
  shows "nothing_of obj m \<Longrightarrow> nothing_of obj (fst (spec_steps quiet ops m)) \<and>
     (\<exists>es. sp_events (fst (spec_steps quiet ops m)) = sp_events m @ es \<and> (\<forall>e\<in>set es. called_object e \<noteq> obj))"
  using assms
proof (induction ops arbitrary: m)
  case (Cons op ops)
  then have a: "nothing_of obj (fst (spec_step quiet op m))"
    "\<exists>es. sp_events (fst (spec_step quiet op m)) = sp_events m @ es \<and> (\<forall>e\<in>set es. called_object e \<noteq> obj)"
    using spec_step_nothing [of obj m op] by auto
  then show ?case using Cons.IH [OF a(1)] Cons.prems(2) by (fastforce simp: split_beta Let_def)
qed simp

lemma spec_steps_append:
  "spec_steps srun (xs @ ys) m =
     (let (m1, rs) = spec_steps srun xs m; (m2, rs') = spec_steps srun ys m1 in (m2, rs @ rs'))"
  by (induction xs arbitrary: m) (auto simp: split_beta Let_def)

section \<open>Properties\<close>

text \<open>C14: after any sequence of setting, calling and destroying, the callbacks called are those set last
  for the node and the type, with the answers of the specification, whatever the application does during a call as long
  as it uses these operations as well; no memory is freed twice or read after it was freed, and the heap holds exactly the function
  objects that are set.\<close>

theorem node_callbacks_refine:
  assumes "allocator new_at" and "follows run srun"
  shows "\<exists>s. callback_steps new_at run ops callbacks_new = Some (s, snd (spec_steps srun ops spec_new)) \<and>
    cs_events s = sp_events (fst (spec_steps srun ops spec_new)) \<and>
    cs_block s = sp_block (fst (spec_steps srun ops spec_new)) \<and>
    length (cs_heap s) = card {k. \<exists>g. sp_target (fst (spec_steps srun ops spec_new)) k = Some (ObjectTarget g)}"
proof -
  obtain s where s: "callback_steps new_at run ops callbacks_new = Some (s, snd (spec_steps srun ops spec_new))"
    "callbacks_rel s (fst (spec_steps srun ops spec_new))"
    using callback_steps_rel [OF assms callbacks_rel_new] by blast
  then show ?thesis using heap_count [OF s(2)] by (simp add: callbacks_rel_def)
qed

definition sample_new_at :: "(nat \<times> fp) list \<Rightarrow> nat" where
  "sample_new_at h = Suc (sum_list (map fst h))"

lemma sample_allocator: "allocator sample_new_at"
proof -
  have "p \<in> fst ` set h \<Longrightarrow> p \<le> sum_list (map fst h)" for p :: nat and h :: "(nat \<times> fp) list"
    by (induction h) (auto intro: trans_le_add2 imageI)
  then have "Suc (sum_list (map fst h)) \<notin> fst ` set h" for h :: "(nat \<times> fp) list"
    using not_less_eq_eq by blast
  then show ?thesis by (simp add: allocator_def sample_new_at_def)
qed

text \<open>An application whose value callback takes the second one of the node away.\<close>

fun sample_run :: application where
  "sample_run (Called obj ty c arg) s =
     (if ty = M2MBaseValueUpdatedCallback then map_option fst (set_value_updated_function2 obj 0 s) else Some s)"

fun sample_srun :: "callback_event \<Rightarrow> callback_spec \<Rightarrow> callback_spec" where
  "sample_srun (Called obj ty c arg) m =
     (if ty = M2MBaseValueUpdatedCallback
      then spec_set obj M2MBaseValueUpdatedCallback2 (Some (FunctionTarget 0)) m else m)"

lemma sample_follows: "follows sample_run sample_srun"
proof -
  have "\<exists>s'. sample_run e s = Some s' \<and> callbacks_rel s' (sample_srun e m)" if rel: "callbacks_rel s m" for e s m
  proof (cases e)
    case (Called obj ty c arg)
    obtain s' where "set_function M2MBaseValueUpdatedCallback2 obj 0 s = Some (s', True)"
      "callbacks_rel s' (spec_set obj M2MBaseValueUpdatedCallback2 (Some (FunctionTarget 0)) m)"
      using set_function_rel [OF rel, of M2MBaseValueUpdatedCallback2 obj 0] by (auto simp: owns_def)
    then show ?thesis using Called rel by (simp add: set_value_updated_function2_def)
  qed
  then show ?thesis by (simp add: follows_def)
qed

theorem node_callbacks_refine_witness:
  "\<exists>s. callback_steps sample_new_at sample_run
      [SetValueUpdated 5 (fp_new_function 7), SetValueUpdated2 5 8, RunValueUpdated 5 ''a'', IsValueUpdatedSet 5, DestroyBase 5,
       IsValueUpdatedSet 5, RunValueUpdated 5 ''b''] callbacks_new = Some (s, [True, True, True, True, True, False, True]) \<and>
    cs_events s = [Called 5 M2MBaseValueUpdatedCallback (CallFunction 7) (NameArg ''a'')]"
  using node_callbacks_refine [OF sample_allocator sample_follows,
      of "[SetValueUpdated 5 (fp_new_function 7), SetValueUpdated2 5 8, RunValueUpdated 5 ''a'', IsValueUpdatedSet 5, DestroyBase 5,
       IsValueUpdatedSet 5, RunValueUpdated 5 ''b'']"]
  by (auto simp: spec_new_def spec_set_def spec_forget_def spec_call_def)

text \<open>C30: after a resource was destroyed no callback of it is called and none is found for it, until one
  is set again for its address; the callbacks of other nodes go on.\<close>

theorem destroyed_node_silent:
  assumes "allocator new_at" and "\<forall>op\<in>set later. \<not> sets_callback_of obj op"
  shows "\<exists>s0 s rs0 rs es.
    callback_steps new_at (\<lambda>e s. Some s) (ops @ [DestroyResource obj]) callbacks_new = Some (s0, rs0) \<and>
    callback_steps new_at (\<lambda>e s. Some s) (ops @ [DestroyResource obj] @ later) callbacks_new = Some (s, rs) \<and>
    cs_events s = cs_events s0 @ es \<and> (\<forall>e\<in>set es. called_object e \<noteq> obj) \<and>
    (\<forall>ty. \<exists>st. get_callback obj ty (cs_storage s) = Some (st, 0))"
proof -
  let ?before = "fst (spec_steps quiet (ops @ [DestroyResource obj]) spec_new)"
  let ?m = "fst (spec_steps quiet (ops @ [DestroyResource obj] @ later) spec_new)"
  have m: "?m = fst (spec_steps quiet later ?before)"
    using spec_steps_append [of quiet "ops @ [DestroyResource obj]" later spec_new]
    unfolding append_assoc by (simp only: split_beta Let_def fst_conv)
  have "nothing_of obj ?before"
    by (simp add: spec_steps_append split_beta Let_def nothing_of_def spec_forget_def)
  from spec_steps_nothing [OF assms(2) this] obtain es
    where es: "nothing_of obj ?m" "sp_events ?m = sp_events ?before @ es" "\<forall>e\<in>set es. called_object e \<noteq> obj"
    unfolding m by blast
  obtain s0 where s0: "callback_steps new_at (\<lambda>e s. Some s) (ops @ [DestroyResource obj]) callbacks_new =
      Some (s0, snd (spec_steps quiet (ops @ [DestroyResource obj]) spec_new))" "callbacks_rel s0 ?before"
    using callback_steps_rel [OF assms(1) follows_quiet callbacks_rel_new] by blast
  obtain s where s: "callback_steps new_at (\<lambda>e s. Some s) (ops @ [DestroyResource obj] @ later) callbacks_new =
      Some (s, snd (spec_steps quiet (ops @ [DestroyResource obj] @ later) spec_new))" "callbacks_rel s ?m"
    using callback_steps_rel [OF assms(1) follows_quiet callbacks_rel_new] by blast
  have "\<exists>st. get_callback obj ty (cs_storage s) = Some (st, 0)" for ty
    using lookup_rel [OF s(2), of obj ty] es(1) by (auto simp: nothing_of_def found_def)
  moreover have "cs_events s = cs_events s0 @ es" using s0(2) s(2) es(2) by (simp add: callbacks_rel_def)
  ultimately show ?thesis using s0(1) s(1) es(3) by blast
qed

theorem destroyed_node_silent_witness:
  "\<exists>s0 s rs0 rs es.
    callback_steps sample_new_at (\<lambda>e s. Some s)
      ([SetExecute 5 (fp_new_function 7), SetExecute2 6 8] @ [DestroyResource 5]) callbacks_new = Some (s0, rs0) \<and>
    callback_steps sample_new_at (\<lambda>e s. Some s)
      ([SetExecute 5 (fp_new_function 7), SetExecute2 6 8] @ [DestroyResource 5] @ [RunExecute 5 1, RunExecute 6 1])
      callbacks_new = Some (s, rs) \<and>
    cs_events s = cs_events s0 @ es \<and> (\<forall>e\<in>set es. called_object e \<noteq> 5) \<and>
    (\<forall>ty. \<exists>st. get_callback 5 ty (cs_storage s) = Some (st, 0))"
  by (rule destroyed_node_silent [OF sample_allocator]) (simp add: sets_callback_of_def)

end
