(* ===== verification/StaticNodes.thy ===== *)
theory StaticNodes
  imports ObjectsSpec FirmwareObject NodeCallbacksSpec
begin

text \<open>
  What the tree offers to a client that describes its nodes by static structures: the constructors of objects and object
  instances from \<open>lwm2m_parameters_s\<close> (\<open>source/m2mobject.cpp\<close>, \<open>source/m2mobjectinstance.cpp\<close>), the conversions between the two
  enumerations of data types, and the callbacks of the firmware object (\<open>source/m2mfirmware.cpp\<close>), which go to the nodes.
\<close>

section \<open>Construction from static structures\<close>

definition object_of_params :: "base \<Rightarrow> lwm2m_object" where
  "object_of_params s =
     \<lparr>o_base = (if base_name_id s \<noteq> -1 then s\<lparr>bs_content_type := COAP_CONTENT_OMA_TLV_TYPE\<rparr> else s),
      o_instances = [], o_handler = False\<rparr>"

definition object_instance_of_params :: "base \<Rightarrow> object_instance" where
  "object_instance_of_params s = \<lparr>oi_base = s\<lparr>bs_content_type := COAP_CONTENT_OMA_TLV_TYPE\<rparr>, oi_resources = []\<rparr>"

text \<open>A structure that is identified by a name has no instance number in its union: \<open>None\<close>.\<close>

definition create_object_instance_params :: "base \<Rightarrow> lwm2m_object \<Rightarrow> (lwm2m_object \<times> nat option) option" where
  "create_object_instance_params s ob =
     (case bs_ident s of Name n \<Rightarrow> None
      | InstanceId i \<Rightarrow>
          Some (if object_instance_of i ob = None then
                  (ob\<lparr>o_instances := o_instances ob @
                      [oi_add_observation_level (base_observation_level (o_base ob)) (object_instance_of_params s)]\<rparr>,
                   Some (length (o_instances ob)))
                else (ob, None)))"

lemma create_object_instance_params_wf:
  "o_wf ob \<Longrightarrow> create_object_instance_params s ob = Some (ob', r) \<Longrightarrow> o_wf ob'"
  by (auto simp: create_object_instance_params_def o_wf_def oi_wf_def object_instance_of_def find_idx_None
      oi_add_observation_level_def object_instance_of_params_def upd_defs base_add_observation_level_def
      base_instance_id_def split: node_ident.splits if_splits option.splits)

section \<open>Types of values\<close>

datatype resource_type = RT_STRING | RT_INTEGER | RT_FLOAT | RT_BOOLEAN | RT_OPAQUE | RT_TIME | RT_OBJLINK

definition convert_resource_type :: "resource_type \<Rightarrow> data_type" where
  "convert_resource_type type =
     (case type of RT_STRING \<Rightarrow> STRING | RT_INTEGER \<Rightarrow> INTEGER | RT_FLOAT \<Rightarrow> FLOAT | RT_OPAQUE \<Rightarrow> OPAQUE
      | RT_BOOLEAN \<Rightarrow> BOOLEAN | RT_TIME \<Rightarrow> TIME | RT_OBJLINK \<Rightarrow> OBJLINK)"

definition convert_data_type :: "data_type \<Rightarrow> resource_type" where
  "convert_data_type type =
     (case type of STRING \<Rightarrow> RT_STRING | INTEGER \<Rightarrow> RT_INTEGER | FLOAT \<Rightarrow> RT_FLOAT | OPAQUE \<Rightarrow> RT_OPAQUE
      | BOOLEAN \<Rightarrow> RT_BOOLEAN | TIME \<Rightarrow> RT_TIME | OBJLINK \<Rightarrow> RT_OBJLINK)"

definition resource_instance_type :: "base \<Rightarrow> resource_type" where
  "resource_instance_type b = convert_data_type (bs_data_type b)"

text \<open>The other theories use one enumeration for both, which the conversions allow.\<close>

lemma convert_types [simp]:
  "convert_data_type (convert_resource_type t) = t" "convert_resource_type (convert_data_type d) = d"
  by (cases t; simp add: convert_resource_type_def convert_data_type_def)
    (cases d; simp add: convert_resource_type_def convert_data_type_def)

lemma created_resource_type:
  "resource_instance_type (r_base (resource_new name m rt (convert_resource_type t) observable path multiple external)) = t"
  by (cases m) (simp_all add: resource_instance_type_def resource_new_def base_new_def base_set_operation_def Let_def)

section \<open>Callbacks of the firmware object\<close>

text \<open>\<open>addr\<close> gives the address of a node, under which its callbacks are stored.\<close>

definition firmware_callback ::
  "(node \<Rightarrow> nat) \<Rightarrow> firmware_resource \<Rightarrow> (nat \<Rightarrow> callback_state \<Rightarrow> (callback_state \<times> bool) option) \<Rightarrow> std_object \<Rightarrow>
     callback_state \<Rightarrow> (callback_state \<times> bool) option" where
  "firmware_callback addr r set_callback f s =
     (case firmware_get r f of None \<Rightarrow> Some (s, False)
      | Some n \<Rightarrow> map_option (\<lambda>(s1, _). (s1, True)) (set_callback (addr n) s))"

definition set_update_execute_callback where
  "set_update_execute_callback new_at addr callback f s =
     firmware_callback addr Update (\<lambda>obj. set_execute_function new_at obj callback) f s"

definition set_resource_value_update_callback where
  "set_resource_value_update_callback new_at addr r callback f s =
     firmware_callback addr r (\<lambda>obj. set_value_updated_function new_at obj callback) f s"

definition set_resource_notification_sent_callback where
  "set_resource_notification_sent_callback addr r callback f s =
     firmware_callback addr r (\<lambda>obj. set_notification_sent_callback2 obj callback) f s"

definition set_package_block_message_callback where
  "set_package_block_message_callback new_at addr callback f s =
     firmware_callback addr Package (\<lambda>obj. set_incoming_block_message_callback new_at obj callback) f s"

text \<open>A setter of a resource the object has sets the callback of that node, and refuses otherwise.\<close>

lemma firmware_callback_set:
  assumes "callbacks_rel s m" and "allocator new_at" and "firmware_get r f = Some n"
  shows "\<exists>s'. set_resource_value_update_callback new_at addr r g f s = Some (s', True) \<and>
      callbacks_rel s' (spec_set (addr n) M2MBaseValueUpdatedCallback (Some (ObjectTarget g)) m)"
    and "\<exists>s'. set_resource_notification_sent_callback addr r h f s = Some (s', True) \<and>
      callbacks_rel s' (spec_set (addr n) M2MResourceInstanceNotificationSentCallback2 (Some (FunctionTarget h)) m)"
    and "r = Update \<Longrightarrow> \<exists>s'. set_update_execute_callback new_at addr g f s = Some (s', True) \<and>
      callbacks_rel s' (spec_set (addr n) M2MResourceInstanceExecuteCallback (Some (ObjectTarget g)) m)"
  using assms set_fp_rel [OF assms(1) _ assms(2), of M2MBaseValueUpdatedCallback "addr n" g]
    set_fp_rel [OF assms(1) _ assms(2), of M2MResourceInstanceExecuteCallback "addr n" g]
    set_function_rel [OF assms(1), of M2MResourceInstanceNotificationSentCallback2 "addr n" h]
  by (auto simp: set_resource_value_update_callback_def set_resource_notification_sent_callback_def
      set_update_execute_callback_def firmware_callback_def set_value_updated_function_def set_execute_function_def
      set_notification_sent_callback2_def owns_def)

lemma firmware_callback_refused:
  "firmware_get r f = None \<Longrightarrow> firmware_callback addr r set_callback f s = Some (s, False)"
  by (simp add: firmware_callback_def)

end
