(* ===== verification/BaseMemory.thy ===== *)
theory BaseMemory
  imports ObjectTree
begin

text \<open>
  The memory of a node: the structures \<open>lwm2m_parameters_s\<close>, \<open>sn_nsdl_dynamic_resource_parameters_s\<close> and
  \<open>sn_nsdl_static_resource_parameters_s\<close> that \<open>M2MBase\<close> (\<open>source/m2mbase.cpp\<close>) allocates, fills and frees, or takes as
  static data from the standard objects. Addresses are numbers, null is 0. The allocator is a parameter
  that may fail; reading or writing where nothing is, freeing what was not allocated and a failing \<open>assert\<close> are \<open>None\<close>.
  The other theories see the fields of these structures as one record; this one shows what of them is
  released when the node is destroyed.
\<close>

section \<open>Memory\<close>

record static_params =
  sp_path :: nat
  sp_resource_type :: nat
  sp_interface_description :: nat
  sp_mode :: mode
  sp_external_block :: bool
  sp_free_on_delete :: bool

record dynamic_params =
  dp_static :: nat
  dp_resource :: nat
  dp_resourcelen :: nat
  dp_content_type :: u8
  dp_access :: u8
  dp_publish_uri :: bool
  dp_observable :: bool
  dp_free_on_delete :: bool

datatype identifier_union = NamePointer nat | InstanceNumber u16

record base_params =
  bp_max_age :: u32
  bp_identifier :: identifier_union
  bp_dynamic :: nat
  bp_base_type :: base_type
  bp_data_type :: data_type
  bp_multiple_instance :: bool
  bp_free_on_delete :: bool

datatype cell = Bytes "u8 list" | StaticCell static_params | DynamicCell dynamic_params | BaseCell base_params

record memory =
  mem_heap :: "(nat \<times> cell) list"
  mem_static :: "(nat \<times> cell) list"

type_synonym allocator = "cell \<Rightarrow> memory \<Rightarrow> nat"

definition mem_alloc :: "allocator \<Rightarrow> cell \<Rightarrow> memory \<Rightarrow> memory \<times> nat" where
  "mem_alloc new_at c m =
     (let p = new_at c m in if p = 0 then (m, 0) else (m\<lparr>mem_heap := (p, c) # mem_heap m\<rparr>, p))"

definition mem_free :: "nat \<Rightarrow> memory \<Rightarrow> memory option" where
  "mem_free p m =
     (if p = 0 then Some m
      else if p \<in> fst ` set (mem_heap m)
      then Some (m\<lparr>mem_heap := List.filter (\<lambda>(q, c). q \<noteq> p) (mem_heap m)\<rparr>) else None)"

definition mem_load :: "nat \<Rightarrow> memory \<Rightarrow> cell option" where
  "mem_load p m = (case map_of (mem_heap m) p of Some c \<Rightarrow> Some c | None \<Rightarrow> map_of (mem_static m) p)"

definition overwrite :: "nat \<Rightarrow> cell \<Rightarrow> (nat \<times> cell) list \<Rightarrow> (nat \<times> cell) list" where
  "overwrite p c h = map (\<lambda>(q, d). if q = p then (q, c) else (q, d)) h"

definition mem_store :: "nat \<Rightarrow> cell \<Rightarrow> memory \<Rightarrow> memory option" where
  "mem_store p c m =
     (if p \<in> fst ` set (mem_heap m) then Some (m\<lparr>mem_heap := overwrite p c (mem_heap m)\<rparr>)
      else if p \<in> fst ` set (mem_static m) then Some (m\<lparr>mem_static := overwrite p c (mem_static m)\<rparr>)
      else None)"

definition load_base :: "nat \<Rightarrow> memory \<Rightarrow> base_params option" where
  "load_base p m = (case mem_load p m of Some (BaseCell b) \<Rightarrow> Some b | _ \<Rightarrow> None)"

definition load_dynamic :: "nat \<Rightarrow> memory \<Rightarrow> dynamic_params option" where
  "load_dynamic p m = (case mem_load p m of Some (DynamicCell d) \<Rightarrow> Some d | _ \<Rightarrow> None)"

definition load_static :: "nat \<Rightarrow> memory \<Rightarrow> static_params option" where
  "load_static p m = (case mem_load p m of Some (StaticCell s) \<Rightarrow> Some s | _ \<Rightarrow> None)"

definition upd_base_params :: "nat \<Rightarrow> (base_params \<Rightarrow> base_params) \<Rightarrow> memory \<Rightarrow> memory option" where
  "upd_base_params p f m = do { b \<leftarrow> load_base p m; mem_store p (BaseCell (f b)) m }"

definition upd_dynamic :: "nat \<Rightarrow> (dynamic_params \<Rightarrow> dynamic_params) \<Rightarrow> memory \<Rightarrow> memory option" where
  "upd_dynamic p f m = do { d \<leftarrow> load_dynamic p m; mem_store p (DynamicCell (f d)) m }"

definition upd_static :: "nat \<Rightarrow> (static_params \<Rightarrow> static_params) \<Rightarrow> memory \<Rightarrow> memory option" where
  "upd_static p f m = do { s \<leftarrow> load_static p m; mem_store p (StaticCell (f s)) m }"

text \<open>\<open>alloc_string_copy\<close> and \<open>stringdup\<close> append a NUL; \<open>alloc_copy\<close> of no bytes is null.\<close>

definition mem_string_copy :: "allocator \<Rightarrow> u8 list \<Rightarrow> memory \<Rightarrow> memory \<times> nat" where
  "mem_string_copy new_at bytes m = mem_alloc new_at (Bytes (bytes @ [0])) m"

definition mem_block_copy :: "allocator \<Rightarrow> u8 list \<Rightarrow> memory \<Rightarrow> memory \<times> nat" where
  "mem_block_copy new_at bytes m = (if bytes = [] then (m, 0) else mem_alloc new_at (Bytes bytes) m)"

definition mem_stringdup :: "allocator \<Rightarrow> string \<Rightarrow> memory \<Rightarrow> memory \<times> nat" where
  "mem_stringdup new_at src m = mem_alloc new_at (Bytes (bytes_of (cstr src) @ [0])) m"

section \<open>Construction\<close>

text \<open>What \<open>memset\<close> leaves: all fields 0.\<close>

definition zero_base :: base_params where
  "zero_base = \<lparr>bp_max_age = 0, bp_identifier = NamePointer 0, bp_dynamic = 0, bp_base_type = BT_Object,
     bp_data_type = STRING, bp_multiple_instance = False, bp_free_on_delete = False\<rparr>"

definition zero_dynamic :: dynamic_params where
  "zero_dynamic = \<lparr>dp_static = 0, dp_resource = 0, dp_resourcelen = 0, dp_content_type = 0, dp_access = 0, dp_publish_uri = False,
     dp_observable = False, dp_free_on_delete = False\<rparr>"

definition zero_static :: static_params where
  "zero_static = \<lparr>sp_path = 0, sp_resource_type = 0, sp_interface_description = 0, sp_mode = Static,
     sp_external_block = False, sp_free_on_delete = False\<rparr>"

definition construct_static :: "allocator \<Rightarrow> mode \<Rightarrow> string \<Rightarrow> nat \<Rightarrow> bool \<Rightarrow> nat \<Rightarrow> memory \<Rightarrow> memory option" where
  "construct_static new_at mode resource_type path external_blockwise_store d m = do {
     let (m1, st) = mem_alloc new_at (StaticCell zero_static) m;
     m2 \<leftarrow> upd_dynamic d (\<lambda>y. y\<lparr>dp_static := st\<rparr>) m1;
     if st = 0 then Some m2
     else do {
       let (m3, rt) = (if cstr resource_type \<noteq> [] then mem_string_copy new_at (bytes_of (cstr resource_type)) m2 else (m2, 0));
       upd_static st (\<lambda>y. y\<lparr>sp_resource_type := rt, sp_path := path, sp_mode := mode, sp_free_on_delete := True,
         sp_external_block := external_blockwise_store\<rparr>) m3 } }"

definition params_new ::
  "allocator \<Rightarrow> string \<Rightarrow> mode \<Rightarrow> string \<Rightarrow> nat \<Rightarrow> bool \<Rightarrow> bool \<Rightarrow> data_type \<Rightarrow> memory \<Rightarrow> (memory \<times> nat) option" where
  "params_new new_at resource_name mode resource_type path external_blockwise_store multiple_instance type m =
     (if length resource_name > MAX_ALLOWED_STRING_LENGTH then None
      else do {
        let (m1, p) = mem_alloc new_at (BaseCell (zero_base\<lparr>bp_free_on_delete := True, bp_multiple_instance := multiple_instance,
          bp_data_type := type\<rparr>)) m;
        if p = 0 then Some (m1, 0)
        else do {
          let (m2, d) = mem_alloc new_at (DynamicCell zero_dynamic) m1;
          m3 \<leftarrow> upd_base_params p (\<lambda>b. b\<lparr>bp_dynamic := d\<rparr>) m2;
          m4 \<leftarrow> (if d \<noteq> 0 then construct_static new_at mode resource_type path external_blockwise_store d m3 else Some m3);
          m5 \<leftarrow> (if resource_name \<noteq> [] then do {
                   let (ma, q) = mem_stringdup new_at resource_name m4;
                   upd_base_params p (\<lambda>b. b\<lparr>bp_identifier := NamePointer q\<rparr>) ma }
                 else upd_base_params p (\<lambda>b. b\<lparr>bp_identifier := InstanceNumber 0\<rparr>) m4);
          b \<leftarrow> load_base p m5;
          m6 \<leftarrow> upd_dynamic (bp_dynamic b) (\<lambda>y. y\<lparr>dp_publish_uri := True, dp_free_on_delete := True\<rparr>) m5;
          Some (m6, p) } })"

section \<open>Reading and writing\<close>

definition params_of :: "nat \<Rightarrow> memory \<Rightarrow> (base_params \<times> dynamic_params \<times> static_params) option" where
  "params_of p m = do {
     b \<leftarrow> load_base p m;
     d \<leftarrow> load_dynamic (bp_dynamic b) m;
     s \<leftarrow> load_static (dp_static d) m;
     Some (b, d, s) }"

definition set_interface_description :: "allocator \<Rightarrow> string \<Rightarrow> nat \<Rightarrow> memory \<Rightarrow> memory option" where
  "set_interface_description new_at desc p m = do {
     (b, d, s) \<leftarrow> params_of p m;
     if \<not> sp_free_on_delete s then None
     else do {
       m1 \<leftarrow> mem_free (sp_interface_description s) m;
       m2 \<leftarrow> upd_static (dp_static d) (\<lambda>y. y\<lparr>sp_interface_description := 0\<rparr>) m1;
       if length (cstr desc) > 0 then do {
         let (m3, q) = mem_string_copy new_at (bytes_of (cstr desc)) m2;
         upd_static (dp_static d) (\<lambda>y. y\<lparr>sp_interface_description := q\<rparr>) m3 }
       else Some m2 } }"

definition set_resource_type :: "allocator \<Rightarrow> string \<Rightarrow> nat \<Rightarrow> memory \<Rightarrow> memory option" where
  "set_resource_type new_at res_type p m = do {
     (b, d, s) \<leftarrow> params_of p m;
     if \<not> sp_free_on_delete s then None
     else do {
       m1 \<leftarrow> mem_free (sp_resource_type s) m;
       m2 \<leftarrow> upd_static (dp_static d) (\<lambda>y. y\<lparr>sp_resource_type := 0\<rparr>) m1;
       if length (cstr res_type) > 0 then do {
         let (m3, q) = mem_string_copy new_at (bytes_of (cstr res_type)) m2;
         upd_static (dp_static d) (\<lambda>y. y\<lparr>sp_resource_type := q\<rparr>) m3 }
       else Some m2 } }"

definition set_coap_content_type :: "u8 \<Rightarrow> nat \<Rightarrow> memory \<Rightarrow> memory option" where
  "set_coap_content_type con_type p m = do {
     b \<leftarrow> load_base p m;
     upd_dynamic (bp_dynamic b) (\<lambda>y. y\<lparr>dp_content_type := con_type\<rparr>) m }"

definition set_observable :: "bool \<Rightarrow> nat \<Rightarrow> memory \<Rightarrow> memory option" where
  "set_observable observable p m = do {
     b \<leftarrow> load_base p m;
     upd_dynamic (bp_dynamic b) (\<lambda>y. y\<lparr>dp_observable := observable\<rparr>) m }"

definition set_register_uri :: "bool \<Rightarrow> nat \<Rightarrow> memory \<Rightarrow> memory option" where
  "set_register_uri register_uri p m = do {
     b \<leftarrow> load_base p m;
     upd_dynamic (bp_dynamic b) (\<lambda>y. y\<lparr>dp_publish_uri := register_uri\<rparr>) m }"

definition set_operation :: "u8 \<Rightarrow> nat \<Rightarrow> memory \<Rightarrow> memory option" where
  "set_operation opr p m = do {
     (b, d, s) \<leftarrow> params_of p m;
     upd_dynamic (bp_dynamic b) (\<lambda>y. y\<lparr>dp_access := (if sp_mode s = Static then GET_ALLOWED else opr)\<rparr>) m }"

text \<open>The number takes the place of the pointer in the union, which is not freed.\<close>

definition set_instance_id :: "u16 \<Rightarrow> nat \<Rightarrow> memory \<Rightarrow> memory option" where
  "set_instance_id inst_id p m = upd_base_params p (\<lambda>b. b\<lparr>bp_identifier := InstanceNumber inst_id\<rparr>) m"

definition set_max_age :: "u32 \<Rightarrow> nat \<Rightarrow> memory \<Rightarrow> memory option" where
  "set_max_age max_age p m = upd_base_params p (\<lambda>b. b\<lparr>bp_max_age := max_age\<rparr>) m"

definition set_base_type :: "base_type \<Rightarrow> nat \<Rightarrow> memory \<Rightarrow> memory option" where
  "set_base_type type p m = do {
     b \<leftarrow> load_base p m;
     if \<not> bp_free_on_delete b then None else upd_base_params p (\<lambda>b. b\<lparr>bp_base_type := type\<rparr>) m }"

text \<open>The value: what \<open>M2MResourceBase::clear_value\<close> and \<open>set_value\<close> do with the memory, before they report. The
  caller's buffer has the length it is given with.\<close>

definition mem_clear_value :: "nat \<Rightarrow> memory \<Rightarrow> memory option" where
  "mem_clear_value p m = do {
     b \<leftarrow> load_base p m;
     d \<leftarrow> load_dynamic (bp_dynamic b) m;
     m1 \<leftarrow> mem_free (dp_resource d) m;
     upd_dynamic (bp_dynamic b) (\<lambda>y. y\<lparr>dp_resource := 0, dp_resourcelen := 0\<rparr>) m1 }"

definition mem_set_value :: "allocator \<Rightarrow> u8 list option \<Rightarrow> nat \<Rightarrow> nat \<Rightarrow> memory \<Rightarrow> memory option" where
  "mem_set_value new_at value value_length p m =
     (case value of
        Some v \<Rightarrow>
          if value_length > 0 then do {
            m1 \<leftarrow> mem_clear_value p m;
            let (m2, q) = mem_string_copy new_at (take value_length v) m1;
            b \<leftarrow> load_base p m2;
            upd_dynamic (bp_dynamic b) (\<lambda>y. y\<lparr>dp_resource := q, dp_resourcelen := (if q \<noteq> 0 then value_length else 0)\<rparr>) m2 }
          else Some m
      | None \<Rightarrow> Some m)"

section \<open>Release\<close>

fun free_all :: "nat list \<Rightarrow> memory \<Rightarrow> memory option" where
  "free_all [] m = Some m"
| "free_all (p # ps) m = do { m1 \<leftarrow> mem_free p m; free_all ps m1 }"

definition identifier_pointers :: "base_params \<Rightarrow> nat list" where
  "identifier_pointers b = (case bp_identifier b of NamePointer q \<Rightarrow> [q] | InstanceNumber i \<Rightarrow> [])"

definition params_free :: "nat \<Rightarrow> memory \<Rightarrow> memory option" where
  "params_free p m = do {
     (b, d, s) \<leftarrow> params_of p m;
     m1 \<leftarrow> (if sp_free_on_delete s
            then free_all [sp_path s, sp_resource_type s, sp_interface_description s, dp_static d] m else Some m);
     d1 \<leftarrow> load_dynamic (bp_dynamic b) m1;
     m2 \<leftarrow> (if dp_free_on_delete d1 then free_all [dp_resource d1, bp_dynamic b] m1 else Some m1);
     b1 \<leftarrow> load_base p m2;
     m3 \<leftarrow> (if bp_free_on_delete b1 then free_all (identifier_pointers b1) m2 else Some m2);
     if bp_free_on_delete b1 then free_all [p] m3 else Some m3 }"

datatype params_op =
    OpInterfaceDescription string
  | OpResourceType string
  | OpContentType u8
  | OpObservable bool
  | OpRegisterUri bool
  | OpOperation u8
  | OpInstanceId u16
  | OpMaxAge u32
  | OpBaseType base_type
  | OpClearValue
  | OpSetValue "u8 list option" nat

fun params_step :: "allocator \<Rightarrow> nat \<Rightarrow> params_op \<Rightarrow> memory \<Rightarrow> memory option" where
  "params_step new_at p (OpInterfaceDescription desc) m = set_interface_description new_at desc p m"
| "params_step new_at p (OpResourceType res_type) m = set_resource_type new_at res_type p m"
| "params_step new_at p (OpContentType con_type) m = set_coap_content_type con_type p m"
| "params_step new_at p (OpObservable observable) m = set_observable observable p m"
| "params_step new_at p (OpRegisterUri uri) m = set_register_uri uri p m"
| "params_step new_at p (OpOperation opr) m = set_operation opr p m"
| "params_step new_at p (OpInstanceId inst_id) m = set_instance_id inst_id p m"
| "params_step new_at p (OpMaxAge max_age) m = set_max_age max_age p m"
| "params_step new_at p (OpBaseType type) m = set_base_type type p m"
| "params_step new_at p OpClearValue m = mem_clear_value p m"
| "params_step new_at p (OpSetValue value len) m = mem_set_value new_at value len p m"

fun sets_instance_id :: "params_op \<Rightarrow> bool" where
  "sets_instance_id (OpInstanceId inst_id) = True"
| "sets_instance_id op = False"

fun params_steps :: "allocator \<Rightarrow> nat \<Rightarrow> params_op list \<Rightarrow> memory \<Rightarrow> memory option" where
  "params_steps new_at p [] m = Some m"
| "params_steps new_at p (op # ops) m = do { m1 \<leftarrow> params_step new_at p op m; params_steps new_at p ops m1 }"

end
