(* ===== verification/BaseMemorySpec.thy ===== *)
theory BaseMemorySpec
  imports BaseMemory
begin

text \<open>
  The memory of a node is released as a whole: the pointers in its structures are the only ones to what was allocated for it
  since its construction, and the destructor frees each of them once. The one setter that breaks this is
  \<open>set_instance_id\<close>, which gives up the pointer to the name.
\<close>

section \<open>The heap as a map\<close>

abbreviation hp :: "memory \<Rightarrow> nat \<Rightarrow> cell option" where
  "hp m \<equiv> map_of (mem_heap m)"

lemma map_of_keep: "map_of (List.filter (\<lambda>(q, c). q \<noteq> p) h) = (map_of h)(p := None)"
  by (induction h) (auto simp: fun_eq_iff)

lemma map_of_overwrite: "p \<in> fst ` set h \<Longrightarrow> map_of (overwrite p c h) = (map_of h)(p \<mapsto> c)"
proof -
  have "map_of (overwrite p c h) q = (if q = p then (if map_of h p = None then None else Some c) else map_of h q)" for q
    by (induction h) (auto simp: overwrite_def)
  then show "p \<in> fst ` set h \<Longrightarrow> ?thesis" by (auto simp: fun_eq_iff map_of_eq_None_iff)
qed

lemma hp_dom: "hp m p \<noteq> None \<longleftrightarrow> p \<in> fst ` set (mem_heap m)"
  by (simp add: map_of_eq_None_iff)

lemma mem_free_hp:
  assumes "p = 0 \<or> hp m p \<noteq> None" and "hp m 0 = None"
  shows "\<exists>m'. mem_free p m = Some m' \<and> hp m' = (hp m)(p := None) \<and> mem_static m' = mem_static m"
  using assms hp_dom [of m p] by (auto simp: mem_free_def map_of_keep fun_upd_idem)

lemma mem_store_hp:
  "hp m p \<noteq> None \<Longrightarrow> \<exists>m'. mem_store p c m = Some m' \<and> hp m' = (hp m)(p \<mapsto> c) \<and> mem_static m' = mem_static m"
  using hp_dom [of m p] by (simp add: mem_store_def map_of_overwrite)

lemma load_hp [simp]:
  "hp m p = Some (BaseCell b) \<Longrightarrow> load_base p m = Some b"
  "hp m p = Some (DynamicCell d) \<Longrightarrow> load_dynamic p m = Some d"
  "hp m p = Some (StaticCell s) \<Longrightarrow> load_static p m = Some s"
  by (simp_all add: load_base_def load_dynamic_def load_static_def mem_load_def)

lemma upd_base_hp:
  "hp m p = Some (BaseCell b) \<Longrightarrow> \<exists>m'. upd_base_params p f m = Some m' \<and> hp m' = (hp m)(p \<mapsto> BaseCell (f b)) \<and>
     mem_static m' = mem_static m"
  using mem_store_hp [of m p] by (simp add: upd_base_params_def)

lemma upd_dynamic_hp:
  "hp m p = Some (DynamicCell d) \<Longrightarrow> \<exists>m'. upd_dynamic p f m = Some m' \<and> hp m' = (hp m)(p \<mapsto> DynamicCell (f d)) \<and>
     mem_static m' = mem_static m"
  using mem_store_hp [of m p] by (simp add: upd_dynamic_def)

lemma upd_static_hp:
  "hp m p = Some (StaticCell s) \<Longrightarrow> \<exists>m'. upd_static p f m = Some m' \<and> hp m' = (hp m)(p \<mapsto> StaticCell (f s)) \<and>
     mem_static m' = mem_static m"
  using mem_store_hp [of m p] by (simp add: upd_static_def)

definition fresh_or_null :: "allocator \<Rightarrow> bool" where
  "fresh_or_null new_at \<longleftrightarrow> (\<forall>c m. new_at c m = 0 \<or> new_at c m \<notin> fst ` set (mem_heap m))"

lemma mem_alloc_hp:
  assumes "fresh_or_null new_at" and "mem_alloc new_at c m = (m', q)"
  shows "mem_static m' = mem_static m \<and> (q = 0 \<and> hp m' = hp m \<or> q \<noteq> 0 \<and> hp m q = None \<and> hp m' = (hp m)(q \<mapsto> c))"
proof (cases "new_at c m = 0")
  case True
  then show ?thesis using assms(2) by (simp add: mem_alloc_def)
next
  case False
  then have "new_at c m \<notin> fst ` set (mem_heap m)" 
    using assms(1) [unfolded fresh_or_null_def, rule_format, of c m] by simp
  then have "hp m (new_at c m) = None" by (simp add: map_of_eq_None_iff)
  then show ?thesis using assms(2) False by (auto simp: mem_alloc_def Let_def)
qed

section \<open>Pointers that own what they point to\<close>

definition owning :: "nat \<Rightarrow> (nat \<Rightarrow> cell option) \<Rightarrow> nat list \<Rightarrow> (nat \<Rightarrow> cell option) \<Rightarrow> bool" where
  "owning path h0 ps h \<longleftrightarrow> h 0 = None \<and> h0 0 = None \<and> distinct (List.filter (\<lambda>q. q \<noteq> 0) ps) \<and>
     (\<forall>q\<in>set ps. q \<noteq> 0 \<longrightarrow> h q \<noteq> None) \<and> (\<forall>q. q \<notin> set ps \<longrightarrow> h q = h0 q) \<and>
     (\<forall>q\<in>set ps. q \<noteq> 0 \<longrightarrow> q \<noteq> path \<longrightarrow> h0 q = None)"

lemma owning_drop:
  assumes "owning path h0 (xs @ x # ys) h" and "path \<in> set xs \<union> set ys"
  shows "owning path h0 (xs @ 0 # ys) (h(x := None))"
proof (cases "x = 0")
  case True
  then have "h(x := None) = h" using assms(1) by (simp add: owning_def fun_upd_idem)
  then show ?thesis using assms(1) True by simp
next
  case False
  then have "x \<notin> set xs" "x \<notin> set ys" using assms(1) by (auto simp: owning_def)
  then show ?thesis using assms False unfolding owning_def by auto
qed

lemma owning_add:
  assumes "owning path h0 (xs @ 0 # ys) h" and "q = 0 \<and> h' = h \<or> q \<noteq> 0 \<and> h q = None \<and> h' = h(q \<mapsto> c)"
  shows "owning path h0 (xs @ q # ys) h'"
proof (cases "q = 0")
  case True
  then show ?thesis using assms by simp
next
  case False
  then have q: "h q = None" "h' = h(q \<mapsto> c)" using assms(2) by simp_all
  have "q \<notin> set (xs @ 0 # ys)" using assms(1) False q(1) unfolding owning_def by blast
  moreover from this have "h0 q = None" using assms(1) q(1) unfolding owning_def by metis
  moreover have "h x = h0 x" if "x \<notin> set xs" "x \<notin> set ys" for x
    using assms(1) that unfolding owning_def by (cases "x = 0") simp_all
  ultimately show ?thesis using assms(1) False q(2) unfolding owning_def by auto
qed

lemma owning_write: "owning path h0 ps h \<Longrightarrow> x \<in> set ps \<Longrightarrow> x \<noteq> 0 \<Longrightarrow> owning path h0 ps (h(x \<mapsto> c))"
  unfolding owning_def by auto

lemma owning_zero: "owning path h0 (xs @ 0 # ys) h \<longleftrightarrow> owning path h0 (xs @ ys) h"
proof -
  have "h 0 = None \<and> h0 0 = None \<Longrightarrow> (\<forall>q. q \<notin> set (xs @ 0 # ys) \<longrightarrow> h q = h0 q) \<longleftrightarrow> (\<forall>q. q \<notin> set (xs @ ys) \<longrightarrow> h q = h0 q)"
    by (auto simp: all_conj_distrib) (metis not_gr_zero)
  then show ?thesis unfolding owning_def by auto
qed

lemma free_all_hp:
  assumes "\<forall>q\<in>set ps. q \<noteq> 0 \<longrightarrow> hp m q \<noteq> None" and "distinct (List.filter (\<lambda>q. q \<noteq> 0) ps)" and "hp m 0 = None"
  shows "\<exists>m'. free_all ps m = Some m' \<and> hp m' = (\<lambda>q. if q \<in> set ps then None else hp m q) \<and> mem_static m' = mem_static m"
  using assms
proof (induction ps arbitrary: m)
  case (Cons p ps)
  obtain m1 where m1: "mem_free p m = Some m1" "hp m1 = (hp m)(p := None)" "mem_static m1 = mem_static m"
    using mem_free_hp [of p m] Cons.prems by auto
  have "\<forall>q\<in>set ps. q \<noteq> 0 \<longrightarrow> hp m1 q \<noteq> None" "distinct (List.filter (\<lambda>q. q \<noteq> 0) ps)" "hp m1 0 = None"
    using Cons.prems by (auto simp: m1(2) split: if_splits)
  then obtain m' where "free_all ps m1 = Some m'" "hp m' = (\<lambda>q. if q \<in> set ps then None else hp m1 q)"
    "mem_static m' = mem_static m1" using Cons.IH by blast
  then show ?case using m1 by (auto simp: fun_eq_iff)
qed simp

section \<open>The structures of a node\<close>

definition name_pointer :: "base_params \<Rightarrow> nat" where
  "name_pointer b = (case bp_identifier b of NamePointer q \<Rightarrow> q | InstanceNumber i \<Rightarrow> 0)"

definition pointers :: "nat \<Rightarrow> nat \<Rightarrow> base_params \<Rightarrow> dynamic_params \<Rightarrow> static_params \<Rightarrow> nat list" where
  "pointers n p b d s =
     [sp_path s, sp_resource_type s, sp_interface_description s, dp_static d, dp_resource d, bp_dynamic b, n, p]"

definition node_at ::
  "nat \<Rightarrow> nat \<Rightarrow> nat \<Rightarrow> (nat \<Rightarrow> cell option) \<Rightarrow> (nat \<Rightarrow> cell option) \<Rightarrow> base_params \<Rightarrow> dynamic_params \<Rightarrow> static_params \<Rightarrow> bool" where
  "node_at n p path h0 h b d s \<longleftrightarrow>
     h p = Some (BaseCell b) \<and> h (bp_dynamic b) = Some (DynamicCell d) \<and> h (dp_static d) = Some (StaticCell s) \<and>
     bp_free_on_delete b \<and> dp_free_on_delete d \<and> sp_free_on_delete s \<and> sp_path s = path \<and>
     owning path h0 (pointers n p b d s) h"

text \<open>A field of a structure that is no pointer, or a pointer set to null or to new memory.\<close>

lemma node_at_cells:
  assumes "node_at n p path h0 h b d s"
  shows "h p = Some (BaseCell b)" "h (bp_dynamic b) = Some (DynamicCell d)" "h (dp_static d) = Some (StaticCell s)"
    "p \<noteq> 0" "bp_dynamic b \<noteq> 0" "dp_static d \<noteq> 0" "h 0 = None"
    "p \<noteq> bp_dynamic b" "p \<noteq> dp_static d" "bp_dynamic b \<noteq> dp_static d"
proof -
  show h: "h p = Some (BaseCell b)" "h (bp_dynamic b) = Some (DynamicCell d)" "h (dp_static d) = Some (StaticCell s)" "h 0 = None"
    using assms by (simp_all add: node_at_def owning_def)
  show "p \<noteq> 0" "bp_dynamic b \<noteq> 0" "dp_static d \<noteq> 0" using h by (metis option.distinct(1))+
  show "p \<noteq> bp_dynamic b" "p \<noteq> dp_static d" "bp_dynamic b \<noteq> dp_static d"
    using h by (metis option.inject cell.distinct)+
qed

lemma node_at_owning: "node_at n p path h0 h b d s \<Longrightarrow> owning path h0 (pointers n p b d s) h"
  by (simp only: node_at_def)

lemma node_base_write:
  assumes "node_at n p path h0 h b d s" and "bp_dynamic b' = bp_dynamic b" and "bp_free_on_delete b'"
  shows "node_at n p path h0 (h(p \<mapsto> BaseCell b')) b' d s"
proof -
  note c = node_at_cells [OF assms(1)]
  have "owning path h0 (pointers n p b d s) (h(p \<mapsto> BaseCell b'))"
    using owning_write [OF node_at_owning [OF assms(1)]] c(4) by (simp add: pointers_def)
  moreover have "pointers n p b' d s = pointers n p b d s" using assms(2) by (simp add: pointers_def)
  ultimately show ?thesis using assms c by (simp add: node_at_def)
qed

lemma node_dynamic_write:
  assumes "node_at n p path h0 h b d s" and "dp_static d' = dp_static d" and "dp_resource d' = dp_resource d"
    and "dp_free_on_delete d'"
  shows "node_at n p path h0 (h(bp_dynamic b \<mapsto> DynamicCell d')) b d' s"
proof -
  note c = node_at_cells [OF assms(1)]
  have "owning path h0 (pointers n p b d s) (h(bp_dynamic b \<mapsto> DynamicCell d'))"
    using owning_write [OF node_at_owning [OF assms(1)]] c(5) by (simp add: pointers_def)
  moreover have "pointers n p b d' s = pointers n p b d s" using assms(2,3) by (simp add: pointers_def)
  ultimately show ?thesis using assms c by (simp add: node_at_def)
qed

text \<open>A pointer is freed and set to null in its structure, or new memory is put where null was.\<close>

lemma node_static_slot:
  assumes "node_at n p path h0 h b d s" and "owning path h0 (pointers n p b d s') h'" and "sp_free_on_delete s'" and "sp_path s' = path"
    and "h' p = h p" and "h' (bp_dynamic b) = h (bp_dynamic b)"
  shows "node_at n p path h0 (h'(dp_static d \<mapsto> StaticCell s')) b d s'"
proof -
  note c = node_at_cells [OF assms(1)]
  have "owning path h0 (pointers n p b d s') (h'(dp_static d \<mapsto> StaticCell s'))"
    using assms(2) c(6) by (intro owning_write) (simp_all add: pointers_def)
  then show ?thesis using assms c by (simp add: node_at_def)
qed

lemma node_dynamic_slot:
  assumes "node_at n p path h0 h b d s" and "owning path h0 (pointers n p b d' s) h'" and "dp_free_on_delete d'"
    and "dp_static d' = dp_static d" and "h' p = h p" and "h' (dp_static d) = h (dp_static d)"
  shows "node_at n p path h0 (h'(bp_dynamic b \<mapsto> DynamicCell d')) b d' s"
proof -
  note c = node_at_cells [OF assms(1)]
  have "owning path h0 (pointers n p b d' s) (h'(bp_dynamic b \<mapsto> DynamicCell d'))"
    using assms(2) c(5) by (intro owning_write) (simp_all add: pointers_def)
  then show ?thesis using assms c by (simp add: node_at_def)
qed

text \<open>Freeing a pointer of the node leaves its structures.\<close>

lemma owning_distinct:
  "owning path h0 (xs @ x # ys) h \<Longrightarrow> q \<in> set xs \<union> set ys \<Longrightarrow> q \<noteq> 0 \<Longrightarrow> q \<noteq> x"
  by (auto simp: owning_def split: if_splits)

lemma owning_allocated: "owning path h0 (xs @ x # ys) h \<Longrightarrow> x = 0 \<or> h x \<noteq> None"
  by (auto simp: owning_def)

lemma clear_static_slot:
  assumes n: "node_at n p path h0 (hp m) b d s" and x: "pointers n p b d s = xs @ x # ys"
    and f: "pointers n p b d (f s) = xs @ 0 # ys" "sp_free_on_delete (f s)" "sp_path (f s) = path"
    and i: "{path, dp_static d, bp_dynamic b, p} \<subseteq> set xs \<union> set ys"
  shows "\<exists>m1 m2. mem_free x m = Some m1 \<and> upd_static (dp_static d) f m1 = Some m2 \<and>
    node_at n p path h0 (hp m2) b d (f s) \<and> mem_static m2 = mem_static m"
proof -
  note c = node_at_cells [OF n]
  have o: "owning path h0 (xs @ x # ys) (hp m)" using node_at_owning [OF n] x by simp
  obtain m1 where m1: "mem_free x m = Some m1" "hp m1 = (hp m)(x := None)" "mem_static m1 = mem_static m"
    using mem_free_hp [OF owning_allocated [OF o] c(7)] by blast
  have ne: "p \<noteq> x" "bp_dynamic b \<noteq> x" "dp_static d \<noteq> x" using owning_distinct [OF o] i c(4-6) by blast+
  then have "hp m1 (dp_static d) = Some (StaticCell s)" using m1(2) c(3) by simp
  then obtain m2 where m2: "upd_static (dp_static d) f m1 = Some m2" "hp m2 = (hp m1)(dp_static d \<mapsto> StaticCell (f s))"
    "mem_static m2 = mem_static m1" using upd_static_hp by blast
  have "owning path h0 (pointers n p b d (f s)) (hp m1)" using owning_drop [OF o] i f(1) m1(2) by simp
  then have "node_at n p path h0 (hp m2) b d (f s)"
    using node_static_slot [OF n, of "f s" "hp m1"] f(2,3) ne m1(2) m2(2) by simp
  then show ?thesis using m1 m2 by auto
qed

lemma fill_static_slot:
  assumes n: "node_at n p path h0 (hp m) b d s" and x: "pointers n p b d s = xs @ 0 # ys" and a: "fresh_or_null new_at"
    and q: "mem_alloc new_at c m = (m1, q)"
    and f: "pointers n p b d (f s) = xs @ q # ys" "sp_free_on_delete (f s)" "sp_path (f s) = path"
  shows "\<exists>m2. upd_static (dp_static d) f m1 = Some m2 \<and> node_at n p path h0 (hp m2) b d (f s) \<and> mem_static m2 = mem_static m"
proof -
  note c = node_at_cells [OF n] and al = mem_alloc_hp [OF a q]
  have o: "owning path h0 (xs @ 0 # ys) (hp m)" using node_at_owning [OF n] x by simp
  have same: "hp m1 p = hp m p" "hp m1 (bp_dynamic b) = hp m (bp_dynamic b)" "hp m1 (dp_static d) = hp m (dp_static d)"
    using al c(1-3) by auto
  then obtain m2 where m2: "upd_static (dp_static d) f m1 = Some m2" "hp m2 = (hp m1)(dp_static d \<mapsto> StaticCell (f s))"
    "mem_static m2 = mem_static m1" using upd_static_hp [of m1 "dp_static d" s f] c(3) by auto
  have "owning path h0 (pointers n p b d (f s)) (hp m1)" using owning_add [OF o] al f(1) by metis
  then have "node_at n p path h0 (hp m2) b d (f s)"
    using node_static_slot [OF n, of "f s" "hp m1"] f(2,3) same m2(2) by simp
  then show ?thesis using m2 al by auto
qed

lemma clear_dynamic_slot:
  assumes n: "node_at n p path h0 (hp m) b d s" and x: "pointers n p b d s = xs @ x # ys"
    and f: "pointers n p b (f d) s = xs @ 0 # ys" "dp_free_on_delete (f d)" "dp_static (f d) = dp_static d"
    and i: "{path, dp_static d, bp_dynamic b, p} \<subseteq> set xs \<union> set ys"
  shows "\<exists>m1 m2. mem_free x m = Some m1 \<and> upd_dynamic (bp_dynamic b) f m1 = Some m2 \<and>
    node_at n p path h0 (hp m2) b (f d) s \<and> mem_static m2 = mem_static m"
proof -
  note c = node_at_cells [OF n]
  have o: "owning path h0 (xs @ x # ys) (hp m)" using node_at_owning [OF n] x by simp
  obtain m1 where m1: "mem_free x m = Some m1" "hp m1 = (hp m)(x := None)" "mem_static m1 = mem_static m"
    using mem_free_hp [OF owning_allocated [OF o] c(7)] by blast
  have ne: "p \<noteq> x" "bp_dynamic b \<noteq> x" "dp_static d \<noteq> x" using owning_distinct [OF o] i c(4-6) by blast+
  then have "hp m1 (bp_dynamic b) = Some (DynamicCell d)" using m1(2) c(2) by simp
  then obtain m2 where m2: "upd_dynamic (bp_dynamic b) f m1 = Some m2" "hp m2 = (hp m1)(bp_dynamic b \<mapsto> DynamicCell (f d))"
    "mem_static m2 = mem_static m1" using upd_dynamic_hp by blast
  have "owning path h0 (pointers n p b (f d) s) (hp m1)" using owning_drop [OF o] i f(1) m1(2) by simp
  then have "node_at n p path h0 (hp m2) b (f d) s"
    using node_dynamic_slot [OF n, of "f d" "hp m1"] f(2,3) ne m1(2) m2(2) by simp
  then show ?thesis using m1 m2 by auto
qed

lemma fill_dynamic_slot:
  assumes n: "node_at n p path h0 (hp m) b d s" and x: "pointers n p b d s = xs @ 0 # ys" and a: "fresh_or_null new_at"
    and q: "mem_alloc new_at c m = (m1, q)"
    and f: "pointers n p b (f d) s = xs @ q # ys" "dp_free_on_delete (f d)" "dp_static (f d) = dp_static d"
  shows "\<exists>m2. load_base p m1 = Some b \<and> upd_dynamic (bp_dynamic b) f m1 = Some m2 \<and>
    node_at n p path h0 (hp m2) b (f d) s \<and> mem_static m2 = mem_static m"
proof -
  note c = node_at_cells [OF n] and al = mem_alloc_hp [OF a q]
  have o: "owning path h0 (xs @ 0 # ys) (hp m)" using node_at_owning [OF n] x by simp
  have same: "hp m1 p = hp m p" "hp m1 (bp_dynamic b) = hp m (bp_dynamic b)" "hp m1 (dp_static d) = hp m (dp_static d)"
    using al c(1-3) by auto
  then obtain m2 where m2: "upd_dynamic (bp_dynamic b) f m1 = Some m2" "hp m2 = (hp m1)(bp_dynamic b \<mapsto> DynamicCell (f d))"
    "mem_static m2 = mem_static m1" using upd_dynamic_hp [of m1 "bp_dynamic b" d f] c(2) by auto
  have "owning path h0 (pointers n p b (f d) s) (hp m1)" using owning_add [OF o] al f(1) by metis
  then have "node_at n p path h0 (hp m2) b (f d) s"
    using node_dynamic_slot [OF n, of "f d" "hp m1"] f(2,3) same m2(2) by simp
  then show ?thesis using m2 al same(1) c(1) by auto
qed

section \<open>Every operation keeps the node\<close>

definition node_in :: "nat \<Rightarrow> identifier_union \<Rightarrow> nat \<Rightarrow> nat \<Rightarrow> (nat \<Rightarrow> cell option) \<Rightarrow> (nat \<times> cell) list \<Rightarrow> memory \<Rightarrow> bool" where
  "node_in n i p path h0 st m \<longleftrightarrow> 
     (\<exists>b d s. node_at n p path h0 (hp m) b d s \<and> bp_identifier b = i) \<and> mem_static m = st"

lemma params_of_node: "node_at n p path h0 (hp m) b d s \<Longrightarrow> params_of p m = Some (b, d, s)"
  by (simp add: params_of_def node_at_def)

lemma set_interface_description_node:
  assumes "node_in n i p path h0 st m" and "fresh_or_null new_at"
  shows "\<exists>m'. set_interface_description new_at desc p m = Some m' \<and> node_in n i p path h0 st m'"
proof -
  obtain b d s where n: "node_at n p path h0 (hp m) b d s" and i: "bp_identifier b = i" and st: "mem_static m = st"
    using assms(1) by (auto simp: node_in_def)
  let ?xs = "[path, sp_resource_type s]" and ?ys = "[dp_static d, dp_resource d, bp_dynamic b, n, p]"
  let ?f = "\<lambda>q y. y\<lparr>sp_interface_description := q\<rparr>"
  have p: "sp_path s = path" "sp_free_on_delete s" using n by (simp_all add: node_at_def)
  have ps: "pointers n p b d s = ?xs @ sp_interface_description s # ?ys" "pointers n p b d (?f q y) = [sp_path y, sp_resource_type y] @ q # ?ys"
    for q y using p by (simp_all add: pointers_def)
  obtain m1 m2 where c: "mem_free (sp_interface_description s) m = Some m1" "upd_static (dp_static d) (?f 0) m1 = Some m2"
    "node_at n p path h0 (hp m2) b d (?f 0 s)" "mem_static m2 = mem_static m"
    using clear_static_slot [OF n ps(1), of "?f 0"] p ps(2) by auto
  obtain m3 q where a: "mem_string_copy new_at (bytes_of (cstr desc)) m2 = (m3, q)" by fastforce
  then obtain m4 where "upd_static (dp_static d) (?f q) m3 = Some m4" "node_at n p path h0 (hp m4) b d (?f q (?f 0 s))"
    "mem_static m4 = mem_static m2"
    using fill_static_slot [OF c(3) _ assms(2) a [unfolded mem_string_copy_def], of ?xs ?ys "?f q"] p ps(2) by auto
  then show ?thesis
    using c st i p a by (auto simp: set_interface_description_def params_of_node [OF n] node_in_def)
qed

lemma set_resource_type_node:
  assumes "node_in n i p path h0 st m" and "fresh_or_null new_at"
  shows "\<exists>m'. set_resource_type new_at res_type p m = Some m' \<and> node_in n i p path h0 st m'"
proof -
  obtain b d s where n: "node_at n p path h0 (hp m) b d s" and i: "bp_identifier b = i" and st: "mem_static m = st"
    using assms(1) by (auto simp: node_in_def)
  let ?xs = "[path]" and ?ys = "[sp_interface_description s, dp_static d, dp_resource d, bp_dynamic b, n, p]"
  let ?f = "\<lambda>q y. y\<lparr>sp_resource_type := q\<rparr>"
  have p: "sp_path s = path" "sp_free_on_delete s" using n by (simp_all add: node_at_def)
  have ps: "pointers n p b d s = ?xs @ sp_resource_type s # ?ys" "pointers n p b d (?f q s) = ?xs @ q # ?ys"
    "pointers n p b d (?f q (?f 0 s)) = ?xs @ q # ?ys" for q using p by (simp_all add: pointers_def)
  obtain m1 m2 where c: "mem_free (sp_resource_type s) m = Some m1" "upd_static (dp_static d) (?f 0) m1 = Some m2"
    "node_at n p path h0 (hp m2) b d (?f 0 s)" "mem_static m2 = mem_static m"
    using clear_static_slot [OF n ps(1), of "?f 0"] p ps(2) by auto
  obtain m3 q where a: "mem_string_copy new_at (bytes_of (cstr res_type)) m2 = (m3, q)" by fastforce
  then obtain m4 where "upd_static (dp_static d) (?f q) m3 = Some m4" "node_at n p path h0 (hp m4) b d (?f q (?f 0 s))"
    "mem_static m4 = mem_static m2"
    using fill_static_slot [OF c(3) ps(2) assms(2) a [unfolded mem_string_copy_def], of "?f q"] p ps(3) by auto
  then show ?thesis
    using c st i p a by (auto simp: set_resource_type_def params_of_node [OF n] node_in_def)
qed

lemma mem_clear_value_node:
  assumes "node_at n p path h0 (hp m) b d s"
  shows "\<exists>m2. mem_clear_value p m = Some m2 \<and> node_at n p path h0 (hp m2) b (d\<lparr>dp_resource := 0, dp_resourcelen := 0\<rparr>) s \<and>
    mem_static m2 = mem_static m"
proof -
  let ?xs = "[path, sp_resource_type s, sp_interface_description s, dp_static d]" and ?ys = "[bp_dynamic b, n, p]"
  let ?f = "\<lambda>y. y\<lparr>dp_resource := 0, dp_resourcelen := 0\<rparr>"
  have p: "sp_path s = path" "dp_free_on_delete d" using assms by (simp_all add: node_at_def)
  have ps: "pointers n p b d s = ?xs @ dp_resource d # ?ys" "pointers n p b (?f d) s = ?xs @ 0 # ?ys"
    using p by (simp_all add: pointers_def)
  show ?thesis
    using clear_dynamic_slot [OF assms ps(1), of ?f] p ps(2) node_at_cells(1,2) [OF assms]
    by (auto simp: mem_clear_value_def)
qed

lemma mem_set_value_node:
  assumes "node_in n i p path h0 st m" and "fresh_or_null new_at"
  shows "\<exists>m'. mem_set_value new_at value len p m = Some m' \<and> node_in n i p path h0 st m'"
proof (cases "\<exists>v. value = Some v \<and> 0 < len")
  case False
  then show ?thesis using assms(1) by (auto simp: mem_set_value_def split: option.split)
next
  case True
  then obtain v where v: "value = Some v" "0 < len" by blast
  obtain b d s where n: "node_at n p path h0 (hp m) b d s" and i: "bp_identifier b = i" and st: "mem_static m = st"
    using assms(1) by (auto simp: node_in_def)
  let ?d = "d\<lparr>dp_resource := 0, dp_resourcelen := 0\<rparr>"
  obtain m1 where m1: "mem_clear_value p m = Some m1" "node_at n p path h0 (hp m1) b ?d s" "mem_static m1 = mem_static m"
    using mem_clear_value_node [OF n] by blast
  obtain m2 q where a: "mem_string_copy new_at (take len v) m1 = (m2, q)" by fastforce
  let ?xs = "[path, sp_resource_type s, sp_interface_description s, dp_static d]" and ?ys = "[bp_dynamic b, n, p]"
  let ?f = "\<lambda>y. y\<lparr>dp_resource := q, dp_resourcelen := (if q \<noteq> 0 then len else 0)\<rparr>"
  have p: "sp_path s = path" "dp_free_on_delete d" using n by (simp_all add: node_at_def)
  have ps: "pointers n p b ?d s = ?xs @ 0 # ?ys" "pointers n p b (?f ?d) s = ?xs @ q # ?ys"
    using p by (simp_all add: pointers_def)
  obtain m3 where "load_base p m2 = Some b" "upd_dynamic (bp_dynamic b) ?f m2 = Some m3"
    "node_at n p path h0 (hp m3) b (?f ?d) s" "mem_static m3 = mem_static m1"
    using fill_dynamic_slot [OF m1(2) ps(1) assms(2) a [unfolded mem_string_copy_def], of ?f] ps(2) p by auto
  then show ?thesis using v m1 a st i by (auto simp: mem_set_value_def node_in_def)
qed

text \<open>What the identifier is after an operation.\<close>

fun identifier_after :: "params_op \<Rightarrow> identifier_union \<Rightarrow> identifier_union" where
  "identifier_after (OpInstanceId inst_id) i = InstanceNumber inst_id"
| "identifier_after op i = i"

lemma params_step_node:
  assumes "node_in n i p path h0 st m" and "fresh_or_null new_at"
  shows "\<exists>m'. params_step new_at p op m = Some m' \<and> node_in n (identifier_after op i) p path h0 st m'"
proof -
  obtain b d s where n: "node_at n p path h0 (hp m) b d s" and i: "bp_identifier b = i" and st: "mem_static m = st"
    using assms(1) by (auto simp: node_in_def)
  note c = node_at_cells [OF n]
  have fl: "bp_free_on_delete b" "dp_free_on_delete d" using n by (simp_all add: node_at_def)
  have base: "\<exists>m'. upd_base_params p f m = Some m' \<and> node_in n (bp_identifier (f b)) p path h0 st m'"
    if "bp_dynamic (f b) = bp_dynamic b" "bp_free_on_delete (f b)" for f
    using upd_base_hp [OF c(1), of f] node_base_write [OF n that] st by (force simp: node_in_def)
  have dyn: "\<exists>m'. upd_dynamic (bp_dynamic b) f m = Some m' \<and> node_in n i p path h0 st m'"
    if "dp_static (f d) = dp_static d" "dp_resource (f d) = dp_resource d" "dp_free_on_delete (f d)" for f
    using upd_dynamic_hp [OF c(2), of f] node_dynamic_write [OF n that] st i by (force simp: node_in_def)
  show ?thesis
  proof (cases op)
    case (OpInterfaceDescription desc)
    then show ?thesis using set_interface_description_node [OF assms] by simp
  next
    case (OpResourceType res_type)
    then show ?thesis using set_resource_type_node [OF assms] by simp
  next
    case (OpContentType con_type)
    then show ?thesis using dyn [of "\<lambda>y. y\<lparr>dp_content_type := con_type\<rparr>"] fl c(1) by (simp add: set_coap_content_type_def)
  next
    case (OpObservable observable)
    then show ?thesis using dyn [of "\<lambda>y. y\<lparr>dp_observable := observable\<rparr>"] fl c(1) by (simp add: set_observable_def)
  next
    case (OpRegisterUri uri)
    then show ?thesis using dyn [of "\<lambda>y. y\<lparr>dp_publish_uri := uri\<rparr>"] fl c(1) by (simp add: set_register_uri_def)
  next
    case (OpOperation opr)
    then show ?thesis
      using dyn [of "\<lambda>y. y\<lparr>dp_access := (if sp_mode s = Static then GET_ALLOWED else opr)\<rparr>"] fl params_of_node [OF n]
      by (simp add: set_operation_def)
  next
    case (OpInstanceId inst_id)
    then show ?thesis using base [of "\<lambda>b. b\<lparr>bp_identifier := InstanceNumber inst_id\<rparr>"] fl by (simp add: set_instance_id_def)
  next
    case (OpMaxAge max_age)
    then show ?thesis using base [of "\<lambda>b. b\<lparr>bp_max_age := max_age\<rparr>"] fl i by (simp add: set_max_age_def)
  next
    case (OpBaseType type)
    then show ?thesis using base [of "\<lambda>b. b\<lparr>bp_base_type := type\<rparr>"] fl c(1) i by (simp add: set_base_type_def)
  next
    case OpClearValue
    then show ?thesis using mem_clear_value_node [OF n] st i by (auto simp: node_in_def)
  next
    case (OpSetValue v len)
    then show ?thesis using mem_set_value_node [OF assms] by simp
  qed
qed

lemma params_steps_node:
  assumes "fresh_or_null new_at"
  shows "node_in n i p path h0 st m \<Longrightarrow>
    \<exists>m'. params_steps new_at p ops m = Some m' \<and> node_in n (fold identifier_after ops i) p path h0 st m'"
proof (induction ops arbitrary: m i)
  case (Cons op ops)
  then show ?case using params_step_node [OF Cons.prems assms, of op] by fastforce
qed simp

lemma identifier_after_ops:
  "fold identifier_after ops i = (if list_ex sets_instance_id ops then fold identifier_after ops (InstanceNumber 0) else i)"
  "list_ex sets_instance_id ops \<Longrightarrow> \<exists>k. fold identifier_after ops i = InstanceNumber k"
proof -
  have s: "identifier_after op i = (if sets_instance_id op then identifier_after op (InstanceNumber 0) else i)" for op i
    by (cases op) simp_all
  have k: "\<exists>k'. fold identifier_after ops (InstanceNumber k) = InstanceNumber k'" for k and ops :: "params_op list"
  proof (induction ops arbitrary: k)
    case (Cons op ops)
    then show ?case by (cases op) simp_all
  qed simp
  have "list_ex sets_instance_id ops \<Longrightarrow> fold identifier_after ops i = fold identifier_after ops (InstanceNumber 0)"
    and "\<not> list_ex sets_instance_id ops \<Longrightarrow> fold identifier_after ops i = i"
  proof (induction ops arbitrary: i)
    case (Cons op ops)
    {
      case 1
      show ?case using 1 Cons(1) [of "identifier_after op i"] Cons(1) [of "identifier_after op (InstanceNumber 0)"] s [of op i]
        by (cases "list_ex sets_instance_id ops") auto
    next
      case 2
      then show ?case using Cons(2) [of i] s [of op i] by simp
    }
  qed simp_all
  then show "fold identifier_after ops i = (if list_ex sets_instance_id ops then fold identifier_after ops (InstanceNumber 0) else i)"
    and "list_ex sets_instance_id ops \<Longrightarrow> \<exists>k. fold identifier_after ops i = InstanceNumber k"
    using k by simp_all
qed

section \<open>Destruction\<close>

lemma distinct_nonzero_append:
  assumes "distinct (List.filter (\<lambda>q. q \<noteq> 0) (xs @ ys))"
  shows "distinct (List.filter (\<lambda>q. q \<noteq> 0) xs)" and "distinct (List.filter (\<lambda>q. q \<noteq> 0) ys)"
    and "q \<in> set ys \<Longrightarrow> q \<noteq> 0 \<Longrightarrow> q \<notin> set xs"
  using assms by auto

lemma params_free_node:
  assumes "node_in n i p path h0 st m" and "n = (case i of NamePointer q \<Rightarrow> q | InstanceNumber k \<Rightarrow> 0)"
  shows "\<exists>m'. params_free p m = Some m' \<and> hp m' = h0(path := None) \<and> mem_static m' = st"
proof -
  obtain b d s where n: "node_at n p path h0 (hp m) b d s" and i: "bp_identifier b = i" and st: "mem_static m = st"
    using assms(1) by (auto simp: node_in_def)
  have np: "name_pointer b = n" using i assms(2) by (simp add: name_pointer_def)
  note c = node_at_cells [OF n]
  have o: "owning path h0 (pointers n p b d s) (hp m)" by (rule node_at_owning [OF n])
  have fl: "bp_free_on_delete b" "dp_free_on_delete d" "sp_free_on_delete s" "sp_path s = path" using n by (simp_all add: node_at_def)
  have al: "\<forall>q\<in>set (pointers n p b d s). q \<noteq> 0 \<longrightarrow> hp m q \<noteq> None"
    and di: "distinct (List.filter (\<lambda>q. q \<noteq> 0) (pointers n p b d s))" using o by (simp_all add: owning_def del: not_None_eq)
  let ?l1 = "[sp_path s, sp_resource_type s, sp_interface_description s, dp_static d]"
  let ?l2 = "[dp_resource d, bp_dynamic b]"
  have ps: "pointers n p b d s = ?l1 @ ?l2 @ [n, p]" by (simp add: pointers_def)
  note di1 = distinct_nonzero_append [OF di [unfolded ps]]
  note di2 = distinct_nonzero_append [OF di1(2)]
  have 1: "\<forall>q\<in>set ?l1. q \<noteq> 0 \<longrightarrow> hp m q \<noteq> None" "distinct (List.filter (\<lambda>q. q \<noteq> 0) ?l1)"
    using al di1(1) unfolding ps by simp_all
  obtain m1 where m1: "free_all ?l1 m = Some m1" "hp m1 = (\<lambda>q. if q \<in> set ?l1 then None else hp m q)" "mem_static m1 = mem_static m"
    using free_all_hp [OF 1 c(7)] by blast
  have ne1: "q \<notin> set ?l1" if "q \<in> {dp_resource d, bp_dynamic b, n, p}" "q \<noteq> 0" for q
    using that di1(3) [of q] by simp
  have 2: "\<forall>q\<in>set ?l2. q \<noteq> 0 \<longrightarrow> hp m1 q \<noteq> None" "distinct (List.filter (\<lambda>q. q \<noteq> 0) ?l2)" "hp m1 0 = None"
  proof -
    show "\<forall>q\<in>set ?l2. q \<noteq> 0 \<longrightarrow> hp m1 q \<noteq> None" using al ne1 by (simp add: m1(2) pointers_def)
    show "distinct (List.filter (\<lambda>q. q \<noteq> 0) ?l2)" by (rule di2(1))
    show "hp m1 0 = None" using c(7) by (simp add: m1(2))
  qed
  have d1: "load_dynamic (bp_dynamic b) m1 = Some d" using c(2) ne1 [of "bp_dynamic b"] c(5) by (simp add: m1(2))
  obtain m2 where m2: "free_all ?l2 m1 = Some m2" "hp m2 = (\<lambda>q. if q \<in> set ?l2 then None else hp m1 q)" "mem_static m2 = mem_static m1"
    using free_all_hp [OF 2] by blast
  have ne2: "q \<notin> set ?l2" if "q \<in> {n, p}" "q \<noteq> 0" for q
    using that di2(3) [of q] by simp
  have p2: "hp m2 p = Some (BaseCell b)" using c(1,4) ne1 [of p] ne2 [of p] by (simp add: m1(2) m2(2))
  have ip: "set (identifier_pointers b) \<subseteq> {n}"
    using np by (auto simp: identifier_pointers_def name_pointer_def split: identifier_union.splits)
  have 3: "\<forall>q\<in>set (identifier_pointers b). q \<noteq> 0 \<longrightarrow> hp m2 q \<noteq> None" "distinct (List.filter (\<lambda>q. q \<noteq> 0) (identifier_pointers b))"
    "hp m2 0 = None"
  proof -
    have "n \<noteq> 0 \<Longrightarrow> hp m2 (n) \<noteq> None"
      using al ne1 [of "n"] ne2 [of "n"] by (simp add: m1(2) m2(2) pointers_def)
    then show "\<forall>q\<in>set (identifier_pointers b). q \<noteq> 0 \<longrightarrow> hp m2 q \<noteq> None" using ip by blast
    show "distinct (List.filter (\<lambda>q. q \<noteq> 0) (identifier_pointers b))"
      by (auto simp: identifier_pointers_def split: identifier_union.splits)
    show "hp m2 0 = None" using c(7) by (simp add: m1(2) m2(2))
  qed
  obtain m3 where m3: "free_all (identifier_pointers b) m2 = Some m3"
    "hp m3 = (\<lambda>q. if q \<in> set (identifier_pointers b) then None else hp m2 q)" "mem_static m3 = mem_static m2"
    using free_all_hp [OF 3] by blast
  have "p \<noteq> n" using di2(2) c(4) by auto
  then have p3: "hp m3 p \<noteq> None" using ip p2 by (auto simp: m3(2))
  have z3: "hp m3 0 = None" using 3(3) by (simp add: m3(2))
  obtain m4 where m4: "mem_free p m3 = Some m4" "hp m4 = (hp m3)(p := None)" "mem_static m4 = mem_static m3"
    using mem_free_hp [OF disjI2 [OF p3]] z3 by blast
  have "params_free p m = Some m4"
    using m1(1) d1 m2(1) p2 m3(1) m4(1) fl by (simp add: params_free_def params_of_node [OF n])
  moreover have "hp m4 q = (h0(path := None)) q" for q
  proof (cases "q \<in> set (pointers n p b d s)")
    case True
    have "n = 0 \<or> n \<in> set (identifier_pointers b)"
      using np by (auto simp: identifier_pointers_def name_pointer_def split: identifier_union.splits)
    then have "n \<notin> set (identifier_pointers b) \<Longrightarrow> hp m (n) = None" using c(7) by auto
    then have "hp m4 q = None" using True c(7) by (auto simp: pointers_def m1(2) m2(2) m3(2) m4(2))
    moreover have "(h0(path := None)) q = None" using True o by (cases "q = 0") (auto simp: owning_def)
    ultimately show ?thesis by simp
  next
    case False
    then have "hp m4 q = hp m q" using ip by (auto simp: pointers_def m1(2) m2(2) m3(2) m4(2))
    then show ?thesis using False o fl(4) by (auto simp: owning_def pointers_def)
  qed
  ultimately show ?thesis using st m1(3) m2(3) m3(3) m4(3) by (auto simp: fun_eq_iff)
qed

section \<open>Construction\<close>

text \<open>A null address holds nothing; without all three structures the constructor does not return a node that can be read.\<close>

lemma null_unreadable: "hp m 0 = None \<Longrightarrow> 0 \<notin> fst ` set (mem_static m) \<Longrightarrow>
    load_base 0 m = None \<and> load_dynamic 0 m = None \<and> load_static 0 m = None"
proof -
  assume "hp m 0 = None" "0 \<notin> fst ` set (mem_static m)"
  moreover from this(2) have "map_of (mem_static m) 0 = None" unfolding map_of_eq_None_iff .
  ultimately show ?thesis by (simp add: load_base_def load_dynamic_def load_static_def mem_load_def)
qed

lemma construct_static_node:
  assumes "construct_static new_at mo resource_type path ext d m = Some m'" and "fresh_or_null new_at"
    and "hp m d = Some (DynamicCell y)" and "hp m p = Some (BaseCell b)"
    and "owning path h0 [path, 0, 0, 0, 0, d, 0, p] (hp m)"
  shows "mem_static m' = mem_static m \<and> hp m' p = Some (BaseCell b) \<and> hp m' 0 = None \<and>
    (hp m' d = Some (DynamicCell (y\<lparr>dp_static := 0\<rparr>)) \<or>
     (\<exists>st s. hp m' d = Some (DynamicCell (y\<lparr>dp_static := st\<rparr>)) \<and> hp m' st = Some (StaticCell s) \<and>
        sp_free_on_delete s \<and> sp_path s = path \<and> sp_interface_description s = 0 \<and>
        owning path h0 [path, sp_resource_type s, 0, st, 0, d, 0, p] (hp m')))"
proof -
  have ne: "p \<noteq> d" using assms(3,4) by (metis option.inject cell.distinct(11))
  have z: "hp m 0 = None" using assms(5) by (simp add: owning_def)
  then have dz: "d \<noteq> 0" "p \<noteq> 0" using assms(3,4) by (metis option.distinct(1))+
  obtain m1 st where a: "mem_alloc new_at (StaticCell zero_static) m = (m1, st)" by fastforce
  note al = mem_alloc_hp [OF assms(2) a]
  have d1: "hp m1 d = Some (DynamicCell y)" "hp m1 p = Some (BaseCell b)" using al assms(3,4) by auto
  obtain m2 where m2: "upd_dynamic d (\<lambda>y. y\<lparr>dp_static := st\<rparr>) m1 = Some m2"
    "hp m2 = (hp m1)(d \<mapsto> DynamicCell (y\<lparr>dp_static := st\<rparr>))" "mem_static m2 = mem_static m1"
    using upd_dynamic_hp [OF d1(1)] by blast
  show ?thesis
  proof (cases "st = 0")
    case True
    then have "m' = m2" using assms(1) a m2(1) by (simp add: construct_static_def)
    then show ?thesis using True m2 al d1 ne z dz by simp
  next
    case False
    have h1: "hp m1 = (hp m)(st \<mapsto> StaticCell zero_static)" "hp m st = None" using al False by simp_all
    then have sne: "st \<noteq> d" "st \<noteq> p" using assms(3,4) by auto
    have o1: "owning path h0 [path, 0, 0, st, 0, d, 0, p] (hp m2)"
      using owning_write [OF owning_add [of path h0 "[path, 0, 0]" "[0, d, 0, p]" "hp m" st "hp m1"], where x = d] assms(5) False h1 dz
      unfolding m2(2) by simp
    have s2: "hp m2 st = Some (StaticCell zero_static)" "hp m2 d = Some (DynamicCell (y\<lparr>dp_static := st\<rparr>))"
      "hp m2 p = Some (BaseCell b)" using m2(2) h1 sne ne d1 by simp_all
    define r where "r = (if cstr resource_type \<noteq> [] then mem_string_copy new_at (bytes_of (cstr resource_type)) m2 else (m2, 0))"
    obtain m3 rt where r3: "r = (m3, rt)" by fastforce
    have al3: "mem_static m3 = mem_static m2 \<and> (rt = 0 \<and> hp m3 = hp m2 \<or>
        rt \<noteq> 0 \<and> hp m2 rt = None \<and> hp m3 = (hp m2)(rt \<mapsto> Bytes (bytes_of (cstr resource_type) @ [0])))"
      using r3 mem_alloc_hp [OF assms(2), of _ m2 m3 rt] by (auto simp: r_def mem_string_copy_def split: if_splits)
    have s3: "hp m3 st = Some (StaticCell zero_static)" "hp m3 d = hp m2 d" "hp m3 p = hp m2 p" using al3 s2 by auto
    let ?f = "\<lambda>y. y\<lparr>sp_resource_type := rt, sp_path := path, sp_mode := mo, sp_free_on_delete := True, sp_external_block := ext\<rparr>"
    obtain m4 where m4: "upd_static st ?f m3 = Some m4" "hp m4 = (hp m3)(st \<mapsto> StaticCell (?f zero_static))"
      "mem_static m4 = mem_static m3" using upd_static_hp [OF s3(1)] by blast
    have "m' = m4" using assms(1) a m2(1) False r3 m4(1) by (simp add: construct_static_def r_def)
    moreover have o4: "owning path h0 [path, rt, 0, st, 0, d, 0, p] (hp m4)"
      using owning_write [OF owning_add [of path h0 "[path]" "[0, st, 0, d, 0, p]" "hp m2" rt "hp m3"], where x = st] o1 al3 False
      unfolding m4(2) by auto
    moreover have "hp m4 0 = None" using o4 by (simp add: owning_def)
    ultimately show ?thesis
      using m4 s3 s2 sne al m2(3) al3 by (auto simp: zero_static_def intro!: exI [of _ "?f zero_static"])
  qed
qed

definition construct_name :: "allocator \<Rightarrow> string \<Rightarrow> nat \<Rightarrow> memory \<Rightarrow> memory option" where
  "construct_name new_at name p m =
     (if name \<noteq> [] then do {
        let (ma, q) = mem_stringdup new_at name m;
        upd_base_params p (\<lambda>b. b\<lparr>bp_identifier := NamePointer q\<rparr>) ma }
      else upd_base_params p (\<lambda>b. b\<lparr>bp_identifier := InstanceNumber 0\<rparr>) m)"

text \<open>The identifier a node is constructed with: a copy of its name, or number 0 when it has none.\<close>

definition names :: "string \<Rightarrow> identifier_union \<Rightarrow> (nat \<Rightarrow> cell option) \<Rightarrow> bool" where
  "names name i h \<longleftrightarrow> (case i of InstanceNumber k \<Rightarrow> k = 0 \<and> name = []
     | NamePointer q \<Rightarrow> name \<noteq> [] \<and> (q \<noteq> 0 \<longrightarrow> h q = Some (Bytes (bytes_of (cstr name) @ [0]))))"

lemma construct_name_node:
  assumes "construct_name new_at name p m = Some m'" and "fresh_or_null new_at" and "hp m p = Some (BaseCell b)"
    and "hp m 0 = None"
  shows "\<exists>i. hp m' p = Some (BaseCell (b\<lparr>bp_identifier := i\<rparr>)) \<and> mem_static m' = mem_static m \<and> hp m' 0 = None \<and>
    names name i (hp m') \<and>
    (\<forall>q. q \<noteq> p \<longrightarrow> hp m q \<noteq> None \<longrightarrow> hp m' q = hp m q) \<and>
    (\<forall>path h0 xs. owning path h0 (xs @ [0, p]) (hp m) \<longrightarrow>
       owning path h0 (xs @ [name_pointer (b\<lparr>bp_identifier := i\<rparr>), p]) (hp m'))"
proof -
  have pz: "p \<noteq> 0" using assms(3,4) by (metis option.distinct(1))
  show ?thesis
  proof (cases "name = []")
    case True
    let ?i = "InstanceNumber 0"
    have "hp m' = (hp m)(p \<mapsto> BaseCell (b\<lparr>bp_identifier := ?i\<rparr>))" "mem_static m' = mem_static m"
      using assms(1) True upd_base_hp [OF assms(3), of "\<lambda>b. b\<lparr>bp_identifier := ?i\<rparr>"] by (auto simp: construct_name_def)
    then show ?thesis
      using owning_write [where x = p] pz assms(4) True by (intro exI [of _ ?i]) (simp add: name_pointer_def names_def)
  next
    case False
    obtain ma q where a: "mem_stringdup new_at name m = (ma, q)" by fastforce
    note al = mem_alloc_hp [OF assms(2) a [unfolded mem_stringdup_def]]
    have pa: "hp ma p = Some (BaseCell b)" "hp ma 0 = None" using al assms(3,4) by auto
    let ?i = "NamePointer q"
    have m': "hp m' = (hp ma)(p \<mapsto> BaseCell (b\<lparr>bp_identifier := ?i\<rparr>))" "mem_static m' = mem_static ma"
      using assms(1) False a upd_base_hp [OF pa(1), of "\<lambda>b. b\<lparr>bp_identifier := ?i\<rparr>"] by (auto simp: construct_name_def)
    have "owning path h0 (xs @ [q, p]) (hp m')" if "owning path h0 (xs @ [0, p]) (hp m)" for path h0 xs
    proof -
      have "owning path h0 (xs @ q # [p]) (hp ma)" using owning_add [OF that] al by metis
      then show ?thesis unfolding m'(1) using owning_write [where x = p] pz by simp
    qed
    then show ?thesis
      using m' al pa pz False by (intro exI [of _ ?i]) (auto simp: name_pointer_def names_def)
  qed
qed

lemma params_new_node:
  assumes "params_new new_at name mo resource_type path ext multiple ty m = Some (m', p)" and "params_of p m' \<noteq> None"
    and "fresh_or_null new_at" and "hp m 0 = None" and "0 \<notin> fst ` set (mem_static m)" and "path = 0 \<or> hp m path \<noteq> None"
  shows "\<exists>b d s. params_of p m' = Some (b, d, s) \<and> names name (bp_identifier b) (hp m') \<and>
    node_in (name_pointer b) (bp_identifier b) p path (hp m) (mem_static m) m'"
proof -
  let ?base = "zero_base\<lparr>bp_free_on_delete := True, bp_multiple_instance := multiple, bp_data_type := ty\<rparr>"
  obtain m1 pp where a1: "mem_alloc new_at (BaseCell ?base) m = (m1, pp)" by fastforce
  note al1 = mem_alloc_hp [OF assms(3) a1]
  have len: "\<not> length name > MAX_ALLOWED_STRING_LENGTH" using assms(1) by (auto simp: params_new_def)
  have pp: "pp \<noteq> 0"
  proof
    assume "pp = 0"
    then have "p = 0" "m' = m1" using assms(1) a1 len by (simp_all add: params_new_def)
    then show False using null_unreadable [of m1] assms(2,4,5) al1 \<open>pp = 0\<close> by (simp add: params_of_def)
  qed
  obtain m2 d where a2: "mem_alloc new_at (DynamicCell zero_dynamic) m1 = (m2, d)" by fastforce
  note al2 = mem_alloc_hp [OF assms(3) a2]
  have p2: "hp m2 pp = Some (BaseCell ?base)" "pp \<noteq> d" using al1 al2 pp by auto
  let ?b = "?base\<lparr>bp_dynamic := d\<rparr>"
  obtain m3 where m3: "upd_base_params pp (\<lambda>b. b\<lparr>bp_dynamic := d\<rparr>) m2 = Some m3" "hp m3 = (hp m2)(pp \<mapsto> BaseCell ?b)"
    "mem_static m3 = mem_static m2" using upd_base_hp [OF p2(1)] by blast
  have o1: "owning path (hp m) [path, 0, 0, 0, 0, 0, 0, pp] (hp m1)"
  proof -
    have "owning path (hp m) ([path, 0, 0, 0, 0, 0, 0] @ 0 # []) (hp m)"
      using assms(4,6) by (cases "path = 0") (simp_all add: owning_def)
    moreover have "pp \<noteq> 0 \<and> hp m pp = None \<and> hp m1 = (hp m)(pp \<mapsto> BaseCell ?base)" using al1 pp by simp
    ultimately show ?thesis using owning_add [where ys = "[]" and q = pp] by fastforce
  qed
  have o3: "owning path (hp m) [path, 0, 0, 0, 0, d, 0, pp] (hp m3)"
    using owning_write [OF owning_add [of path "hp m" "[path, 0, 0, 0, 0]" "[0, pp]" "hp m1" d "hp m2"], where x = pp] o1 al2 pp
    unfolding m3(2) by auto
  define m4 where "m4 = (if d \<noteq> 0 then construct_static new_at mo resource_type path ext d m3 else Some m3)"
  let ?g = "\<lambda>y. y\<lparr>dp_publish_uri := True, dp_free_on_delete := True\<rparr>"
  have "do { n4 \<leftarrow> m4; n5 \<leftarrow> construct_name new_at name pp n4; b \<leftarrow> load_base pp n5;
      m6 \<leftarrow> upd_dynamic (bp_dynamic b) ?g n5; Some (m6, pp) } = Some (m', p)"
    using assms(1) a1 a2 m3(1) pp len unfolding m4_def construct_name_def by (simp add: params_new_def)
  then obtain n4 n5 b6 where n: "m4 = Some n4" "construct_name new_at name pp n4 = Some n5" "load_base pp n5 = Some b6"
    "upd_dynamic (bp_dynamic b6) ?g n5 = Some m'" "p = pp"
    by (auto simp: Option.bind_eq_Some_conv)
  have st3: "mem_static m3 = mem_static m" "hp m3 pp = Some (BaseCell ?b)" "hp m3 0 = None"
    using al1 al2 m3(2,3) o3 by (simp_all add: owning_def)
  have d: "d \<noteq> 0"
  proof
    assume z: "d = 0"
    then have "n4 = m3" using n(1) by (simp add: m4_def)
    then obtain i where i: "hp n5 pp = Some (BaseCell (?b\<lparr>bp_identifier := i\<rparr>))" "mem_static n5 = mem_static m" "hp n5 0 = None"
      using construct_name_node [OF n(2) assms(3), of ?b] st3 by auto
    have "b6 = ?b\<lparr>bp_identifier := i\<rparr>" using n(3) i(1) by simp
    then have "bp_dynamic b6 = 0" "load_dynamic 0 n5 = None"
      using null_unreadable [of n5] i(2,3) assms(5) z by auto
    then show False using n(4) by (simp add: upd_dynamic_def)
  qed
  have y: "hp m3 d = Some (DynamicCell zero_dynamic)" using al2 d p2(2) m3(2) by auto
  have cs: "construct_static new_at mo resource_type path ext d m3 = Some n4" using n(1) d by (simp add: m4_def)
  note s4 = construct_static_node [OF cs assms(3) y st3(2) o3]
  obtain i where n5: "hp n5 pp = Some (BaseCell (?b\<lparr>bp_identifier := i\<rparr>))" "mem_static n5 = mem_static m" "hp n5 0 = None"
    "\<forall>q. q \<noteq> pp \<longrightarrow> hp n4 q \<noteq> None \<longrightarrow> hp n5 q = hp n4 q"
    "\<forall>path h0 xs. owning path h0 (xs @ [0, pp]) (hp n4) \<longrightarrow>
       owning path h0 (xs @ [name_pointer (?b\<lparr>bp_identifier := i\<rparr>), pp]) (hp n5)" "names name i (hp n5)"
    using construct_name_node [OF n(2) assms(3), of ?b] s4 st3(1) by auto
  let ?b5 = "?b\<lparr>bp_identifier := i\<rparr>"
  have b6: "b6 = ?b5" using n(3) n5(1) by simp
  from s4 [THEN conjunct2, THEN conjunct2, THEN conjunct2] show ?thesis
  proof (elim disjE exE conjE)
    assume "hp n4 d = Some (DynamicCell (zero_dynamic\<lparr>dp_static := 0\<rparr>))"
    then have "hp n5 d = Some (DynamicCell (zero_dynamic\<lparr>dp_static := 0\<rparr>))" using n5(4) p2(2) by simp
    then have m': "hp m' = (hp n5)(d \<mapsto> DynamicCell (?g (zero_dynamic\<lparr>dp_static := 0\<rparr>)))" "mem_static m' = mem_static n5"
      using n(4) b6 upd_dynamic_hp [of n5 d _ ?g] by auto
    have "params_of p m' = None"
      using null_unreadable [of m'] m' n5(1-3) p2(2) n(5) assms(5) d by (simp add: params_of_def)
    then show ?thesis using assms(2) by simp
  next
    fix st s
    assume s: "hp n4 d = Some (DynamicCell (zero_dynamic\<lparr>dp_static := st\<rparr>))" "hp n4 st = Some (StaticCell s)"
      "sp_free_on_delete s" "sp_path s = path" "sp_interface_description s = 0"
      "owning path (hp m) [path, sp_resource_type s, 0, st, 0, d, 0, pp] (hp n4)"
    have "hp n4 pp = Some (BaseCell ?b)" by (rule s4 [THEN conjunct2, THEN conjunct1])
    then have ne: "st \<noteq> pp" "st \<noteq> d" using s(1,2) by (metis option.inject cell.distinct)+
    have 5: "hp n5 d = Some (DynamicCell (zero_dynamic\<lparr>dp_static := st\<rparr>))" "hp n5 st = Some (StaticCell s)"
      using n5(4) s(1,2) ne p2(2) by simp_all
    have o5: "owning path (hp m) [path, sp_resource_type s, 0, st, 0, d, name_pointer ?b5, pp] (hp n5)"
      using n5(5) [rule_format, of path "hp m" "[path, sp_resource_type s, 0, st, 0, d]"] s(6) by simp
    let ?d = "?g (zero_dynamic\<lparr>dp_static := st\<rparr>)"
    have m': "hp m' = (hp n5)(d \<mapsto> DynamicCell ?d)" "mem_static m' = mem_static n5"
      using n(4) b6 upd_dynamic_hp [OF 5(1), of ?g] by auto
    have "owning path (hp m) (pointers (name_pointer ?b5) pp ?b5 ?d s) (hp m')"
      using owning_write [OF o5, of d "DynamicCell ?d"] d s(4,5) unfolding m'(1) by (simp add: pointers_def zero_dynamic_def)
    then have at: "node_at (name_pointer ?b5) pp path (hp m) (hp m') ?b5 ?d s"
      using m'(1) n5(1) 5 ne p2(2) s(3,4) by (simp add: node_at_def zero_base_def)
    have "names name i (hp m')"
      using n5(6) 5(1) m'(1) by (auto simp: names_def split: identifier_union.splits)
    then show ?thesis using m'(2) n5(2) n(5) params_of_node [OF at]
      unfolding node_in_def by (intro exI conjI) (use at in auto)
  qed
qed

section \<open>Properties\<close>

text \<open>The constructor looks whether its first two allocations succeeded but writes to the second structure all the same, so a
  failure of that allocation is a write through a null pointer.\<close>

lemma constructor_unchecked:
  "params_new (\<lambda>c m. case c of DynamicCell y \<Rightarrow> 0 | _ \<Rightarrow> Suc (sum_list (map fst (mem_heap m))))
     ''1'' Dynamic ''t'' 0 False False STRING \<lparr>mem_heap = [], mem_static = []\<rparr> = None"
  by code_simp

text \<open>A pointer given up leaves what it points to behind.\<close>

lemma owning_left:
  assumes "owning path h0 (xs @ n # ys) h" and "n \<noteq> 0" and "path \<in> set xs \<union> set ys \<union> {0}"
  shows "owning path (h0(n := h n)) (xs @ 0 # ys) h" and "n \<noteq> path"
  using assms unfolding owning_def by auto

lemma node_in_left:
  assumes "node_in n i p path h0 st m" and "n \<noteq> 0"
  shows "node_in 0 i p path (h0(n := hp m n)) st m" and "n \<noteq> path"
proof -
  obtain b d s where n: "node_at n p path h0 (hp m) b d s" and i: "bp_identifier b = i" and st: "mem_static m = st"
    using assms(1) by (auto simp: node_in_def)
  let ?xs = "[sp_path s, sp_resource_type s, sp_interface_description s, dp_static d, dp_resource d, bp_dynamic b]"
  have o: "owning path h0 (?xs @ n # [p]) (hp m)" using node_at_owning [OF n] by (simp add: pointers_def)
  have sp: "path \<in> set ?xs \<union> set [p] \<union> {0}" using n by (simp add: node_at_def)
  have "node_at 0 p path (h0(n := hp m n)) (hp m) b d s"
    using n owning_left(1) [OF o assms(2) sp] by (simp add: node_at_def pointers_def)
  then show "node_in 0 i p path (h0(n := hp m n)) st m" using i st by (auto simp: node_in_def)
  show "n \<noteq> path" by (rule owning_left(2) [OF o assms(2) sp])
qed

text \<open>C15: whatever is set on a node that was constructed, its destructor runs through: no address is freed
  twice or read after it was freed. Unless an instance number was set on a node with a name, the heap is afterwards
  what it was before the construction, without the path the constructor was given. \<open>M2MBase::set_instance_id\<close>
  overwrites the pointer to the name, and that is a leak: exactly the copy of the name then stays on the heap for good.
  The setters are all those of \<open>M2MBase\<close> that write to the structures, and those of the value. Allocations may fail on
  the way.\<close>

theorem node_memory_released:
  assumes "fresh_or_null new_at" and "0 \<notin> fst ` set (mem_heap m)" and "0 \<notin> fst ` set (mem_static m)"
    and "path = 0 \<or> path \<in> fst ` set (mem_heap m)"
    and "params_new new_at name mo resource_type path external multiple ty m = Some (m1, p)" and "params_of p m1 = Some (b, d, s)"
  shows "\<exists>m2 m3. params_steps new_at p ops m1 = Some m2 \<and> params_free p m2 = Some m3 \<and>
    map_of (mem_heap m3) =
      (if list_ex sets_instance_id ops \<and> name_pointer b \<noteq> 0
       then (map_of (mem_heap m))(path := None, name_pointer b \<mapsto> Bytes (bytes_of (cstr name) @ [0]))
       else (map_of (mem_heap m))(path := None)) \<and>
    mem_static m3 = mem_static m"
proof -
  have h: "hp m 0 = None" "path = 0 \<or> hp m path \<noteq> None" using assms(2,4) hp_dom by blast+
  let ?i = "bp_identifier b" and ?n = "name_pointer b"
  have new: "names name ?i (hp m1)" "node_in ?n ?i p path (hp m) (mem_static m) m1"
    using params_new_node [OF assms(5) _ assms(1) h(1) assms(3) h(2)] assms(6) by auto
  show ?thesis
  proof (cases "list_ex sets_instance_id ops")
    case False
    obtain m2 where m2: "params_steps new_at p ops m1 = Some m2" "node_in ?n ?i p path (hp m) (mem_static m) m2"
      using params_steps_node [OF assms(1) new(2), of ops] identifier_after_ops(1) [of ops ?i] False by auto
    show ?thesis using params_free_node [OF m2(2)] m2(1) False by (auto simp: name_pointer_def)
  next
    case True
    let ?h0 = "if ?n \<noteq> 0 then (hp m)(?n := hp m1 ?n) else hp m"
    have "node_in 0 ?i p path ?h0 (mem_static m) m1" using node_in_left(1) [OF new(2)] new(2) by auto
    then obtain m2 k where m2: "params_steps new_at p ops m1 = Some m2"
      "node_in 0 (InstanceNumber k) p path ?h0 (mem_static m) m2"
      using params_steps_node [OF assms(1), of 0 ?i p path ?h0 "mem_static m" m1 ops] identifier_after_ops(2) [OF True, of ?i] by auto
    have "hp m1 ?n = Some (Bytes (bytes_of (cstr name) @ [0]))" if "?n \<noteq> 0"
      using new(1) that by (auto simp: names_def name_pointer_def split: identifier_union.splits)
    then have "?h0(path := None) = (if ?n \<noteq> 0 then (hp m)(path := None, ?n \<mapsto> Bytes (bytes_of (cstr name) @ [0]))
        else (hp m)(path := None))" using node_in_left(2) [OF new(2)] by (simp add: fun_upd_twist)
    then show ?thesis using params_free_node [OF m2(2)] m2(1) True by auto
  qed
qed

definition sample_allocator :: allocator where
  "sample_allocator c m = Suc (sum_list (map fst (mem_heap m)))"

lemma sample_allocator_fresh: "fresh_or_null sample_allocator"
proof -
  have "p \<in> fst ` set h \<Longrightarrow> p \<le> sum_list (map fst h)" for p :: nat and h :: "(nat \<times> cell) list"
    by (induction h) (auto intro: trans_le_add2 imageI)
  then have "Suc (sum_list (map fst h)) \<notin> fst ` set h" for h :: "(nat \<times> cell) list"
    using not_less_eq_eq by blast
  then show ?thesis by (simp add: fresh_or_null_def sample_allocator_def)
qed

theorem node_memory_released_witness:
  "(\<exists>m1 m2 m3. params_new sample_allocator ''1'' Dynamic ''t'' 3 False False STRING \<lparr>mem_heap = [(3, Bytes [57, 0])], mem_static = []\<rparr> =
      Some (m1, 4) \<and> params_steps sample_allocator 4 [OpSetValue (Some [49]) 1, OpResourceType ''u'', OpClearValue] m1 = Some m2 \<and>
    params_free 4 m2 = Some m3 \<and> map_of (mem_heap m3) = Map.empty) \<and>
   (\<exists>m1 m2 m3. params_new sample_allocator ''1'' Dynamic ''t'' 3 False False STRING \<lparr>mem_heap = [(3, Bytes [57, 0])], mem_static = []\<rparr> =
      Some (m1, 4) \<and> params_steps sample_allocator 4 [OpInstanceId 7] m1 = Some m2 \<and>
    params_free 4 m2 = Some m3 \<and> (\<exists>q. map_of (mem_heap m3) = [q \<mapsto> Bytes [49, 0]]))"
proof -
  let ?m = "\<lparr>mem_heap = [(3, Bytes [57, 0])], mem_static = []\<rparr>"
  have "(case params_new sample_allocator ''1'' Dynamic ''t'' 3 False False STRING ?m of None \<Rightarrow> False
      | Some (m1, p) \<Rightarrow> p = 4 \<and> (case params_of p m1 of None \<Rightarrow> False | Some (b, d, s) \<Rightarrow> name_pointer b \<noteq> 0))"
    by code_simp
  then obtain m1 b d s where m1: "params_new sample_allocator ''1'' Dynamic ''t'' 3 False False STRING ?m = Some (m1, 4)"
    "params_of 4 m1 = Some (b, d, s)" "name_pointer b \<noteq> 0" by (auto split: option.splits prod.splits)
  have n: "bytes_of (cstr ''1'') @ [0] = [49, 0]" by code_simp
  note r = node_memory_released [OF sample_allocator_fresh _ _ _ m1(1,2)]
  show ?thesis
    using r [of "[OpSetValue (Some [49]) 1, OpResourceType ''u'', OpClearValue]"] r [of "[OpInstanceId 7]"] m1(1,3)
    unfolding n by fastforce
qed

end
