(* ===== verification/Spec2Isabelle.thy ===== *)
theory Spec2Isabelle
  imports CallbackStorage MStringSpec Paths ReportHandlerSpec TlvWrite RequestFlows InterfaceRegistration InterfaceFactory
    ObjectTypes NsdlLookup NsdlAnswers NsdlClient
    NsdlCreation NsdlDelete NsdlDelayed StaticNodes BaseMemorySpec
begin

text \<open>
  mbed Client: the LWM2M client library of the repository, in C++, modelled as functions.

  \<^bold>\<open>The program.\<close> An application builds a tree of objects, object instances, resources and resource
  instances (\<open>M2MObject\<close>, \<open>M2MObjectInstance\<close>, \<open>M2MResource\<close>, \<open>M2MResourceInstance\<close>, all of them \<open>M2MBase\<close>), hands it to
  \<open>M2MInterfaceImpl\<close>, which bootstraps, registers, updates and unregisters the client at a server, and is told of the outcome by
  an observer. The server reads and writes the tree in the TLV format (\<open>M2MTLVSerializer\<close>, \<open>M2MTLVDeserializer\<close>) and
  observes parts of it; each observed node has an \<open>M2MReportHandler\<close>, which decides from the notification attributes and its
  timers when a change is reported. Below lie the library's own strings, string buffers and vectors.

  \<^bold>\<open>Theories and sources.\<close>
  \<^item> \<open>Prelude\<close>: words, errors as options, checked memory blocks (an access outside its block is \<open>None\<close>), keyed stores. \<open>CLib\<close>:
    the C functions the code uses on characters and strings, with \<open>strtol\<close> and its family at their widths. \<open>CFloat\<close>: the
    \<open>float\<close> values of the report handler as exact numbers rounded to 24 bits.
  \<^item> \<open>MString\<close>, \<open>MStringSpec\<close>: \<open>m2m::String\<close> of \<open>source/m2mstring.cpp\<close> as pointer contents, size and capacity; \<open>IntConv\<close>: the
    integer conversions at the end of that file. \<open>StringBuffer\<close>: \<open>source/m2mstringbufferbase.cpp\<close>. \<open>Vector\<close>:
    \<open>mbed-client/m2mvector.h\<close>. Each has an abstraction to lists and lemmas that every operation refines the list
    operation.
  \<^item> \<open>Coap\<close>, \<open>BlockMessage\<close>: the message fields that are read, and \<open>source/m2mblockmessage.cpp\<close>. \<open>CallbackStorage\<close>:
    \<open>source/m2mcallbackstorage.cpp\<close>, a duplicate-free list of associations. \<open>FunctionPointers\<close>: \<open>mbed-client/functionpointer.h\<close>.
    \<open>NodeCallbacks\<close>, \<open>NodeCallbacksSpec\<close>: the callbacks of the application at the nodes, of \<open>source/m2mbase.cpp\<close> and
    \<open>source/m2mresourcebase.cpp\<close>, with the heap of function objects, and a map from nodes and types that they refine.
  \<^item> \<open>BaseMemory\<close>, \<open>BaseMemorySpec\<close>: the structures \<open>source/m2mbase.cpp\<close> allocates for a node on an explicit heap, all their setters and
    their release, with the one leak that setting an instance number causes. The other theories see a node as one record \<open>base\<close>.
  \<^item> \<open>ReportHandler\<close>, \<open>ReportHandlerSpec\<close>: \<open>source/m2mreporthandler.cpp\<close> as a machine: the state, its operations, the calls on timers and
    observer they make; runs of inputs, their invariants and what is reported when.
  \<^item> \<open>BaseTypes\<close>, \<open>ObjectTree\<close>, \<open>TreeAccess\<close>, \<open>ResourceBase\<close>, \<open>Paths\<close>, \<open>Objects\<close>, \<open>ObjectsSpec\<close>: the tree, after \<open>source/m2mbase.cpp\<close>,
    \<open>source/m2mobject.cpp\<close>, \<open>source/m2mobjectinstance.cpp\<close>, \<open>source/m2mresourcebase.cpp\<close>, \<open>source/m2mresource.cpp\<close> and
    \<open>source/m2mresourceinstance.cpp\<close>: nodes, values, paths, creation, lookup and removal on three levels, and the invariant of
    the keys. \<open>StaticNodes\<close>: nodes described by static structures, types of values, the callbacks of the firmware object.
  \<^item> \<open>TlvSerializer\<close>, \<open>TlvDeserializer\<close>, \<open>TlvSpec\<close>, \<open>TlvWrite\<close>: \<open>source/m2mtlvserializer.cpp\<close> and
    \<open>source/m2mtlvdeserializer.cpp\<close>, the round trip of the format, and what a write of the server does to the tree.
  \<^item> \<open>Requests\<close>, \<open>RequestWrites\<close>, \<open>RequestSpec\<close>, \<open>RequestFlows\<close>: the request handlers \<open>handle_get_request\<close>, \<open>handle_put_request\<close> and
    \<open>handle_post_request\<close> of the four kinds of nodes, with observations, queries, blocks, creation of instances and delayed
    responses; what they leave unchanged (the locale \<open>base_view\<close>, interpreted for the content of a node and for its
    notification attributes), and sequences of requests.
  \<^item> \<open>InterfaceState\<close>, \<open>InterfaceImpl\<close>: the state machine of \<open>source/m2minterfaceimpl.cpp\<close>, as programs of a state monad.
    \<open>InterfaceSpec\<close>: its nested events and callbacks end. \<open>InterfaceFlows\<close>, \<open>InterfaceRegistration\<close>: refused calls, delays
    between reconnections, server addresses, the way to a registration and back to it after a lost
    connection.
  \<^item> \<open>StandardObject\<close>, \<open>SecurityObject\<close>, \<open>ServerObject\<close>, \<open>DeviceObject\<close>, \<open>FirmwareObject\<close>, \<open>InterfaceFactory\<close>: the objects the library
    provides, \<open>source/m2msecurity.cpp\<close>, \<open>source/m2mserver.cpp\<close>, \<open>source/m2mdevice.cpp\<close> and \<open>source/m2mfirmware.cpp\<close>, and
    \<open>source/m2minterfacefactory.cpp\<close>. Each is an interpretation of the locale \<open>resource_names\<close>, which gives that its
    operations on one resource leave the others alone.
  \<^item> \<open>NsdlState\<close>, \<open>NsdlInterface\<close>, \<open>NsdlObserve\<close>, \<open>NsdlBootstrap\<close>, \<open>NsdlCallbacks\<close>: \<open>source/m2mnsdlinterface.cpp\<close> and
    \<open>source/nsdlaccesshelper.cpp\<close>, which connect the tree and the state machine to the CoAP library: looking up
    nodes, registering them, messages to the server, notifications, bootstrap, and the callbacks of the library.
  \<^item> \<open>ObjectTypes\<close>: the kinds of nodes agree with their levels. \<open>NsdlLookup\<close>: the search for nodes against one pass in document
    order. \<open>NsdlFrames\<close>: what the parts of the NSDL interface leave alone, and concrete instances of the parameters. \<open>NsdlAnswers\<close>,
    \<open>NsdlBootstrapSpec\<close>, \<open>NsdlCreation\<close>, \<open>NsdlDelete\<close>, \<open>NsdlTimers\<close>: answers to requests, the bootstrap, nodes handed to the
    library and created or deleted by the server, and the renewal of registrations. \<open>NsdlNotify\<close>, \<open>NsdlDelayed\<close>: the calls of the tree on its observation handler
    carried out, from a request to the notification or the delayed response. \<open>NsdlClient\<close>: the NSDL interface together
    with the state machine.

  \<^bold>\<open>Conventions.\<close> Undefined behaviour of C++ (an access outside a block, a wrong cast) is the value \<open>None\<close> or a flag of the state.
  Integers have the width of the source: \<open>u8\<close>, \<open>u16\<close>, \<open>u32\<close> and \<open>i64\<close> are words, \<open>int\<close> and \<open>size_t\<close> are unbounded where
  the value cannot reach the bounds. Outputs (timers started, notifications sent, calls of the application) are lists. The allocator succeeds
  except where a parameter of the definition decides.

  \<^bold>\<open>Bounds and fuel.\<close> Loops are structural or have a measure, but for two: the TLV readers recurse with the
  payload length as fuel, which every element consumes; the events of the interface are run by \<open>exec\<close>
  with a nesting bound, and \<open>interface_terminates\<close> shows that a depth of \<open>1 + 4\<close> for each input, delivered now or by a
  collaborator, is enough, so that running out never happens then.

  \<^bold>\<open>Groups of lemmas.\<close> Refinement to lists (strings, vectors, storage); bounds of the fixed buffers; round trips (integers, TLV);
  invariants (keys of the tree, state of the report handler, rest states of the interface); functional statements of every step;
  statements of error behaviour, among them where the code does not do what it means to.

  \<^bold>\<open>Not modelled.\<close> The CoAP library \<open>sn_nsdl\<close>, a package outside the repository: its functions are parameters (records
  \<open>coap_env\<close> and \<open>nsdl_lib\<close>), which may depend on everything the client did before. The calls of the tree on its observation handler
  are outputs of the tree, which \<open>NsdlNotify\<close> carries out for values the application sets; what the NSDL interface tells its observer
  is an output that \<open>NsdlClient\<close> gives to the state machine. Callbacks are called with the name or pointer the source passes, whose
  contents stay with the caller; of the function objects \<open>FP0\<close> to \<open>FP3\<close>, which differ in their arguments, one is modelled. Connections, timers
  and security of the platform, which are other packages; the mutex, traces and the destructors of
  strings, report handlers and interfaces, which only free memory; the configuration without bootstrap.
\<close>

end
